(* ===== verification/Prelude.thy ===== *)
theory Prelude
  imports Main "HOL-Library.Word"
begin

text \<open>
  The prelude of the development: Go's machine integers, the part of the \<^verbatim>\<open>fmt\<close> package the
  operator uses (decimal integers, booleans, quoted strings), Go's \<^verbatim>\<open>error\<close> values, the
  ``if it is the zero value, use the default'' idiom that the operator repeats for every
  optional field, and the collections of rewrite rules the component theories fill.
\<close>

named_theorems go_simps \<open>unfolding of the small Go idioms\<close>
named_theorems object_simps \<open>projections of the built Kubernetes objects\<close>

subsection \<open>Machine integers and strings\<close>

text \<open>
  An \<^verbatim>\<open>int32\<close> is a 32-bit word, read as two's complement by \<^const>\<open>sint\<close>; addition wraps.
  An \<^verbatim>\<open>int64\<close> (generations, replica counters read from unstructured objects) is only ever
  compared and copied by the operator, so it is an \<^typ>\<open>int\<close>.
\<close>

type_synonym int32 = "32 word"
type_synonym int64 = int
type_synonym go_time = int

definition digit_char :: "nat \<Rightarrow> char" where
  "digit_char d = char_of (48 + d)"

fun show_nat :: "nat \<Rightarrow> string" where
  "show_nat n = (if n < 10 then [digit_char n] else show_nat (n div 10) @ [digit_char (n mod 10)])"

declare show_nat.simps [simp del]

definition show_int :: "int \<Rightarrow> string" where
  "show_int i = (if i < 0 then CHR ''-'' # show_nat (nat (- i)) else show_nat (nat i))"

definition show_int32 :: "int32 \<Rightarrow> string" where
  "show_int32 w = show_int (sint w)"

definition show_bool :: "bool \<Rightarrow> string" where
  "show_bool b = (if b then ''true'' else ''false'')"

definition nl :: string where
  "nl = [CHR 0x0A]"

text \<open>A raw-string template is a list of lines, each ended by a newline.\<close>

definition unlines :: "string list \<Rightarrow> string" where
  "unlines ls = concat (map (\<lambda>l. l @ nl) ls)"

fun join :: "string \<Rightarrow> string list \<Rightarrow> string" where
  "join sep [] = []"
| "join sep [x] = x"
| "join sep (x # y # xs) = x @ sep @ join sep (y # xs)"

text \<open>
  The verb \<^verbatim>\<open>%q\<close>: printable ASCII stands for itself, the quote and the backslash are escaped,
  newline and tab have their short escapes and every other byte is written in hexadecimal.  It
  is exact on ASCII text, which is all that names of Kubernetes objects can hold.
\<close>

definition hex_digit :: "nat \<Rightarrow> char" where
  "hex_digit d = (if d < 10 then char_of (48 + d) else char_of (87 + d))"

definition quote_char :: "char \<Rightarrow> string" where
  "quote_char c =
     (let n = (of_char c :: nat) in
      if n = 34 then [CHR 0x5C, CHR 0x22]
      else if n = 92 then [CHR 0x5C, CHR 0x5C]
      else if n = 10 then [CHR 0x5C, CHR ''n'']
      else if n = 9 then [CHR 0x5C, CHR ''t'']
      else if n = 13 then [CHR 0x5C, CHR ''r'']
      else if n = 7 then [CHR 0x5C, CHR ''a'']
      else if n = 8 then [CHR 0x5C, CHR ''b'']
      else if n = 11 then [CHR 0x5C, CHR ''v'']
      else if n = 12 then [CHR 0x5C, CHR ''f'']
      else if 32 \<le> n \<and> n < 127 then [c]
      else [CHR 0x5C, CHR ''x'', hex_digit (n div 16), hex_digit (n mod 16)])"

definition quote :: "string \<Rightarrow> string" where
  "quote s = [CHR 0x22] @ concat (map quote_char s) @ [CHR 0x22]"

subsection \<open>Errors\<close>

text \<open>
  A Go \<^verbatim>\<open>error\<close>.  The first three constructors are the answers of the API server, by the class
  the operator distinguishes (\<^verbatim>\<open>errors.IsNotFound\<close>, \<^verbatim>\<open>errors.IsConflict\<close>, any other); \<open>Errorf\<close> is
  \<^verbatim>\<open>fmt.Errorf\<close> without and \<open>WrapErr\<close> with a \<^verbatim>\<open>%w\<close> verb, whose first component is the whole text.
\<close>

datatype goerror =
    NotFoundErr string
  | ConflictErr string
  | OtherErr string
  | Errorf string
  | WrapErr string goerror

primrec err_text :: "goerror \<Rightarrow> string" where
  "err_text (NotFoundErr m) = m"
| "err_text (ConflictErr m) = m"
| "err_text (OtherErr m) = m"
| "err_text (Errorf m) = m"
| "err_text (WrapErr m e) = m"

text \<open>
  The classification helpers look through wrapped errors, as \<^verbatim>\<open>errors.As\<close> does.
\<close>

primrec IsNotFound :: "goerror \<Rightarrow> bool" where
  "IsNotFound (NotFoundErr m) = True"
| "IsNotFound (ConflictErr m) = False"
| "IsNotFound (OtherErr m) = False"
| "IsNotFound (Errorf m) = False"
| "IsNotFound (WrapErr m e) = IsNotFound e"

primrec IsConflict :: "goerror \<Rightarrow> bool" where
  "IsConflict (NotFoundErr m) = False"
| "IsConflict (ConflictErr m) = True"
| "IsConflict (OtherErr m) = False"
| "IsConflict (Errorf m) = False"
| "IsConflict (WrapErr m e) = IsConflict e"

subsection \<open>The zero-value idiom\<close>

text \<open>\<^verbatim>\<open>if x == zero { x = d }\<close>, for strings and for integers.\<close>

definition str_or :: "string \<Rightarrow> string \<Rightarrow> string" where
  "str_or x d = (if x = [] then d else x)"

definition int_or :: "int32 \<Rightarrow> int32 \<Rightarrow> int32" where
  "int_or x d = (if x = 0 then d else x)"

lemma str_or_set [simp]: "x \<noteq> [] \<Longrightarrow> str_or x d = x"
  by (simp add: str_or_def)

lemma str_or_empty [simp]: "str_or [] d = d"
  by (simp add: str_or_def)

lemma str_or_Nil [simp]: "str_or x [] = x"
  by (simp add: str_or_def)

lemma str_or_kept [simp]: "x = [] \<longrightarrow> d = [] \<Longrightarrow> str_or x d = x"
  by (simp add: str_or_def)

lemma str_or_idem [simp]: "str_or (str_or x d) d = str_or x d"
  by (simp add: str_or_def)

lemma str_or_nonempty [simp]: "str_or x d = [] \<longleftrightarrow> x = [] \<and> d = []"
  by (simp add: str_or_def)

lemma int_or_set [simp]: "x \<noteq> 0 \<Longrightarrow> int_or x d = x"
  by (simp add: int_or_def)

lemma int_or_zero [simp]: "int_or 0 d = d"
  by (simp add: int_or_def)

lemma int_or_idem [simp]: "int_or (int_or x d) d = int_or x d"
  by (simp add: int_or_def)

lemma int_or_nonzero [simp]: "int_or x d = 0 \<longleftrightarrow> x = 0 \<and> d = 0"
  by (simp add: int_or_def)

subsection \<open>Decimal text is faithful\<close>

fun read_nat :: "string \<Rightarrow> nat" where
  "read_nat cs = foldl (\<lambda>a c. 10 * a + (of_char c - 48)) 0 cs"

lemma read_nat_snoc: "read_nat (cs @ [c]) = 10 * read_nat cs + (of_char c - 48)"
  by simp

lemma of_char_digit [simp]: "d < 10 \<Longrightarrow> (of_char (digit_char d) :: nat) = 48 + d"
  by (simp add: digit_char_def)

lemma read_show_nat: "read_nat (show_nat n) = n"
proof (induction n rule: show_nat.induct)
  case (1 n)
  show ?case
  proof (cases "n < 10")
    case True
    then show ?thesis by (simp add: show_nat.simps [of n])
  next
    case False
    then have "read_nat (show_nat n) = 10 * read_nat (show_nat (n div 10)) + n mod 10"
      by (simp add: show_nat.simps [of n] del: read_nat.simps add: read_nat_snoc)
    also have "\<dots> = n" using 1 False by simp
    finally show ?thesis .
  qed
qed

lemma show_nat_inj: "show_nat m = show_nat n \<Longrightarrow> m = n"
  by (metis read_show_nat)

lemma show_nat_nonempty [simp]: "show_nat n \<noteq> []"
  by (subst show_nat.simps) simp

lemma digit_neq_minus: "d < 10 \<Longrightarrow> digit_char d \<noteq> CHR ''-''"
  using of_char_digit [of d] by force

lemma hd_show_nat: "hd (show_nat n) \<noteq> CHR ''-''"
proof (induction n rule: show_nat.induct)
  case (1 n)
  then show ?case
    by (subst show_nat.simps) (auto simp: digit_neq_minus)
qed

lemma show_int_inj: "show_int i = show_int j \<Longrightarrow> i = j"
proof -
  assume eq: "show_int i = show_int j"
  have neq: "CHR ''-'' # xs \<noteq> show_nat n" for xs n
    using hd_show_nat [of n] by (metis list.sel(1))
  show "i = j"
  proof (cases "i < 0 \<longleftrightarrow> j < 0")
    case True
    with eq show ?thesis
      by (auto simp: show_int_def split: if_splits dest: show_nat_inj)
  next
    case False
    with eq neq show ?thesis
      by (auto simp: show_int_def split: if_splits) metis+
  qed
qed

lemma show_int32_inj: "show_int32 a = show_int32 b \<Longrightarrow> a = b"
  unfolding show_int32_def by (blast dest: show_int_inj intro: signed_word_eqI)

subsection \<open>Lists, maps and options\<close>

lemma option_update_idem:
  "(\<And>y. f (f y) = f y) \<Longrightarrow> map_option f (map_option f x) = map_option f x"
  by (cases x) auto

lemma singleton_le_upd [simp, intro]: "[k \<mapsto> v] \<subseteq>\<^sub>m m(k \<mapsto> v)"
  by (auto simp: map_le_def)

end
