(* ===== verification/Api_Types.thy ===== *)
theory Api_Types
  imports Prelude
begin

text \<open>
  The CarbideDeployment API (\<^verbatim>\<open>api/v1alpha1/carbidedeployment_types.go\<close>): every struct of the
  custom resource as a record, in the order of the file, with a prefix per struct because
  Isabelle's field names are global.  A pointer is an \<^typ>\<open>'a option\<close>, a named string type is
  a \<^typ>\<open>string\<close> (the code compares it with the empty string and has default branches for
  values outside the enumeration, so the type is not closed), a slice is a list and a Go map
  that is iterated over is an association list.

  \<^verbatim>\<open>resource.Quantity\<close> belongs to apimachinery: a quantity is represented by the text it is
  parsed from, and its canonical rendering \<^verbatim>\<open>String()\<close> is a parameter wherever it is used.
\<close>

subsection \<open>Named string types and their constants\<close>

type_synonym DeploymentMode = string
type_synonym DeploymentProfile = string
type_synonym DeploymentPhase = string
type_synonym TLSMode = string
type_synonym AuthMode = string

definition ManagedMode :: DeploymentMode where [simp]: "ManagedMode = ''managed''"
definition ExternalMode :: DeploymentMode where [simp]: "ExternalMode = ''external''"

definition ProfileManagement :: DeploymentProfile where
  [simp]: "ProfileManagement = ''management''"
definition ProfileSite :: DeploymentProfile where
  [simp]: "ProfileSite = ''site''"
definition ProfileManagementWithSite :: DeploymentProfile where
  [simp]: "ProfileManagementWithSite = ''management-with-site''"

definition PhasePending :: DeploymentPhase where [simp]: "PhasePending = ''Pending''"
definition PhaseProvisioning :: DeploymentPhase where
  [simp]: "PhaseProvisioning = ''Provisioning''"
definition PhaseReady :: DeploymentPhase where [simp]: "PhaseReady = ''Ready''"
definition PhaseFailed :: DeploymentPhase where [simp]: "PhaseFailed = ''Failed''"
definition PhaseUpdating :: DeploymentPhase where [simp]: "PhaseUpdating = ''Updating''"

definition TLSModeSpiffe :: TLSMode where [simp]: "TLSModeSpiffe = ''spiffe''"
definition TLSModeCertManager :: TLSMode where [simp]: "TLSModeCertManager = ''certManager''"

definition AuthModeManaged :: AuthMode where [simp]: "AuthModeManaged = ''managed''"
definition AuthModeExternal :: AuthMode where [simp]: "AuthModeExternal = ''external''"
definition AuthModeDisabled :: AuthMode where [simp]: "AuthModeDisabled = ''disabled''"

subsection \<open>Types of other API groups\<close>

datatype quantity = Quantity string

type_synonym resource_list = "(string \<times> quantity) list"

record resource_requirements =
  res_requests :: resource_list
  res_limits :: resource_list

subsection \<open>Leaf structs\<close>

record secret_ref =
  sr_name :: string
  sr_key :: string
  sr_username_key :: string
  sr_password_key :: string

record storage_spec =
  st_size :: quantity
  st_storage_class :: string
  st_access_mode :: string

record site_ref =
  site_cluster :: string
  site_namespace :: string
  site_name :: string
  site_uuid :: string

record spiffe_config =
  spiffe_trust_domain :: string
  spiffe_helper_image :: string
  spiffe_class_name :: string

record cert_manager_issuer_ref =
  issuer_name :: string
  issuer_kind :: string
  issuer_group :: string

record cert_manager_config =
  cm_issuer_ref :: cert_manager_issuer_ref

record tls_config =
  tls_mode :: TLSMode
  tls_spiffe :: "spiffe_config option"
  tls_cert_manager :: "cert_manager_config option"

record network_config =
  net_interface :: string
  net_ip :: string
  net_admin_cidr :: string
  net_domain :: string

subsection \<open>The infrastructure tier\<close>

record external_pg_connection =
  pgc_host :: string
  pgc_port :: int32
  pgc_ssl_mode :: string
  pgc_user_secrets :: "(string \<times> secret_ref) list"

record postgresql_config =
  pg_mode :: DeploymentMode
  pg_databases :: "string list"
  pg_version :: string
  pg_storage :: "storage_spec option"
  pg_replicas :: int32
  pg_resources :: "resource_requirements option"
  pg_connection :: "external_pg_connection option"

record infrastructure_config =
  infra_storage_class :: string
  infra_postgresql :: postgresql_config
  infra_namespace :: string

subsection \<open>The core tier\<close>

record api_config =
  api_port :: int32
  api_replicas :: int32
  api_resources :: "resource_requirements option"

record dhcp_config =
  dhcp_enabled :: bool
  dhcp_resources :: "resource_requirements option"

record pxe_config =
  pxe_enabled :: bool
  pxe_storage :: "storage_spec option"
  pxe_resources :: "resource_requirements option"
  pxe_tftp_port :: int32
  pxe_http_port :: int32

record dns_config =
  dns_enabled :: bool
  dns_resources :: "resource_requirements option"
  dns_port :: int32

record security_config =
  sec_tls_enabled :: bool
  sec_rbac_bypass :: bool

record vault_config =
  vault_mode :: DeploymentMode
  vault_version :: string
  vault_storage :: "storage_spec option"
  vault_address :: string
  vault_token_secret_ref :: "secret_ref option"
  vault_kv_mount_path :: string

record rla_config =
  rla_enabled :: bool
  rla_port :: int32
  rla_replicas :: int32
  rla_resources :: "resource_requirements option"

record psm_config =
  psm_enabled :: bool
  psm_port :: int32
  psm_replicas :: int32
  psm_resources :: "resource_requirements option"

record core_config =
  core_namespace :: string
  core_api :: api_config
  core_dhcp :: dhcp_config
  core_pxe :: pxe_config
  core_dns :: dns_config
  core_security :: "security_config option"
  core_vault :: "vault_config option"
  core_rla :: "rla_config option"
  core_psm :: "psm_config option"

subsection \<open>The REST tier\<close>

record temporal_config =
  temporal_mode :: DeploymentMode
  temporal_version :: string
  temporal_chart_version :: string
  temporal_namespace :: string
  temporal_replicas :: int32
  temporal_resources :: "resource_requirements option"
  temporal_endpoint :: string
  temporal_tls_secret_ref :: "secret_ref option"

record auth_provider_config =
  ap_name :: string
  ap_issuer_url :: string
  ap_jwks_url :: string
  ap_client_id :: string
  ap_client_secret_ref :: "secret_ref option"

record keycloak_config =
  kc_mode :: AuthMode
  kc_realm :: string
  kc_admin_password_secret_ref :: "secret_ref option"
  kc_resources :: "resource_requirements option"
  kc_auth_providers :: "auth_provider_config list"

record rest_api_config =
  ra_port :: int32
  ra_node_port :: int32
  ra_replicas :: int32
  ra_resources :: "resource_requirements option"

record site_agent_config =
  sa_enabled :: bool
  sa_hub_temporal_endpoint :: string
  sa_resources :: "resource_requirements option"

record rest_config =
  rest_namespace :: string
  rest_enabled :: bool
  rest_temporal :: temporal_config
  rest_keycloak :: keycloak_config
  rest_restapi :: rest_api_config
  rest_site_agent :: "site_agent_config option"

record image_config =
  img_registry :: string
  img_bmm_core :: string
  img_rest_api :: string
  img_site_agent :: string
  img_site_manager :: string
  img_workflow :: string
  img_rest_db :: string
  img_rla :: string
  img_psm :: string
  img_dhcp :: string
  img_dns :: string
  img_pxe :: string
  img_pull_policy :: string
  img_pull_secrets :: "string list"

subsection \<open>Spec, status and the resource\<close>

record carbide_spec =
  spec_profile :: DeploymentProfile
  spec_version :: string
  spec_network :: network_config
  spec_infrastructure :: "infrastructure_config option"
  spec_core :: core_config
  spec_rest :: "rest_config option"
  spec_images :: "image_config option"
  spec_tls :: "tls_config option"
  spec_site_ref :: "site_ref option"

record component_status =
  comp_name :: string
  comp_ready :: bool
  comp_message :: string
  comp_last_transition :: "go_time option"

record tier_status =
  tier_ready :: bool
  tier_message :: string
  tier_components :: "component_status list"
  tier_last_transition :: "go_time option"

text \<open>\<^verbatim>\<open>metav1.Condition\<close>, the element type of the status conditions.\<close>

record condition =
  cond_type :: string
  cond_status :: string
  cond_observed_generation :: int64
  cond_last_transition :: go_time
  cond_reason :: string
  cond_message :: string

definition ConditionTrue :: string where [simp]: "ConditionTrue = ''True''"
definition ConditionFalse :: string where [simp]: "ConditionFalse = ''False''"
definition ConditionUnknown :: string where [simp]: "ConditionUnknown = ''Unknown''"

record carbide_status =
  status_phase :: DeploymentPhase
  status_infrastructure :: "tier_status option"
  status_core :: "tier_status option"
  status_rest :: "tier_status option"
  status_observed_generation :: int64
  status_conditions :: "condition list"

text \<open>
  Of \<^verbatim>\<open>metav1.ObjectMeta\<close>, the fields the operator reads or writes.
\<close>

record carbide_deployment =
  cd_name :: string
  cd_namespace :: string
  cd_uid :: string
  cd_generation :: int64
  cd_resource_version :: string
  cd_finalizers :: "string list"
  cd_deletion_timestamp :: "go_time option"
  cd_spec :: carbide_spec
  cd_status :: carbide_status

subsection \<open>Condition types\<close>

definition ConditionTypeReady :: string where [simp]: "ConditionTypeReady = ''Ready''"
definition ConditionTypeInfrastructureReady :: string where
  [simp]: "ConditionTypeInfrastructureReady = ''InfrastructureReady''"
definition ConditionTypeCoreReady :: string where [simp]: "ConditionTypeCoreReady = ''CoreReady''"
definition ConditionTypeRestReady :: string where [simp]: "ConditionTypeRestReady = ''RestReady''"
definition ConditionTypeTLSReady :: string where [simp]: "ConditionTypeTLSReady = ''TLSReady''"
definition ConditionTypeSPIFFEAvailable :: string where
  [simp]: "ConditionTypeSPIFFEAvailable = ''SPIFFEAvailable''"
definition ConditionTypeCertManagerAvailable :: string where
  [simp]: "ConditionTypeCertManagerAvailable = ''CertManagerAvailable''"
definition ConditionTypeVaultReady :: string where [simp]: "ConditionTypeVaultReady = ''VaultReady''"
definition ConditionTypeRLAReady :: string where [simp]: "ConditionTypeRLAReady = ''RLAReady''"
definition ConditionTypePSMReady :: string where [simp]: "ConditionTypePSMReady = ''PSMReady''"

text \<open>Declared for single components.\<close>

definition ConditionTypePostgreSQLReady :: string where [simp]: "ConditionTypePostgreSQLReady = ''PostgreSQLReady''"
definition ConditionTypeAPIReady :: string where [simp]: "ConditionTypeAPIReady = ''APIReady''"
definition ConditionTypeMigrationComplete :: string where [simp]: "ConditionTypeMigrationComplete = ''MigrationComplete''"
definition ConditionTypeDHCPReady :: string where [simp]: "ConditionTypeDHCPReady = ''DHCPReady''"
definition ConditionTypePXEReady :: string where [simp]: "ConditionTypePXEReady = ''PXEReady''"
definition ConditionTypeDNSReady :: string where [simp]: "ConditionTypeDNSReady = ''DNSReady''"
definition ConditionTypeTemporalReady :: string where [simp]: "ConditionTypeTemporalReady = ''TemporalReady''"
definition ConditionTypeKeycloakReady :: string where [simp]: "ConditionTypeKeycloakReady = ''KeycloakReady''"
definition ConditionTypeRestAPIReady :: string where [simp]: "ConditionTypeRestAPIReady = ''RestAPIReady''"
definition ConditionTypeSiteAgentReady :: string where [simp]: "ConditionTypeSiteAgentReady = ''SiteAgentReady''"
definition ConditionTypeSiteManagerReady :: string where [simp]: "ConditionTypeSiteManagerReady = ''SiteManagerReady''"
definition ConditionTypeCloudWorkerReady :: string where [simp]: "ConditionTypeCloudWorkerReady = ''CloudWorkerReady''"
definition ConditionTypeSiteWorkerReady :: string where [simp]: "ConditionTypeSiteWorkerReady = ''SiteWorkerReady''"

subsection \<open>Profile predicates shared by the webhook and the reconcilers\<close>

definition is_site_profile :: "DeploymentProfile \<Rightarrow> bool" where
  "is_site_profile p \<longleftrightarrow> p = ProfileSite \<or> p = ProfileManagementWithSite"

definition is_management_profile :: "DeploymentProfile \<Rightarrow> bool" where
  "is_management_profile p \<longleftrightarrow> p = ProfileManagement \<or> p = ProfileManagementWithSite"

definition known_profile :: "DeploymentProfile \<Rightarrow> bool" where
  "known_profile p \<longleftrightarrow> p \<in> {ProfileManagement, ProfileSite, ProfileManagementWithSite}"

lemma known_profile_cases [consumes 1, case_names management site both]:
  assumes "known_profile p"
  obtains "p = ProfileManagement" | "p = ProfileSite" | "p = ProfileManagementWithSite"
  using assms by (auto simp: known_profile_def)

end
