(* ===== verification/K8s_Objects.thy ===== *)
theory K8s_Objects
  imports Api_Types "HOL-Library.AList"
begin

text \<open>
  The Kubernetes objects the operator builds, writes and reads: the fields its source sets or
  inspects of the typed API objects, unstructured objects as JSON trees, and the uniform view
  (kind, namespace, name, owner, resource version) through which \<^verbatim>\<open>client.Object\<close> is used.
\<close>

section \<open>Metadata\<close>

type_synonym labels = "string \<rightharpoonup> string"

record owner_reference =
  own_api_version :: string
  own_kind :: string
  own_name :: string
  own_uid :: string
  own_controller :: bool
  own_block_deletion :: bool

record object_meta =
  meta_name :: string
  meta_namespace :: string
  meta_labels :: labels
  meta_annotations :: labels
  meta_owners :: "owner_reference list"
  meta_resource_version :: string
  meta_generation :: int64

text \<open>\<^verbatim>\<open>metav1.ObjectMeta\<close> with the fields the builders set; the server fills the others.\<close>

definition mk_meta :: "string \<Rightarrow> string \<Rightarrow> labels \<Rightarrow> owner_reference list \<Rightarrow> object_meta" where
  "mk_meta n ns ls os = \<lparr>meta_name = n, meta_namespace = ns, meta_labels = ls,
     meta_annotations = Map.empty, meta_owners = os, meta_resource_version = [], meta_generation = 0\<rparr>"

section \<open>Pods\<close>

record env_var =
  env_name :: string
  env_value :: string
  env_secret :: "(string \<times> string) option"

record volume_mount =
  vm_name :: string
  vm_path :: string
  vm_sub_path :: string
  vm_read_only :: bool

datatype volume_source =
    ConfigMapVolume string
  | SecretVolume string "(string \<times> string) list" "bool option"
  | EmptyDirVolume
  | CSIVolume string "bool option"

record volume =
  vol_name :: string
  vol_source :: volume_source

record container_port =
  cp_name :: string
  cp_port :: int32
  cp_protocol :: string

datatype probe_handler = HTTPGet string int32 | TCPSocket int32

record probe =
  pr_handler :: probe_handler
  pr_initial_delay :: int32
  pr_period :: int32

record security_context =
  sc_add :: "string list"
  sc_drop :: "string list"
  sc_privileged :: "bool option"
  sc_allow_escalation :: "bool option"
  sc_run_as_non_root :: "bool option"

record container =
  c_name :: string
  c_image :: string
  c_pull_policy :: string
  c_command :: "string list"
  c_args :: "string list"
  c_ports :: "container_port list"
  c_env :: "env_var list"
  c_env_from :: "string list"
  c_mounts :: "volume_mount list"
  c_resources :: resource_requirements
  c_liveness :: "probe option"
  c_readiness :: "probe option"
  c_security :: "security_context option"

record toleration =
  tol_key :: string
  tol_operator :: string
  tol_effect :: string

record pod_spec =
  ps_service_account :: string
  ps_host_network :: bool
  ps_dns_policy :: string
  ps_node_selector :: labels
  ps_tolerations :: "toleration list"
  ps_restart_policy :: string
  ps_init_containers :: "container list"
  ps_containers :: "container list"
  ps_volumes :: "volume list"

record pod_template =
  tmpl_labels :: labels
  tmpl_spec :: pod_spec

text \<open>Zero values, which a Go composite literal leaves for the fields it does not mention.\<close>

definition no_resources :: resource_requirements where
  "no_resources = \<lparr>res_requests = [], res_limits = []\<rparr>"

definition zero_container :: container where
  "zero_container = \<lparr>c_name = [], c_image = [], c_pull_policy = [], c_command = [], c_args = [], c_ports = [],
     c_env = [], c_env_from = [], c_mounts = [], c_resources = no_resources, c_liveness = None,
     c_readiness = None, c_security = None\<rparr>"

definition zero_pod_spec :: pod_spec where
  "zero_pod_spec = \<lparr>ps_service_account = [], ps_host_network = False, ps_dns_policy = [],
     ps_node_selector = Map.empty, ps_tolerations = [], ps_restart_policy = [], ps_init_containers = [],
     ps_containers = [], ps_volumes = []\<rparr>"

definition zero_security :: security_context where
  "zero_security = \<lparr>sc_add = [], sc_drop = [], sc_privileged = None, sc_allow_escalation = None,
     sc_run_as_non_root = None\<rparr>"

definition plain_env :: "string \<Rightarrow> string \<Rightarrow> env_var" where
  "plain_env n v = \<lparr>env_name = n, env_value = v, env_secret = None\<rparr>"

definition secret_env :: "string \<Rightarrow> string \<times> string \<Rightarrow> env_var" where
  "secret_env n r = \<lparr>env_name = n, env_value = [], env_secret = Some r\<rparr>"

definition ro_mount :: "string \<Rightarrow> string \<Rightarrow> volume_mount" where
  "ro_mount n p = \<lparr>vm_name = n, vm_path = p, vm_sub_path = [], vm_read_only = True\<rparr>"

definition file_mount :: "string \<Rightarrow> string \<Rightarrow> string \<Rightarrow> volume_mount" where
  "file_mount n p s = \<lparr>vm_name = n, vm_path = p, vm_sub_path = s, vm_read_only = True\<rparr>"

section \<open>Typed objects\<close>

record config_map =
  cm_meta :: object_meta
  cm_data :: "string \<rightharpoonup> string"

record secret =
  secret_meta :: object_meta
  secret_type :: string
  secret_data :: "string \<rightharpoonup> string"
  secret_string_data :: "string \<rightharpoonup> string"

record service_port =
  sp_name :: string
  sp_port :: int32
  sp_target_port :: int32
  sp_protocol :: string
  sp_node_port :: int32

record service =
  svc_meta :: object_meta
  svc_selector :: labels
  svc_ports :: "service_port list"
  svc_type :: string

record service_account =
  sacc_meta :: object_meta
  sacc_automount :: "bool option"

record deployment =
  dep_meta :: object_meta
  dep_replicas :: "int32 option"
  dep_selector :: labels
  dep_template :: pod_template
  dep_available :: int32
  dep_updated :: int32
  dep_observed_generation :: int64

record daemon_set =
  ds_meta :: object_meta
  ds_selector :: labels
  ds_template :: pod_template
  ds_desired :: int32
  ds_ready :: int32
  ds_updated :: int32
  ds_observed_generation :: int64

record stateful_set =
  sts_meta :: object_meta
  sts_replicas :: "int32 option"
  sts_ready :: int32
  sts_current :: int32
  sts_updated :: int32
  sts_observed_generation :: int64

record job =
  job_meta :: object_meta
  job_backoff_limit :: "int32 option"
  job_ttl :: "int32 option"
  job_template :: pod_template
  job_conditions :: "(string \<times> string) list"

record pod =
  pod_meta :: object_meta
  pod_phase :: string
  pod_conditions :: "(string \<times> string) list"

record pvc =
  pvc_meta :: object_meta
  pvc_access_modes :: "string list"
  pvc_requests :: resource_list
  pvc_storage_class :: "string option"
  pvc_phase :: string

record policy_rule =
  rule_api_groups :: "string list"
  rule_resources :: "string list"
  rule_verbs :: "string list"

record subject =
  subj_kind :: string
  subj_name :: string
  subj_namespace :: string

record role_ref =
  ref_api_group :: string
  ref_kind :: string
  ref_name :: string

record role =
  role_meta :: object_meta
  role_rules :: "policy_rule list"

record role_binding =
  rb_meta :: object_meta
  rb_subjects :: "subject list"
  rb_ref :: role_ref

section \<open>Unstructured objects\<close>

datatype json =
    JString string
  | JInt int
  | JBool bool
  | JList "json list"
  | JMap "(string \<times> json) list"

text \<open>
  \<^verbatim>\<open>unstructured.NestedMap\<close> and its siblings: absent, present, or present with another type (an
  error).
\<close>

datatype 'a nested = Absent | Found 'a | Mistyped

definition field :: "string \<Rightarrow> (string \<times> json) list \<Rightarrow> json option" where
  "field k m = map_of m k"

definition NestedMap :: "(string \<times> json) list \<Rightarrow> string \<Rightarrow> (string \<times> json) list nested" where
  "NestedMap m k = (case field k m of None \<Rightarrow> Absent | Some (JMap x) \<Rightarrow> Found x | Some _ \<Rightarrow> Mistyped)"

definition NestedSlice :: "(string \<times> json) list \<Rightarrow> string \<Rightarrow> json list nested" where
  "NestedSlice m k = (case field k m of None \<Rightarrow> Absent | Some (JList x) \<Rightarrow> Found x | Some _ \<Rightarrow> Mistyped)"

definition NestedInt64 :: "(string \<times> json) list \<Rightarrow> string \<Rightarrow> int nested" where
  "NestedInt64 m k = (case field k m of None \<Rightarrow> Absent | Some (JInt x) \<Rightarrow> Found x | Some _ \<Rightarrow> Mistyped)"

definition NestedString :: "(string \<times> json) list \<Rightarrow> string \<Rightarrow> string nested" where
  "NestedString m k = (case field k m of None \<Rightarrow> Absent | Some (JString x) \<Rightarrow> Found x | Some _ \<Rightarrow> Mistyped)"

text \<open>Reading a nested string where Go discards \<^verbatim>\<open>found\<close> and the error.\<close>

definition string_or_empty :: "string nested \<Rightarrow> string" where
  "string_or_empty r = (case r of Found x \<Rightarrow> x | _ \<Rightarrow> [])"

record unstructured =
  u_object :: "(string \<times> json) list"

definition u_metadata :: "unstructured \<Rightarrow> (string \<times> json) list" where
  "u_metadata u = (case NestedMap (u_object u) ''metadata'' of Found m \<Rightarrow> m | _ \<Rightarrow> [])"

definition u_set_metadata :: "string \<Rightarrow> json \<Rightarrow> unstructured \<Rightarrow> unstructured" where
  "u_set_metadata k v u = u\<lparr>u_object := AList.update ''metadata'' (JMap (AList.update k v (u_metadata u))) (u_object u)\<rparr>"

definition u_name :: "unstructured \<Rightarrow> string" where
  "u_name u = string_or_empty (NestedString (u_metadata u) ''name'')"

definition u_namespace :: "unstructured \<Rightarrow> string" where
  "u_namespace u = string_or_empty (NestedString (u_metadata u) ''namespace'')"

definition u_api_version :: "unstructured \<Rightarrow> string" where
  "u_api_version u = string_or_empty (NestedString (u_object u) ''apiVersion'')"

definition u_kind :: "unstructured \<Rightarrow> string" where
  "u_kind u = string_or_empty (NestedString (u_object u) ''kind'')"

definition owner_json :: "owner_reference \<Rightarrow> json" where
  "owner_json r = JMap [(''apiVersion'', JString (own_api_version r)), (''kind'', JString (own_kind r)),
     (''name'', JString (own_name r)), (''uid'', JString (own_uid r)),
     (''controller'', JBool (own_controller r)), (''blockOwnerDeletion'', JBool (own_block_deletion r))]"

definition SetOwnerReferences :: "owner_reference list \<Rightarrow> unstructured \<Rightarrow> unstructured" where
  "SetOwnerReferences rs u = u_set_metadata ''ownerReferences'' (JList (map owner_json rs)) u"

section \<open>The uniform view\<close>

datatype kind =
    KNamespace | KConfigMap | KSecret | KService | KServiceAccount | KDeployment | KDaemonSet | KStatefulSet
  | KJob | KPod | KPVC | KRole | KRoleBinding | KClusterRoleBinding | KStorageClass | KCRD | KCarbideDeployment
  | KUnstructured string string

datatype k8s_object =
    NamespaceObj object_meta
  | ConfigMapObj config_map
  | SecretObj secret
  | ServiceObj service
  | ServiceAccountObj service_account
  | DeploymentObj deployment
  | DaemonSetObj daemon_set
  | StatefulSetObj stateful_set
  | JobObj job
  | PodObj pod
  | PVCObj pvc
  | RoleObj role
  | RoleBindingObj role_binding
  | ClusterRoleBindingObj role_binding
  | StorageClassObj object_meta
  | CRDObj object_meta
  | CarbideDeploymentObj carbide_deployment
  | UnstructuredObj unstructured

primrec obj_kind :: "k8s_object \<Rightarrow> kind" where
  "obj_kind (NamespaceObj _) = KNamespace"
| "obj_kind (ConfigMapObj _) = KConfigMap"
| "obj_kind (SecretObj _) = KSecret"
| "obj_kind (ServiceObj _) = KService"
| "obj_kind (ServiceAccountObj _) = KServiceAccount"
| "obj_kind (DeploymentObj _) = KDeployment"
| "obj_kind (DaemonSetObj _) = KDaemonSet"
| "obj_kind (StatefulSetObj _) = KStatefulSet"
| "obj_kind (JobObj _) = KJob"
| "obj_kind (PodObj _) = KPod"
| "obj_kind (PVCObj _) = KPVC"
| "obj_kind (RoleObj _) = KRole"
| "obj_kind (RoleBindingObj _) = KRoleBinding"
| "obj_kind (ClusterRoleBindingObj _) = KClusterRoleBinding"
| "obj_kind (StorageClassObj _) = KStorageClass"
| "obj_kind (CRDObj _) = KCRD"
| "obj_kind (CarbideDeploymentObj _) = KCarbideDeployment"
| "obj_kind (UnstructuredObj u) = KUnstructured (u_api_version u) (u_kind u)"

primrec obj_name :: "k8s_object \<Rightarrow> string" where
  "obj_name (NamespaceObj m) = meta_name m"
| "obj_name (ConfigMapObj x) = meta_name (cm_meta x)"
| "obj_name (SecretObj x) = meta_name (secret_meta x)"
| "obj_name (ServiceObj x) = meta_name (svc_meta x)"
| "obj_name (ServiceAccountObj x) = meta_name (sacc_meta x)"
| "obj_name (DeploymentObj x) = meta_name (dep_meta x)"
| "obj_name (DaemonSetObj x) = meta_name (ds_meta x)"
| "obj_name (StatefulSetObj x) = meta_name (sts_meta x)"
| "obj_name (JobObj x) = meta_name (job_meta x)"
| "obj_name (PodObj x) = meta_name (pod_meta x)"
| "obj_name (PVCObj x) = meta_name (pvc_meta x)"
| "obj_name (RoleObj x) = meta_name (role_meta x)"
| "obj_name (RoleBindingObj x) = meta_name (rb_meta x)"
| "obj_name (ClusterRoleBindingObj x) = meta_name (rb_meta x)"
| "obj_name (StorageClassObj m) = meta_name m"
| "obj_name (CRDObj m) = meta_name m"
| "obj_name (CarbideDeploymentObj d) = cd_name d"
| "obj_name (UnstructuredObj u) = u_name u"

primrec obj_namespace :: "k8s_object \<Rightarrow> string" where
  "obj_namespace (NamespaceObj m) = meta_namespace m"
| "obj_namespace (ConfigMapObj x) = meta_namespace (cm_meta x)"
| "obj_namespace (SecretObj x) = meta_namespace (secret_meta x)"
| "obj_namespace (ServiceObj x) = meta_namespace (svc_meta x)"
| "obj_namespace (ServiceAccountObj x) = meta_namespace (sacc_meta x)"
| "obj_namespace (DeploymentObj x) = meta_namespace (dep_meta x)"
| "obj_namespace (DaemonSetObj x) = meta_namespace (ds_meta x)"
| "obj_namespace (StatefulSetObj x) = meta_namespace (sts_meta x)"
| "obj_namespace (JobObj x) = meta_namespace (job_meta x)"
| "obj_namespace (PodObj x) = meta_namespace (pod_meta x)"
| "obj_namespace (PVCObj x) = meta_namespace (pvc_meta x)"
| "obj_namespace (RoleObj x) = meta_namespace (role_meta x)"
| "obj_namespace (RoleBindingObj x) = meta_namespace (rb_meta x)"
| "obj_namespace (ClusterRoleBindingObj x) = meta_namespace (rb_meta x)"
| "obj_namespace (StorageClassObj m) = meta_namespace m"
| "obj_namespace (CRDObj m) = meta_namespace m"
| "obj_namespace (CarbideDeploymentObj d) = cd_namespace d"
| "obj_namespace (UnstructuredObj u) = u_namespace u"

primrec obj_resource_version :: "k8s_object \<Rightarrow> string" where
  "obj_resource_version (NamespaceObj m) = meta_resource_version m"
| "obj_resource_version (ConfigMapObj x) = meta_resource_version (cm_meta x)"
| "obj_resource_version (SecretObj x) = meta_resource_version (secret_meta x)"
| "obj_resource_version (ServiceObj x) = meta_resource_version (svc_meta x)"
| "obj_resource_version (ServiceAccountObj x) = meta_resource_version (sacc_meta x)"
| "obj_resource_version (DeploymentObj x) = meta_resource_version (dep_meta x)"
| "obj_resource_version (DaemonSetObj x) = meta_resource_version (ds_meta x)"
| "obj_resource_version (StatefulSetObj x) = meta_resource_version (sts_meta x)"
| "obj_resource_version (JobObj x) = meta_resource_version (job_meta x)"
| "obj_resource_version (PodObj x) = meta_resource_version (pod_meta x)"
| "obj_resource_version (PVCObj x) = meta_resource_version (pvc_meta x)"
| "obj_resource_version (RoleObj x) = meta_resource_version (role_meta x)"
| "obj_resource_version (RoleBindingObj x) = meta_resource_version (rb_meta x)"
| "obj_resource_version (ClusterRoleBindingObj x) = meta_resource_version (rb_meta x)"
| "obj_resource_version (StorageClassObj m) = meta_resource_version m"
| "obj_resource_version (CRDObj m) = meta_resource_version m"
| "obj_resource_version (CarbideDeploymentObj d) = cd_resource_version d"
| "obj_resource_version (UnstructuredObj u) =
     string_or_empty (NestedString (u_metadata u) ''resourceVersion'')"

definition set_rv :: "string \<Rightarrow> object_meta \<Rightarrow> object_meta" where
  "set_rv v m = m\<lparr>meta_resource_version := v\<rparr>"

primrec SetResourceVersion :: "string \<Rightarrow> k8s_object \<Rightarrow> k8s_object" where
  "SetResourceVersion v (NamespaceObj m) = NamespaceObj (set_rv v m)"
| "SetResourceVersion v (ConfigMapObj x) = ConfigMapObj (x\<lparr>cm_meta := set_rv v (cm_meta x)\<rparr>)"
| "SetResourceVersion v (SecretObj x) = SecretObj (x\<lparr>secret_meta := set_rv v (secret_meta x)\<rparr>)"
| "SetResourceVersion v (ServiceObj x) = ServiceObj (x\<lparr>svc_meta := set_rv v (svc_meta x)\<rparr>)"
| "SetResourceVersion v (ServiceAccountObj x) = ServiceAccountObj (x\<lparr>sacc_meta := set_rv v (sacc_meta x)\<rparr>)"
| "SetResourceVersion v (DeploymentObj x) = DeploymentObj (x\<lparr>dep_meta := set_rv v (dep_meta x)\<rparr>)"
| "SetResourceVersion v (DaemonSetObj x) = DaemonSetObj (x\<lparr>ds_meta := set_rv v (ds_meta x)\<rparr>)"
| "SetResourceVersion v (StatefulSetObj x) = StatefulSetObj (x\<lparr>sts_meta := set_rv v (sts_meta x)\<rparr>)"
| "SetResourceVersion v (JobObj x) = JobObj (x\<lparr>job_meta := set_rv v (job_meta x)\<rparr>)"
| "SetResourceVersion v (PodObj x) = PodObj (x\<lparr>pod_meta := set_rv v (pod_meta x)\<rparr>)"
| "SetResourceVersion v (PVCObj x) = PVCObj (x\<lparr>pvc_meta := set_rv v (pvc_meta x)\<rparr>)"
| "SetResourceVersion v (RoleObj x) = RoleObj (x\<lparr>role_meta := set_rv v (role_meta x)\<rparr>)"
| "SetResourceVersion v (RoleBindingObj x) = RoleBindingObj (x\<lparr>rb_meta := set_rv v (rb_meta x)\<rparr>)"
| "SetResourceVersion v (ClusterRoleBindingObj x) = ClusterRoleBindingObj (x\<lparr>rb_meta := set_rv v (rb_meta x)\<rparr>)"
| "SetResourceVersion v (StorageClassObj m) = StorageClassObj (set_rv v m)"
| "SetResourceVersion v (CRDObj m) = CRDObj (set_rv v m)"
| "SetResourceVersion v (CarbideDeploymentObj d) = CarbideDeploymentObj (d\<lparr>cd_resource_version := v\<rparr>)"
| "SetResourceVersion v (UnstructuredObj u) =
     UnstructuredObj (u_set_metadata ''resourceVersion'' (JString v) u)"

type_synonym object_key = "kind \<times> string \<times> string"

definition obj_key :: "k8s_object \<Rightarrow> object_key" where
  "obj_key x = (obj_kind x, obj_namespace x, obj_name x)"

section \<open>Lemmas\<close>

lemma map_of_update: "map_of (AList.update k v xs) = (map_of xs)(k \<mapsto> v)"
  by (simp add: update_conv')

lemma field_update [simp]: "field k (AList.update k' v xs) = (if k = k' then Some v else field k xs)"
  by (auto simp: field_def map_of_update)

lemma u_metadata_set [simp]: "u_metadata (u_set_metadata k v u) = AList.update k v (u_metadata u)"
  by (simp add: u_metadata_def u_set_metadata_def NestedMap_def)

lemma u_set_metadata_sel [simp]:
  "u_kind (u_set_metadata k v u) = u_kind u"
  "u_api_version (u_set_metadata k v u) = u_api_version u"
  "k \<noteq> ''name'' \<Longrightarrow> u_name (u_set_metadata k v u) = u_name u"
  "k \<noteq> ''namespace'' \<Longrightarrow> u_namespace (u_set_metadata k v u) = u_namespace u"
  by (simp_all add: u_kind_def u_api_version_def u_name_def u_namespace_def NestedString_def)
    (simp_all add: u_set_metadata_def)

lemma set_rv_sel [simp]:
  "meta_name (set_rv v m) = meta_name m" "meta_namespace (set_rv v m) = meta_namespace m"
  "meta_resource_version (set_rv v m) = v" "meta_owners (set_rv v m) = meta_owners m"
  "meta_labels (set_rv v m) = meta_labels m"
  by (simp_all add: set_rv_def)

lemma obj_key_SetResourceVersion [simp]: "obj_key (SetResourceVersion v x) = obj_key x"
  by (cases x) (simp_all add: obj_key_def)

lemma obj_resource_version_set [simp]: "obj_resource_version (SetResourceVersion v x) = v"
  by (cases x) (simp_all add: NestedString_def string_or_empty_def)

lemma mk_meta_sel [simp]:
  "meta_name (mk_meta n ns ls os) = n" "meta_namespace (mk_meta n ns ls os) = ns"
  "meta_labels (mk_meta n ns ls os) = ls" "meta_owners (mk_meta n ns ls os) = os"
  by (simp_all add: mk_meta_def)

lemma env_sel [simp]:
  "env_name (plain_env n v) = n" "env_value (plain_env n v) = v" "env_secret (plain_env n v) = None"
  "env_name (secret_env n r) = n" "env_secret (secret_env n r) = Some r"
  by (simp_all add: plain_env_def secret_env_def)

lemma mount_sel [simp]:
  "vm_name (ro_mount n p) = n" "vm_path (ro_mount n p) = p"
  "vm_name (file_mount n p s) = n" "vm_path (file_mount n p s) = p"
  by (simp_all add: ro_mount_def file_mount_def)

end
