(* ===== verification/Effects.thy ===== *)
theory Effects
  imports K8s_Objects "HOL-Library.Multiset"
begin

text \<open>
  Programs with effects.  What the operator does to the outside world goes through calls of
  code that is not its own: the API server behind \<^verbatim>\<open>client.Client\<close>, the event recorder, the
  clock, network probes, the unspecified order in which Go ranges over a map.  A function of
  the operator is modelled as a program: a tree whose inner nodes are such calls, with one
  continuation for every answer the callee may give, and whose leaves are the returned values.

  Nothing is assumed about the answers.  \<open>runs p r tr\<close> says that \<open>p\<close> can return \<open>r\<close> after the
  exchange \<open>tr\<close> of calls and answers; a property over all runs holds against every API server,
  however it fails and whatever other clients do in between.  \<open>exec\<close> runs a program against a
  concrete environment, and every execution is a run.
\<close>

section \<open>Programs\<close>

datatype net_probe =
    DialTCP string
  | SqlOpen string
  | SqlPing string
  | NewRequest string

datatype 'r prog =
    Ret 'r
  | Get kind string string "goerror + k8s_object \<Rightarrow> 'r prog"
  | ListObjects kind string "(string \<times> string) list" "goerror + k8s_object list \<Rightarrow> 'r prog"
  | Create k8s_object "goerror option \<Rightarrow> 'r prog"
  | Update k8s_object "goerror option \<Rightarrow> 'r prog"
  | StatusUpdate carbide_deployment "goerror option \<Rightarrow> 'r prog"
  | Recorder string string string "'r prog"
  | Now "go_time \<Rightarrow> 'r prog"
  | RangeOrder "string list" "string list \<Rightarrow> 'r prog"
  | Probe net_probe "goerror option \<Rightarrow> 'r prog"
  | HttpDo string "goerror + int \<Rightarrow> 'r prog"

datatype event =
    EGet kind string string "goerror + k8s_object"
  | EList kind string "(string \<times> string) list" "goerror + k8s_object list"
  | ECreate k8s_object "goerror option"
  | EUpdate k8s_object "goerror option"
  | EStatusUpdate carbide_deployment "goerror option"
  | ERecord string string string
  | EProbe net_probe "goerror option"
  | EHttp string "goerror + int"

text \<open>Sequencing: run \<open>p\<close>, then continue with its value.\<close>

primrec andThen :: "'a prog \<Rightarrow> ('a \<Rightarrow> 'b prog) \<Rightarrow> 'b prog" where
  "andThen (Ret x) g = g x"
| "andThen (Get k ns n f) g = Get k ns n (\<lambda>a. andThen (f a) g)"
| "andThen (ListObjects k ns ls f) g = ListObjects k ns ls (\<lambda>a. andThen (f a) g)"
| "andThen (Create x f) g = Create x (\<lambda>a. andThen (f a) g)"
| "andThen (Update x f) g = Update x (\<lambda>a. andThen (f a) g)"
| "andThen (StatusUpdate d f) g = StatusUpdate d (\<lambda>a. andThen (f a) g)"
| "andThen (Recorder t r m p) g = Recorder t r m (andThen p g)"
| "andThen (Now f) g = Now (\<lambda>a. andThen (f a) g)"
| "andThen (RangeOrder ks f) g = RangeOrder ks (\<lambda>a. andThen (f a) g)"
| "andThen (Probe q f) g = Probe q (\<lambda>a. andThen (f a) g)"
| "andThen (HttpDo u f) g = HttpDo u (\<lambda>a. andThen (f a) g)"

text \<open>
  A function returning \<^verbatim>\<open>(T, error)\<close> that returns the zero value with every error is a program over
  \<open>goerror + T\<close>; \<open>tryThen\<close> is the statement \<^verbatim>\<open>x, err := p; if err != nil { return ..., err }\<close>.
\<close>

definition tryThen :: "(goerror + 'a) prog \<Rightarrow> (goerror \<Rightarrow> 'b prog) \<Rightarrow> ('a \<Rightarrow> 'b prog) \<Rightarrow> 'b prog" where
  "tryThen p onErr g = andThen p (\<lambda>r. case r of Inl e \<Rightarrow> onErr e | Inr x \<Rightarrow> g x)"

text \<open>The same for a function that returns only an \<^verbatim>\<open>error\<close>.\<close>

definition checkThen :: "goerror option prog \<Rightarrow> (goerror \<Rightarrow> 'b prog) \<Rightarrow> 'b prog \<Rightarrow> 'b prog" where
  "checkThen p onErr g = andThen p (\<lambda>r. case r of Some e \<Rightarrow> onErr e | None \<Rightarrow> g)"

text \<open>A loop over a slice whose body may return an error, which ends the loop.\<close>

primrec forEach :: "'a list \<Rightarrow> ('a \<Rightarrow> goerror option prog) \<Rightarrow> ('a \<times> goerror) option prog" where
  "forEach [] body = Ret None"
| "forEach (x # xs) body = checkThen (body x) (\<lambda>e. Ret (Some (x, e))) (forEach xs body)"

section \<open>Runs\<close>

primrec runs :: "'r prog \<Rightarrow> 'r \<Rightarrow> event list \<Rightarrow> bool" where
  "runs (Ret x) r tr \<longleftrightarrow> r = x \<and> tr = []"
| "runs (Get k ns n f) r tr \<longleftrightarrow> (\<exists>a tr'. tr = EGet k ns n a # tr' \<and> runs (f a) r tr')"
| "runs (ListObjects k ns ls f) r tr \<longleftrightarrow> (\<exists>a tr'. tr = EList k ns ls a # tr' \<and> runs (f a) r tr')"
| "runs (Create x f) r tr \<longleftrightarrow> (\<exists>a tr'. tr = ECreate x a # tr' \<and> runs (f a) r tr')"
| "runs (Update x f) r tr \<longleftrightarrow> (\<exists>a tr'. tr = EUpdate x a # tr' \<and> runs (f a) r tr')"
| "runs (StatusUpdate d f) r tr \<longleftrightarrow> (\<exists>a tr'. tr = EStatusUpdate d a # tr' \<and> runs (f a) r tr')"
| "runs (Recorder t c m p) r tr \<longleftrightarrow> (\<exists>tr'. tr = ERecord t c m # tr' \<and> runs p r tr')"
| "runs (Now f) r tr \<longleftrightarrow> (\<exists>t. runs (f t) r tr)"
| "runs (RangeOrder ks f) r tr \<longleftrightarrow> (\<exists>ks'. mset ks' = mset ks \<and> runs (f ks') r tr)"
| "runs (Probe q f) r tr \<longleftrightarrow> (\<exists>a tr'. tr = EProbe q a # tr' \<and> runs (f a) r tr')"
| "runs (HttpDo u f) r tr \<longleftrightarrow> (\<exists>a tr'. tr = EHttp u a # tr' \<and> runs (f a) r tr')"

lemma runs_andThenI: "runs p x t1 \<Longrightarrow> runs (g x) r t2 \<Longrightarrow> runs (andThen p g) r (t1 @ t2)"
  by (induction p arbitrary: t1) force+

lemma runs_andThenD:
  "runs (andThen p g) r tr \<Longrightarrow> \<exists>x t1 t2. tr = t1 @ t2 \<and> runs p x t1 \<and> runs (g x) r t2"
proof (induction p arbitrary: tr)
  case (Ret x)
  then show ?case by auto
next
  case (RangeOrder ks f)
  then show ?case by simp blast
next
  case (Now f)
  then show ?case by simp blast
qed (simp, metis append_Cons rangeI)+

lemma runs_andThen:
  "runs (andThen p g) r tr \<longleftrightarrow> (\<exists>x t1 t2. tr = t1 @ t2 \<and> runs p x t1 \<and> runs (g x) r t2)"
  by (blast intro: runs_andThenI dest: runs_andThenD)

lemma andThen_assoc: "andThen (andThen p g) h = andThen p (\<lambda>x. andThen (g x) h)"
  by (induction p) auto

lemma andThen_Ret: "andThen p Ret = p"
  by (induction p) auto

lemma runs_tryThenE [consumes 1, case_names err ok]:
  assumes "runs (tryThen p h g) r tr"
  obtains (err) e t1 t2 where "tr = t1 @ t2" "runs p (Inl e) t1" "runs (h e) r t2"
    | (ok) x t1 t2 where "tr = t1 @ t2" "runs p (Inr x) t1" "runs (g x) r t2"
proof -
  from assms obtain x t1 t2 where *: "tr = t1 @ t2" "runs p x t1"
    "runs (case x of Inl e \<Rightarrow> h e | Inr x \<Rightarrow> g x) r t2"
    unfolding tryThen_def runs_andThen by blast
  then show thesis using that by (cases x) auto
qed

lemma runs_checkThenE [consumes 1, case_names err ok]:
  assumes "runs (checkThen p h g) r tr"
  obtains (err) e t1 t2 where "tr = t1 @ t2" "runs p (Some e) t1" "runs (h e) r t2"
    | (ok) t1 t2 where "tr = t1 @ t2" "runs p None t1" "runs g r t2"
proof -
  from assms obtain x t1 t2 where *: "tr = t1 @ t2" "runs p x t1"
    "runs (case x of Some e \<Rightarrow> h e | None \<Rightarrow> g) r t2"
    unfolding checkThen_def runs_andThen by blast
  then show thesis using that by (cases x) auto
qed

lemma runs_tryThen_ok: "runs p (Inr x) t1 \<Longrightarrow> runs (g x) r t2 \<Longrightarrow> runs (tryThen p h g) r (t1 @ t2)"
  unfolding tryThen_def by (rule runs_andThenI [of p "Inr x"]) simp_all

lemma runs_tryThen_err: "runs p (Inl e) t1 \<Longrightarrow> runs (h e) r t2 \<Longrightarrow> runs (tryThen p h g) r (t1 @ t2)"
  unfolding tryThen_def by (rule runs_andThenI [of p "Inl e"]) simp_all

lemma runs_checkThen_ok: "runs p None t1 \<Longrightarrow> runs g r t2 \<Longrightarrow> runs (checkThen p h g) r (t1 @ t2)"
  unfolding checkThen_def by (rule runs_andThenI [of p None]) simp_all

lemma runs_andThenE:
  assumes "runs (andThen p g) r tr"
  obtains x t1 t2 where "tr = t1 @ t2" "runs p x t1" "runs (g x) r t2"
  using assms unfolding runs_andThen by blast

text \<open>The two outcomes of a loop: every iteration succeeded, or one failed after the others.\<close>

lemma runs_forEach_None:
  "runs (forEach xs body) None tr \<Longrightarrow> x \<in> set xs \<Longrightarrow>
   \<exists>t1 t2 t3. tr = t1 @ t2 @ t3 \<and> runs (body x) None t2"
proof (induction xs arbitrary: tr)
  case (Cons y ys)
  from Cons.prems(1) obtain t1 t2 where t: "tr = t1 @ t2" "runs (body y) None t1" "runs (forEach ys body) None t2"
    by (auto elim: runs_checkThenE)
  show ?case
  proof (cases "x = y")
    case True
    with t show ?thesis by (metis append_Nil)
  next
    case False
    with Cons.prems(2) Cons.IH [OF t(3)] obtain u1 u2 u3 where "t2 = u1 @ u2 @ u3" "runs (body x) None u2"
      by auto
    with t(1) show ?thesis by (metis append_assoc)
  qed
qed simp

lemma runs_forEach_Some:
  "runs (forEach xs body) (Some (x, e)) tr \<Longrightarrow>
   x \<in> set xs \<and> (\<exists>t1 t2. tr = t1 @ t2 \<and> runs (body x) (Some e) t2)"
proof (induction xs arbitrary: tr)
  case (Cons y ys)
  from Cons.prems have "runs (checkThen (body y) (\<lambda>e. Ret (Some (y, e))) (forEach ys body)) (Some (x, e)) tr"
    by simp
  then show ?case
  proof (cases rule: runs_checkThenE)
    case (err e' t1 t2)
    then show ?thesis by (auto intro: exI [of _ "[]"])
  next
    case (ok t1 t2)
    with Cons.IH [OF ok(3)] show ?thesis by (metis append_assoc list.set_intros(2))
  qed
qed simp

section \<open>What a program may do\<close>

text \<open>\<open>onlyDoes P p\<close>: every event of every run of \<open>p\<close> satisfies \<open>P\<close>.\<close>

definition onlyDoes :: "(event \<Rightarrow> bool) \<Rightarrow> 'r prog \<Rightarrow> bool" where
  "onlyDoes P p \<longleftrightarrow> (\<forall>r tr. runs p r tr \<longrightarrow> list_all P tr)"

lemma onlyDoesD: "onlyDoes P p \<Longrightarrow> runs p r tr \<Longrightarrow> e \<in> set tr \<Longrightarrow> P e"
  by (auto simp: onlyDoes_def list_all_iff)

lemma onlyDoes_Ret [intro!, simp]: "onlyDoes P (Ret x)"
  by (simp add: onlyDoes_def)

lemma onlyDoes_Get [intro]: "(\<And>a. P (EGet k ns n a)) \<Longrightarrow> (\<And>a. onlyDoes P (f a)) \<Longrightarrow> onlyDoes P (Get k ns n f)"
  by (auto simp: onlyDoes_def)

lemma onlyDoes_Create [intro]: "(\<And>a. P (ECreate x a)) \<Longrightarrow> (\<And>a. onlyDoes P (f a)) \<Longrightarrow> onlyDoes P (Create x f)"
  by (auto simp: onlyDoes_def)

lemma onlyDoes_Update [intro]: "(\<And>a. P (EUpdate x a)) \<Longrightarrow> (\<And>a. onlyDoes P (f a)) \<Longrightarrow> onlyDoes P (Update x f)"
  by (auto simp: onlyDoes_def)

lemma onlyDoes_Now [intro]: "(\<And>t. onlyDoes P (f t)) \<Longrightarrow> onlyDoes P (Now f)"
  by (auto simp: onlyDoes_def)

lemma onlyDoes_RangeOrder [intro]: "(\<And>t. onlyDoes P (f t)) \<Longrightarrow> onlyDoes P (RangeOrder ks f)"
  by (auto simp: onlyDoes_def)

lemma onlyDoes_Probe [intro]: "(\<And>a. P (EProbe q a)) \<Longrightarrow> (\<And>a. onlyDoes P (f a)) \<Longrightarrow> onlyDoes P (Probe q f)"
  by (auto simp: onlyDoes_def)

lemma onlyDoes_andThen [intro]: "onlyDoes P p \<Longrightarrow> (\<And>x. onlyDoes P (g x)) \<Longrightarrow> onlyDoes P (andThen p g)"
  by (auto simp: onlyDoes_def runs_andThen)

lemma onlyDoes_tryThen [intro]:
  "onlyDoes P p \<Longrightarrow> (\<And>e. onlyDoes P (h e)) \<Longrightarrow> (\<And>x. onlyDoes P (g x)) \<Longrightarrow> onlyDoes P (tryThen p h g)"
  unfolding tryThen_def by (rule onlyDoes_andThen) (auto split: sum.split)

lemma onlyDoes_checkThen [intro]:
  "onlyDoes P p \<Longrightarrow> (\<And>e. onlyDoes P (h e)) \<Longrightarrow> onlyDoes P g \<Longrightarrow> onlyDoes P (checkThen p h g)"
  unfolding checkThen_def by (rule onlyDoes_andThen) (auto split: option.split)

lemma onlyDoes_forEach [intro]: "(\<And>x. x \<in> set xs \<Longrightarrow> onlyDoes P (body x)) \<Longrightarrow> onlyDoes P (forEach xs body)"
  by (induction xs) auto

lemma onlyDoes_if: "onlyDoes P p \<Longrightarrow> onlyDoes P q \<Longrightarrow> onlyDoes P (if b then p else q)"
  by simp

lemma onlyDoes_option:
  "(x = None \<Longrightarrow> onlyDoes P p) \<Longrightarrow> (\<And>y. x = Some y \<Longrightarrow> onlyDoes P (q y)) \<Longrightarrow> onlyDoes P (case_option p q x)"
  by (cases x) simp_all

lemma onlyDoes_sum:
  "(\<And>e. x = Inl e \<Longrightarrow> onlyDoes P (p e)) \<Longrightarrow> (\<And>y. x = Inr y \<Longrightarrow> onlyDoes P (q y)) \<Longrightarrow> onlyDoes P (case_sum p q x)"
  by (cases x) simp_all

lemma onlyDoes_weaken: "onlyDoes P p \<Longrightarrow> (\<And>e. P e \<Longrightarrow> Q e) \<Longrightarrow> onlyDoes Q p"
  by (auto simp: onlyDoes_def list_all_iff)

lemmas onlyDoes_intros = onlyDoes_Ret onlyDoes_andThen onlyDoes_tryThen onlyDoes_checkThen onlyDoes_forEach
  onlyDoes_if onlyDoes_Now onlyDoes_RangeOrder onlyDoes_option onlyDoes_sum onlyDoes_Probe

section \<open>Execution\<close>

text \<open>
  An environment answers calls and moves to a new state of the world \<open>'w\<close>.
\<close>

record 'w environment =
  srv_get :: "kind \<Rightarrow> string \<Rightarrow> string \<Rightarrow> 'w \<Rightarrow> (goerror + k8s_object) \<times> 'w"
  srv_list :: "kind \<Rightarrow> string \<Rightarrow> (string \<times> string) list \<Rightarrow> 'w \<Rightarrow> (goerror + k8s_object list) \<times> 'w"
  srv_create :: "k8s_object \<Rightarrow> 'w \<Rightarrow> goerror option \<times> 'w"
  srv_update :: "k8s_object \<Rightarrow> 'w \<Rightarrow> goerror option \<times> 'w"
  srv_status_update :: "carbide_deployment \<Rightarrow> 'w \<Rightarrow> goerror option \<times> 'w"
  srv_now :: "'w \<Rightarrow> go_time \<times> 'w"
  srv_range :: "string list \<Rightarrow> 'w \<Rightarrow> string list \<times> 'w"
  srv_probe :: "net_probe \<Rightarrow> 'w \<Rightarrow> goerror option \<times> 'w"
  srv_http :: "string \<Rightarrow> 'w \<Rightarrow> (goerror + int) \<times> 'w"

definition emit :: "event \<Rightarrow> 'r \<times> event list \<times> 'w \<Rightarrow> 'r \<times> event list \<times> 'w" where
  "emit e res = (case res of (r, tr, w) \<Rightarrow> (r, e # tr, w))"

primrec exec :: "'w environment \<Rightarrow> 'r prog \<Rightarrow> 'w \<Rightarrow> 'r \<times> event list \<times> 'w" where
  "exec E (Ret x) w = (x, [], w)"
| "exec E (Get k ns n f) w = (case srv_get E k ns n w of (a, w') \<Rightarrow> emit (EGet k ns n a) (exec E (f a) w'))"
| "exec E (ListObjects k ns ls f) w =
     (case srv_list E k ns ls w of (a, w') \<Rightarrow> emit (EList k ns ls a) (exec E (f a) w'))"
| "exec E (Create x f) w = (case srv_create E x w of (a, w') \<Rightarrow> emit (ECreate x a) (exec E (f a) w'))"
| "exec E (Update x f) w = (case srv_update E x w of (a, w') \<Rightarrow> emit (EUpdate x a) (exec E (f a) w'))"
| "exec E (StatusUpdate d f) w =
     (case srv_status_update E d w of (a, w') \<Rightarrow> emit (EStatusUpdate d a) (exec E (f a) w'))"
| "exec E (Recorder t c m p) w = emit (ERecord t c m) (exec E p w)"
| "exec E (Now f) w = (case srv_now E w of (a, w') \<Rightarrow> exec E (f a) w')"
| "exec E (RangeOrder ks f) w = (case srv_range E ks w of (a, w') \<Rightarrow> exec E (f a) w')"
| "exec E (Probe q f) w = (case srv_probe E q w of (a, w') \<Rightarrow> emit (EProbe q a) (exec E (f a) w'))"
| "exec E (HttpDo u f) w = (case srv_http E u w of (a, w') \<Rightarrow> emit (EHttp u a) (exec E (f a) w'))"

text \<open>
  Every execution is a run: what holds of all runs holds in every environment whose map ranges
  visit each key once.
\<close>

lemma exec_runs:
  assumes "\<And>ks w. mset (fst (srv_range E ks w)) = mset ks"
  shows "exec E p w = (r, tr, w') \<Longrightarrow> runs p r tr"
proof (induction p arbitrary: w tr)
  case (RangeOrder ks f)
  then show ?case using assms [of ks w] by (fastforce split: prod.splits)
next
  case (Now f)
  then show ?case by (fastforce split: prod.splits)
qed (auto simp: emit_def split: prod.splits)

lemma exec_andThen:
  "exec E (andThen p g) w =
     (case exec E p w of (x, t1, w1) \<Rightarrow> case exec E (g x) w1 of (r, t2, w2) \<Rightarrow> (r, t1 @ t2, w2))"
  by (induction p arbitrary: w) (auto simp: emit_def split: prod.splits)

text \<open>Every program comes to an end with a result: for each there is a run.\<close>

lemma runs_exists: "\<exists>r tr. runs p r tr"
  by (induction p) (fastforce simp: image_iff)+

end
