(* ===== verification/Client.thy ===== *)
theory Client
  imports Effects
begin

text \<open>
  How the tier reconcilers write objects (\<^verbatim>\<open>createOrUpdate\<close>, \<^verbatim>\<open>createOrUpdateUnstructured\<close>,
  \<^verbatim>\<open>ensureNamespace\<close> of \<^verbatim>\<open>internal/controller/*_reconciler.go\<close>) and the contract they share: a write
  that returns no error stored the object, a write that returns an error returns one the API
  server gave, a write touches no other object and makes a bounded number of calls.
\<close>

section \<open>Writing one object\<close>

subsection \<open>Infrastructure tier: no retry\<close>

definition infra_createOrUpdate :: "k8s_object \<Rightarrow> goerror option prog" where
  "infra_createOrUpdate obj =
     Get (obj_kind obj) (obj_namespace obj) (obj_name obj) (\<lambda>a. case a of
       Inl err \<Rightarrow> if IsNotFound err then Create obj Ret else Ret (Some err)
     | Inr existing \<Rightarrow> Update (SetResourceVersion (obj_resource_version existing) obj) Ret)"

definition infra_createOrUpdateUnstructured :: "unstructured \<Rightarrow> goerror option prog" where
  "infra_createOrUpdateUnstructured u =
     Get (KUnstructured (u_api_version u) (u_kind u)) (u_namespace u) (u_name u) (\<lambda>a. case a of
       Inl err \<Rightarrow> if IsNotFound err then Create (UnstructuredObj u) Ret else Ret (Some err)
     | Inr existing \<Rightarrow> Update (SetResourceVersion (obj_resource_version existing) (UnstructuredObj u)) Ret)"

subsection \<open>Core and REST tiers: one retry after a conflict\<close>

definition core_createOrUpdate :: "k8s_object \<Rightarrow> goerror option prog" where
  "core_createOrUpdate obj =
     Get (obj_kind obj) (obj_namespace obj) (obj_name obj) (\<lambda>a. case a of
       Inl err \<Rightarrow> if IsNotFound err then Create obj Ret else Ret (Some err)
     | Inr existing \<Rightarrow>
         (let obj1 = SetResourceVersion (obj_resource_version existing) obj in
          Update obj1 (\<lambda>updateErr. case updateErr of
            Some e \<Rightarrow>
              if IsConflict e then
                Get (obj_kind obj1) (obj_namespace obj1) (obj_name obj1) (\<lambda>b. case b of
                  Inl err \<Rightarrow> Ret (Some err)
                | Inr existing2 \<Rightarrow> Update (SetResourceVersion (obj_resource_version existing2) obj1) Ret)
              else Ret (Some e)
          | None \<Rightarrow> Ret None)))"

definition core_createOrUpdateUnstructured :: "unstructured \<Rightarrow> goerror option prog" where
  "core_createOrUpdateUnstructured u =
     Get (KUnstructured (u_api_version u) (u_kind u)) (u_namespace u) (u_name u) (\<lambda>a. case a of
       Inl err \<Rightarrow> if IsNotFound err then Create (UnstructuredObj u) Ret else Ret (Some err)
     | Inr existing \<Rightarrow>
         (let obj1 = SetResourceVersion (obj_resource_version existing) (UnstructuredObj u) in
          Update obj1 (\<lambda>updateErr. case updateErr of
            Some e \<Rightarrow>
              if IsConflict e then
                Get (obj_kind obj1) (obj_namespace obj1) (obj_name obj1) (\<lambda>b. case b of
                  Inl err \<Rightarrow> Ret (Some err)
                | Inr existing2 \<Rightarrow> Update (SetResourceVersion (obj_resource_version existing2) obj1) Ret)
              else Ret (Some e)
          | None \<Rightarrow> Ret None)))"

text \<open>The REST reconciler has the same two methods, word for word.\<close>

definition rest_createOrUpdate :: "k8s_object \<Rightarrow> goerror option prog" where
  "rest_createOrUpdate obj = core_createOrUpdate obj"

definition rest_createOrUpdateUnstructured :: "unstructured \<Rightarrow> goerror option prog" where
  "rest_createOrUpdateUnstructured u = core_createOrUpdateUnstructured u"

subsection \<open>Namespaces\<close>

definition infra_ensureNamespace :: "string \<Rightarrow> goerror option prog" where
  "infra_ensureNamespace name =
     Get KNamespace [] name (\<lambda>a. case a of
       Inr _ \<Rightarrow> Ret None
     | Inl err \<Rightarrow>
         if \<not> IsNotFound err then Ret (Some err)
         else Create (NamespaceObj (mk_meta name [] [''app.kubernetes.io/managed-by'' \<mapsto> ''carbide-operator''] [])) Ret)"

definition core_ensureNamespace :: "string \<Rightarrow> goerror option prog" where
  "core_ensureNamespace name =
     Get KNamespace [] name (\<lambda>a. case a of
       Inr _ \<Rightarrow> Ret None
     | Inl err \<Rightarrow>
         if \<not> IsNotFound err then Ret (Some err)
         else Create (NamespaceObj (mk_meta name []
                [''app.kubernetes.io/managed-by'' \<mapsto> ''carbide-operator'',
                 ''kubernetes.io/metadata.name'' \<mapsto> name] [])) Ret)"

section \<open>The contract of a write\<close>

definition written :: "k8s_object \<Rightarrow> event list \<Rightarrow> bool" where
  "written x tr \<longleftrightarrow> ECreate x None \<in> set tr \<or> (\<exists>v. EUpdate (SetResourceVersion v x) None \<in> set tr)"

text \<open>The error an event answered with, if any, and the object key it is about.\<close>

fun event_error :: "event \<Rightarrow> goerror option" where
  "event_error (EGet k ns n (Inl e)) = Some e"
| "event_error (EList k ns ls (Inl e)) = Some e"
| "event_error (ECreate x (Some e)) = Some e"
| "event_error (EUpdate x (Some e)) = Some e"
| "event_error (EStatusUpdate d (Some e)) = Some e"
| "event_error (EProbe q (Some e)) = Some e"
| "event_error (EHttp u (Inl e)) = Some e"
| "event_error _ = None"

fun touches :: "object_key \<Rightarrow> event \<Rightarrow> bool" where
  "touches key (EGet k ns n a) \<longleftrightarrow> (k, ns, n) = key"
| "touches key (ECreate x a) \<longleftrightarrow> obj_key x = key"
| "touches key (EUpdate x a) \<longleftrightarrow> obj_key x = key"
| "touches key _ \<longleftrightarrow> False"

fun writes_key :: "event \<Rightarrow> object_key option" where
  "writes_key (ECreate x a) = Some (obj_key x)"
| "writes_key (EUpdate x a) = Some (obj_key x)"
| "writes_key _ = None"

lemma u_set_metadata_last [simp]: "u_set_metadata k v (u_set_metadata k v' u) = u_set_metadata k v u"
  by (simp add: u_set_metadata_def [of k v "u_set_metadata k v' u"]) (simp add: u_set_metadata_def)

lemma SetResourceVersion_last [simp]: "SetResourceVersion v (SetResourceVersion v' x) = SetResourceVersion v x"
  by (cases x) (simp_all add: set_rv_def)

lemma obj_sel_SetResourceVersion [simp]:
  "obj_kind (SetResourceVersion v x) = obj_kind x"
  "obj_namespace (SetResourceVersion v x) = obj_namespace x"
  "obj_name (SetResourceVersion v x) = obj_name x"
  using obj_key_SetResourceVersion [of v x] by (simp_all add: obj_key_def)

lemma written_append [simp]: "written x (t1 @ t2) \<longleftrightarrow> written x t1 \<or> written x t2"
  by (auto simp: written_def)

lemma written_Nil [simp]: "\<not> written x []"
  by (simp add: written_def)

text \<open>
  The contract, for any way of writing objects of a type \<open>'a\<close>: the retry policy shows only in the
  bound on the calls.
\<close>

locale writer =
  fixes put :: "'a \<Rightarrow> goerror option prog"
    and as_object :: "'a \<Rightarrow> k8s_object"
    and calls :: nat
  assumes write_ok: "runs (put x) None tr \<Longrightarrow> written (as_object x) tr"
    and write_error: "runs (put x) (Some e) tr \<Longrightarrow> tr \<noteq> [] \<and> event_error (last tr) = Some e"
    and write_touches: "runs (put x) r tr \<Longrightarrow> list_all (touches (obj_key (as_object x))) tr"
    and write_bound: "runs (put x) r tr \<Longrightarrow> length tr \<le> calls"
begin

lemma write_all:
  assumes "runs (forEach xs (\<lambda>i. put (f i))) None tr" and "i \<in> set xs"
  shows "written (as_object (f i)) tr"
proof -
  from runs_forEach_None [OF assms] obtain t1 t2 t3
    where "tr = t1 @ t2 @ t3" "runs (put (f i)) None t2" by blast
  then show ?thesis using write_ok by simp
qed

lemma write_some_failed:
  assumes "runs (forEach xs (\<lambda>i. put (f i))) (Some (i, e)) tr"
  shows "i \<in> set xs \<and> event_error (last tr) = Some e"
proof -
  from runs_forEach_Some [OF assms] obtain t1 t2
    where t: "i \<in> set xs" "tr = t1 @ t2" "runs (put (f i)) (Some e) t2" by blast
  with write_error [OF t(3)] show ?thesis by simp
qed

lemma write_onlyDoes: "onlyDoes (touches (obj_key (as_object x))) (put x)"
  using write_touches by (auto simp: onlyDoes_def)

end

lemma retry_ok: "runs (core_createOrUpdate x) None tr \<Longrightarrow> written x tr"
  by (auto simp: core_createOrUpdate_def written_def Let_def split_sum_ex split_option_ex split: if_splits)

lemma retry_error: "runs (core_createOrUpdate x) (Some e) tr \<Longrightarrow> tr \<noteq> [] \<and> event_error (last tr) = Some e"
  by (auto simp: core_createOrUpdate_def Let_def split_sum_ex split_option_ex split: if_splits)

lemma retry_touches: "runs (core_createOrUpdate x) r tr \<Longrightarrow> list_all (touches (obj_key x)) tr"
  by (auto simp: core_createOrUpdate_def obj_key_def Let_def split_sum_ex split_option_ex split: if_splits)

lemma retry_bound: "runs (core_createOrUpdate x) r tr \<Longrightarrow> length tr \<le> 4"
  by (auto simp: core_createOrUpdate_def Let_def split_sum_ex split_option_ex split: if_splits)

lemma core_unstructured_same: "core_createOrUpdateUnstructured u = core_createOrUpdate (UnstructuredObj u)"
  by (simp add: core_createOrUpdateUnstructured_def core_createOrUpdate_def)

lemma infra_unstructured_same: "infra_createOrUpdateUnstructured u = infra_createOrUpdate (UnstructuredObj u)"
  by (simp add: infra_createOrUpdateUnstructured_def infra_createOrUpdate_def)

interpretation infra_write: writer infra_createOrUpdate id 2
  by unfold_locales
    (auto simp: infra_createOrUpdate_def written_def obj_key_def split_sum_ex split: if_splits)

interpretation infra_write_u: writer infra_createOrUpdateUnstructured UnstructuredObj 2
  unfolding infra_unstructured_same
  using infra_write.write_ok infra_write.write_error infra_write.write_touches infra_write.write_bound
  by unfold_locales simp_all

interpretation core_write: writer core_createOrUpdate id 4
  using retry_ok retry_error retry_touches retry_bound by unfold_locales simp_all

interpretation core_write_u: writer core_createOrUpdateUnstructured UnstructuredObj 4
  unfolding core_unstructured_same using retry_ok retry_error retry_touches retry_bound
  by unfold_locales simp_all

interpretation rest_write: writer rest_createOrUpdate id 4
  unfolding rest_createOrUpdate_def using retry_ok retry_error retry_touches retry_bound
  by unfold_locales simp_all

interpretation rest_write_u: writer rest_createOrUpdateUnstructured UnstructuredObj 4
  unfolding rest_createOrUpdateUnstructured_def core_unstructured_same
  using retry_ok retry_error retry_touches retry_bound by unfold_locales simp_all

section \<open>Properties\<close>

text \<open>
  C33: the contract of \<^verbatim>\<open>createOrUpdate\<close> in the core and REST tiers, against any API server and any
  interleaving of other clients: no error only after the server stored the object (with whatever
  resource version), an error only if the server answered the last call with it, no other object
  touched, and at most four calls, since a conflict is retried once.
\<close>
theorem write_contract:
  assumes "runs (core_createOrUpdate x) r tr \<or> runs (rest_createOrUpdate x) r tr"
  shows "(r = None \<longrightarrow> written x tr) \<and> (\<forall>e. r = Some e \<longrightarrow> event_error (last tr) = Some e) \<and>
    list_all (touches (obj_key x)) tr \<and> length tr \<le> 4"
  using assms retry_ok [of x tr] retry_error [of x _ tr] retry_touches [of x r tr] retry_bound [of x r tr]
  by (auto simp: rest_createOrUpdate_def)

text \<open>A write that another client overtakes once.\<close>

definition contested :: k8s_object where
  "contested = NamespaceObj (mk_meta ''site'' [] Map.empty [])"

definition contested_trace :: "event list" where
  "contested_trace =
     [EGet KNamespace [] ''site'' (Inr (SetResourceVersion ''7'' contested)),
      EUpdate (SetResourceVersion ''7'' contested) (Some (ConflictErr ''modified'')),
      EGet KNamespace [] ''site'' (Inr (SetResourceVersion ''8'' contested)),
      EUpdate (SetResourceVersion ''8'' contested) None]"

theorem write_contract_witness: "written contested contested_trace \<and> length contested_trace \<le> 4"
proof -
  have "runs (core_createOrUpdate contested) None contested_trace"
    by (simp add: core_createOrUpdate_def contested_def contested_trace_def set_rv_def mk_meta_def Let_def)
  with write_contract [of contested None contested_trace] show ?thesis by simp
qed

end
