(* ===== verification/Readiness.thy ===== *)
theory Readiness
  imports Effects
begin

text \<open>
  Readiness checks (\<^verbatim>\<open>internal/utils/readiness.go\<close>), operator detection
  (\<^verbatim>\<open>internal/utils/operators.go\<close>) and the detection of the TLS backends
  (\<^verbatim>\<open>DetectSPIRE\<close>, \<^verbatim>\<open>DetectCertManager\<close> of \<^verbatim>\<open>internal/resources/tls\<close>).

  Every check returns its zero value together with an error, so \<^verbatim>\<open>(bool, error)\<close> is \<open>goerror + bool\<close>.
\<close>

section \<open>Typed reads\<close>

text \<open>
  \<^verbatim>\<open>client.Get\<close> into a typed object; an answer that does not decode into the type is an error of the
  client.
\<close>

definition decodeErr :: goerror where
  "decodeErr = OtherErr ''no kind registered for the answer''"

definition get_object :: "kind \<Rightarrow> (k8s_object \<Rightarrow> 'a option) \<Rightarrow> string \<Rightarrow> string \<Rightarrow> (goerror + 'a) prog" where
  "get_object k dec ns n = Get k ns n (\<lambda>a. Ret (case a of
     Inl e \<Rightarrow> Inl e | Inr x \<Rightarrow> (case dec x of None \<Rightarrow> Inl decodeErr | Some y \<Rightarrow> Inr y)))"

fun as_deployment :: "k8s_object \<Rightarrow> deployment option" where
  "as_deployment (DeploymentObj x) = Some x" | "as_deployment _ = None"

fun as_daemon_set :: "k8s_object \<Rightarrow> daemon_set option" where
  "as_daemon_set (DaemonSetObj x) = Some x" | "as_daemon_set _ = None"

fun as_stateful_set :: "k8s_object \<Rightarrow> stateful_set option" where
  "as_stateful_set (StatefulSetObj x) = Some x" | "as_stateful_set _ = None"

fun as_job :: "k8s_object \<Rightarrow> job option" where
  "as_job (JobObj x) = Some x" | "as_job _ = None"

fun as_pod :: "k8s_object \<Rightarrow> pod option" where
  "as_pod (PodObj x) = Some x" | "as_pod _ = None"

fun as_secret :: "k8s_object \<Rightarrow> secret option" where
  "as_secret (SecretObj x) = Some x" | "as_secret _ = None"

fun as_config_map :: "k8s_object \<Rightarrow> config_map option" where
  "as_config_map (ConfigMapObj x) = Some x" | "as_config_map _ = None"

fun as_service :: "k8s_object \<Rightarrow> service option" where
  "as_service (ServiceObj x) = Some x" | "as_service _ = None"

fun as_pvc :: "k8s_object \<Rightarrow> pvc option" where
  "as_pvc (PVCObj x) = Some x" | "as_pvc _ = None"

fun as_storage_class :: "k8s_object \<Rightarrow> object_meta option" where
  "as_storage_class (StorageClassObj x) = Some x" | "as_storage_class _ = None"

fun as_crd :: "k8s_object \<Rightarrow> object_meta option" where
  "as_crd (CRDObj x) = Some x" | "as_crd _ = None"

fun as_unstructured :: "k8s_object \<Rightarrow> unstructured option" where
  "as_unstructured (UnstructuredObj x) = Some x" | "as_unstructured _ = None"

text \<open>The two shapes every check has: absent means not ready, any other error is returned.\<close>

definition check_object ::
    "kind \<Rightarrow> (k8s_object \<Rightarrow> 'a option) \<Rightarrow> string \<Rightarrow> string \<Rightarrow> ('a \<Rightarrow> goerror + bool) \<Rightarrow> (goerror + bool) prog" where
  "check_object k dec ns n verdict =
     tryThen (get_object k dec ns n)
       (\<lambda>e. Ret (if IsNotFound e then Inr False else Inl e))
       (\<lambda>x. Ret (verdict x))"

section \<open>Storage classes\<close>

definition ValidateStorageClass :: "string \<Rightarrow> goerror option prog" where
  "ValidateStorageClass name =
     (if name = [] then Ret None
      else tryThen (get_object KStorageClass as_storage_class [] name)
        (\<lambda>e. Ret (Some (if IsNotFound e then Errorf (''StorageClass '' @ quote name @ '' not found'')
                        else WrapErr (''failed to get StorageClass '' @ quote name @ '': '' @ err_text e) e)))
        (\<lambda>_. Ret None))"

fun first_default_class :: "k8s_object list \<Rightarrow> string option" where
  "first_default_class [] = None"
| "first_default_class (x # xs) =
     (case as_storage_class x of
        Some sc \<Rightarrow>
          if meta_annotations sc ''storageclass.kubernetes.io/is-default-class'' = Some ''true''
          then Some (meta_name sc) else first_default_class xs
      | None \<Rightarrow> first_default_class xs)"

definition GetDefaultStorageClass :: "(goerror + string) prog" where
  "GetDefaultStorageClass =
     ListObjects KStorageClass [] [] (\<lambda>a. Ret (case a of
       Inl e \<Rightarrow> Inl (WrapErr (''failed to list StorageClasses: '' @ err_text e) e)
     | Inr xs \<Rightarrow> (case first_default_class xs of
         Some n \<Rightarrow> Inr n | None \<Rightarrow> Inl (Errorf ''no default StorageClass found''))))"

section \<open>Workloads\<close>

definition deployment_ready :: "deployment \<Rightarrow> bool" where
  "deployment_ready d \<longleftrightarrow>
     (case dep_replicas d of
        None \<Rightarrow> False
      | Some n \<Rightarrow> dep_available d = n \<and> dep_updated d = n \<and>
          dep_observed_generation d \<ge> meta_generation (dep_meta d))"

definition IsDeploymentReady :: "string \<Rightarrow> string \<Rightarrow> (goerror + bool) prog" where
  "IsDeploymentReady ns n = check_object KDeployment as_deployment ns n (\<lambda>d. Inr (deployment_ready d))"

definition daemon_set_ready :: "daemon_set \<Rightarrow> bool" where
  "daemon_set_ready d \<longleftrightarrow>
     0 <s ds_desired d \<and> ds_ready d = ds_desired d \<and> ds_updated d = ds_desired d \<and>
     ds_observed_generation d \<ge> meta_generation (ds_meta d)"

definition IsDaemonSetReady :: "string \<Rightarrow> string \<Rightarrow> (goerror + bool) prog" where
  "IsDaemonSetReady ns n = check_object KDaemonSet as_daemon_set ns n (\<lambda>d. Inr (daemon_set_ready d))"

definition stateful_set_ready :: "stateful_set \<Rightarrow> bool" where
  "stateful_set_ready d \<longleftrightarrow>
     (case sts_replicas d of
        None \<Rightarrow> False
      | Some n \<Rightarrow> sts_ready d = n \<and> sts_current d = n \<and> sts_updated d = n \<and>
          sts_observed_generation d \<ge> meta_generation (sts_meta d))"

definition IsStatefulSetReady :: "string \<Rightarrow> string \<Rightarrow> (goerror + bool) prog" where
  "IsStatefulSetReady ns n = check_object KStatefulSet as_stateful_set ns n (\<lambda>d. Inr (stateful_set_ready d))"

fun job_verdict :: "string \<Rightarrow> string \<Rightarrow> (string \<times> string) list \<Rightarrow> goerror + bool" where
  "job_verdict ns n [] = Inr False"
| "job_verdict ns n ((ty, st) # cs) =
     (if ty = ''Complete'' \<and> st = ''True'' then Inr True
      else if ty = ''Failed'' \<and> st = ''True'' then Inl (Errorf (''job '' @ ns @ ''/'' @ n @ '' failed''))
      else job_verdict ns n cs)"

definition IsJobComplete :: "string \<Rightarrow> string \<Rightarrow> (goerror + bool) prog" where
  "IsJobComplete ns n = check_object KJob as_job ns n (\<lambda>j. job_verdict ns n (job_conditions j))"

definition pod_ready :: "pod \<Rightarrow> bool" where
  "pod_ready p \<longleftrightarrow> pod_phase p = ''Running'' \<and> list_ex (\<lambda>(ty, st). ty = ''Ready'' \<and> st = ''True'') (pod_conditions p)"

definition IsPodReady :: "string \<Rightarrow> string \<Rightarrow> (goerror + bool) prog" where
  "IsPodReady ns n = check_object KPod as_pod ns n (\<lambda>p. Inr (pod_ready p))"

definition count_ready :: "k8s_object list \<Rightarrow> nat" where
  "count_ready xs = length (filter (\<lambda>x. case as_pod x of None \<Rightarrow> False | Some p \<Rightarrow> pod_ready p) xs)"

definition ArePodsReady :: "string \<Rightarrow> (string \<times> string) list \<Rightarrow> (goerror + bool \<times> nat) prog" where
  "ArePodsReady ns ls =
     ListObjects KPod ns ls (\<lambda>a. Ret (case a of
       Inl e \<Rightarrow> Inl e
     | Inr xs \<Rightarrow> if xs = [] then Inr (False, 0) else Inr (count_ready xs = length xs, count_ready xs)))"

section \<open>Existence\<close>

definition IsSecretAvailable :: "string \<Rightarrow> string \<Rightarrow> (goerror + bool) prog" where
  "IsSecretAvailable ns n = check_object KSecret as_secret ns n (\<lambda>_. Inr True)"

definition IsConfigMapAvailable :: "string \<Rightarrow> string \<Rightarrow> (goerror + bool) prog" where
  "IsConfigMapAvailable ns n = check_object KConfigMap as_config_map ns n (\<lambda>_. Inr True)"

definition IsServiceAvailable :: "string \<Rightarrow> string \<Rightarrow> (goerror + bool) prog" where
  "IsServiceAvailable ns n = check_object KService as_service ns n (\<lambda>_. Inr True)"

definition IsPVCBound :: "string \<Rightarrow> string \<Rightarrow> (goerror + bool) prog" where
  "IsPVCBound ns n = check_object KPVC as_pvc ns n (\<lambda>p. Inr (pvc_phase p = ''Bound''))"

section \<open>Operator-managed components\<close>

text \<open>A status of another type is an error, which only this first lookup returns.\<close>

definition nestedErr :: goerror where
  "nestedErr = OtherErr ''accessor error: status is of another type''"

definition first_instance_ready :: "(string \<times> json) list \<Rightarrow> bool" where
  "first_instance_ready status \<longleftrightarrow>
     (case NestedSlice status ''instances'' of
        Found (JMap i # _) \<Rightarrow>
          (case (NestedInt64 i ''readyReplicas'', NestedInt64 i ''replicas'') of
             (Found ready, Found replicas) \<Rightarrow> ready > 0 \<and> ready = replicas
           | _ \<Rightarrow> False)
      | _ \<Rightarrow> False)"

definition pg_verdict :: "unstructured \<Rightarrow> goerror + bool" where
  "pg_verdict u =
     (case NestedMap (u_object u) ''status'' of
        Absent \<Rightarrow> Inr False
      | Mistyped \<Rightarrow> Inl nestedErr
      | Found status \<Rightarrow> Inr (first_instance_ready status))"

definition PostgresClusterKind :: kind where
  "PostgresClusterKind = KUnstructured ''postgres-operator.crunchydata.com/v1beta1'' ''PostgresCluster''"

definition IsPostgreSQLReady :: "string \<Rightarrow> string \<Rightarrow> (goerror + bool) prog" where
  "IsPostgreSQLReady ns n = check_object PostgresClusterKind as_unstructured ns n pg_verdict"

definition IsTemporalHelmReady :: "string \<Rightarrow> (goerror + bool) prog" where
  "IsTemporalHelmReady ns = IsDeploymentReady ns ''temporal-frontend''"

definition IsVaultReady :: "string \<Rightarrow> (goerror + bool) prog" where
  "IsVaultReady ns =
     tryThen (IsStatefulSetReady ns ''vault'') (\<lambda>e. Ret (Inl e)) (\<lambda>stsReady.
       if \<not> stsReady then Ret (Inr False)
       else tryThen (IsSecretAvailable ns ''vault-unseal-secret'') (\<lambda>e. Ret (Inl e)) (\<lambda>secretReady.
         Ret (Inr (stsReady \<and> secretReady))))"

definition is_ready_condition :: "json \<Rightarrow> bool" where
  "is_ready_condition c \<longleftrightarrow>
     (case c of
        JMap m \<Rightarrow> string_or_empty (NestedString m ''type'') = ''Ready'' \<and>
                  string_or_empty (NestedString m ''status'') = ''True''
      | _ \<Rightarrow> False)"

definition keycloak_verdict :: "unstructured \<Rightarrow> goerror + bool" where
  "keycloak_verdict u =
     (case NestedMap (u_object u) ''status'' of
        Found status \<Rightarrow>
          (case NestedSlice status ''conditions'' of
             Found cs \<Rightarrow> Inr (list_ex is_ready_condition cs)
           | _ \<Rightarrow> Inr False)
      | _ \<Rightarrow> Inr False)"

definition KeycloakKind :: kind where
  "KeycloakKind = KUnstructured ''k8s.keycloak.org/v2alpha1'' ''Keycloak''"

definition IsKeycloakReady :: "string \<Rightarrow> (goerror + bool) prog" where
  "IsKeycloakReady ns = check_object KeycloakKind as_unstructured ns ''carbide-keycloak'' keycloak_verdict"

section \<open>Operators and TLS backends\<close>

definition ValidateOperatorInstalled :: "string \<Rightarrow> goerror option prog" where
  "ValidateOperatorInstalled crdName =
     tryThen (get_object KCRD as_crd [] crdName)
       (\<lambda>e. Ret (Some (WrapErr (''operator CRD '' @ crdName @ '' not found: '' @ err_text e @
                                '' (operator may not be installed)'') e)))
       (\<lambda>_. Ret None)"

definition ValidatePostgresOperator :: "goerror option prog" where
  "ValidatePostgresOperator =
     checkThen (ValidateOperatorInstalled ''postgresclusters.postgres-operator.crunchydata.com'')
       (\<lambda>e. Ret (Some (WrapErr (''crunchy PostgreSQL operator not installed: '' @ err_text e @ nl @
          ''Install from: https://access.crunchydata.com/documentation/postgres-operator/latest/installation/'') e)))
       (Ret None)"

definition ValidateKeycloakOperator :: "goerror option prog" where
  "ValidateKeycloakOperator =
     checkThen (ValidateOperatorInstalled ''keycloaks.k8s.keycloak.org'')
       (\<lambda>e. Ret (Some (WrapErr (''keycloak operator not installed: '' @ err_text e @ nl @
          ''Install from OperatorHub or: https://www.keycloak.org/operator/installation'') e)))
       (checkThen (ValidateOperatorInstalled ''keycloakrealmimports.k8s.keycloak.org'')
         (\<lambda>e. Ret (Some (WrapErr (''keycloak operator CRD keycloakrealmimports not found: '' @ err_text e) e)))
         (Ret None))"

definition IsCRDAvailable :: "string \<Rightarrow> (goerror + bool) prog" where
  "IsCRDAvailable crdName =
     checkThen (ValidateOperatorInstalled crdName) (\<lambda>e. Ret (Inr False)) (Ret (Inr True))"

definition DetectSPIRE :: "(goerror + bool) prog" where
  "DetectSPIRE =
     check_object (KUnstructured ''storage.k8s.io/v1'' ''CSIDriver'') as_unstructured [] ''csi.spiffe.io'' (\<lambda>_. Inr True)"

definition DetectCertManager :: "(goerror + bool) prog" where
  "DetectCertManager =
     check_object (KUnstructured ''apiextensions.k8s.io/v1'' ''CustomResourceDefinition'') as_unstructured []
       ''certificates.cert-manager.io'' (\<lambda>_. Inr True)"

section \<open>The contract of a readiness check\<close>

text \<open>
  A check reads and never writes, and it answers yes only on the evidence of an object it has
  just read.
\<close>

fun is_read :: "event \<Rightarrow> bool" where
  "is_read (EGet k ns n a) = True"
| "is_read (EList k ns ls a) = True"
| "is_read _ = False"

text \<open>\<open>observed k dec ns n good tr\<close>: the trace contains a successful read of an object that is good.\<close>

definition observed ::
    "kind \<Rightarrow> (k8s_object \<Rightarrow> 'a option) \<Rightarrow> string \<Rightarrow> string \<Rightarrow> ('a \<Rightarrow> bool) \<Rightarrow> event list \<Rightarrow> bool" where
  "observed k dec ns n good tr \<longleftrightarrow> (\<exists>x y. EGet k ns n (Inr x) \<in> set tr \<and> dec x = Some y \<and> good y)"

lemma observed_append [simp]: "observed k dec ns n g (t1 @ t2) \<longleftrightarrow> observed k dec ns n g t1 \<or> observed k dec ns n g t2"
  by (auto simp: observed_def)

locale readiness_check =
  fixes check :: "(goerror + bool) prog"
    and evidence :: "event list \<Rightarrow> bool"
  assumes reads_only: "runs check r tr \<Longrightarrow> list_all is_read tr"
    and yes_evidence: "runs check (Inr True) tr \<Longrightarrow> evidence tr"
    and evidence_mono: "evidence tr \<Longrightarrow> evidence (t1 @ tr @ t2)"
begin

lemma yes_within: "runs check (Inr True) tr \<Longrightarrow> evidence (t1 @ tr @ t2)"
  using yes_evidence evidence_mono by blast

lemma no_writes: "onlyDoes is_read check"
  using reads_only by (auto simp: onlyDoes_def)

end

lemma runs_get_object:
  "runs (get_object k dec ns n) r tr \<longleftrightarrow>
     (\<exists>a. tr = [EGet k ns n a] \<and>
        r = (case a of Inl e \<Rightarrow> Inl e | Inr x \<Rightarrow> (case dec x of None \<Rightarrow> Inl decodeErr | Some y \<Rightarrow> Inr y)))"
  by (auto simp: get_object_def)

lemma check_object_eq:
  "check_object k dec ns n verdict = Get k ns n (\<lambda>a. Ret (case a of
     Inl e \<Rightarrow> if IsNotFound e then Inr False else Inl e
   | Inr x \<Rightarrow> (case dec x of None \<Rightarrow> Inl decodeErr | Some y \<Rightarrow> verdict y)))"
  by (auto simp: check_object_def tryThen_def get_object_def decodeErr_def fun_eq_iff split: sum.split option.split)

lemma runs_check_object:
  "runs (check_object k dec ns n verdict) r tr \<longleftrightarrow>
     (\<exists>a. tr = [EGet k ns n a] \<and>
        r = (case a of
               Inl e \<Rightarrow> if IsNotFound e then Inr False else Inl e
             | Inr x \<Rightarrow> (case dec x of None \<Rightarrow> Inl decodeErr | Some y \<Rightarrow> verdict y)))"
  by (auto simp: check_object_eq)

lemma check_object_contract: "readiness_check (check_object k dec ns n verdict) (observed k dec ns n (\<lambda>y. verdict y = Inr True))"
  by unfold_locales
    (auto simp: runs_check_object observed_def split_sum_ex split: option.splits if_splits)

interpretation deployment_check: readiness_check "IsDeploymentReady ns n"
    "observed KDeployment as_deployment ns n deployment_ready" for ns n
  using check_object_contract [of KDeployment as_deployment ns n "\<lambda>d. Inr (deployment_ready d)"]
  by (simp add: IsDeploymentReady_def)

interpretation daemon_set_check: readiness_check "IsDaemonSetReady ns n"
    "observed KDaemonSet as_daemon_set ns n daemon_set_ready" for ns n
  using check_object_contract [of KDaemonSet as_daemon_set ns n "\<lambda>d. Inr (daemon_set_ready d)"]
  by (simp add: IsDaemonSetReady_def)

interpretation stateful_set_check: readiness_check "IsStatefulSetReady ns n"
    "observed KStatefulSet as_stateful_set ns n stateful_set_ready" for ns n
  using check_object_contract [of KStatefulSet as_stateful_set ns n "\<lambda>d. Inr (stateful_set_ready d)"]
  by (simp add: IsStatefulSetReady_def)

interpretation job_check: readiness_check "IsJobComplete ns n"
    "observed KJob as_job ns n (\<lambda>j. job_verdict ns n (job_conditions j) = Inr True)" for ns n
  using check_object_contract [of KJob as_job ns n "\<lambda>j. job_verdict ns n (job_conditions j)"]
  by (simp add: IsJobComplete_def)

interpretation pod_check: readiness_check "IsPodReady ns n" "observed KPod as_pod ns n pod_ready" for ns n
  using check_object_contract [of KPod as_pod ns n "\<lambda>p. Inr (pod_ready p)"] by (simp add: IsPodReady_def)

interpretation secret_check: readiness_check "IsSecretAvailable ns n" "observed KSecret as_secret ns n (\<lambda>_. True)" for ns n
  using check_object_contract [of KSecret as_secret ns n "\<lambda>_. Inr True"] by (simp add: IsSecretAvailable_def)

interpretation config_map_check: readiness_check "IsConfigMapAvailable ns n"
    "observed KConfigMap as_config_map ns n (\<lambda>_. True)" for ns n
  using check_object_contract [of KConfigMap as_config_map ns n "\<lambda>_. Inr True"] by (simp add: IsConfigMapAvailable_def)

interpretation service_check: readiness_check "IsServiceAvailable ns n"
    "observed KService as_service ns n (\<lambda>_. True)" for ns n
  using check_object_contract [of KService as_service ns n "\<lambda>_. Inr True"] by (simp add: IsServiceAvailable_def)

interpretation pvc_check: readiness_check "IsPVCBound ns n"
    "observed KPVC as_pvc ns n (\<lambda>p. pvc_phase p = ''Bound'')" for ns n
  using check_object_contract [of KPVC as_pvc ns n "\<lambda>p. Inr (pvc_phase p = ''Bound'')"] by (simp add: IsPVCBound_def)

interpretation postgresql_check: readiness_check "IsPostgreSQLReady ns n"
    "observed PostgresClusterKind as_unstructured ns n (\<lambda>u. pg_verdict u = Inr True)" for ns n
  using check_object_contract [of PostgresClusterKind as_unstructured ns n pg_verdict] by (simp add: IsPostgreSQLReady_def)

interpretation temporal_check: readiness_check "IsTemporalHelmReady ns"
    "observed KDeployment as_deployment ns ''temporal-frontend'' deployment_ready" for ns
  unfolding IsTemporalHelmReady_def by (rule deployment_check.readiness_check_axioms)

interpretation keycloak_check: readiness_check "IsKeycloakReady ns"
    "observed KeycloakKind as_unstructured ns ''carbide-keycloak'' (\<lambda>u. keycloak_verdict u = Inr True)" for ns
  using check_object_contract [of KeycloakKind as_unstructured ns "''carbide-keycloak''" keycloak_verdict]
  by (simp add: IsKeycloakReady_def)

interpretation vault_check: readiness_check "IsVaultReady ns"
    "\<lambda>tr. observed KStatefulSet as_stateful_set ns ''vault'' stateful_set_ready tr \<and>
          observed KSecret as_secret ns ''vault-unseal-secret'' (\<lambda>_. True) tr" for ns
proof (unfold_locales, goal_cases)
  case (1 r tr)
  have "onlyDoes is_read (IsVaultReady ns)"
    unfolding IsVaultReady_def
    by (intro onlyDoes_intros stateful_set_check.no_writes secret_check.no_writes)
  with 1 show ?case by (simp add: onlyDoes_def)
next
  case (2 tr)
  then obtain t1 t2 where t: "tr = t1 @ t2" "runs (IsStatefulSetReady ns ''vault'') (Inr True) t1"
    "runs (IsSecretAvailable ns ''vault-unseal-secret'') (Inr True) t2"
    unfolding IsVaultReady_def by (auto elim!: runs_tryThenE split: if_splits)
  show ?case
    using stateful_set_check.yes_evidence [OF t(2)] secret_check.yes_evidence [OF t(3)] by (simp add: t(1))
qed auto

interpretation spire_check: readiness_check DetectSPIRE
    "observed (KUnstructured ''storage.k8s.io/v1'' ''CSIDriver'') as_unstructured [] ''csi.spiffe.io'' (\<lambda>_. True)"
  using check_object_contract [of "KUnstructured ''storage.k8s.io/v1'' ''CSIDriver''" as_unstructured "[]"
      "''csi.spiffe.io''" "\<lambda>_. Inr True"]
  by (simp add: DetectSPIRE_def)

interpretation cert_manager_check: readiness_check DetectCertManager
    "observed (KUnstructured ''apiextensions.k8s.io/v1'' ''CustomResourceDefinition'') as_unstructured []
       ''certificates.cert-manager.io'' (\<lambda>_. True)"
  using check_object_contract [of "KUnstructured ''apiextensions.k8s.io/v1'' ''CustomResourceDefinition''"
      as_unstructured "[]" "''certificates.cert-manager.io''" "\<lambda>_. Inr True"]
  by (simp add: DetectCertManager_def)

section \<open>Properties\<close>

lemma first_of_Cons:
  assumes "x \<noteq> a" "x \<noteq> b"
  shows "(\<exists>pre post. x # xs = pre @ a # post \<and> b \<notin> set pre) \<longleftrightarrow> (\<exists>pre post. xs = pre @ a # post \<and> b \<notin> set pre)"
proof
  assume "\<exists>pre post. x # xs = pre @ a # post \<and> b \<notin> set pre"
  then obtain pre post where p: "x # xs = pre @ a # post" "b \<notin> set pre" by blast
  with assms obtain pre' where "pre = x # pre'" by (cases pre) auto
  with p show "\<exists>pre post. xs = pre @ a # post \<and> b \<notin> set pre" by auto
next
  assume "\<exists>pre post. xs = pre @ a # post \<and> b \<notin> set pre"
  then obtain pre post where "xs = pre @ a # post" "b \<notin> set pre" by blast
  then have "x # xs = (x # pre) @ a # post \<and> b \<notin> set (x # pre)" using assms by simp
  then show "\<exists>pre post. x # xs = pre @ a # post \<and> b \<notin> set pre" by blast
qed

lemma first_of_other: "a \<noteq> b \<Longrightarrow> \<not> (\<exists>pre post. b # xs = pre @ a # post \<and> b \<notin> set pre)"
  by (auto simp: Cons_eq_append_conv)

lemma first_of_hd: "\<exists>pre post. a # xs = pre @ a # post \<and> b \<notin> set pre"
  by (rule exI [of _ "[]"]) simp

lemma job_verdict_first:
  "(job_verdict ns n cs = Inr True \<longleftrightarrow>
    (\<exists>pre post. cs = pre @ (''Complete'', ''True'') # post \<and> (''Failed'', ''True'') \<notin> set pre)) \<and>
   (isl (job_verdict ns n cs) \<longleftrightarrow>
    (\<exists>pre post. cs = pre @ (''Failed'', ''True'') # post \<and> (''Complete'', ''True'') \<notin> set pre))"
proof (induction ns n cs rule: job_verdict.induct)
  case (2 ns n ty st cs)
  note IH = this
  consider "(ty, st) = (''Complete'', ''True'')" | "(ty, st) = (''Failed'', ''True'')"
    | "(ty, st) \<noteq> (''Complete'', ''True'')" "(ty, st) \<noteq> (''Failed'', ''True'')" by blast
  then show ?case
  proof cases
    case 1
    then show ?thesis
      using first_of_hd [of "(''Complete'', ''True'')" cs "(''Failed'', ''True'')"]
        first_of_other [of "(''Failed'', ''True'')" "(''Complete'', ''True'')" cs] by simp
  next
    case 2
    then show ?thesis
      using first_of_hd [of "(''Failed'', ''True'')" cs "(''Complete'', ''True'')"]
        first_of_other [of "(''Complete'', ''True'')" "(''Failed'', ''True'')" cs] by simp
  next
    case 3
    then have eq: "job_verdict ns n ((ty, st) # cs) = job_verdict ns n cs" by auto
    show ?thesis
      unfolding eq first_of_Cons [OF 3] first_of_Cons [OF 3(2) 3(1)] using IH 3 by auto
  qed
qed simp

text \<open>
  A Job counts as complete exactly when it was found and, in the order of its conditions,
  Complete=True comes before any Failed=True; it is reported as failed exactly in the opposite
  order; a missing Job is neither.
\<close>
theorem IsJobComplete_exact:
  "runs (IsJobComplete ns n) r [EGet KJob ns n (Inr (JobObj j))] \<longleftrightarrow>
     r = job_verdict ns n (job_conditions j) \<and>
     (r = Inr True \<longleftrightarrow> (\<exists>pre post. job_conditions j = pre @ (''Complete'', ''True'') # post \<and>
        (''Failed'', ''True'') \<notin> set pre)) \<and>
     (isl r \<longleftrightarrow> (\<exists>pre post. job_conditions j = pre @ (''Failed'', ''True'') # post \<and>
        (''Complete'', ''True'') \<notin> set pre))"
  using job_verdict_first [of ns n "job_conditions j"] by (auto simp: IsJobComplete_def runs_check_object)

text \<open>
  Vault is reported ready only after a single pass that saw the StatefulSet with all its
  replicas ready, current and up to date and then the unseal secret; the check never writes.
\<close>
theorem IsVaultReady_sound:
  "runs (IsVaultReady ns) (Inr True) tr \<longleftrightarrow>
   (\<exists>x s y t. tr = [EGet KStatefulSet ns ''vault'' (Inr x), EGet KSecret ns ''vault-unseal-secret'' (Inr y)] \<and>
      as_stateful_set x = Some s \<and> stateful_set_ready s \<and> as_secret y = Some t)"
proof
  assume "runs (IsVaultReady ns) (Inr True) tr"
  then show "\<exists>x s y t. tr = [EGet KStatefulSet ns ''vault'' (Inr x), EGet KSecret ns ''vault-unseal-secret'' (Inr y)] \<and>
      as_stateful_set x = Some s \<and> stateful_set_ready s \<and> as_secret y = Some t"
    unfolding IsVaultReady_def IsStatefulSetReady_def IsSecretAvailable_def
    by (auto elim!: runs_tryThenE simp: runs_check_object split_sum_ex split: option.splits if_splits)
next
  assume "\<exists>x s y t. tr = [EGet KStatefulSet ns ''vault'' (Inr x), EGet KSecret ns ''vault-unseal-secret'' (Inr y)] \<and>
      as_stateful_set x = Some s \<and> stateful_set_ready s \<and> as_secret y = Some t"
  then obtain x s y t where *: "tr = [EGet KStatefulSet ns ''vault'' (Inr x)] @ [EGet KSecret ns ''vault-unseal-secret'' (Inr y)]"
    "as_stateful_set x = Some s" "stateful_set_ready s" "as_secret y = Some t" by auto
  have "runs (IsStatefulSetReady ns ''vault'') (Inr True) [EGet KStatefulSet ns ''vault'' (Inr x)]"
    "runs (IsSecretAvailable ns ''vault-unseal-secret'') (Inr True) [EGet KSecret ns ''vault-unseal-secret'' (Inr y)]"
    using * by (simp_all add: IsStatefulSetReady_def IsSecretAvailable_def runs_check_object)
  note vault = this
  have "runs (tryThen (IsSecretAvailable ns ''vault-unseal-secret'') (\<lambda>e. Ret (Inl e)) (\<lambda>b. Ret (Inr (True \<and> b))))
      (Inr True) ([EGet KSecret ns ''vault-unseal-secret'' (Inr y)] @ [])"
    by (rule runs_tryThen_ok [OF vault(2)]) simp
  then show "runs (IsVaultReady ns) (Inr True) tr"
    unfolding IsVaultReady_def *(1) using vault(1) by (intro runs_tryThen_ok) auto
qed

end
