(* ===== verification/Trace_Logic.thy ===== *)
theory Trace_Logic
  imports Client Readiness
begin

text \<open>
  A program logic for runs.  \<open>valid G h p Q\<close> says of every run of \<open>p\<close> that starts after the history
  \<open>h\<close>: each event \<open>e\<close> is issued at a history \<open>h'\<close> with \<open>G h' e\<close> (the guarantee, which states what must
  have happened before \<open>e\<close>), and the returned value and the final history satisfy \<open>Q\<close>.  The rules
  follow the structure of a program; what has once been observed or written stays so, hence every
  rule hands the continuation a history that extends the one before.
\<close>

primrec obeys :: "(event list \<Rightarrow> event \<Rightarrow> bool) \<Rightarrow> event list \<Rightarrow> event list \<Rightarrow> bool" where
  "obeys G h [] \<longleftrightarrow> True"
| "obeys G h (e # es) \<longleftrightarrow> G h e \<and> obeys G (h @ [e]) es"

definition valid ::
    "(event list \<Rightarrow> event \<Rightarrow> bool) \<Rightarrow> event list \<Rightarrow> 'r prog \<Rightarrow> ('r \<Rightarrow> event list \<Rightarrow> bool) \<Rightarrow> bool" where
  "valid G h p Q \<longleftrightarrow> (\<forall>r tr. runs p r tr \<longrightarrow> obeys G h tr \<and> Q r (h @ tr))"

lemma obeys_append: "obeys G h (t1 @ t2) \<longleftrightarrow> obeys G h t1 \<and> obeys G (h @ t1) t2"
  by (induction t1 arbitrary: h) auto

lemma obeysD: "obeys G h tr \<Longrightarrow> tr = pre @ e # post \<Longrightarrow> G (h @ pre) e"
  by (simp add: obeys_append)

lemma obeys_all: "list_all A tr \<Longrightarrow> (\<And>h' e. set h \<subseteq> set h' \<Longrightarrow> A e \<Longrightarrow> G h' e) \<Longrightarrow> obeys G h tr"
proof (induction tr arbitrary: h)
  case (Cons e es)
  have "obeys G (h @ [e]) es" using Cons.prems by (intro Cons.IH) auto
  with Cons.prems show ?case by simp
qed simp

lemma validD: "valid G h p Q \<Longrightarrow> runs p r tr \<Longrightarrow> Q r (h @ tr)"
  by (simp add: valid_def)

lemma valid_guarantee: "valid G h p Q \<Longrightarrow> runs p r (pre @ e # post) \<Longrightarrow> G (h @ pre) e"
  unfolding valid_def by (blast dest: obeysD)

section \<open>Rules\<close>

lemma valid_Ret: "Q x h \<Longrightarrow> valid G h (Ret x) Q"
  by (simp add: valid_def)

lemma valid_Now: "(\<And>t. valid G h (f t) Q) \<Longrightarrow> valid G h (Now f) Q"
  by (auto simp: valid_def)

lemma valid_RangeOrder: "(\<And>ks'. mset ks' = mset ks \<Longrightarrow> valid G h (f ks') Q) \<Longrightarrow> valid G h (RangeOrder ks f) Q"
  by (auto simp: valid_def)

lemma valid_weaken: "valid G h p R \<Longrightarrow> (\<And>r h'. set h \<subseteq> set h' \<Longrightarrow> R r h' \<Longrightarrow> Q r h') \<Longrightarrow> valid G h p Q"
  by (auto simp: valid_def)

lemma valid_andThen:
  assumes "valid G h p R" and "\<And>x h'. set h \<subseteq> set h' \<Longrightarrow> R x h' \<Longrightarrow> valid G h' (g x) Q"
  shows "valid G h (andThen p g) Q"
  unfolding valid_def
proof (intro allI impI)
  fix r tr
  assume "runs (andThen p g) r tr"
  then obtain x t1 t2 where t: "tr = t1 @ t2" "runs p x t1" "runs (g x) r t2" by (rule runs_andThenE)
  have 1: "obeys G h t1" "R x (h @ t1)" using assms(1) t(2) by (simp_all add: valid_def)
  then have "valid G (h @ t1) (g x) Q" by (intro assms(2)) auto
  with 1 t show "obeys G h tr \<and> Q r (h @ tr)" by (simp add: valid_def obeys_append)
qed

text \<open>
  The rule for a call of a smaller program that is specified by its runs alone: \<open>A\<close> bounds its events
  and \<open>F\<close> is what its success establishes.
\<close>

definition keeps :: "(event list \<Rightarrow> bool) \<Rightarrow> bool" where
  "keeps F \<longleftrightarrow> (\<forall>h h'. set h \<subseteq> set h' \<longrightarrow> F h \<longrightarrow> F h')"

lemma keepsD: "keeps F \<Longrightarrow> F h \<Longrightarrow> set h \<subseteq> set h' \<Longrightarrow> F h'"
  by (auto simp: keeps_def)

lemma keeps_written [simp]: "keeps (written x)"
  by (auto simp: keeps_def written_def)

lemma keeps_observed [simp]: "keeps (observed k dec ns n good)"
  by (auto simp: keeps_def observed_def)

lemma keeps_conj: "keeps F \<Longrightarrow> keeps F' \<Longrightarrow> keeps (\<lambda>h. F h \<and> F' h)"
  by (auto simp: keeps_def)

lemma keeps_imp: "(b \<Longrightarrow> keeps F) \<Longrightarrow> keeps (\<lambda>h. b \<longrightarrow> F h)"
  by (auto simp: keeps_def)

lemma keeps_const [simp]: "keeps (\<lambda>h. b)"
  by (auto simp: keeps_def)

lemma keeps_ball: "(\<And>x. x \<in> S \<Longrightarrow> keeps (F x)) \<Longrightarrow> keeps (\<lambda>h. \<forall>x\<in>S. F x h)"
  by (fastforce simp: keeps_def)

lemma keeps_ex: "(\<And>x. keeps (F x)) \<Longrightarrow> keeps (\<lambda>h. \<exists>x. F x h)"
  unfolding keeps_def by meson

lemma keeps_all: "(\<And>x. keeps (F x)) \<Longrightarrow> keeps (\<lambda>h. \<forall>x. F x h)"
  unfolding keeps_def by meson

lemmas keeps_intros = keeps_all keeps_written keeps_observed keeps_const keeps_conj keeps_imp keeps_ball keeps_ex

lemma grow_written: "set h \<subseteq> set h' \<Longrightarrow> written x h \<Longrightarrow> written x h'"
  by (rule keepsD [OF keeps_written])

lemma grow_observed: "set h \<subseteq> set h' \<Longrightarrow> observed k dec ns n good h \<Longrightarrow> observed k dec ns n good h'"
  by (rule keepsD [OF keeps_observed])

lemmas grows = grow_written grow_observed

definition spec_of :: "(event \<Rightarrow> bool) \<Rightarrow> 'r prog \<Rightarrow> ('r \<Rightarrow> event list \<Rightarrow> bool) \<Rightarrow> bool" where
  "spec_of A p F \<longleftrightarrow> onlyDoes A p \<and> (\<forall>r tr. runs p r tr \<longrightarrow> F r tr) \<and> (\<forall>r. keeps (F r))"

lemma valid_call:
  assumes "spec_of A p F" and "\<And>h' e. set h \<subseteq> set h' \<Longrightarrow> A e \<Longrightarrow> G h' e"
  shows "valid G h p F"
  unfolding valid_def
proof (intro allI impI)
  fix r tr
  assume r: "runs p r tr"
  then have "list_all A tr" "F r tr" using assms(1) by (auto simp: spec_of_def onlyDoes_def)
  moreover from assms(1) have "keeps (F r)" unfolding spec_of_def by blast
  then have "F r (h @ tr)" by (rule keepsD) (use \<open>F r tr\<close> in auto)
  moreover have "obeys G h tr" by (rule obeys_all [OF \<open>list_all A tr\<close>]) (rule assms(2))
  ultimately show "obeys G h tr \<and> F r (h @ tr)" by simp
qed

text \<open>With a fixed bound on the events, a specification can be built up by the rules as well.\<close>

lemma spec_ofI:
  assumes "valid (\<lambda>_. A) [] p F" and "\<And>r. keeps (F r)"
  shows "spec_of A p F"
proof -
  have all: "list_all A tr" if "obeys (\<lambda>_. A) h tr" for h tr
    using that by (induction tr arbitrary: h) auto
  have *: "obeys (\<lambda>_. A) [] tr \<and> F r tr" if "runs p r tr" for r tr
    using assms(1) that unfolding valid_def by simp
  show ?thesis
    unfolding spec_of_def onlyDoes_def using * all assms(2) by blast
qed

lemma valid_check:
  assumes "spec_of A p (\<lambda>r tr. r = Inr True \<longrightarrow> F tr)" and "\<And>h' e. set h \<subseteq> set h' \<Longrightarrow> A e \<Longrightarrow> G h' e"
    and "\<And>e h'. set h \<subseteq> set h' \<Longrightarrow> valid G h' (onErr e) Q"
    and "\<And>b h'. set h \<subseteq> set h' \<Longrightarrow> b \<longrightarrow> F h' \<Longrightarrow> valid G h' (g b) Q"
  shows "valid G h (tryThen p onErr g) Q"
  unfolding tryThen_def
  by (rule valid_andThen [OF valid_call [OF assms(1,2)]]) (auto split: sum.split intro: assms(3,4))

lemma valid_put:
  assumes "spec_of A p (\<lambda>r tr. r = None \<longrightarrow> F tr)" and "\<And>h' e. set h \<subseteq> set h' \<Longrightarrow> A e \<Longrightarrow> G h' e"
    and "\<And>e h'. set h \<subseteq> set h' \<Longrightarrow> valid G h' (onErr e) Q"
    and "\<And>h'. set h \<subseteq> set h' \<Longrightarrow> F h' \<Longrightarrow> valid G h' g Q"
  shows "valid G h (checkThen p onErr g) Q"
  unfolding checkThen_def
  by (rule valid_andThen [OF valid_call [OF assms(1,2)]]) (auto split: option.split intro: assms(3,4))

lemma valid_try:
  assumes "spec_of A p (\<lambda>r tr. \<forall>x. r = Inr x \<longrightarrow> F x tr)" and "\<And>h' e. set h \<subseteq> set h' \<Longrightarrow> A e \<Longrightarrow> G h' e"
    and "\<And>e h'. set h \<subseteq> set h' \<Longrightarrow> valid G h' (onErr e) Q"
    and "\<And>x h'. set h \<subseteq> set h' \<Longrightarrow> F x h' \<Longrightarrow> valid G h' (g x) Q"
  shows "valid G h (tryThen p onErr g) Q"
  unfolding tryThen_def
  by (rule valid_andThen [OF valid_call [OF assms(1,2)]]) (auto split: sum.split intro: assms(3,4))

lemma valid_if: "(b \<Longrightarrow> valid G h p Q) \<Longrightarrow> (\<not> b \<Longrightarrow> valid G h q Q) \<Longrightarrow> valid G h (if b then p else q) Q"
  by simp

lemma valid_option:
  "(x = None \<Longrightarrow> valid G h p Q) \<Longrightarrow> (\<And>y. x = Some y \<Longrightarrow> valid G h (q y) Q) \<Longrightarrow> valid G h (case_option p q x) Q"
  by (cases x) simp_all

section \<open>What the reads and writes of the operator do\<close>

text \<open>\<open>about K\<close>: a read of any object, or a write of an object whose key is in \<open>K\<close>.\<close>

fun about :: "object_key set \<Rightarrow> event \<Rightarrow> bool" where
  "about K (ECreate x a) \<longleftrightarrow> obj_key x \<in> K"
| "about K (EUpdate x a) \<longleftrightarrow> obj_key x \<in> K"
| "about K (EGet k ns n a) \<longleftrightarrow> True"
| "about K (EList k ns ls a) \<longleftrightarrow> True"
| "about K (EProbe q a) \<longleftrightarrow> True"
| "about K (EHttp u a) \<longleftrightarrow> True"
| "about K (EStatusUpdate d a) \<longleftrightarrow> False"
| "about K (ERecord t r m) \<longleftrightarrow> False"

lemma about_mono: "K \<subseteq> K' \<Longrightarrow> about K e \<Longrightarrow> about K' e"
  by (cases e) auto

lemma about_read: "is_read e \<Longrightarrow> about K e"
  by (cases e) auto

lemma about_touches: "touches key e \<Longrightarrow> key \<in> K \<Longrightarrow> about K e"
  by (cases e) auto

lemma spec_of_mono:
  "spec_of A p F \<Longrightarrow> (\<And>e. A e \<Longrightarrow> A' e) \<Longrightarrow> spec_of A' p F"
  unfolding spec_of_def using onlyDoes_weaken by blast

lemma spec_of_about: "spec_of (about K) p F \<Longrightarrow> K \<subseteq> K' \<Longrightarrow> spec_of (about K') p F"
  by (erule spec_of_mono) (rule about_mono)

context writer
begin

lemma put_spec: "spec_of (about {obj_key (as_object x)}) (put x) (\<lambda>r tr. r = None \<longrightarrow> written (as_object x) tr)"
  unfolding spec_of_def
proof (intro conjI allI impI)
  show "onlyDoes (about {obj_key (as_object x)}) (put x)"
    by (rule onlyDoes_weaken [OF write_onlyDoes]) (auto elim: about_touches)
  show "keeps (\<lambda>tr. r = None \<longrightarrow> written (as_object x) tr)" for r :: "goerror option"
    by (intro keeps_intros)
qed (simp add: write_ok)

lemma put_each_spec:
  "spec_of (about ((\<lambda>i. obj_key (as_object (f i))) ` set xs)) (forEach xs (\<lambda>i. put (f i)))
     (\<lambda>r tr. r = None \<longrightarrow> (\<forall>i\<in>set xs. written (as_object (f i)) tr))"
  unfolding spec_of_def
proof (intro conjI allI impI)
  show "onlyDoes (about ((\<lambda>i. obj_key (as_object (f i))) ` set xs)) (forEach xs (\<lambda>i. put (f i)))"
    by (rule onlyDoes_forEach, rule onlyDoes_weaken [OF write_onlyDoes]) (auto elim: about_touches)
  show "keeps (\<lambda>tr. r = None \<longrightarrow> (\<forall>i\<in>set xs. written (as_object (f i)) tr))" for r :: "('b \<times> goerror) option"
    by (intro keeps_intros)
qed (blast intro: write_all)

end

context readiness_check
begin

lemma check_spec:
  assumes "keeps evidence"
  shows "spec_of (about K) check (\<lambda>r tr. r = Inr True \<longrightarrow> evidence tr)"
  unfolding spec_of_def
proof (intro conjI allI impI)
  show "onlyDoes (about K) check"
    by (rule onlyDoes_weaken [OF no_writes]) (rule about_read)
  show "keeps (\<lambda>tr. r = Inr True \<longrightarrow> evidence tr)" for r :: "goerror + bool"
    by (rule keeps_imp) (rule assms)
qed (simp add: yes_evidence)

end

subsection \<open>Namespaces\<close>

text \<open>The namespace was found, or created with success.\<close>

definition ensured :: "string \<Rightarrow> event list \<Rightarrow> bool" where
  "ensured ns tr \<longleftrightarrow> (\<exists>x. EGet KNamespace [] ns (Inr x) \<in> set tr) \<or>
     (\<exists>m. meta_name m = ns \<and> ECreate (NamespaceObj m) None \<in> set tr)"

lemma keeps_ensured [simp]: "keeps (ensured ns)"
  by (auto simp: keeps_def ensured_def)

lemma runs_ensure:
  "runs (Get KNamespace [] ns (\<lambda>a. case a of
      Inr _ \<Rightarrow> Ret None
    | Inl err \<Rightarrow> if \<not> IsNotFound err then Ret (Some err) else Create (NamespaceObj (mk_meta ns [] ls [])) Ret)) r tr \<Longrightarrow>
   list_all (about {(KNamespace, [], ns)}) tr \<and> (r = None \<longrightarrow> ensured ns tr)"
  by (auto simp: split_sum_ex ensured_def obj_key_def split: if_splits)

lemma infra_namespace_spec:
  "spec_of (about {(KNamespace, [], ns)}) (infra_ensureNamespace ns) (\<lambda>r tr. r = None \<longrightarrow> ensured ns tr)"
  unfolding spec_of_def onlyDoes_def infra_ensureNamespace_def
  by (intro conjI allI keeps_imp keeps_ensured) (blast dest: runs_ensure)+

lemma core_namespace_spec:
  "spec_of (about {(KNamespace, [], ns)}) (core_ensureNamespace ns) (\<lambda>r tr. r = None \<longrightarrow> ensured ns tr)"
  unfolding spec_of_def onlyDoes_def core_ensureNamespace_def
  by (intro conjI allI keeps_imp keeps_ensured) (blast dest: runs_ensure)+

end
