(* ===== verification/External.thy ===== *)
theory External
  imports Readiness
begin

text \<open>
  Validation of external services (\<^verbatim>\<open>internal/utils/external.go\<close>) and the two functions of Go's
  \<^verbatim>\<open>net\<close> package it uses on endpoints.  Dialling, opening and pinging a database and sending an
  HTTP request are calls of the environment.
\<close>

section \<open>Host and port\<close>

definition colon :: char where "colon = CHR '':''"
definition lbracket :: char where "lbracket = CHR 0x5B"
definition rbracket :: char where "rbracket = CHR 0x5D"

text \<open>Splitting at the last colon: what comes before it and what comes after.\<close>

definition split_last_colon :: "string \<Rightarrow> (string \<times> string) option" where
  "split_last_colon s =
     (if colon \<in> set s then
        Some (butlast (rev (dropWhile (\<lambda>c. c \<noteq> colon) (rev s))), rev (takeWhile (\<lambda>c. c \<noteq> colon) (rev s)))
      else None)"

text \<open>
  \<^verbatim>\<open>net.SplitHostPort\<close>: \<open>host:port\<close> or \<open>[host]:port\<close>; the port follows the last colon.
\<close>

definition addrErr :: "string \<Rightarrow> string \<Rightarrow> goerror" where
  "addrErr a why = OtherErr (''address '' @ a @ '': '' @ why)"

definition SplitHostPort :: "string \<Rightarrow> goerror + string \<times> string" where
  "SplitHostPort s =
     (case split_last_colon s of
        None \<Rightarrow> Inl (addrErr s ''missing port in address'')
      | Some (before, port) \<Rightarrow>
          if s \<noteq> [] \<and> hd s = lbracket then
            (if rbracket \<notin> set s then Inl (addrErr s ''missing bracket in address'')
             else
               (let host = takeWhile (\<lambda>c. c \<noteq> rbracket) (tl s);
                    after = tl (dropWhile (\<lambda>c. c \<noteq> rbracket) (tl s))
                in if after = [] then Inl (addrErr s ''missing port in address'')
                   else if after = colon # port then
                     (if lbracket \<in> set (tl s) then Inl (addrErr s ''unexpected bracket in address'')
                      else if rbracket \<in> set after then Inl (addrErr s ''unexpected bracket in address'')
                      else Inr (host, port))
                   else if hd after = colon then Inl (addrErr s ''too many colons in address'')
                   else Inl (addrErr s ''missing port in address'')))
          else
            (if colon \<in> set before then Inl (addrErr s ''too many colons in address'')
             else if lbracket \<in> set s \<or> rbracket \<in> set s then Inl (addrErr s ''unexpected bracket in address'')
             else Inr (before, port)))"

definition JoinHostPort :: "string \<Rightarrow> string \<Rightarrow> string" where
  "JoinHostPort host port =
     (if colon \<in> set host then [lbracket] @ host @ [rbracket, colon] @ port else host @ [colon] @ port)"

section \<open>PostgreSQL\<close>

definition connString :: "string \<Rightarrow> int32 \<Rightarrow> string \<Rightarrow> string \<Rightarrow> string \<Rightarrow> string \<Rightarrow> string" where
  "connString host port username password dbname sslMode =
     ''host='' @ host @ '' port='' @ show_int32 port @ '' user='' @ username @ '' password='' @ password @
     '' dbname='' @ dbname @ '' sslmode='' @ sslMode @ '' connect_timeout=10''"

text \<open>Indexing \<^verbatim>\<open>secret.Data\<close>: an absent key reads as the empty value.\<close>

definition data_get :: "secret \<Rightarrow> string \<Rightarrow> string" where
  "data_get s k = (case secret_data s k of None \<Rightarrow> [] | Some v \<Rightarrow> v)"

definition get_secret :: "string \<Rightarrow> string \<Rightarrow> (goerror + secret) prog" where
  "get_secret ns n = get_object KSecret as_secret ns n"

definition checkUserSecret :: "string \<Rightarrow> (string \<times> secret_ref) list \<Rightarrow> string \<Rightarrow> goerror option prog" where
  "checkUserSecret ns us userName =
     (case map_of us userName of
        None \<Rightarrow> Ret None
      | Some ref \<Rightarrow>
          tryThen (get_secret ns (sr_name ref))
            (\<lambda>e. Ret (Some (WrapErr (''failed to get PostgreSQL user secret for '' @ userName @ '': '' @ err_text e) e)))
            (\<lambda>_. Ret None))"

definition pingWith :: "external_pg_connection \<Rightarrow> int32 \<Rightarrow> string \<Rightarrow> secret_ref \<Rightarrow> secret \<Rightarrow> goerror option prog" where
  "pingWith config port sslMode ref s =
     (let usernameKey = str_or (sr_username_key ref) ''username'';
          passwordKey = str_or (sr_password_key ref) ''password'';
          dbname = str_or (data_get s ''dbname'') ''postgres'';
          connStr = connString (pgc_host config) port (data_get s usernameKey) (data_get s passwordKey) dbname sslMode
      in Probe (SqlOpen connStr) (\<lambda>opened. case opened of
           Some e \<Rightarrow> Ret (Some (WrapErr (''failed to open PostgreSQL connection: '' @ err_text e) e))
         | None \<Rightarrow> Probe (SqlPing connStr) (\<lambda>p. case p of
             Some e \<Rightarrow> Ret (Some (WrapErr (''failed to ping PostgreSQL at '' @ pgc_host config @ '':'' @
                         show_int32 port @ '': '' @ err_text e) e))
           | None \<Rightarrow> Ret None)))"

text \<open>
  The second loop: the first user whose secret can be read decides; \<open>None\<close> means that the loop
  ran out of users.
\<close>

primrec testFirst ::
    "string \<Rightarrow> external_pg_connection \<Rightarrow> int32 \<Rightarrow> string \<Rightarrow> string list \<Rightarrow> goerror option option prog" where
  "testFirst ns config port sslMode [] = Ret None"
| "testFirst ns config port sslMode (u # us) =
     (case map_of (pgc_user_secrets config) u of
        None \<Rightarrow> testFirst ns config port sslMode us
      | Some ref \<Rightarrow>
          tryThen (get_secret ns (sr_name ref))
            (\<lambda>_. testFirst ns config port sslMode us)
            (\<lambda>s. andThen (pingWith config port sslMode ref s) (\<lambda>r. Ret (Some r))))"

definition dialPostgreSQL :: "external_pg_connection \<Rightarrow> int32 \<Rightarrow> goerror option prog" where
  "dialPostgreSQL config port =
     Probe (DialTCP (pgc_host config @ '':'' @ show_int32 port)) (\<lambda>r. Ret (case r of
       Some e \<Rightarrow> Some (WrapErr (''failed to connect to PostgreSQL at '' @ pgc_host config @ '':'' @ show_int32 port @
                   '': '' @ err_text e) e)
     | None \<Rightarrow> None))"

definition ValidateExternalPostgreSQL ::
    "string \<Rightarrow> external_pg_connection option \<Rightarrow> goerror option prog" where
  "ValidateExternalPostgreSQL ns conn =
     (case conn of
        None \<Rightarrow> Ret (Some (Errorf ''external PostgreSQL connection config is nil''))
      | Some config \<Rightarrow>
          (let port = int_or (pgc_port config) 5432;
               sslMode = str_or (pgc_ssl_mode config) ''require'';
               users = remdups (map fst (pgc_user_secrets config))
           in if users \<noteq> [] then
                RangeOrder users (\<lambda>order1.
                  andThen (forEach order1 (checkUserSecret ns (pgc_user_secrets config))) (\<lambda>r1. case r1 of
                    Some (_, e) \<Rightarrow> Ret (Some e)
                  | None \<Rightarrow>
                      RangeOrder users (\<lambda>order2.
                        andThen (testFirst ns config port sslMode order2) (\<lambda>r2. case r2 of
                          Some res \<Rightarrow> Ret res
                        | None \<Rightarrow> dialPostgreSQL config port))))
              else dialPostgreSQL config port))"

section \<open>Temporal and Keycloak\<close>

definition ValidateExternalTemporal :: "string \<Rightarrow> goerror option prog" where
  "ValidateExternalTemporal endpoint =
     (if endpoint = [] then Ret (Some (Errorf ''temporal endpoint is empty''))
      else case SplitHostPort endpoint of
        Inl e \<Rightarrow> Ret (Some (WrapErr (''invalid Temporal endpoint format '' @ quote endpoint @ '': '' @ err_text e) e))
      | Inr (host, port) \<Rightarrow>
          Probe (DialTCP (JoinHostPort host port)) (\<lambda>r. Ret (case r of
            Some e \<Rightarrow> Some (WrapErr (''failed to connect to Temporal at '' @ endpoint @ '': '' @ err_text e) e)
          | None \<Rightarrow> None)))"

definition checkClientSecret :: "string \<Rightarrow> secret_ref option \<Rightarrow> goerror option prog" where
  "checkClientSecret ns clientSecretRef =
     (case clientSecretRef of
        None \<Rightarrow> Ret None
      | Some ref \<Rightarrow>
          tryThen (get_secret ns (sr_name ref))
            (\<lambda>e. Ret (Some (WrapErr (''failed to get Keycloak client secret: '' @ err_text e) e)))
            (\<lambda>s. let secretKey = str_or (sr_key ref) ''client-secret'' in
              Ret (if secret_data s secretKey = None
                   then Some (Errorf (''client secret key '' @ quote secretKey @ '' not found in secret'')) else None)))"

definition ValidateExternalKeycloak ::
    "string \<Rightarrow> string \<Rightarrow> string \<Rightarrow> secret_ref option \<Rightarrow> goerror option prog" where
  "ValidateExternalKeycloak ns endpoint realm clientSecretRef =
     (if endpoint = [] then Ret (Some (Errorf ''keycloak endpoint is empty''))
      else if realm = [] then Ret (Some (Errorf ''keycloak realm is empty''))
      else checkThen (checkClientSecret ns clientSecretRef) (\<lambda>e. Ret (Some e))
        (let realmURL = endpoint @ ''/realms/'' @ realm in
         Probe (NewRequest realmURL) (\<lambda>q. case q of
           Some e \<Rightarrow> Ret (Some (WrapErr (''failed to create Keycloak realm check request: '' @ err_text e) e))
         | None \<Rightarrow> HttpDo realmURL (\<lambda>resp. Ret (case resp of
             Inl e \<Rightarrow> Some (WrapErr (''failed to connect to Keycloak at '' @ endpoint @ '': '' @ err_text e) e)
           | Inr code \<Rightarrow>
               if code \<noteq> 200 then
                 Some (Errorf (''keycloak realm '' @ quote realm @ '' not accessible at '' @ endpoint @
                   '' (status: '' @ show_int code @ '')''))
               else None)))))"

definition GetSecretValue :: "string \<Rightarrow> secret_ref \<Rightarrow> string \<Rightarrow> (goerror + string) prog" where
  "GetSecretValue ns ref defaultKey =
     tryThen (get_secret ns (sr_name ref))
       (\<lambda>e. Ret (Inl (WrapErr (''failed to get secret '' @ sr_name ref @ '': '' @ err_text e) e)))
       (\<lambda>s. let key = str_or (sr_key ref) defaultKey in
         case secret_data s key of
           None \<Rightarrow> Ret (Inl (Errorf (''key '' @ quote key @ '' not found in secret '' @ sr_name ref)))
         | Some v \<Rightarrow> Ret (Inr v))"

section \<open>Lemmas\<close>

lemma takeWhile_to: "x \<notin> set h \<Longrightarrow> takeWhile (\<lambda>c. c \<noteq> x) (h @ x # t) = h"
  by (induction h) auto

lemma dropWhile_to: "x \<notin> set h \<Longrightarrow> dropWhile (\<lambda>c. c \<noteq> x) (h @ x # t) = x # t"
  by (induction h) auto

lemma split_last_colon_join:
  assumes "colon \<notin> set p"
  shows "split_last_colon (h @ [colon] @ p) = Some (h, p)"
  using assms takeWhile_to [of colon "rev p" "rev h"] dropWhile_to [of colon "rev p" "rev h"]
  by (simp add: split_last_colon_def)

text \<open>A secret read with success.\<close>

definition secret_read :: "string \<Rightarrow> string \<Rightarrow> event list \<Rightarrow> bool" where
  "secret_read ns n tr \<longleftrightarrow> observed KSecret as_secret ns n (\<lambda>_. True) tr"

lemma runs_get_secret_ok: "runs (get_secret ns n) (Inr s) tr \<Longrightarrow> secret_read ns n tr"
  by (auto simp: get_secret_def runs_get_object secret_read_def observed_def split_sum_ex split: option.splits)

lemma SplitHostPort_Join:
  assumes "colon \<notin> set p" and "lbracket \<notin> set (h @ p)" and "rbracket \<notin> set (h @ p)"
  shows "SplitHostPort (JoinHostPort h p) = Inr (h, p)"
proof (cases "colon \<in> set h")
  case False
  have ends: "hd (h @ [colon] @ p) \<noteq> lbracket" using assms by (cases h) (auto simp: colon_def lbracket_def)
  have plain: "lbracket \<notin> set (h @ [colon] @ p)" "rbracket \<notin> set (h @ [colon] @ p)"
    using assms by (auto simp: colon_def lbracket_def rbracket_def)
  have join: "JoinHostPort h p = h @ [colon] @ p" using False by (simp add: JoinHostPort_def)
  show ?thesis
    unfolding SplitHostPort_def join split_last_colon_join [OF assms(1)] using False ends plain by simp
next
  case True
  define s where "s = JoinHostPort h p"
  have s: "s = ([lbracket] @ h @ [rbracket]) @ [colon] @ p" using True by (simp add: s_def JoinHostPort_def)
  have split: "split_last_colon s = Some ([lbracket] @ h @ [rbracket], p)"
    unfolding s by (rule split_last_colon_join [OF assms(1)])
  have tls: "tl s = h @ rbracket # colon # p" and "hd s = lbracket" "s \<noteq> []" "rbracket \<in> set s"
    by (simp_all add: s)
  moreover have "takeWhile (\<lambda>c. c \<noteq> rbracket) (tl s) = h" "dropWhile (\<lambda>c. c \<noteq> rbracket) (tl s) = rbracket # colon # p"
    unfolding tls using assms(3) by (simp_all add: takeWhile_to dropWhile_to)
  moreover have "lbracket \<notin> set (tl s)" "rbracket \<notin> set (colon # p)"
    using assms by (auto simp: tls colon_def lbracket_def rbracket_def)
  ultimately show ?thesis
    unfolding s_def [symmetric] SplitHostPort_def split by (simp add: Let_def)
qed

lemma checkUserSecret_ok:
  "runs (checkUserSecret ns us u) None tr \<Longrightarrow> map_of us u = Some ref \<Longrightarrow> secret_read ns (sr_name ref) tr"
  by (auto simp: checkUserSecret_def secret_read_def elim!: runs_tryThenE
      dest!: runs_get_secret_ok)

text \<open>A connectivity test that succeeded: a ping of the database or a plain TCP connection.\<close>

definition reached :: "external_pg_connection \<Rightarrow> event list \<Rightarrow> bool" where
  "reached config tr \<longleftrightarrow>
     (\<exists>conn. EProbe (SqlPing conn) None \<in> set tr) \<or>
     EProbe (DialTCP (pgc_host config @ '':'' @ show_int32 (int_or (pgc_port config) 5432))) None \<in> set tr"

lemma reached_append: "reached c t1 \<or> reached c t2 \<Longrightarrow> reached c (t1 @ t2)"
  by (auto simp: reached_def)

lemma pingWith_ok: "runs (pingWith config port ssl ref s) None tr \<Longrightarrow> reached config tr"
  by (auto simp: pingWith_def reached_def Let_def split: option.splits)

lemma dial_ok: "runs (dialPostgreSQL config (int_or (pgc_port config) 5432)) None tr \<Longrightarrow> reached config tr"
  by (auto simp: dialPostgreSQL_def reached_def split: option.splits)

lemma testFirst_ok: "runs (testFirst ns config port ssl us) (Some None) tr \<Longrightarrow> reached config tr"
proof (induction us arbitrary: tr)
  case (Cons u us)
  show ?case
  proof (cases "map_of (pgc_user_secrets config) u")
    case None
    with Cons show ?thesis by simp
  next
    case (Some ref)
    with Cons.prems show ?thesis
      by (auto elim!: runs_tryThenE simp: runs_andThen
          intro!: reached_append dest: pingWith_ok Cons.IH)
  qed
qed simp

lemma external_pg_validated:
  assumes "runs (ValidateExternalPostgreSQL ns (Some config)) None tr"
  shows "reached config tr \<and>
    (\<forall>u ref. map_of (pgc_user_secrets config) u = Some ref \<longrightarrow> secret_read ns (sr_name ref) tr)"
proof (cases "pgc_user_secrets config")
  case Nil
  with assms show ?thesis by (auto simp: ValidateExternalPostgreSQL_def Let_def dest: dial_ok)
next
  case (Cons x xs)
  let ?us = "pgc_user_secrets config" and ?port = "int_or (pgc_port config) 5432"
  let ?users = "remdups (map fst ?us)"
  have "?users \<noteq> []" using Cons by (auto simp del: remdups.simps)
  with assms obtain order1 t1 t2 where
    order1: "mset order1 = mset ?users" and
    r1: "runs (forEach order1 (checkUserSecret ns ?us)) None t1" and tr: "tr = t1 @ t2" and
    "reached config t2"
    by (fastforce simp: ValidateExternalPostgreSQL_def Let_def runs_andThen split_option_ex
        simp del: remdups_eq_nil_iff dest: testFirst_ok dial_ok intro: reached_append)
  moreover have "secret_read ns (sr_name ref) tr" if "map_of ?us u = Some ref" for u ref
  proof -
    from that have "u \<in> set (remdups (map fst ?us))" by (force dest: map_of_SomeD)
    then have "u \<in> set order1" using order1 by (metis mset_eq_setD)
    from runs_forEach_None [OF r1 this] obtain v1 v2 v3
      where "t1 = v1 @ v2 @ v3" "runs (checkUserSecret ns ?us u) None v2" by blast
    with checkUserSecret_ok [OF _ that] show ?thesis by (auto simp: tr secret_read_def)
  qed
  ultimately show ?thesis by (auto simp: tr intro: reached_append)
qed

text \<open>What the external validations do: read secrets and probe, never write.\<close>

fun is_probe :: "event \<Rightarrow> bool" where
  "is_probe (EProbe q a) = True"
| "is_probe (EHttp u a) = True"
| "is_probe e = is_read e"

lemma is_probe_read: "is_read e \<Longrightarrow> is_probe e"
  by (cases e) auto

lemma get_secret_probes: "onlyDoes is_probe (get_secret ns n)"
  by (auto simp: onlyDoes_def get_secret_def runs_get_object)

lemma pingWith_probes: "onlyDoes is_probe (pingWith config port ssl ref s)"
  unfolding pingWith_def Let_def by (intro onlyDoes_intros) simp_all

lemma testFirst_probes: "onlyDoes is_probe (testFirst ns config port ssl us)"
proof (induction us)
  case (Cons u us)
  then show ?case
    unfolding testFirst.simps by (intro onlyDoes_intros get_secret_probes pingWith_probes)
qed simp

lemma checkUserSecret_probes: "onlyDoes is_probe (checkUserSecret ns us u)"
  unfolding checkUserSecret_def by (intro onlyDoes_intros get_secret_probes)

lemma dialPostgreSQL_probes: "onlyDoes is_probe (dialPostgreSQL config port)"
  by (auto simp: dialPostgreSQL_def)

lemma ValidateExternalPostgreSQL_probes: "onlyDoes is_probe (ValidateExternalPostgreSQL ns conn)"
  unfolding ValidateExternalPostgreSQL_def Let_def
  by (intro onlyDoes_intros testFirst_probes checkUserSecret_probes dialPostgreSQL_probes)
    (auto simp: testFirst_probes dialPostgreSQL_probes intro!: onlyDoes_intros split: prod.split)

lemma ValidateExternalTemporal_probes: "onlyDoes is_probe (ValidateExternalTemporal endpoint)"
  unfolding ValidateExternalTemporal_def
  by (intro onlyDoes_intros) (auto split: prod.split)

section \<open>Properties\<close>


text \<open>
  C30: an external Temporal endpoint written as host and port (an IPv6 host in brackets) is
  validated by one TCP connection to exactly that address, and accepted if and only if it
  succeeds.
\<close>
theorem ValidateExternalTemporal_dials:
  assumes "colon \<notin> set port" and "lbracket \<notin> set (host @ port)" and "rbracket \<notin> set (host @ port)"
  shows "runs (ValidateExternalTemporal (JoinHostPort host port)) r tr \<longleftrightarrow>
    (\<exists>a. tr = [EProbe (DialTCP (JoinHostPort host port)) a] \<and>
       r = map_option (\<lambda>e. WrapErr (''failed to connect to Temporal at '' @ JoinHostPort host port @ '': '' @ err_text e) e) a)"
proof -
  have "JoinHostPort host port \<noteq> []" by (simp add: JoinHostPort_def)
  then show ?thesis
    using SplitHostPort_Join [OF assms] by (auto simp: ValidateExternalTemporal_def split: option.splits)
qed

section \<open>Witnesses\<close>

definition plain_connection :: external_pg_connection where
  "plain_connection = \<lparr>pgc_host = ''db.example'', pgc_port = 0, pgc_ssl_mode = [], pgc_user_secrets = []\<rparr>"


theorem ValidateExternalTemporal_dials_witness:
  "runs (ValidateExternalTemporal (JoinHostPort ''fd00::1'' ''7233'')) None
     [EProbe (DialTCP (JoinHostPort ''fd00::1'' ''7233'')) None]"
  by (subst ValidateExternalTemporal_dials) (simp_all add: colon_def lbracket_def rbracket_def)

end
