(* ===== verification/Samples.thy ===== *)
theory Samples
  imports Api_Types
begin

text \<open>
  Concrete resources for the witnesses: the zero values of the API structs, and three
  deployments in the style of \<^verbatim>\<open>config/samples\<close>, one per profile.
\<close>

definition zero_api :: api_config where
  "zero_api = \<lparr>api_port = 0, api_replicas = 0, api_resources = None\<rparr>"

definition zero_core :: core_config where
  "zero_core = \<lparr>core_namespace = [], core_api = zero_api,
     core_dhcp = \<lparr>dhcp_enabled = False, dhcp_resources = None\<rparr>,
     core_pxe = \<lparr>pxe_enabled = False, pxe_storage = None, pxe_resources = None, pxe_tftp_port = 0, pxe_http_port = 0\<rparr>,
     core_dns = \<lparr>dns_enabled = False, dns_resources = None, dns_port = 0\<rparr>,
     core_security = None, core_vault = None, core_rla = None, core_psm = None\<rparr>"

definition zero_pg :: postgresql_config where
  "zero_pg = \<lparr>pg_mode = [], pg_databases = [], pg_version = [], pg_storage = None, pg_replicas = 0,
     pg_resources = None, pg_connection = None\<rparr>"

definition zero_infra :: infrastructure_config where
  "zero_infra = \<lparr>infra_storage_class = [], infra_postgresql = zero_pg, infra_namespace = []\<rparr>"

definition zero_temporal :: temporal_config where
  "zero_temporal = \<lparr>temporal_mode = [], temporal_version = [], temporal_chart_version = [],
     temporal_namespace = [], temporal_replicas = 0, temporal_resources = None, temporal_endpoint = [],
     temporal_tls_secret_ref = None\<rparr>"

definition zero_keycloak :: keycloak_config where
  "zero_keycloak = \<lparr>kc_mode = [], kc_realm = [], kc_admin_password_secret_ref = None, kc_resources = None,
     kc_auth_providers = []\<rparr>"

definition zero_rest :: rest_config where
  "zero_rest = \<lparr>rest_namespace = [], rest_enabled = False, rest_temporal = zero_temporal,
     rest_keycloak = zero_keycloak,
     rest_restapi = \<lparr>ra_port = 0, ra_node_port = 0, ra_replicas = 0, ra_resources = None\<rparr>,
     rest_site_agent = None\<rparr>"

definition zero_network :: network_config where
  "zero_network = \<lparr>net_interface = [], net_ip = [], net_admin_cidr = [], net_domain = []\<rparr>"

definition site_network :: network_config where
  "site_network = \<lparr>net_interface = ''enp2s0'', net_ip = ''192.168.33.10'',
     net_admin_cidr = ''192.168.33.0/24'', net_domain = []\<rparr>"

definition zero_status :: carbide_status where
  "zero_status = \<lparr>status_phase = [], status_infrastructure = None, status_core = None, status_rest = None,
     status_observed_generation = 0, status_conditions = []\<rparr>"

definition sample_resource :: "string \<Rightarrow> carbide_spec \<Rightarrow> carbide_deployment" where
  "sample_resource name s = \<lparr>cd_name = name, cd_namespace = ''default'', cd_uid = ''uid-1'', cd_generation = 1,
     cd_resource_version = ''1'', cd_finalizers = [], cd_deletion_timestamp = None, cd_spec = s,
     cd_status = zero_status\<rparr>"

definition site_spec :: carbide_spec where
  "site_spec = \<lparr>spec_profile = ProfileSite, spec_version = ''v1.0.0'', spec_network = site_network,
     spec_infrastructure = Some zero_infra, spec_core = zero_core, spec_rest = None, spec_images = None,
     spec_tls = None, spec_site_ref = None\<rparr>"

definition management_spec :: carbide_spec where
  "management_spec = \<lparr>spec_profile = ProfileManagement, spec_version = ''v1.0.0'', spec_network = zero_network,
     spec_infrastructure = Some zero_infra, spec_core = zero_core, spec_rest = Some zero_rest, spec_images = None,
     spec_tls = None, spec_site_ref = None\<rparr>"

definition sample_site :: carbide_deployment where
  "sample_site = sample_resource ''boston'' site_spec"

definition sample_management :: carbide_deployment where
  "sample_management = sample_resource ''hub'' management_spec"

lemmas sample_defs =
  zero_api_def zero_core_def zero_pg_def zero_infra_def zero_temporal_def zero_keycloak_def zero_rest_def
  zero_network_def site_network_def zero_status_def sample_resource_def site_spec_def management_spec_def
  sample_site_def sample_management_def

end
