(* ===== verification/Tls.thy ===== *)
theory Tls
  imports Readiness Samples
begin

text \<open>
  Shared resource helpers (\<^verbatim>\<open>internal/resources/common.go\<close>) and the TLS layer
  (\<^verbatim>\<open>internal/resources/tls\<close>): the objects of the two backends and their injection into pods.
  The injectors share one contract, the locale \<open>tls_injector\<close>.
\<close>

section \<open>Shared helpers\<close>

text \<open>\<^verbatim>\<open>metav1.NewControllerRef\<close> with the group, version and kind of the custom resource.\<close>

definition controllerRef :: "carbide_deployment \<Rightarrow> owner_reference" where
  "controllerRef d = \<lparr>own_api_version = ''carbide.nvidia.com/v1alpha1'', own_kind = ''CarbideDeployment'',
     own_name = cd_name d, own_uid = cd_uid d, own_controller = True, own_block_deletion = True\<rparr>"

definition DefaultLabels :: "string \<Rightarrow> carbide_deployment \<Rightarrow> labels" where
  "DefaultLabels component d =
     [''app.kubernetes.io/name'' \<mapsto> ''carbide'',
      ''app.kubernetes.io/component'' \<mapsto> component,
      ''app.kubernetes.io/managed-by'' \<mapsto> ''carbide-operator'',
      ''app.kubernetes.io/instance'' \<mapsto> cd_name d]"

definition BuildNamespace :: "string \<Rightarrow> carbide_deployment \<Rightarrow> k8s_object" where
  "BuildNamespace name d =
     NamespaceObj (mk_meta name []
       [''app.kubernetes.io/name'' \<mapsto> ''carbide'',
        ''app.kubernetes.io/managed-by'' \<mapsto> ''carbide-operator'',
        ''app.kubernetes.io/instance'' \<mapsto> cd_name d] [])"

definition GetImagePullPolicy :: "carbide_deployment \<Rightarrow> string" where
  "GetImagePullPolicy d =
     (case spec_images (cd_spec d) of
        None \<Rightarrow> ''IfNotPresent''
      | Some i \<Rightarrow> str_or (img_pull_policy i) ''IfNotPresent'')"

definition GetImageRegistry :: "carbide_deployment \<Rightarrow> string" where
  "GetImageRegistry d =
     (case spec_images (cd_spec d) of
        None \<Rightarrow> ''ghcr.io/nvidia''
      | Some i \<Rightarrow> str_or (img_registry i) ''ghcr.io/nvidia'')"

definition DefaultLabelsUnstructured :: "string \<Rightarrow> carbide_deployment \<Rightarrow> json" where
  "DefaultLabelsUnstructured component d =
     JMap [(''app.kubernetes.io/name'', JString ''carbide''),
           (''app.kubernetes.io/component'', JString component),
           (''app.kubernetes.io/managed-by'', JString ''carbide-operator''),
           (''app.kubernetes.io/instance'', JString (cd_name d))]"

definition GetStorageClass :: "carbide_deployment \<Rightarrow> storage_spec option \<Rightarrow> string" where
  "GetStorageClass d storageSpec =
     (let own = (case storageSpec of None \<Rightarrow> [] | Some s \<Rightarrow> st_storage_class s);
          infra = (case spec_infrastructure (cd_spec d) of None \<Rightarrow> [] | Some i \<Rightarrow> infra_storage_class i)
      in if own \<noteq> [] then own else if infra \<noteq> [] then infra else [])"

text \<open>The image of a component: an override from the spec, or registry, name and version.\<close>

definition image_or :: "carbide_deployment \<Rightarrow> (image_config \<Rightarrow> string) \<Rightarrow> string \<Rightarrow> string" where
  "image_or d override name =
     (let dflt = GetImageRegistry d @ ''/'' @ name @ '':'' @ spec_version (cd_spec d)
      in case spec_images (cd_spec d) of None \<Rightarrow> dflt | Some i \<Rightarrow> str_or (override i) dflt)"

definition cpu_mem :: "string \<Rightarrow> string \<Rightarrow> string \<Rightarrow> string \<Rightarrow> resource_requirements" where
  "cpu_mem c m cl ml = \<lparr>res_requests = [(''cpu'', Quantity c), (''memory'', Quantity m)],
     res_limits = [(''cpu'', Quantity cl), (''memory'', Quantity ml)]\<rparr>"

section \<open>TLS mode\<close>

definition CertDir :: string where "CertDir = ''/var/run/secrets/tls''"
definition SpiffeSocketDir :: string where "SpiffeSocketDir = ''/var/run/secrets/spiffe.io''"
definition HelperConfigDir :: string where "HelperConfigDir = ''/etc/spiffe-helper''"

definition IsEnabled :: "carbide_deployment \<Rightarrow> bool" where
  "IsEnabled d \<longleftrightarrow> spec_tls (cd_spec d) \<noteq> None"

definition IsSpiffeMode :: "carbide_deployment \<Rightarrow> bool" where
  "IsSpiffeMode d \<longleftrightarrow> (case spec_tls (cd_spec d) of None \<Rightarrow> False | Some t \<Rightarrow> tls_mode t = TLSModeSpiffe)"

definition IsCertManagerMode :: "carbide_deployment \<Rightarrow> bool" where
  "IsCertManagerMode d \<longleftrightarrow> (case spec_tls (cd_spec d) of None \<Rightarrow> False | Some t \<Rightarrow> tls_mode t = TLSModeCertManager)"

definition GetCertDir :: string where
  "GetCertDir = CertDir"

definition CertEnvVars :: "env_var list" where
  "CertEnvVars =
     [plain_env ''FORGE_ROOT_CAFILE_PATH'' (CertDir @ ''/ca.crt''),
      plain_env ''FORGE_CLIENT_CERT_PATH'' (CertDir @ ''/tls.crt''),
      plain_env ''FORGE_CLIENT_KEY_PATH'' (CertDir @ ''/tls.key'')]"

definition CertVolumeMount :: volume_mount where
  "CertVolumeMount = ro_mount ''tls-certs'' CertDir"

section \<open>SPIFFE\<close>

definition helper_conf :: "string \<Rightarrow> string" where
  \<open>helper_conf daemon = unlines
     [''agent_address = "/var/run/secrets/spiffe.io/spire-agent.sock"'',
      ''cert_dir = "/var/run/secrets/tls"'',
      ''svid_file_name = "tls.crt"'',
      ''svid_key_file_name = "tls.key"'',
      ''svid_bundle_file_name = "ca.crt"'',
      ''daemon_mode = '' @ daemon]\<close>

definition BuildSpiffeHelperConfigMap :: "carbide_deployment \<Rightarrow> string \<Rightarrow> config_map" where
  "BuildSpiffeHelperConfigMap d ns =
     \<lparr>cm_meta = mk_meta ''spiffe-helper-config'' ns (DefaultLabels ''spiffe-helper'' d) [controllerRef d],
      cm_data = [''helper-init.conf'' \<mapsto> helper_conf ''false'', ''helper.conf'' \<mapsto> helper_conf ''true'']\<rparr>"

definition spiffe_trust :: "carbide_deployment \<Rightarrow> string" where
  "spiffe_trust d =
     (case spec_tls (cd_spec d) of
        None \<Rightarrow> ''carbide.local''
      | Some t \<Rightarrow> (case tls_spiffe t of None \<Rightarrow> ''carbide.local'' | Some s \<Rightarrow> str_or (spiffe_trust_domain s) ''carbide.local''))"

definition spiffe_class :: "carbide_deployment \<Rightarrow> string" where
  "spiffe_class d =
     (let c = ''zero-trust-workload-identity-manager-spire'' in
      case spec_tls (cd_spec d) of
        None \<Rightarrow> c
      | Some t \<Rightarrow> (case tls_spiffe t of None \<Rightarrow> c | Some s \<Rightarrow> str_or (spiffe_class_name s) c))"

definition BuildClusterSPIFFEID ::
    "carbide_deployment \<Rightarrow> string \<Rightarrow> string \<Rightarrow> string \<Rightarrow> string list \<Rightarrow> unstructured" where
  "BuildClusterSPIFFEID d name ns podLabelApp dnsSANs =
     (let spec =
        [(''className'', JString (spiffe_class d)),
         (''spiffeIDTemplate'', JString (''spiffe://'' @ spiffe_trust d @
            ''/ns/{{ .PodMeta.Namespace }}/sa/{{ .PodSpec.ServiceAccountName }}'')),
         (''podSelector'', JMap [(''matchLabels'', JMap [(''app'', JString podLabelApp)])]),
         (''namespaceSelector'', JMap [(''matchLabels'', JMap [(''kubernetes.io/metadata.name'', JString ns)])])] @
        (if dnsSANs \<noteq> [] then [(''dnsNameTemplates'', JList (map JString dnsSANs))] else [])
      in SetOwnerReferences [controllerRef d] \<lparr>u_object =
           [(''apiVersion'', JString ''spire.spiffe.io/v1alpha1''),
            (''kind'', JString ''ClusterSPIFFEID''),
            (''metadata'', JMap [(''name'', JString name), (''labels'', DefaultLabelsUnstructured ''spiffe-id'' d)]),
            (''spec'', JMap spec)]\<rparr>)"

definition spiffe_mounts :: "volume_mount list" where
  "spiffe_mounts =
     [ro_mount ''spiffe-workload-api'' SpiffeSocketDir,
      \<lparr>vm_name = ''tls-certs'', vm_path = CertDir, vm_sub_path = [], vm_read_only = False\<rparr>,
      ro_mount ''spiffe-helper-config'' HelperConfigDir]"

definition SpiffeInitContainer :: "string \<Rightarrow> container" where
  "SpiffeInitContainer helperImage = zero_container
     \<lparr>c_name := ''spiffe-helper-init'', c_image := helperImage,
      c_args := [''-config'', ''/etc/spiffe-helper/helper-init.conf''], c_mounts := spiffe_mounts\<rparr>"

definition SpiffeSidecarContainer :: "string \<Rightarrow> container" where
  "SpiffeSidecarContainer helperImage = zero_container
     \<lparr>c_name := ''spiffe-helper'', c_image := helperImage,
      c_args := [''-config'', ''/etc/spiffe-helper/helper.conf''], c_mounts := spiffe_mounts,
      c_resources := cpu_mem ''50m'' ''32Mi'' ''100m'' ''64Mi''\<rparr>"

definition SpiffeVolumes :: "volume list" where
  "SpiffeVolumes =
     [\<lparr>vol_name = ''spiffe-workload-api'', vol_source = CSIVolume ''csi.spiffe.io'' (Some True)\<rparr>,
      \<lparr>vol_name = ''tls-certs'', vol_source = EmptyDirVolume\<rparr>,
      \<lparr>vol_name = ''spiffe-helper-config'', vol_source = ConfigMapVolume ''spiffe-helper-config''\<rparr>]"

definition add_mount :: "volume_mount \<Rightarrow> container \<Rightarrow> container" where
  "add_mount m c = c\<lparr>c_mounts := c_mounts c @ [m]\<rparr>"

definition InjectSpiffe :: "carbide_deployment \<Rightarrow> pod_spec \<Rightarrow> pod_spec" where
  "InjectSpiffe d ps =
     (case spec_tls (cd_spec d) of
        None \<Rightarrow> ps
      | Some t \<Rightarrow>
          if tls_mode t \<noteq> TLSModeSpiffe then ps
          else
            (let dflt = ''ghcr.io/nvidia/spiffe-helper:latest'';
                 helperImage = (case tls_spiffe t of None \<Rightarrow> dflt | Some s \<Rightarrow> str_or (spiffe_helper_image s) dflt);
                 withSidecar = ps_containers ps @ [SpiffeSidecarContainer helperImage]
             in ps\<lparr>ps_init_containers := SpiffeInitContainer helperImage # ps_init_containers ps,
                   ps_containers := map (\<lambda>c. if c_name c = ''spiffe-helper'' then c else add_mount CertVolumeMount c)
                                        withSidecar,
                   ps_volumes := ps_volumes ps @ SpiffeVolumes\<rparr>))"

section \<open>cert-manager\<close>

text \<open>
  \<^verbatim>\<open>BuildCertificate\<close> dereferences \<^verbatim>\<open>Spec.TLS.CertManager\<close>; without it Go panics, which is \<open>None\<close>.
\<close>

definition BuildCertificate ::
    "carbide_deployment \<Rightarrow> string \<Rightarrow> string \<Rightarrow> string list \<Rightarrow> unstructured option" where
  "BuildCertificate d name ns dnsNames =
     (case spec_tls (cd_spec d) of
        None \<Rightarrow> None
      | Some t \<Rightarrow>
          (case tls_cert_manager t of
             None \<Rightarrow> None
           | Some cmConfig \<Rightarrow>
               (let ref = cm_issuer_ref cmConfig in
                Some (SetOwnerReferences [controllerRef d] \<lparr>u_object =
                  [(''apiVersion'', JString ''cert-manager.io/v1''),
                   (''kind'', JString ''Certificate''),
                   (''metadata'', JMap [(''name'', JString (name @ ''-cert'')), (''namespace'', JString ns),
                      (''labels'', DefaultLabelsUnstructured ''tls-cert'' d)]),
                   (''spec'', JMap
                     [(''secretName'', JString (name @ ''-tls'')),
                      (''duration'', JString ''2160h''),
                      (''renewBefore'', JString ''360h''),
                      (''dnsNames'', JList (map JString dnsNames)),
                      (''issuerRef'', JMap [(''name'', JString (issuer_name ref)), (''kind'', JString (issuer_kind ref)),
                         (''group'', JString (str_or (issuer_group ref) ''cert-manager.io''))]),
                      (''usages'', JList [JString ''digital signature'', JString ''key encipherment'',
                         JString ''server auth'', JString ''client auth''])])]\<rparr>))))"

definition InjectCertManager :: "carbide_deployment \<Rightarrow> pod_spec \<Rightarrow> pod_spec" where
  "InjectCertManager d ps =
     (case spec_tls (cd_spec d) of
        None \<Rightarrow> ps
      | Some t \<Rightarrow>
          if tls_mode t \<noteq> TLSModeCertManager then ps
          else
            (let secretName = str_or (ps_service_account ps) ''default'' @ ''-tls''
             in ps\<lparr>ps_volumes := ps_volumes ps @ [\<lparr>vol_name = ''tls-certs'', vol_source = SecretVolume secretName [] None\<rparr>],
                   ps_containers := map (add_mount CertVolumeMount) (ps_containers ps)\<rparr>))"

definition InjectTLS :: "carbide_deployment \<Rightarrow> pod_spec \<Rightarrow> pod_spec" where
  "InjectTLS d ps =
     (case spec_tls (cd_spec d) of
        None \<Rightarrow> ps
      | Some t \<Rightarrow>
          if tls_mode t = TLSModeSpiffe then InjectSpiffe d ps
          else if tls_mode t = TLSModeCertManager then InjectCertManager d ps
          else ps)"

section \<open>The contract of an injector\<close>

definition volume_names :: "pod_spec \<Rightarrow> string set" where
  "volume_names ps = vol_name ` set (ps_volumes ps)"

definition mounted :: "container list \<Rightarrow> string set" where
  "mounted cs = (\<Union>c \<in> set cs. vm_name ` set (c_mounts c))"

text \<open>Every mount of every container names a volume of the pod.\<close>

definition mounts_resolve :: "pod_spec \<Rightarrow> bool" where
  "mounts_resolve ps \<longleftrightarrow> mounted (ps_init_containers ps @ ps_containers ps) \<subseteq> volume_names ps"

definition has_certs :: "container \<Rightarrow> bool" where
  "has_certs c \<longleftrightarrow> (\<exists>m \<in> set (c_mounts c). vm_name m = ''tls-certs'' \<and> vm_path m = CertDir)"

text \<open>A container of the injected pod that stands for a container of the original one.\<close>

definition same_app :: "container \<Rightarrow> container \<Rightarrow> bool" where
  "same_app c c' \<longleftrightarrow> c\<lparr>c_mounts := []\<rparr> = c'\<lparr>c_mounts := []\<rparr> \<and> set (c_mounts c) \<subseteq> set (c_mounts c')"

definition same_pod :: "pod_spec \<Rightarrow> pod_spec \<Rightarrow> bool" where
  "same_pod p q \<longleftrightarrow>
     p\<lparr>ps_init_containers := [], ps_containers := [], ps_volumes := []\<rparr> =
     q\<lparr>ps_init_containers := [], ps_containers := [], ps_volumes := []\<rparr>"

lemma same_app_name: "same_app c c' \<Longrightarrow> c_name c' = c_name c"
  unfolding same_app_def by (drule conjunct1, drule arg_cong [where f = c_name]) simp

lemma same_pod_account: "same_pod p q \<Longrightarrow> ps_service_account q = ps_service_account p"
  unfolding same_pod_def by (drule arg_cong [where f = ps_service_account]) simp

locale tls_injector =
  fixes inject :: "carbide_deployment \<Rightarrow> pod_spec \<Rightarrow> pod_spec"
    and active :: "carbide_deployment \<Rightarrow> bool"
  assumes inactive: "\<not> active d \<Longrightarrow> inject d ps = ps"
    and same: "same_pod ps (inject d ps)"
    and resolves: "mounts_resolve ps \<Longrightarrow> mounts_resolve (inject d ps)"
    and keeps_apps: "c \<in> set (ps_containers ps) \<Longrightarrow>
      \<exists>c' \<in> set (ps_containers (inject d ps)). same_app c c' \<and>
        (active d \<and> c_name c \<noteq> ''spiffe-helper'' \<longrightarrow> has_certs c')"
begin

lemma service_account: "ps_service_account (inject d ps) = ps_service_account ps"
  using same by (rule same_pod_account)

lemma app_has_certs:
  assumes "active d" "c \<in> set (ps_containers ps)" "c_name c \<noteq> ''spiffe-helper''"
  shows "\<exists>c' \<in> set (ps_containers (inject d ps)). c_name c' = c_name c \<and> has_certs c'"
proof -
  from keeps_apps [OF assms(2), of d] assms obtain c' where
    c': "c' \<in> set (ps_containers (inject d ps))" "same_app c c'" "has_certs c'" by blast
  then show ?thesis using same_app_name by blast
qed

end

lemma mounted_simps [simp]:
  "mounted [] = {}" "mounted (c # cs) = vm_name ` set (c_mounts c) \<union> mounted cs"
  "mounted (cs @ cs') = mounted cs \<union> mounted cs'"
  by (auto simp: mounted_def)

lemma add_mount_sel [simp]:
  "c_mounts (add_mount m c) = c_mounts c @ [m]" "c_name (add_mount m c) = c_name c"
  by (simp_all add: add_mount_def)

lemma mounted_add: "mounted (map (add_mount m) cs) \<subseteq> insert (vm_name m) (mounted cs)"
  by (auto simp: mounted_def)

lemma mounted_add_if: "mounted (map (\<lambda>c. if P c then c else add_mount m c) cs) \<subseteq> insert (vm_name m) (mounted cs)"
  by (auto simp: mounted_def split: if_splits)

lemma same_app_refl [simp]: "same_app c c"
  by (simp add: same_app_def)

lemma same_app_add [simp]: "same_app c (add_mount m c)"
  by (auto simp: same_app_def add_mount_def)

lemma same_pod_refl [simp]: "same_pod p p"
  by (simp add: same_pod_def)

lemma has_certs_add [simp]: "has_certs (add_mount CertVolumeMount c)"
  by (simp add: has_certs_def CertVolumeMount_def)

lemma spiffe_parts:
  "mounted [SpiffeInitContainer i, SpiffeSidecarContainer i] \<subseteq> vol_name ` set SpiffeVolumes"
  "''tls-certs'' \<in> vol_name ` set SpiffeVolumes"
  by (auto simp: SpiffeInitContainer_def SpiffeSidecarContainer_def spiffe_mounts_def SpiffeVolumes_def)

lemma InjectCertManager_resolves: "mounts_resolve ps \<Longrightarrow> mounts_resolve (InjectCertManager d ps)"
  using mounted_add [of CertVolumeMount "ps_containers ps"]
  by (auto simp: InjectCertManager_def mounts_resolve_def volume_names_def Let_def CertVolumeMount_def split: option.split)

lemma InjectSpiffe_active:
  assumes "IsSpiffeMode d"
  shows "\<exists>i. InjectSpiffe d ps = ps
     \<lparr>ps_init_containers := SpiffeInitContainer i # ps_init_containers ps,
      ps_containers := map (\<lambda>c. if c_name c = ''spiffe-helper'' then c else add_mount CertVolumeMount c)
        (ps_containers ps @ [SpiffeSidecarContainer i]),
      ps_volumes := ps_volumes ps @ SpiffeVolumes\<rparr>"
  using assms by (auto simp: InjectSpiffe_def IsSpiffeMode_def Let_def split: option.splits)

lemma InjectSpiffe_resolves:
  assumes "mounts_resolve ps"
  shows "mounts_resolve (InjectSpiffe d ps)"
proof (cases "IsSpiffeMode d")
  case True
  from InjectSpiffe_active [OF this, of ps] obtain i where i: "InjectSpiffe d ps = ps
     \<lparr>ps_init_containers := SpiffeInitContainer i # ps_init_containers ps,
      ps_containers := map (\<lambda>c. if c_name c = ''spiffe-helper'' then c else add_mount CertVolumeMount c)
        (ps_containers ps @ [SpiffeSidecarContainer i]),
      ps_volumes := ps_volumes ps @ SpiffeVolumes\<rparr>" by blast
  let ?vs = "vol_name ` set (ps_volumes ps @ SpiffeVolumes)"
  have "mounted (map (\<lambda>c. if c_name c = ''spiffe-helper'' then c else add_mount CertVolumeMount c)
      (ps_containers ps @ [SpiffeSidecarContainer i])) \<subseteq> ?vs"
    by (rule subset_trans [OF mounted_add_if])
      (use assms spiffe_parts(1) [of i] spiffe_parts(2) in \<open>auto simp: mounts_resolve_def volume_names_def CertVolumeMount_def\<close>)
  moreover have "mounted (SpiffeInitContainer i # ps_init_containers ps) \<subseteq> ?vs"
    using assms spiffe_parts(1) [of i] spiffe_parts(2) by (auto simp: mounts_resolve_def volume_names_def)
  moreover have "ps_init_containers (InjectSpiffe d ps) = SpiffeInitContainer i # ps_init_containers ps"
    "ps_containers (InjectSpiffe d ps) = map (\<lambda>c. if c_name c = ''spiffe-helper'' then c else add_mount CertVolumeMount c)
      (ps_containers ps @ [SpiffeSidecarContainer i])"
    "ps_volumes (InjectSpiffe d ps) = ps_volumes ps @ SpiffeVolumes"
    by (simp_all add: i)
  ultimately show ?thesis
    unfolding mounts_resolve_def volume_names_def mounted_simps(3) by (simp only: Un_subset_iff simp_thms)
next
  case False
  with assms show ?thesis by (auto simp: InjectSpiffe_def IsSpiffeMode_def split: option.splits)
qed

interpretation spiffe_inject: tls_injector InjectSpiffe IsSpiffeMode
proof (unfold_locales, goal_cases)
  case (1 d ps)
  then show ?case by (auto simp: InjectSpiffe_def IsSpiffeMode_def split: option.splits)
next
  case (2 ps d)
  show ?case by (simp add: InjectSpiffe_def same_pod_def Let_def split: option.split)
next
  case (3 ps d)
  then show ?case by (rule InjectSpiffe_resolves)
next
  case (4 c ps d)
  show ?case
  proof (cases "IsSpiffeMode d")
    case True
    let ?c = "if c_name c = ''spiffe-helper'' then c else add_mount CertVolumeMount c"
    have "?c \<in> set (ps_containers (InjectSpiffe d ps))"
      using InjectSpiffe_active [OF True, of ps] 4 by auto
    then show ?thesis by (rule rev_bexI) simp
  next
    case False
    then have "InjectSpiffe d ps = ps" by (auto simp: InjectSpiffe_def IsSpiffeMode_def split: option.splits)
    with 4 False show ?thesis by (auto intro: bexI [of _ c])
  qed
qed

interpretation cert_manager_inject: tls_injector InjectCertManager IsCertManagerMode
proof (unfold_locales, goal_cases)
  case (1 d ps)
  then show ?case by (auto simp: InjectCertManager_def IsCertManagerMode_def split: option.splits)
next
  case (2 ps d)
  show ?case by (simp add: InjectCertManager_def same_pod_def Let_def split: option.split)
next
  case (3 ps d)
  then show ?case by (rule InjectCertManager_resolves)
next
  case (4 c ps d)
  show ?case
  proof (cases "IsCertManagerMode d")
    case True
    have "add_mount CertVolumeMount c \<in> set (ps_containers (InjectCertManager d ps))"
      using True 4 by (auto simp: InjectCertManager_def IsCertManagerMode_def Let_def split: option.splits)
    then show ?thesis by (rule rev_bexI) simp
  next
    case False
    then have "InjectCertManager d ps = ps"
      by (auto simp: InjectCertManager_def IsCertManagerMode_def split: option.splits)
    with 4 False show ?thesis by (auto intro: bexI [of _ c])
  qed
qed

lemma InjectTLS_eq:
  "InjectTLS d ps = (if IsSpiffeMode d then InjectSpiffe d ps else if IsCertManagerMode d then InjectCertManager d ps else ps)"
  by (auto simp: InjectTLS_def IsSpiffeMode_def IsCertManagerMode_def split: option.split)

interpretation tls_inject: tls_injector InjectTLS "\<lambda>d. IsSpiffeMode d \<or> IsCertManagerMode d"
proof (unfold_locales, goal_cases)
  case (4 c ps d)
  then show ?case
    using spiffe_inject.keeps_apps [OF 4, of d] cert_manager_inject.keeps_apps [OF 4, of d]
    by (auto simp: InjectTLS_eq intro: bexI [of _ c])
qed (auto simp: InjectTLS_eq spiffe_inject.same cert_manager_inject.same spiffe_inject.resolves cert_manager_inject.resolves)

section \<open>Names of the TLS resources\<close>

lemma spiffe_key [simp]:
  "obj_key (UnstructuredObj (BuildClusterSPIFFEID d n ns app sans)) =
     (KUnstructured ''spire.spiffe.io/v1alpha1'' ''ClusterSPIFFEID'', [], n)"
  by (simp add: obj_key_def BuildClusterSPIFFEID_def SetOwnerReferences_def u_kind_def u_api_version_def
      u_name_def u_namespace_def u_metadata_def NestedString_def NestedMap_def field_def string_or_empty_def
      u_set_metadata_def Let_def)

lemma certificate_key:
  "BuildCertificate d n ns names = Some u \<Longrightarrow>
   obj_key (UnstructuredObj u) = (KUnstructured ''cert-manager.io/v1'' ''Certificate'', ns, n @ ''-cert'')"
  by (auto simp: obj_key_def BuildCertificate_def SetOwnerReferences_def u_kind_def u_api_version_def
      u_name_def u_namespace_def u_metadata_def NestedString_def NestedMap_def field_def string_or_empty_def
      u_set_metadata_def Let_def split: option.splits)

lemma modes_exclusive: "IsSpiffeMode d \<Longrightarrow> \<not> IsCertManagerMode d"
  by (auto simp: IsSpiffeMode_def IsCertManagerMode_def split: option.splits)

text \<open>In cert-manager mode the certificate builder dereferences \<^verbatim>\<open>Spec.TLS.CertManager\<close>.\<close>

definition tls_complete :: "carbide_deployment \<Rightarrow> bool" where
  "tls_complete d \<longleftrightarrow> (IsCertManagerMode d \<longrightarrow> (\<exists>t cm. spec_tls (cd_spec d) = Some t \<and> tls_cert_manager t = Some cm))"

lemma certificate_built: "tls_complete d \<Longrightarrow> IsCertManagerMode d \<Longrightarrow> BuildCertificate d n ns names \<noteq> None"
  by (auto simp: tls_complete_def BuildCertificate_def Let_def)

section \<open>Properties\<close>


section \<open>Witnesses\<close>

definition demo_pod :: pod_spec where
  "demo_pod = zero_pod_spec\<lparr>ps_service_account := ''demo'',
     ps_containers := [zero_container\<lparr>c_name := ''app'', c_mounts := [ro_mount ''cfg'' ''/etc/app'']\<rparr>],
     ps_volumes := [\<lparr>vol_name = ''cfg'', vol_source = ConfigMapVolume ''cfg''\<rparr>]\<rparr>"

definition spiffe_site :: carbide_deployment where
  "spiffe_site = sample_site\<lparr>cd_spec := site_spec\<lparr>spec_tls :=
     Some \<lparr>tls_mode = TLSModeSpiffe, tls_spiffe = None, tls_cert_manager = None\<rparr>\<rparr>\<rparr>"


end
