(* ===== verification/Tier.thy ===== *)
theory Tier
  imports Trace_Logic External Tls
begin

text \<open>
  What the three tier reconcilers (\<^verbatim>\<open>internal/controller/*_reconciler.go\<close>) share: the tier status they
  build component by component, the failed status, the messages, and the contract under which the
  controller calls them.  A \<^verbatim>\<open>Reconcile\<close> method returns a tier status and an error; where the Go code
  would dereference a nil pointer it panics, which is the outcome \<open>TierPanic\<close>.
\<close>

datatype tier_result = Tier "tier_status option" "goerror option" | TierPanic

definition restDefaultNamespace :: string where "restDefaultNamespace = ''nvidia-carbide''"
definition restTemporalNamespace :: string where "restTemporalNamespace = ''temporal''"

section \<open>Building a tier status\<close>

definition getComponentMessage :: "string \<Rightarrow> bool \<Rightarrow> goerror option \<Rightarrow> string" where
  "getComponentMessage name ready err =
     (case err of
        Some e \<Rightarrow> name @ '': '' @ err_text e
      | None \<Rightarrow> if ready then name @ '' is ready'' else name @ '' is not ready'')"

definition failedStatus :: "string \<Rightarrow> goerror \<Rightarrow> tier_status prog" where
  "failedStatus message err =
     Now (\<lambda>t. Ret \<lparr>tier_ready = False, tier_message = message @ '': '' @ err_text err, tier_components = [],
                  tier_last_transition = Some t\<rparr>)"

text \<open>\<^verbatim>\<open>return r.failedStatus(message, err), err\<close>\<close>

definition failWith :: "string \<Rightarrow> goerror \<Rightarrow> tier_result prog" where
  "failWith message err = andThen (failedStatus message err) (\<lambda>s. Ret (Tier (Some s) (Some err)))"

definition initStatus :: "go_time \<Rightarrow> tier_status" where
  "initStatus t = \<lparr>tier_ready = False, tier_message = [], tier_components = [], tier_last_transition = Some t\<rparr>"

text \<open>A tier that is not wanted is ready at once, with a message that says why.\<close>

definition notRequired :: "string \<Rightarrow> tier_result prog" where
  "notRequired message =
     Now (\<lambda>t. Ret (Tier (Some \<lparr>tier_ready = True, tier_message = message, tier_components = [],
                              tier_last_transition = Some t\<rparr>) None))"

text \<open>\<^verbatim>\<open>tierStatus.Message = ...; return tierStatus, err\<close>, and the same without an error.\<close>

definition stopWith :: "tier_status \<Rightarrow> string \<Rightarrow> goerror \<Rightarrow> tier_result prog" where
  "stopWith st what err = Ret (Tier (Some (st\<lparr>tier_message := what @ '': '' @ err_text err\<rparr>)) (Some err))"

definition waitWith :: "tier_status \<Rightarrow> string \<Rightarrow> tier_result prog" where
  "waitWith st message = Ret (Tier (Some (st\<lparr>tier_message := message\<rparr>)) None)"

text \<open>Every stage function returns \<^verbatim>\<open>false\<close> with an error.\<close>

definition stage_ready :: "goerror + bool \<Rightarrow> bool" where
  "stage_ready r = (case r of Inl _ \<Rightarrow> False | Inr b \<Rightarrow> b)"

definition stage_error :: "goerror + bool \<Rightarrow> goerror option" where
  "stage_error r = (case r of Inl e \<Rightarrow> Some e | Inr _ \<Rightarrow> None)"

definition addComponent :: "string \<Rightarrow> goerror + bool \<Rightarrow> go_time \<Rightarrow> tier_status \<Rightarrow> tier_status" where
  "addComponent name r t st = st\<lparr>tier_components := tier_components st @
     [\<lparr>comp_name = name, comp_ready = stage_ready r,
       comp_message = getComponentMessage name (stage_ready r) (stage_error r), comp_last_transition = Some t\<rparr>]\<rparr>"

text \<open>
  The pattern of every component: run its stage, append its status, return on an error, else go on
  with its readiness.
\<close>

definition stage ::
    "string \<Rightarrow> string \<Rightarrow> (goerror + bool) prog \<Rightarrow> tier_status \<Rightarrow> (bool \<Rightarrow> tier_status \<Rightarrow> tier_result prog) \<Rightarrow>
     tier_result prog" where
  "stage name what p st k =
     andThen p (\<lambda>r. Now (\<lambda>t.
       let st' = addComponent name r t st in
       case r of Inl e \<Rightarrow> stopWith st' what e | Inr ready \<Rightarrow> k ready st'))"

text \<open>A component that is not enabled counts as ready and does not appear in the status.\<close>

definition stageIf ::
    "bool \<Rightarrow> string \<Rightarrow> string \<Rightarrow> (goerror + bool) prog \<Rightarrow> tier_status \<Rightarrow>
     (bool \<Rightarrow> tier_status \<Rightarrow> tier_result prog) \<Rightarrow> tier_result prog" where
  "stageIf b name what p st k = (if b then stage name what p st k else k True st)"

text \<open>The end of a \<^verbatim>\<open>Reconcile\<close>.\<close>

definition conclude :: "bool \<Rightarrow> string \<Rightarrow> string \<Rightarrow> tier_status \<Rightarrow> tier_result prog" where
  "conclude ready readyMsg waitMsg st =
     Ret (Tier (Some (st\<lparr>tier_ready := ready, tier_message := (if ready then readyMsg else waitMsg)\<rparr>)) None)"

text \<open>A loop that writes one object per name and returns a failed status that names the first failure.\<close>

definition eachOrFail ::
    "string list \<Rightarrow> (string \<Rightarrow> goerror option prog) \<Rightarrow> (string \<Rightarrow> string) \<Rightarrow> tier_result prog \<Rightarrow> tier_result prog" where
  "eachOrFail names body message k =
     andThen (forEach names body) (\<lambda>r. case r of Some (name, e) \<Rightarrow> failWith (message name) e | None \<Rightarrow> k)"

text \<open>The loop over the certificates, whose builder dereferences the cert-manager configuration.\<close>

primrec certificatesOrFail ::
    "(unstructured \<Rightarrow> goerror option prog) \<Rightarrow> (string \<Rightarrow> unstructured option) \<Rightarrow> string list \<Rightarrow> tier_result prog \<Rightarrow>
     tier_result prog" where
  "certificatesOrFail put build [] k = k"
| "certificatesOrFail put build (name # names) k =
     (case build name of
        None \<Rightarrow> Ret TierPanic
      | Some cert \<Rightarrow>
          checkThen (put cert) (\<lambda>e. failWith (''Failed to create '' @ name @ '' Certificate'') e)
            (certificatesOrFail put build names k))"

text \<open>\<^verbatim>\<open>if err := ...; err != nil { return false, err }\<close>, plain and with a wrapped error.\<close>

definition orReturn :: "goerror option prog \<Rightarrow> (goerror + bool) prog \<Rightarrow> (goerror + bool) prog" where
  "orReturn p k = checkThen p (\<lambda>e. Ret (Inl e)) k"

definition orWrap :: "string \<Rightarrow> goerror option prog \<Rightarrow> (goerror + bool) prog \<Rightarrow> (goerror + bool) prog" where
  "orWrap what p k = checkThen p (\<lambda>e. Ret (Inl (WrapErr (what @ '': '' @ err_text e) e))) k"

section \<open>The contract of a tier\<close>

text \<open>The components of a status, as names with their readiness.\<close>

definition comps :: "tier_status \<Rightarrow> (string \<times> bool) list" where
  "comps st = map (\<lambda>c. (comp_name c, comp_ready c)) (tier_components st)"

text \<open>
  \<open>tier_post names F res h\<close>: a result with an error is not ready; a result without one has a status;
  a ready status lists exactly the components \<open>names\<close>, all ready, and rests on the evidence \<open>F\<close>.
\<close>

fun tier_post :: "string list \<Rightarrow> (event list \<Rightarrow> bool) \<Rightarrow> tier_result \<Rightarrow> event list \<Rightarrow> bool" where
  "tier_post names F TierPanic h \<longleftrightarrow> True"
| "tier_post names F (Tier None err) h \<longleftrightarrow> err \<noteq> None"
| "tier_post names F (Tier (Some st) err) h \<longleftrightarrow>
     (tier_ready st \<longrightarrow> err = None \<and> comps st = map (\<lambda>n. (n, True)) names \<and> F h)"

lemma keeps_tier_post: "keeps F \<Longrightarrow> keeps (tier_post names F res)"
  unfolding keeps_def by (cases "(names, F, res, [] :: event list)" rule: tier_post.cases) auto

text \<open>No run of the program panics.\<close>

definition noPanic :: "tier_result prog \<Rightarrow> bool" where
  "noPanic p \<longleftrightarrow> (\<forall>tr. \<not> runs p TierPanic tr)"

locale tier_reconciler =
  fixes reconcile :: "carbide_deployment \<Rightarrow> tier_result prog"
    and components :: "carbide_deployment \<Rightarrow> string list"
    and evidence :: "carbide_deployment \<Rightarrow> event list \<Rightarrow> bool"
    and keys :: "carbide_deployment \<Rightarrow> object_key set"
  assumes post: "runs (reconcile d) res tr \<Longrightarrow> tier_post (components d) (evidence d) res tr"
    and writes_own: "runs (reconcile d) res tr \<Longrightarrow> list_all (about (keys d)) tr"
    and own_keys: "(KCarbideDeployment, ns, n) \<notin> keys d"
    and no_panic: "tls_complete d \<Longrightarrow> noPanic (reconcile d)"
    and evidence_keeps: "keeps (evidence d)"
    and keys_status: "keys (d\<lparr>cd_status := s\<rparr>) = keys d"
begin

lemma reconcile_spec: "spec_of (about (keys d)) (reconcile d) (tier_post (components d) (evidence d))"
  unfolding spec_of_def onlyDoes_def using post writes_own keeps_tier_post [OF evidence_keeps] by blast

lemma error_not_ready: "runs (reconcile d) (Tier (Some st) (Some e)) tr \<Longrightarrow> \<not> tier_ready st"
  by (drule post) auto

lemma no_error_status: "runs (reconcile d) (Tier st None) tr \<Longrightarrow> st \<noteq> None"
  by (cases st) (auto dest: post)

lemma ready_evidence:
  "runs (reconcile d) (Tier (Some st) err) tr \<Longrightarrow> tier_ready st \<Longrightarrow>
   err = None \<and> comps st = map (\<lambda>n. (n, True)) (components d) \<and> evidence d tr"
  by (drule post) auto

lemma leaves_resource:
  "runs (reconcile d) res tr \<Longrightarrow> e \<in> set tr \<Longrightarrow> \<not> (\<exists>x a. e = EStatusUpdate x a) \<and> writes_key e \<noteq> Some (KCarbideDeployment, ns, n)"
  using writes_own [of d res tr] own_keys [of ns n d] by (cases e) (auto simp: list_all_iff)

end

section \<open>Rules for the building blocks\<close>

lemma about_probe: "is_probe e \<Longrightarrow> about K e"
  by (cases e) auto

lemma keeps_reached [simp]: "keeps (reached c)"
  by (auto simp: keeps_def reached_def)

lemma read_spec: "onlyDoes is_probe p \<Longrightarrow> spec_of (about K) p (\<lambda>r tr. True)"
  unfolding spec_of_def by (auto intro: onlyDoes_weaken about_probe)

lemma comps_sel [simp]:
  "comps (st\<lparr>tier_message := m\<rparr>) = comps st" "comps (st\<lparr>tier_ready := b\<rparr>) = comps st" "comps (initStatus t) = []"
  "comps (addComponent name r t st) = comps st @ [(name, stage_ready r)]"
  "tier_ready (addComponent name r t st) = tier_ready st" "\<not> tier_ready (initStatus t)"
  by (simp_all add: comps_def initStatus_def addComponent_def)

lemma tier_post_mono: "tier_post names F res h \<Longrightarrow> (F h \<Longrightarrow> F' h) \<Longrightarrow> tier_post names F' res h"
  by (cases "(names, F, res, h)" rule: tier_post.cases) auto

lemma valid_failWith [intro!]: "valid G h (failWith m e) (tier_post names F)"
  by (auto simp: failWith_def failedStatus_def valid_def)

lemma valid_stopWith: "\<not> tier_ready st \<Longrightarrow> valid G h (stopWith st m e) (tier_post names F)"
  by (simp add: stopWith_def valid_def)

lemma valid_waitWith: "\<not> tier_ready st \<Longrightarrow> valid G h (waitWith st m) (tier_post names F)"
  by (simp add: waitWith_def valid_def)

lemma valid_notRequired: "names = [] \<Longrightarrow> F h \<Longrightarrow> valid G h (notRequired m) (tier_post names F)"
  by (auto simp: notRequired_def valid_def comps_def)

lemma valid_conclude:
  "(ready \<Longrightarrow> comps st = map (\<lambda>n. (n, True)) names \<and> F h) \<Longrightarrow> valid G h (conclude ready m w st) (tier_post names F)"
  by (simp add: conclude_def valid_def)

lemma valid_stage:
  assumes "spec_of A p (\<lambda>r tr. r = Inr True \<longrightarrow> E tr)" and "\<And>h' e. set h \<subseteq> set h' \<Longrightarrow> A e \<Longrightarrow> G h' e"
    and "\<not> tier_ready st"
    and "\<And>b st' h'. set h \<subseteq> set h' \<Longrightarrow> b \<longrightarrow> E h' \<Longrightarrow> \<not> tier_ready st' \<Longrightarrow> comps st' = comps st @ [(name, b)] \<Longrightarrow>
           valid G h' (k b st') (tier_post names F)"
  shows "valid G h (stage name what p st k) (tier_post names F)"
  unfolding stage_def Let_def
  by (rule valid_andThen [OF valid_call [OF assms(1,2)]])
    (auto intro!: valid_Now valid_stopWith assms(3,4) simp: assms(3) stage_ready_def split: sum.split)

lemma valid_stageIf:
  assumes "c \<Longrightarrow> spec_of A p (\<lambda>r tr. r = Inr True \<longrightarrow> E tr)" and "\<And>h' e. c \<Longrightarrow> set h \<subseteq> set h' \<Longrightarrow> A e \<Longrightarrow> G h' e"
    and "\<not> tier_ready st"
    and "\<And>b st' h'. set h \<subseteq> set h' \<Longrightarrow> \<not> c \<longrightarrow> b \<Longrightarrow> b \<and> c \<longrightarrow> E h' \<Longrightarrow> \<not> tier_ready st' \<Longrightarrow>
           comps st' = comps st @ (if c then [(name, b)] else []) \<Longrightarrow> valid G h' (k b st') (tier_post names F)"
  shows "valid G h (stageIf c name what p st k) (tier_post names F)"
  unfolding stageIf_def
  by (cases c) (auto intro!: valid_stage assms)

text \<open>
  What holds of a status under construction: it is not ready yet, and if all stages so far were ready
  (\<open>ok\<close>), its components are \<open>names\<close>, all ready, on the evidence \<open>P\<close>.
\<close>

definition so_far :: "bool \<Rightarrow> string list \<Rightarrow> (event list \<Rightarrow> bool) \<Rightarrow> tier_status \<Rightarrow> event list \<Rightarrow> bool" where
  "so_far ok names P st h \<longleftrightarrow> \<not> tier_ready st \<and> keeps P \<and> (ok \<longrightarrow> comps st = map (\<lambda>n. (n, True)) names \<and> P h)"

lemma so_far_grow: "set h \<subseteq> set h' \<Longrightarrow> so_far ok names P st h \<Longrightarrow> so_far ok names P st h'"
  by (auto simp: so_far_def intro: keepsD)

lemma so_far_init: "keeps P \<Longrightarrow> P h \<Longrightarrow> so_far True [] P (initStatus t) h"
  by (simp add: so_far_def)

lemma so_far_add:
  "set h \<subseteq> set h' \<Longrightarrow> keeps E \<Longrightarrow> (b \<Longrightarrow> E h') \<Longrightarrow> so_far ok names P st h \<Longrightarrow> so_far (ok \<and> b) names (\<lambda>h. P h \<and> E h) st h'"
  by (auto simp: so_far_def intro: keepsD keeps_conj)

lemma so_far_not_ready [simp]: "so_far ok names P st h \<Longrightarrow> \<not> tier_ready st"
  by (simp add: so_far_def)

lemma spec_of_keeps:
  fixes p :: "(goerror + bool) prog"
  assumes "spec_of A p (\<lambda>r tr. r = Inr True \<longrightarrow> E tr)"
  shows "keeps E"
proof -
  have "\<forall>r :: goerror + bool. keeps (\<lambda>tr. r = Inr True \<longrightarrow> E tr)" using assms by (simp add: spec_of_def)
  from spec [OF this, of "Inr True"] show ?thesis by simp
qed

lemma valid_next:
  assumes so: "so_far ok names P st h"
    and sp: "c \<Longrightarrow> spec_of A p (\<lambda>r tr. r = Inr True \<longrightarrow> E tr)" and "\<And>h' e. c \<Longrightarrow> set h \<subseteq> set h' \<Longrightarrow> A e \<Longrightarrow> G h' e"
    and k: "\<And>b st' h'. set h \<subseteq> set h' \<Longrightarrow> b \<and> c \<longrightarrow> E h' \<Longrightarrow> \<not> c \<longrightarrow> b \<Longrightarrow>
           so_far (ok \<and> b) (names @ (if c then [name] else [])) (\<lambda>h. P h \<and> (c \<longrightarrow> E h)) st' h' \<Longrightarrow>
           valid G h' (k b st') (tier_post N F)"
  shows "valid G h (stageIf c name what p st k) (tier_post N F)"
proof (rule valid_stageIf [OF sp assms(3)])
  fix b st' h'
  assume *: "set h \<subseteq> set h'" "\<not> c \<longrightarrow> b" "b \<and> c \<longrightarrow> E h'" "\<not> tier_ready st'"
    "comps st' = comps st @ (if c then [(name, b)] else [])"
  have "keeps (\<lambda>h. P h \<and> (c \<longrightarrow> E h))"
    using so sp spec_of_keeps [of A p E] by (auto simp: so_far_def intro!: keeps_conj keeps_imp)
  with * so have "so_far (ok \<and> b) (names @ (if c then [name] else [])) (\<lambda>h. P h \<and> (c \<longrightarrow> E h)) st' h'"
    by (auto simp: so_far_def intro: keepsD)
  with * show "valid G h' (k b st') (tier_post N F)" by (intro k)
qed (use so in \<open>auto simp: so_far_def\<close>)

lemma valid_next_stage:
  assumes "so_far ok names P st h"
    and "spec_of A p (\<lambda>r tr. r = Inr True \<longrightarrow> E tr)" and "\<And>h' e. set h \<subseteq> set h' \<Longrightarrow> A e \<Longrightarrow> G h' e"
    and "\<And>b st' h'. set h \<subseteq> set h' \<Longrightarrow> b \<longrightarrow> E h' \<Longrightarrow> so_far (ok \<and> b) (names @ [name]) (\<lambda>h. P h \<and> E h) st' h' \<Longrightarrow>
           valid G h' (k b st') (tier_post N F)"
  shows "valid G h (stage name what p st k) (tier_post N F)"
  using valid_next [of ok names P st h True A p E G name k N F what] assms by (simp add: stageIf_def)

lemma valid_done:
  assumes "so_far ok names P st h" and "ready \<Longrightarrow> ok \<and> names = N \<and> (P h \<longrightarrow> F h)"
  shows "valid G h (conclude ready m w st) (tier_post N F)"
  using assms by (intro valid_conclude) (auto simp: so_far_def)

lemma valid_eachOrFail:
  assumes "spec_of A (forEach xs body) (\<lambda>r tr. r = None \<longrightarrow> E tr)"
    and "\<And>h' e. set h \<subseteq> set h' \<Longrightarrow> A e \<Longrightarrow> G h' e"
    and "\<And>h'. set h \<subseteq> set h' \<Longrightarrow> E h' \<Longrightarrow> valid G h' k (tier_post names F)"
  shows "valid G h (eachOrFail xs body message k) (tier_post names F)"
  unfolding eachOrFail_def
  by (rule valid_andThen [OF valid_call [OF assms(1,2)]]) (auto split: option.split intro: assms(3))

lemma valid_certificatesOrFail:
  assumes put: "\<And>u. spec_of (about {obj_key (UnstructuredObj u)}) (put u) (\<lambda>r tr. r = None \<longrightarrow> written (UnstructuredObj u) tr)"
    and G: "\<And>n u h' e. n \<in> set xs \<Longrightarrow> build n = Some u \<Longrightarrow> set h \<subseteq> set h' \<Longrightarrow> about {obj_key (UnstructuredObj u)} e \<Longrightarrow> G h' e"
    and k: "\<And>h'. set h \<subseteq> set h' \<Longrightarrow> \<forall>n\<in>set xs. \<exists>u. build n = Some u \<and> written (UnstructuredObj u) h' \<Longrightarrow>
              valid G h' k (tier_post names F)"
  shows "valid G h (certificatesOrFail put build xs k) (tier_post names F)"
  using G k
proof (induction xs arbitrary: h)
  case Nil
  then show ?case by simp
next
  case (Cons x xs)
  show ?case
  proof (cases "build x")
    case None
    then show ?thesis by (simp add: valid_def)
  next
    case (Some u)
    have "valid G h (checkThen (put u) (\<lambda>e. failWith (''Failed to create '' @ x @ '' Certificate'') e)
            (certificatesOrFail put build xs k)) (tier_post names F)"
    proof (rule valid_put [OF put])
      fix h'
      assume h': "set h \<subseteq> set h'" "written (UnstructuredObj u) h'"
      show "valid G h' (certificatesOrFail put build xs k) (tier_post names F)"
      proof (rule Cons.IH)
        fix h''
        assume h'': "set h' \<subseteq> set h''" "\<forall>n\<in>set xs. \<exists>u. build n = Some u \<and> written (UnstructuredObj u) h''"
        then have "written (UnstructuredObj u) h''" using h' keepsD [OF keeps_written] by blast
        with h' h'' Some show "valid G h'' k (tier_post names F)"
          by (intro Cons.prems(2)) (blast, simp)
      qed (use Cons.prems(1) h' in \<open>meson list.set_intros(2) order_trans\<close>)
    qed (use Cons.prems(1) [of x u] Some in auto)
    with Some show ?thesis by simp
  qed
qed

section \<open>Rules for stage functions\<close>

lemma valid_orReturn:
  assumes "spec_of (about K0) p (\<lambda>r tr. r = None \<longrightarrow> F tr)" and "K0 \<subseteq> K"
    and "\<And>h'. set h \<subseteq> set h' \<Longrightarrow> F h' \<Longrightarrow> valid (\<lambda>_. about K) h' k (\<lambda>r tr. r = Inr True \<longrightarrow> E tr)"
  shows "valid (\<lambda>_. about K) h (orReturn p k) (\<lambda>r tr. r = Inr True \<longrightarrow> E tr)"
  unfolding orReturn_def
  by (rule valid_put [OF spec_of_about [OF assms(1,2)]]) (auto intro: valid_Ret assms(3))

lemma valid_orWrap:
  assumes "spec_of (about K0) p (\<lambda>r tr. r = None \<longrightarrow> F tr)" and "K0 \<subseteq> K"
    and "\<And>h'. set h \<subseteq> set h' \<Longrightarrow> F h' \<Longrightarrow> valid (\<lambda>_. about K) h' k (\<lambda>r tr. r = Inr True \<longrightarrow> E tr)"
  shows "valid (\<lambda>_. about K) h (orWrap what p k) (\<lambda>r tr. r = Inr True \<longrightarrow> E tr)"
  unfolding orWrap_def
  by (rule valid_put [OF spec_of_about [OF assms(1,2)]]) (auto intro: valid_Ret assms(3))

lemma valid_final:
  assumes "spec_of (about K) p (\<lambda>r tr. r = Inr True \<longrightarrow> F tr)" and "\<And>h'. set h \<subseteq> set h' \<Longrightarrow> F h' \<Longrightarrow> E h'"
  shows "valid (\<lambda>_. about K) h p (\<lambda>r tr. r = Inr True \<longrightarrow> E tr)"
  by (rule valid_weaken [OF valid_call [OF assms(1)]]) (auto intro: assms(2))

lemma valid_isReady:
  assumes "spec_of (about K) p (\<lambda>r tr. r = Inr True \<longrightarrow> F tr)"
    and "\<And>h'. set h \<subseteq> set h' \<Longrightarrow> F h' \<Longrightarrow> valid (\<lambda>_. about K) h' (g True) (\<lambda>r tr. r = Inr True \<longrightarrow> E tr)"
    and "\<And>h'. set h \<subseteq> set h' \<Longrightarrow> valid (\<lambda>_. about K) h' (g False) (\<lambda>r tr. r = Inr True \<longrightarrow> E tr)"
  shows "valid (\<lambda>_. about K) h (tryThen p (\<lambda>e. Ret (Inl e)) g) (\<lambda>r tr. r = Inr True \<longrightarrow> E tr)"
proof (rule valid_check [OF assms(1)])
  show "valid (\<lambda>_. about K) h' (g b) (\<lambda>r tr. r = Inr True \<longrightarrow> E tr)"
    if "set h \<subseteq> set h'" "b \<longrightarrow> F h'" for b h'
    using that assms(2,3) by (cases b) simp_all
qed (auto intro: valid_Ret)

lemmas deployment_spec = deployment_check.check_spec [OF keeps_observed]
lemmas daemon_set_spec = daemon_set_check.check_spec [OF keeps_observed]
lemmas job_spec = job_check.check_spec [OF keeps_observed]
lemmas pvc_spec = pvc_check.check_spec [OF keeps_observed]
lemmas secret_spec = secret_check.check_spec [OF keeps_observed]

definition job_done :: "string \<Rightarrow> string \<Rightarrow> event list \<Rightarrow> bool" where
  "job_done ns n tr \<longleftrightarrow> observed KJob as_job ns n (\<lambda>j. job_verdict ns n (job_conditions j) = Inr True) tr"

lemma keeps_job_done [simp]: "keeps (job_done ns n)"
  unfolding job_done_def by (rule keeps_observed)

lemma keeps_secret_read [simp]: "keeps (secret_read ns n)"
  by (simp add: secret_read_def [abs_def])

lemma mode_external [simp]: "str_or m ManagedMode = ExternalMode \<longleftrightarrow> m = ExternalMode"
  by (simp add: str_or_def)

lemma get_secret_spec:
  "spec_of (about K) (get_secret ns n) (\<lambda>r tr. \<forall>s. r = Inr s \<longrightarrow> EGet KSecret ns n (Inr (SecretObj s)) \<in> set tr)"
proof -
  have "as_secret x = Some s \<Longrightarrow> x = SecretObj s" for x s by (cases x) simp_all
  moreover have "keeps (\<lambda>tr. \<forall>s. r = Inr s \<longrightarrow> EGet KSecret ns n (Inr (SecretObj s)) \<in> set tr)" for r :: "goerror + secret"
    by (auto simp: keeps_def)
  ultimately show ?thesis
    unfolding spec_of_def onlyDoes_def get_secret_def runs_get_object
    by (auto simp: split_sum_ex split: option.splits)
qed

section \<open>Rules for the absence of panics\<close>

lemma noPanic_Ret [intro!]: "noPanic (Ret (Tier st err))"
  by (simp add: noPanic_def)

lemma noPanic_Now: "(\<And>t. noPanic (f t)) \<Longrightarrow> noPanic (Now f)"
  by (simp add: noPanic_def)

lemma noPanic_andThen: "(\<And>x. noPanic (g x)) \<Longrightarrow> noPanic (andThen p g)"
  by (auto simp: noPanic_def runs_andThen)

lemma noPanic_if: "(b \<Longrightarrow> noPanic p) \<Longrightarrow> (\<not> b \<Longrightarrow> noPanic q) \<Longrightarrow> noPanic (if b then p else q)"
  by simp

lemma noPanic_option: "(x = None \<Longrightarrow> noPanic p) \<Longrightarrow> (\<And>y. x = Some y \<Longrightarrow> noPanic (q y)) \<Longrightarrow> noPanic (case_option p q x)"
  by (cases x) simp_all

lemma noPanic_leaf [intro!]:
  "noPanic (failWith m e)" "noPanic (stopWith st m e)" "noPanic (waitWith st m)" "noPanic (notRequired m)"
  "noPanic (conclude b m w st)"
  by (auto simp: noPanic_def failWith_def failedStatus_def stopWith_def waitWith_def notRequired_def conclude_def)

lemma noPanic_checkThen: "(\<And>e. noPanic (onErr e)) \<Longrightarrow> noPanic g \<Longrightarrow> noPanic (checkThen p onErr g)"
  unfolding checkThen_def by (rule noPanic_andThen) (simp split: option.split)

lemma noPanic_tryThen: "(\<And>e. noPanic (onErr e)) \<Longrightarrow> (\<And>x. noPanic (g x)) \<Longrightarrow> noPanic (tryThen p onErr g)"
  unfolding tryThen_def by (rule noPanic_andThen) (simp split: sum.split)

lemma noPanic_stage: "(\<And>b st'. noPanic (k b st')) \<Longrightarrow> noPanic (stage name what p st k)"
  unfolding stage_def Let_def by (intro noPanic_andThen noPanic_Now) (auto split: sum.split)

lemma noPanic_stageIf: "(\<And>b st'. noPanic (k b st')) \<Longrightarrow> noPanic (stageIf c name what p st k)"
  unfolding stageIf_def by (intro noPanic_if noPanic_stage)

lemma noPanic_eachOrFail: "noPanic k \<Longrightarrow> noPanic (eachOrFail xs body m k)"
  unfolding eachOrFail_def by (rule noPanic_andThen) (auto split: option.split)

lemma noPanic_certificatesOrFail: "(\<And>n. build n \<noteq> None) \<Longrightarrow> noPanic k \<Longrightarrow> noPanic (certificatesOrFail put build xs k)"
proof (induction xs)
  case (Cons x xs)
  then obtain u where "build x = Some u" by blast
  with Cons show ?case by (auto intro!: noPanic_checkThen)
qed simp

lemmas noPanic_intros = noPanic_Ret noPanic_leaf noPanic_Now noPanic_if noPanic_option noPanic_checkThen noPanic_tryThen
  noPanic_stage noPanic_stageIf noPanic_eachOrFail noPanic_certificatesOrFail

end
