(* ===== verification/Postgres_Resources.thy ===== *)
theory Postgres_Resources
  imports Tls
begin

text \<open>
  The objects of the infrastructure tier (\<^verbatim>\<open>internal/resources/infrastructure/postgresql.go\<close>).
  \<^verbatim>\<open>Quantity.String()\<close> belongs to another package and is the parameter \<open>qstr\<close>; the order in which Go
  ranges over the map of needed users is the argument \<open>order\<close>.
\<close>

definition PostgreSQLClusterName :: string where "PostgreSQLClusterName = ''carbide-postgres''"
definition PostgreSQLInitConfigMapName :: string where "PostgreSQLInitConfigMapName = ''carbide-postgres-init''"

section \<open>Users and databases\<close>

definition userDatabaseMapping :: "(string \<times> string list) list" where
  "userDatabaseMapping =
     [(''carbide'', [''carbide'']), (''forge'', [''forge'']), (''rla'', [''rla'']), (''psm'', [''psm'']),
      (''temporal'', [''temporal'', ''temporal_visibility'']), (''keycloak'', [''keycloak''])]"

text \<open>The inner search: the first mapping entry that lists the database, else a user of its name.\<close>

definition owner_of :: "(string \<times> string list) list \<Rightarrow> string \<Rightarrow> string" where
  "owner_of mapping db = (case List.find (\<lambda>(u, dbs). db \<in> set dbs) mapping of Some (u, _) \<Rightarrow> u | None \<Rightarrow> db)"

text \<open>\<^verbatim>\<open>usersNeeded\<close>: a map from users to their databases in the order of the list.\<close>

definition usersNeeded :: "string list \<Rightarrow> (string \<times> string list) list" where
  "usersNeeded databases =
     fold (\<lambda>db m. AList.update (owner_of userDatabaseMapping db)
              ((case map_of m (owner_of userDatabaseMapping db) of None \<Rightarrow> [] | Some dbs \<Rightarrow> dbs) @ [db]) m)
       databases []"

text \<open>Deduplication keeps the first occurrence.\<close>

fun unique :: "'a list \<Rightarrow> 'a list" where
  "unique [] = []"
| "unique (x # xs) = x # unique (removeAll x xs)"

definition databases_or_default :: "postgresql_config \<Rightarrow> string list" where
  "databases_or_default pgConfig = (if pg_databases pgConfig = [] then [''carbide'', ''forge''] else pg_databases pgConfig)"

text \<open>The users and their databases, in the order of the range over the map.\<close>

definition users_of :: "string list \<Rightarrow> postgresql_config \<Rightarrow> (string \<times> string list) list" where
  "users_of order pgConfig =
     map (\<lambda>u. (u, unique (case map_of (usersNeeded (databases_or_default pgConfig)) u of None \<Rightarrow> [] | Some dbs \<Rightarrow> dbs)))
       order"

definition buildPostgreSQLUsers :: "string list \<Rightarrow> postgresql_config \<Rightarrow> json" where
  "buildPostgreSQLUsers order pgConfig =
     JList (map (\<lambda>(u, dbs). JMap [(''name'', JString u), (''databases'', JList (map JString dbs))]) (users_of order pgConfig))"

section \<open>The cluster\<close>

definition convertResources :: "(quantity \<Rightarrow> string) \<Rightarrow> resource_requirements \<Rightarrow> json" where
  "convertResources qstr res =
     JMap ((if res_requests res \<noteq> [] then
              [(''requests'', JMap (map (\<lambda>(k, v). (k, JString (qstr v))) (res_requests res)))] else []) @
           (if res_limits res \<noteq> [] then
              [(''limits'', JMap (map (\<lambda>(k, v). (k, JString (qstr v))) (res_limits res)))] else []))"

definition storage_claim :: "string \<Rightarrow> string \<Rightarrow> json" where
  "storage_claim amount storageClass =
     JMap ([(''accessModes'', JList [JString ''ReadWriteOnce'']),
            (''resources'', JMap [(''requests'', JMap [(''storage'', JString amount)])])] @
           (if storageClass \<noteq> [] then [(''storageClassName'', JString storageClass)] else []))"

definition BuildPostgreSQLCluster ::
    "(quantity \<Rightarrow> string) \<Rightarrow> string list \<Rightarrow> carbide_deployment \<Rightarrow> infrastructure_config \<Rightarrow> string \<Rightarrow> unstructured" where
  "BuildPostgreSQLCluster qstr order d infra ns =
     (let pgConfig = infra_postgresql infra;
          version = str_or (pg_version pgConfig) ''16'';
          replicas = int_or (pg_replicas pgConfig) 1;
          storageSize = (case pg_storage pgConfig of None \<Rightarrow> ''10Gi'' | Some s \<Rightarrow> qstr (st_size s));
          storageClass = GetStorageClass d (pg_storage pgConfig)
      in SetOwnerReferences [controllerRef d] \<lparr>u_object =
           [(''apiVersion'', JString ''postgres-operator.crunchydata.com/v1beta1''),
            (''kind'', JString ''PostgresCluster''),
            (''metadata'', JMap [(''name'', JString PostgreSQLClusterName), (''namespace'', JString ns),
               (''labels'', DefaultLabelsUnstructured ''postgresql'' d)]),
            (''spec'', JMap
              [(''postgresVersion'', JString version),
               (''instances'', JList [JMap
                 ([(''name'', JString ''instance1''), (''replicas'', JInt (sint replicas)),
                   (''dataVolumeClaimSpec'', storage_claim storageSize storageClass)] @
                  (case pg_resources pgConfig of None \<Rightarrow> [] | Some r \<Rightarrow> [(''resources'', convertResources qstr r)]))]),
               (''backups'', JMap [(''pgbackrest'', JMap [(''repos'', JList [JMap
                 [(''name'', JString ''repo1''),
                  (''volume'', JMap [(''volumeClaimSpec'', storage_claim ''10Gi'' storageClass)])]])])]),
               (''databaseInitSQL'', JMap [(''name'', JString PostgreSQLInitConfigMapName), (''key'', JString ''init.sql'')]),
               (''users'', buildPostgreSQLUsers order pgConfig)])]\<rparr>)"

definition GetPostgreSQLConnectionSecret :: "string \<Rightarrow> string" where
  "GetPostgreSQLConnectionSecret username = PostgreSQLClusterName @ ''-pguser-'' @ username"

definition ResolveUserSecret :: "carbide_deployment \<Rightarrow> string \<Rightarrow> string" where
  "ResolveUserSecret d username =
     (let managed = GetPostgreSQLConnectionSecret username in
      case spec_infrastructure (cd_spec d) of
        None \<Rightarrow> managed
      | Some i \<Rightarrow>
          if pg_mode (infra_postgresql i) = ExternalMode then
            (case pg_connection (infra_postgresql i) of
               None \<Rightarrow> managed
             | Some c \<Rightarrow> (case map_of (pgc_user_secrets c) username of None \<Rightarrow> managed | Some ref \<Rightarrow> sr_name ref))
          else managed)"

definition BuildPostgreSQLConnectionInfo :: "carbide_deployment \<Rightarrow> string \<Rightarrow> string \<Rightarrow> int32 \<Rightarrow> config_map" where
  "BuildPostgreSQLConnectionInfo d ns host port =
     \<lparr>cm_meta = mk_meta ''carbide-postgres-connection'' ns (DefaultLabels ''postgresql-config'' d) [controllerRef d],
      cm_data = [''host'' \<mapsto> host, ''port'' \<mapsto> show_int32 (int_or port 5432)]\<rparr>"

definition initSQL :: string where
  "initSQL = [CHR 0x5C] @ unlines [''c forge'', ''CREATE EXTENSION IF NOT EXISTS pg_trgm;'']"

definition BuildPostgreSQLInitConfigMap :: "carbide_deployment \<Rightarrow> string \<Rightarrow> config_map" where
  "BuildPostgreSQLInitConfigMap d ns =
     \<lparr>cm_meta = mk_meta PostgreSQLInitConfigMapName ns (DefaultLabels ''postgresql-init'' d) [controllerRef d],
      cm_data = [''init.sql'' \<mapsto> initSQL]\<rparr>"

section \<open>Lemmas\<close>

lemma set_unique [simp]: "set (unique xs) = set xs"
  by (induction xs rule: unique.induct) auto

lemma distinct_unique [simp]: "distinct (unique xs)"
  by (induction xs rule: unique.induct) auto

lemma find_Some_iff: "List.find P xs = Some x \<Longrightarrow> x \<in> set xs \<and> P x"
  by (induction xs) (auto split: if_splits)

text \<open>
  No database belongs to two users, so the owner found does not depend on the order in which
  Go ranges over the mapping.
\<close>

lemma mapping_disjoint:
  "(u, dbs) \<in> set userDatabaseMapping \<Longrightarrow> (v, dbs') \<in> set userDatabaseMapping \<Longrightarrow> db \<in> set dbs \<Longrightarrow> db \<in> set dbs' \<Longrightarrow> u = v"
  by (auto simp: userDatabaseMapping_def)

lemma owner_of_order:
  assumes "mset mapping = mset userDatabaseMapping"
  shows "owner_of mapping db = owner_of userDatabaseMapping db"
proof -
  have set: "set mapping = set userDatabaseMapping" using assms by (rule mset_eq_setD)
  show ?thesis
  proof (cases "\<exists>(u, dbs) \<in> set userDatabaseMapping. db \<in> set dbs")
    case False
    then have "List.find (\<lambda>(u, dbs). db \<in> set dbs) mapping = None" "List.find (\<lambda>(u, dbs). db \<in> set dbs) userDatabaseMapping = None"
      by (auto simp: find_None_iff set)
    then show ?thesis by (simp add: owner_of_def)
  next
    case True
    then obtain u dbs v dbs' where
      "List.find (\<lambda>(u, dbs). db \<in> set dbs) mapping = Some (u, dbs)"
      "List.find (\<lambda>(u, dbs). db \<in> set dbs) userDatabaseMapping = Some (v, dbs')"
      by (metis (no_types, lifting) find_None_iff set not_None_eq surj_pair)
    then show ?thesis
      using mapping_disjoint [of u dbs v dbs' db] by (auto simp: owner_of_def set dest!: find_Some_iff)
  qed
qed

definition owned :: "string list \<Rightarrow> string \<Rightarrow> string list" where
  "owned databases u = filter (\<lambda>db. owner_of userDatabaseMapping db = u) databases"

lemma usersNeeded_snoc:
  "usersNeeded (dbs @ [db]) = AList.update (owner_of userDatabaseMapping db)
     ((case map_of (usersNeeded dbs) (owner_of userDatabaseMapping db) of None \<Rightarrow> [] | Some x \<Rightarrow> x) @ [db]) (usersNeeded dbs)"
  by (simp add: usersNeeded_def)

lemma map_of_usersNeeded:
  "map_of (usersNeeded dbs) u = (if owned dbs u = [] then None else Some (owned dbs u))"
proof (induction dbs arbitrary: u rule: rev_induct)
  case Nil
  then show ?case by (simp add: usersNeeded_def owned_def)
next
  case (snoc db dbs)
  then show ?case by (simp add: usersNeeded_snoc map_of_update owned_def)
qed

lemma users_of_range:
  assumes "mset order = mset (map fst (usersNeeded (databases_or_default pg)))"
  shows "set (users_of order pg) =
    {(u, unique (owned (databases_or_default pg) u)) | u. owned (databases_or_default pg) u \<noteq> []}"
proof -
  let ?m = "usersNeeded (databases_or_default pg)"
  have "set order = fst ` set ?m" using assms by (metis list.set_map mset_eq_setD)
  also have "\<dots> = {u. owned (databases_or_default pg) u \<noteq> []}"
    unfolding dom_map_of_conv_image_fst [symmetric] by (auto simp: dom_def map_of_usersNeeded)
  finally show ?thesis by (auto simp: users_of_def map_of_usersNeeded)
qed

lemma distinct_usersNeeded: "distinct (map fst (usersNeeded dbs))"
proof (induction dbs rule: rev_induct)
  case Nil
  then show ?case by (simp add: usersNeeded_def)
next
  case (snoc db dbs)
  then show ?case by (simp add: usersNeeded_snoc distinct_update)
qed

section \<open>Properties\<close>

text \<open>
  C32: whatever order the map ranges take, the generated user list gives every requested
  database to exactly one user, names no user twice, lists no database twice and invents none.
\<close>
theorem users_cover_databases:
  assumes "mset order = mset (map fst (usersNeeded (databases_or_default pg)))"
  shows "distinct (map fst (users_of order pg)) \<and>
    (\<forall>(u, dbs) \<in> set (users_of order pg). distinct dbs \<and> dbs \<noteq> [] \<and> set dbs \<subseteq> set (databases_or_default pg)) \<and>
    (\<forall>db \<in> set (databases_or_default pg). \<exists>!e. e \<in> set (users_of order pg) \<and> db \<in> set (snd e))"
proof -
  let ?dbs = "databases_or_default pg"
  have "distinct order" using assms distinct_usersNeeded by (metis mset_eq_imp_distinct_iff)
  then have "distinct (map fst (users_of order pg))" by (simp add: users_of_def o_def)
  moreover have "\<forall>(u, dbs) \<in> set (users_of order pg). distinct dbs \<and> dbs \<noteq> [] \<and> set dbs \<subseteq> set ?dbs"
    unfolding users_of_range [OF assms] by (auto simp: owned_def dest!: arg_cong [where f = set])
  moreover have "\<exists>!e. e \<in> set (users_of order pg) \<and> db \<in> set (snd e)" if "db \<in> set ?dbs" for db
  proof (rule ex1I [of _ "(owner_of userDatabaseMapping db, unique (owned ?dbs (owner_of userDatabaseMapping db)))"])
    have mem: "db \<in> set (owned ?dbs (owner_of userDatabaseMapping db))" using that by (simp add: owned_def)
    then show "(owner_of userDatabaseMapping db, unique (owned ?dbs (owner_of userDatabaseMapping db))) \<in> set (users_of order pg) \<and>
        db \<in> set (snd (owner_of userDatabaseMapping db, unique (owned ?dbs (owner_of userDatabaseMapping db))))"
      unfolding users_of_range [OF assms] by auto
  next
    fix e
    assume "e \<in> set (users_of order pg) \<and> db \<in> set (snd e)"
    then show "e = (owner_of userDatabaseMapping db, unique (owned ?dbs (owner_of userDatabaseMapping db)))"
      unfolding users_of_range [OF assms] by (auto simp: owned_def)
  qed
  ultimately show ?thesis by blast
qed

section \<open>Witnesses\<close>

theorem users_cover_databases_witness:
  "\<exists>!e. e \<in> set (users_of [''forge'', ''temporal''] (zero_pg\<lparr>pg_databases := [''forge'', ''temporal'', ''temporal_visibility'']\<rparr>)) \<and>
     ''temporal_visibility'' \<in> set (snd e)"
proof -
  let ?pg = "zero_pg\<lparr>pg_databases := [''forge'', ''temporal'', ''temporal_visibility'']\<rparr>"
  have "mset [''forge'', ''temporal''] = mset (map fst (usersNeeded (databases_or_default ?pg)))"
    by (simp add: databases_or_default_def usersNeeded_def owner_of_def userDatabaseMapping_def)
  from users_cover_databases [OF this] show ?thesis by (simp add: databases_or_default_def)
qed

end
