(* ===== verification/Infra_Reconciler.thy ===== *)
theory Infra_Reconciler
  imports Tier Postgres_Resources
begin

text \<open>
  The infrastructure tier (\<^verbatim>\<open>internal/controller/infrastructure_reconciler.go\<close>): PostgreSQL, either
  managed by the Crunchy operator or external.  Shown: the contract of a tier, with the evidence
  that a ready status rests on, and the order of the init ConfigMap and the cluster.
\<close>

section \<open>PostgreSQL\<close>

definition reconcileManagedPostgreSQL ::
    "(quantity \<Rightarrow> string) \<Rightarrow> carbide_deployment \<Rightarrow> infrastructure_config \<Rightarrow> string \<Rightarrow> (goerror + bool) prog" where
  "reconcileManagedPostgreSQL qstr d infra ns =
     checkThen ValidatePostgresOperator (\<lambda>e. Ret (Inl e))
       (RangeOrder (map fst (usersNeeded (databases_or_default (infra_postgresql infra)))) (\<lambda>order.
         checkThen (infra_createOrUpdateUnstructured (BuildPostgreSQLCluster qstr order d infra ns)) (\<lambda>e. Ret (Inl e))
           (tryThen (IsPostgreSQLReady ns PostgreSQLClusterName) (\<lambda>e. Ret (Inl e)) (\<lambda>ready. Ret (Inr ready)))))"

definition reconcileExternalPostgreSQL :: "string \<Rightarrow> postgresql_config \<Rightarrow> (goerror + bool) prog" where
  "reconcileExternalPostgreSQL ns config =
     (if pg_connection config = None then Ret (Inl (Errorf ''external PostgreSQL connection config is required''))
      else checkThen (ValidateExternalPostgreSQL ns (pg_connection config)) (\<lambda>e. Ret (Inl e)) (Ret (Inr True)))"

definition reconcilePostgreSQL ::
    "(quantity \<Rightarrow> string) \<Rightarrow> carbide_deployment \<Rightarrow> infrastructure_config \<Rightarrow> string \<Rightarrow> (goerror + bool) prog" where
  "reconcilePostgreSQL qstr d infra ns =
     (let pgConfig = infra_postgresql infra;
          mode = str_or (pg_mode pgConfig) ManagedMode
      in if mode = ManagedMode then reconcileManagedPostgreSQL qstr d infra ns
         else if mode = ExternalMode then reconcileExternalPostgreSQL ns pgConfig
         else Ret (Inl (Errorf (''invalid PostgreSQL mode: '' @ mode))))"

section \<open>The tier\<close>

definition infra_ns :: "infrastructure_config \<Rightarrow> string" where
  "infra_ns infra = str_or (infra_namespace infra) ''carbide-operators''"

definition infra_Reconcile :: "(quantity \<Rightarrow> string) \<Rightarrow> carbide_deployment \<Rightarrow> tier_result prog" where
  "infra_Reconcile qstr d =
     (case spec_infrastructure (cd_spec d) of
        None \<Rightarrow> Ret (Tier None (Some (Errorf ''infrastructure config is nil'')))
      | Some infra \<Rightarrow>
          (let ns = infra_ns infra in
           checkThen (infra_ensureNamespace ns) (failWith ''Failed to create namespace'')
             (Now (\<lambda>t.
               let st = initStatus t;
                   postgres = stage ''PostgreSQL'' ''PostgreSQL reconciliation failed''
                     (reconcilePostgreSQL qstr d infra ns) st
                     (\<lambda>pgReady. conclude pgReady ''All infrastructure components ready''
                        ''Waiting for infrastructure components to be ready'');
                   initConfig =
                     (if pg_mode (infra_postgresql infra) \<noteq> ExternalMode then
                        checkThen (infra_createOrUpdate (ConfigMapObj (BuildPostgreSQLInitConfigMap d ns)))
                          (stopWith st ''PostgreSQL init ConfigMap failed'') postgres
                      else postgres)
               in if infra_storage_class infra \<noteq> [] then
                    checkThen (ValidateStorageClass (infra_storage_class infra))
                      (stopWith st ''StorageClass validation failed'') initConfig
                  else initConfig))))"

section \<open>What readiness rests on\<close>

text \<open>
  Managed: the CRD of the operator was seen, the init ConfigMap and a cluster with the required users were
  written, and the cluster was then seen ready.  External: the connection was probed with success.
\<close>

definition pg_operator_seen :: "event list \<Rightarrow> bool" where
  "pg_operator_seen = observed KCRD as_crd [] ''postgresclusters.postgres-operator.crunchydata.com'' (\<lambda>_. True)"

definition cluster_written :: "(quantity \<Rightarrow> string) \<Rightarrow> carbide_deployment \<Rightarrow> infrastructure_config \<Rightarrow> event list \<Rightarrow> bool" where
  "cluster_written qstr d infra tr \<longleftrightarrow>
     (\<exists>order. mset order = mset (map fst (usersNeeded (databases_or_default (infra_postgresql infra)))) \<and>
        written (UnstructuredObj (BuildPostgreSQLCluster qstr order d infra (infra_ns infra))) tr)"

definition infra_evidence :: "(quantity \<Rightarrow> string) \<Rightarrow> carbide_deployment \<Rightarrow> event list \<Rightarrow> bool" where
  "infra_evidence qstr d tr \<longleftrightarrow>
     (\<exists>infra. spec_infrastructure (cd_spec d) = Some infra \<and>
       (if pg_mode (infra_postgresql infra) = ExternalMode then
          \<exists>c. pg_connection (infra_postgresql infra) = Some c \<and> reached c tr
        else
          pg_operator_seen tr \<and> written (ConfigMapObj (BuildPostgreSQLInitConfigMap d (infra_ns infra))) tr \<and>
          cluster_written qstr d infra tr \<and>
          observed PostgresClusterKind as_unstructured (infra_ns infra) PostgreSQLClusterName
            (\<lambda>u. pg_verdict u = Inr True) tr))"

text \<open>The objects the tier writes: its namespace, the init ConfigMap and the cluster.\<close>

definition cluster_key :: "string \<Rightarrow> object_key" where
  "cluster_key ns = (PostgresClusterKind, ns, PostgreSQLClusterName)"

definition infra_keys :: "carbide_deployment \<Rightarrow> object_key set" where
  "infra_keys d =
     (case spec_infrastructure (cd_spec d) of
        None \<Rightarrow> {}
      | Some infra \<Rightarrow> {(KNamespace, [], infra_ns infra), (KConfigMap, infra_ns infra, PostgreSQLInitConfigMapName),
                       cluster_key (infra_ns infra)})"

text \<open>The guarantee: only these are written, and the cluster only after its init ConfigMap.\<close>

definition infra_guarantee :: "carbide_deployment \<Rightarrow> event list \<Rightarrow> event \<Rightarrow> bool" where
  "infra_guarantee d h e \<longleftrightarrow> about (infra_keys d) e \<and>
     (\<forall>ns. writes_key e = Some (cluster_key ns) \<longrightarrow> written (ConfigMapObj (BuildPostgreSQLInitConfigMap d ns)) h)"

section \<open>Lemmas\<close>

lemma cluster_key [simp]: "obj_key (UnstructuredObj (BuildPostgreSQLCluster qstr order d infra ns)) = cluster_key ns"
  by (simp add: obj_key_def BuildPostgreSQLCluster_def SetOwnerReferences_def u_kind_def u_api_version_def
      u_name_def u_namespace_def u_metadata_def NestedString_def NestedMap_def field_def string_or_empty_def
      PostgresClusterKind_def u_set_metadata_def Let_def cluster_key_def)

lemma init_key [simp]:
  "obj_key (ConfigMapObj (BuildPostgreSQLInitConfigMap d ns)) = (KConfigMap, ns, PostgreSQLInitConfigMapName)"
  by (simp add: obj_key_def BuildPostgreSQLInitConfigMap_def)

lemma keeps_cluster_written [simp]: "keeps (cluster_written qstr d infra)"
  unfolding cluster_written_def by (intro keeps_ex keeps_conj) simp_all

lemma keeps_operator [simp]: "keeps pg_operator_seen"
  by (simp add: pg_operator_seen_def)

lemma operator_spec: "spec_of (about K) ValidatePostgresOperator (\<lambda>r tr. r = None \<longrightarrow> pg_operator_seen tr)"
proof -
  have "onlyDoes (about K) ValidatePostgresOperator"
    unfolding ValidatePostgresOperator_def ValidateOperatorInstalled_def get_object_def
    by (intro onlyDoes_intros onlyDoes_Get) simp_all
  moreover have "runs ValidatePostgresOperator None tr \<Longrightarrow> pg_operator_seen tr" for tr
    by (auto simp: ValidatePostgresOperator_def ValidateOperatorInstalled_def pg_operator_seen_def observed_def checkThen_def
        tryThen_def runs_andThen runs_get_object split_sum_ex split_option_ex split: option.splits)
  ultimately show ?thesis unfolding spec_of_def by (auto intro!: keeps_imp)
qed

lemma storage_class_reads: "onlyDoes is_read (ValidateStorageClass n)"
  unfolding ValidateStorageClass_def get_object_def by (intro onlyDoes_intros onlyDoes_Get) simp_all

lemma read_call: "onlyDoes is_read p \<Longrightarrow> spec_of (about K) p (\<lambda>r tr. r = None \<longrightarrow> True)"
  using read_spec [of p K] by (auto intro: onlyDoes_weaken is_probe_read)

lemma managed_spec:
  "spec_of (about {cluster_key (infra_ns infra)}) (reconcileManagedPostgreSQL qstr d infra (infra_ns infra))
     (\<lambda>r tr. r = Inr True \<longrightarrow> pg_operator_seen tr \<and> cluster_written qstr d infra tr \<and>
        observed PostgresClusterKind as_unstructured (infra_ns infra) PostgreSQLClusterName
          (\<lambda>u. pg_verdict u = Inr True) tr)"
proof (rule spec_ofI)
  let ?K = "{cluster_key (infra_ns infra)}"
  show "valid (\<lambda>_. about ?K) [] (reconcileManagedPostgreSQL qstr d infra (infra_ns infra))
     (\<lambda>r tr. r = Inr True \<longrightarrow> pg_operator_seen tr \<and> cluster_written qstr d infra tr \<and>
        observed PostgresClusterKind as_unstructured (infra_ns infra) PostgreSQLClusterName
          (\<lambda>u. pg_verdict u = Inr True) tr)"
    unfolding reconcileManagedPostgreSQL_def
    apply (rule valid_put [OF operator_spec], assumption, rule valid_Ret, simp)
    apply (rule valid_RangeOrder)
    apply (rule valid_put [OF infra_write_u.put_spec], simp, rule valid_Ret, simp)
    apply (rule valid_check [OF postgresql_check.check_spec], simp, assumption, rule valid_Ret, simp)
    apply (rule valid_Ret)
    using keepsD [OF keeps_written] keepsD [OF keeps_operator] unfolding cluster_written_def by blast
qed (intro keeps_imp keeps_conj, simp_all)

lemma external_call:
  "spec_of (about K) (ValidateExternalPostgreSQL ns (Some c)) (\<lambda>r tr. r = None \<longrightarrow> reached c tr)"
  unfolding spec_of_def
  using onlyDoes_weaken [OF ValidateExternalPostgreSQL_probes] about_probe external_pg_validated
  by (auto intro!: keeps_imp)

lemma external_spec:
  "spec_of (about K) (reconcileExternalPostgreSQL ns config)
     (\<lambda>r tr. r = Inr True \<longrightarrow> (\<exists>c. pg_connection config = Some c \<and> reached c tr))"
proof (rule spec_ofI)
  show "valid (\<lambda>_. about K) [] (reconcileExternalPostgreSQL ns config)
     (\<lambda>r tr. r = Inr True \<longrightarrow> (\<exists>c. pg_connection config = Some c \<and> reached c tr))"
    unfolding reconcileExternalPostgreSQL_def
    by (cases "pg_connection config") (auto intro!: valid_Ret valid_put [OF external_call])
qed (intro keeps_imp keeps_ex keeps_conj, simp_all)

text \<open>The readiness of the one component, before the evidence of the init ConfigMap is added.\<close>

definition pg_evidence :: "(quantity \<Rightarrow> string) \<Rightarrow> carbide_deployment \<Rightarrow> infrastructure_config \<Rightarrow> event list \<Rightarrow> bool" where
  "pg_evidence qstr d infra tr \<longleftrightarrow>
     (if pg_mode (infra_postgresql infra) = ExternalMode then
        \<exists>c. pg_connection (infra_postgresql infra) = Some c \<and> reached c tr
      else pg_operator_seen tr \<and> cluster_written qstr d infra tr \<and>
        observed PostgresClusterKind as_unstructured (infra_ns infra) PostgreSQLClusterName
          (\<lambda>u. pg_verdict u = Inr True) tr)"

lemma keeps_pg_evidence: "keeps (pg_evidence qstr d infra)"
  unfolding pg_evidence_def if_bool_eq_conj by (intro keeps_intros) simp_all

lemma pg_spec:
  assumes "pg_mode (infra_postgresql infra) \<noteq> ExternalMode \<Longrightarrow> cluster_key (infra_ns infra) \<in> K"
  shows "spec_of (about K) (reconcilePostgreSQL qstr d infra (infra_ns infra))
     (\<lambda>r tr. r = Inr True \<longrightarrow> pg_evidence qstr d infra tr)"
proof -
  let ?c = "infra_postgresql infra"
  consider (managed) "str_or (pg_mode ?c) ManagedMode = ManagedMode" "pg_mode ?c \<noteq> ExternalMode"
    | (ext) "pg_mode ?c = ExternalMode"
    | (bad) "str_or (pg_mode ?c) ManagedMode \<notin> {ManagedMode, ExternalMode}" "pg_mode ?c \<noteq> ExternalMode"
    by (cases "pg_mode ?c = []"; cases "pg_mode ?c = ManagedMode"; cases "pg_mode ?c = ExternalMode") auto
  then show ?thesis
  proof cases
    case managed
    then show ?thesis
      using spec_of_about [OF managed_spec [of infra qstr d], of K] assms
      by (simp add: reconcilePostgreSQL_def pg_evidence_def)
  next
    case ext
    then show ?thesis
      using external_spec [of K "infra_ns infra" ?c] by (simp add: reconcilePostgreSQL_def pg_evidence_def)
  next
    case bad
    then show ?thesis by (simp add: reconcilePostgreSQL_def spec_of_def Let_def keeps_imp keeps_pg_evidence)
  qed
qed

lemma keeps_infra_evidence [simp]: "keeps (infra_evidence qstr d)"
  unfolding infra_evidence_def if_bool_eq_conj by (intro keeps_intros) simp_all

lemma infra_valid:
  "valid (infra_guarantee d) [] (infra_Reconcile qstr d) (tier_post [''PostgreSQL''] (infra_evidence qstr d))"
proof (cases "spec_infrastructure (cd_spec d)")
  case None
  then show ?thesis by (simp add: infra_Reconcile_def valid_def)
next
  case (Some infra)
  let ?ns = "infra_ns infra" and ?ext = "pg_mode (infra_postgresql infra) = ExternalMode"
  let ?cm = "ConfigMapObj (BuildPostgreSQLInitConfigMap d ?ns)"
  let ?Q = "tier_post [''PostgreSQL''] (infra_evidence qstr d)"
  have keys: "infra_keys d = {(KNamespace, [], ?ns), (KConfigMap, ?ns, PostgreSQLInitConfigMapName), cluster_key ?ns}"
    by (simp add: infra_keys_def Some)
  have other: "infra_guarantee d h e" if "about {(KNamespace, [], ?ns), (KConfigMap, ?ns, PostgreSQLInitConfigMapName)} e" for h e
    using that by (cases e) (auto simp: infra_guarantee_def keys cluster_key_def PostgresClusterKind_def)
  have cluster: "infra_guarantee d h e" if "about (if ?ext then {} else {cluster_key ?ns}) e" "\<not> ?ext \<longrightarrow> written ?cm h" for h e
    using that by (cases e) (auto simp: infra_guarantee_def keys cluster_key_def split: if_splits)
  have pg: "valid (infra_guarantee d) h (stage ''PostgreSQL'' what (reconcilePostgreSQL qstr d infra ?ns) (initStatus t)
              (\<lambda>ready. conclude ready m w)) ?Q" if h: "\<not> ?ext \<longrightarrow> written ?cm h" for h what t m w
    apply (rule valid_stage [OF pg_spec [where K = "if ?ext then {} else {cluster_key ?ns}"]])
       apply simp
      apply (erule cluster)
    using h keepsD [OF keeps_written] apply blast
     apply simp
    apply (rule valid_conclude)
    using h Some keepsD [OF keeps_written] by (auto simp: infra_evidence_def pg_evidence_def)
  have init: "valid (infra_guarantee d) h
      (if \<not> ?ext then checkThen (infra_createOrUpdate ?cm) (stopWith (initStatus t) m1)
         (stage ''PostgreSQL'' what (reconcilePostgreSQL qstr d infra ?ns) (initStatus t) (\<lambda>ready. conclude ready m w))
       else stage ''PostgreSQL'' what (reconcilePostgreSQL qstr d infra ?ns) (initStatus t) (\<lambda>ready. conclude ready m w)) ?Q"
    for h t m1 what m w
    by (rule valid_if, rule valid_put [OF infra_write.put_spec])
      (auto intro!: valid_stopWith pg elim: other [OF about_mono, rotated])
  show ?thesis
    unfolding infra_Reconcile_def Some Let_def option.case
    apply (rule valid_put [OF infra_namespace_spec])
      apply (erule other [OF about_mono, rotated], simp)
     apply (rule valid_failWith)
    apply (rule valid_Now)
    apply (rule valid_if)
     apply (rule valid_put [OF read_call [OF storage_class_reads, of "{}"]])
       apply (erule other [OF about_mono, rotated], simp)
      apply (rule valid_stopWith, simp)
     apply (rule init)
    apply (rule init)
    done
qed

interpretation infra_tier: tier_reconciler "infra_Reconcile qstr" "\<lambda>d. [''PostgreSQL'']" "infra_evidence qstr" infra_keys
  for qstr
proof
  fix d res tr
  assume r: "runs (infra_Reconcile qstr d) res tr"
  show "tier_post [''PostgreSQL''] (infra_evidence qstr d) res tr"
    using validD [OF infra_valid r] by simp
  show "list_all (about (infra_keys d)) tr"
    using valid_guarantee [OF infra_valid] r
    by (auto simp: list_all_iff infra_guarantee_def dest!: split_list)
next
  show "noPanic (infra_Reconcile qstr d)" for d
    unfolding infra_Reconcile_def Let_def by (intro noPanic_intros)
qed (auto simp: infra_keys_def cluster_key_def PostgresClusterKind_def split: option.splits)

section \<open>Properties\<close>

text \<open>
  C25: the infrastructure tier reports ready only on evidence gathered in the same pass: managed,
  that the CRD of the operator was read, the init ConfigMap and a PostgresCluster for all needed users were
  written and the cluster was then read back ready; external, that the server was reached.  The error is then nil and the
  one component of the status is ready.
\<close>
theorem infra_ready_evidence:
  assumes "runs (infra_Reconcile qstr d) (Tier (Some st) err) tr" and "tier_ready st"
  shows "err = None \<and> comps st = [(''PostgreSQL'', True)] \<and> infra_evidence qstr d tr"
  using infra_tier.ready_evidence [OF assms] by simp

text \<open>
  The PostgresCluster is created or updated only after its init ConfigMap was written with
  success in the same pass, and the tier writes nothing but its namespace, that ConfigMap and that
  cluster.
\<close>
theorem infra_cluster_after_init:
  assumes "runs (infra_Reconcile qstr d) res (pre @ e # post)" and "writes_key e = Some key"
  shows "key \<in> infra_keys d \<and>
    (\<forall>ns. key = cluster_key ns \<longrightarrow> written (ConfigMapObj (BuildPostgreSQLInitConfigMap d ns)) pre)"
  using valid_guarantee [OF infra_valid assms(1)] assms(2) by (cases e) (auto simp: infra_guarantee_def)

section \<open>Witnesses\<close>

definition external_site :: carbide_deployment where
  "external_site = sample_resource ''ext'' (site_spec\<lparr>spec_infrastructure := Some (zero_infra
     \<lparr>infra_namespace := ''infra'',
      infra_postgresql := zero_pg\<lparr>pg_mode := ''external'', pg_connection := Some plain_connection\<rparr>\<rparr>)\<rparr>)"

definition external_trace :: "event list" where
  "external_trace =
     [EGet KNamespace [] ''infra'' (Inr (NamespaceObj (mk_meta ''infra'' [] Map.empty []))),
      EProbe (DialTCP (''db.example:'' @ show_int32 5432)) None]"

lemma external_site_runs:
  "\<exists>st. tier_ready st \<and> runs (infra_Reconcile qstr external_site) (Tier (Some st) None) external_trace"
  by (simp add: infra_Reconcile_def external_site_def external_trace_def sample_defs infra_ns_def
      infra_ensureNamespace_def checkThen_def stage_def reconcilePostgreSQL_def reconcileExternalPostgreSQL_def
      ValidateExternalPostgreSQL_def dialPostgreSQL_def plain_connection_def conclude_def Let_def)
    force

theorem infra_ready_evidence_witness:
  "\<exists>st. comps st = [(''PostgreSQL'', True)] \<and> infra_evidence (\<lambda>_. []) external_site external_trace"
  using external_site_runs [of "\<lambda>_. []"] infra_ready_evidence [of "\<lambda>_. []" external_site _ None external_trace] by blast

definition managed_pre :: "event list" where
  "managed_pre =
     [EGet KNamespace [] ''carbide-operators'' (Inr (NamespaceObj (mk_meta ''carbide-operators'' [] Map.empty []))),
      EGet KConfigMap ''carbide-operators'' PostgreSQLInitConfigMapName (Inl (NotFoundErr ''not found'')),
      ECreate (ConfigMapObj (BuildPostgreSQLInitConfigMap sample_site ''carbide-operators'')) None,
      EGet KCRD [] ''postgresclusters.postgres-operator.crunchydata.com'' (Inr (CRDObj (mk_meta [] [] Map.empty []))),
      EGet PostgresClusterKind ''carbide-operators'' PostgreSQLClusterName (Inl (NotFoundErr ''not found''))]"

definition managed_create :: "event" where
  "managed_create = ECreate (UnstructuredObj (BuildPostgreSQLCluster (\<lambda>_. [])
     (map fst (usersNeeded [''carbide'', ''forge''])) sample_site zero_infra ''carbide-operators'')) (Some (OtherErr ''quota''))"

lemma managed_site_runs:
  "\<exists>res. runs (infra_Reconcile (\<lambda>_. []) sample_site) res (managed_pre @ managed_create # [])"
proof -
  have "(KConfigMap, ''carbide-operators'', PostgreSQLInitConfigMapName) =
      obj_key (ConfigMapObj (BuildPostgreSQLInitConfigMap sample_site ''carbide-operators''))" by simp
  then have cm: "obj_namespace (ConfigMapObj (BuildPostgreSQLInitConfigMap sample_site ''carbide-operators'')) = ''carbide-operators''"
    "obj_name (ConfigMapObj (BuildPostgreSQLInitConfigMap sample_site ''carbide-operators'')) = PostgreSQLInitConfigMapName"
    by (simp_all add: obj_key_def)
  have cl: "u_namespace u = ''carbide-operators''" "u_name u = PostgreSQLClusterName"
    "KUnstructured (u_api_version u) (u_kind u) = PostgresClusterKind"
    if "u = BuildPostgreSQLCluster qstr order d infra ''carbide-operators''" for u qstr order d infra
    using cluster_key [of qstr order d infra "''carbide-operators''"] that by (simp_all add: obj_key_def cluster_key_def)
  have spec: "spec_infrastructure (cd_spec sample_site) = Some zero_infra" "infra_ns zero_infra = ''carbide-operators''"
    "pg_mode (infra_postgresql zero_infra) = []" "infra_storage_class zero_infra = []"
    "databases_or_default (infra_postgresql zero_infra) = [''carbide'', ''forge'']"
    by (simp_all add: sample_defs infra_ns_def databases_or_default_def)
  show ?thesis
    by (simp add: infra_Reconcile_def managed_pre_def managed_create_def spec infra_ensureNamespace_def
        checkThen_def tryThen_def stage_def reconcilePostgreSQL_def reconcileManagedPostgreSQL_def
        ValidatePostgresOperator_def ValidateOperatorInstalled_def get_object_def infra_createOrUpdate_def
        infra_createOrUpdateUnstructured_def stopWith_def Let_def cm cl [OF refl] del: obj_namespace.simps obj_name.simps)
      (metis mset_map)
qed

theorem infra_cluster_after_init_witness:
  "cluster_key ''carbide-operators'' \<in> infra_keys sample_site \<and>
   written (ConfigMapObj (BuildPostgreSQLInitConfigMap sample_site ''carbide-operators'')) managed_pre"
proof -
  obtain res where "runs (infra_Reconcile (\<lambda>_. []) sample_site) res (managed_pre @ managed_create # [])"
    using managed_site_runs by blast
  from infra_cluster_after_init [OF this, of "cluster_key ''carbide-operators''"] show ?thesis
    by (simp add: managed_create_def)
qed

end
