(* ===== verification/Sample_Server.thy ===== *)
theory Sample_Server
  imports Tier
begin

text \<open>
  An API server for the witnesses: a cluster in which every workload the operator waits for is up.
  Objects of the kinds it waits for are found, all others are not and can be created; every write
  succeeds; the stored CarbideDeployment is a parameter.
\<close>

definition up_meta :: "string \<Rightarrow> string \<Rightarrow> object_meta" where
  "up_meta ns n = mk_meta n ns Map.empty []"

definition up_template :: pod_template where
  "up_template = \<lparr>tmpl_labels = Map.empty, tmpl_spec = zero_pod_spec\<rparr>"

definition up_deployment :: "string \<Rightarrow> string \<Rightarrow> deployment" where
  "up_deployment ns n = \<lparr>dep_meta = up_meta ns n, dep_replicas = Some 1, dep_selector = Map.empty, dep_template = up_template,
     dep_available = 1, dep_updated = 1, dep_observed_generation = 0\<rparr>"

definition up_daemon_set :: "string \<Rightarrow> string \<Rightarrow> daemon_set" where
  "up_daemon_set ns n = \<lparr>ds_meta = up_meta ns n, ds_selector = Map.empty, ds_template = up_template,
     ds_desired = 1, ds_ready = 1, ds_updated = 1, ds_observed_generation = 0\<rparr>"

definition up_job :: "string \<Rightarrow> string \<Rightarrow> job" where
  "up_job ns n = \<lparr>job_meta = up_meta ns n, job_backoff_limit = None, job_ttl = None, job_template = up_template,
     job_conditions = [(''Complete'', ''True'')]\<rparr>"

definition up_secret :: "string \<Rightarrow> string \<Rightarrow> secret" where
  "up_secret ns n = \<lparr>secret_meta = up_meta ns n, secret_type = ''Opaque'', secret_data = [''password'' \<mapsto> ''pw''],
     secret_string_data = Map.empty\<rparr>"

definition up_pvc :: "string \<Rightarrow> string \<Rightarrow> pvc" where
  "up_pvc ns n = \<lparr>pvc_meta = up_meta ns n, pvc_access_modes = [], pvc_requests = [], pvc_storage_class = None,
     pvc_phase = ''Bound''\<rparr>"

definition up_custom :: "string \<Rightarrow> string \<Rightarrow> string \<Rightarrow> string \<Rightarrow> unstructured" where
  "up_custom api k ns n = \<lparr>u_object =
     [(''apiVersion'', JString api), (''kind'', JString k),
      (''metadata'', JMap [(''name'', JString n), (''namespace'', JString ns)]),
      (''status'', JMap
        [(''instances'', JList [JMap [(''readyReplicas'', JInt 1), (''replicas'', JInt 1)]]),
         (''conditions'', JList [JMap [(''type'', JString ''Ready''), (''status'', JString ''True'')]])])]\<rparr>"

definition up_get :: "carbide_deployment \<Rightarrow> kind \<Rightarrow> string \<Rightarrow> string \<Rightarrow> goerror + k8s_object" where
  "up_get d k ns n =
     (case k of
        KNamespace \<Rightarrow> Inr (NamespaceObj (up_meta ns n))
      | KSecret \<Rightarrow> Inr (SecretObj (up_secret ns n))
      | KDeployment \<Rightarrow> Inr (DeploymentObj (up_deployment ns n))
      | KDaemonSet \<Rightarrow> Inr (DaemonSetObj (up_daemon_set ns n))
      | KJob \<Rightarrow> Inr (JobObj (up_job ns n))
      | KPVC \<Rightarrow> Inr (PVCObj (up_pvc ns n))
      | KCRD \<Rightarrow> Inr (CRDObj (up_meta ns n))
      | KStorageClass \<Rightarrow> Inr (StorageClassObj (up_meta ns n))
      | KUnstructured api kd \<Rightarrow> Inr (UnstructuredObj (up_custom api kd ns n))
      | KCarbideDeployment \<Rightarrow> Inr (CarbideDeploymentObj d)
      | _ \<Rightarrow> Inl (NotFoundErr ''not found''))"

definition up_server :: "carbide_deployment \<Rightarrow> unit environment" where
  "up_server d =
     \<lparr>srv_get = (\<lambda>k ns n w. (up_get d k ns n, w)), srv_list = (\<lambda>k ns ls w. (Inr [], w)),
      srv_create = (\<lambda>x w. (None, w)), srv_update = (\<lambda>x w. (None, w)),
      srv_status_update = (\<lambda>x w. (None, w)), srv_now = (\<lambda>w. (0, w)), srv_range = (\<lambda>ks w. (ks, w)),
      srv_probe = (\<lambda>q w. (None, w)), srv_http = (\<lambda>u w. (Inr 200, w))\<rparr>"

definition result_on :: "carbide_deployment \<Rightarrow> 'r prog \<Rightarrow> 'r" where
  "result_on d p = fst (exec (up_server d) p ())"

definition trace_on :: "carbide_deployment \<Rightarrow> 'r prog \<Rightarrow> event list" where
  "trace_on d p = fst (snd (exec (up_server d) p ()))"

lemma runs_on: "runs p (result_on d p) (trace_on d p)"
  unfolding result_on_def trace_on_def
  by (rule exec_runs [of "up_server d" p "()" _ _ "()"]) (simp add: up_server_def, simp add: prod_eq_iff)

text \<open>Results compose, so that a witness can be evaluated stage by stage.\<close>

lemma result_on_simps [simp]:
  "result_on d (Ret v) = v"
  "result_on d (Now f) = result_on d (f 0)"
  "result_on d (Get k ns n g) = result_on d (g (up_get d k ns n))"
  "result_on d (ListObjects k ns ls h) = result_on d (h (Inr []))"
  "result_on d (Create x e) = result_on d (e None)"
  "result_on d (Update x e) = result_on d (e None)"
  "result_on d (StatusUpdate y e) = result_on d (e None)"
  "result_on d (Recorder t c m p) = result_on d p"
  "result_on d (RangeOrder ks r) = result_on d (r ks)"
  "result_on d (Probe q e) = result_on d (e None)"
  "result_on d (HttpDo u i) = result_on d (i (Inr 200))"
  by (simp_all add: result_on_def up_server_def emit_def split_beta)

lemma result_on_andThen [simp]: "result_on d (andThen p g) = result_on d (g (result_on d p))"
  by (simp add: result_on_def exec_andThen split_beta)

lemma result_on_tryThen [simp]:
  "result_on d (tryThen p onErr g) = (case result_on d p of Inl e \<Rightarrow> result_on d (onErr e) | Inr x \<Rightarrow> result_on d (g x))"
  by (simp add: tryThen_def split: sum.split)

lemma result_on_checkThen [simp]:
  "result_on d (checkThen p onErr g) = (case result_on d p of Some e \<Rightarrow> result_on d (onErr e) | None \<Rightarrow> result_on d g)"
  by (simp add: checkThen_def split: option.split)

lemma up_core_write [simp]: "result_on d (core_createOrUpdate x) = None"
  by (simp add: core_createOrUpdate_def Let_def split: sum.split)
    (auto simp: up_get_def split: kind.split)

lemma up_infra_write [simp]: "result_on d (infra_createOrUpdate x) = None"
  by (simp add: infra_createOrUpdate_def Let_def split: sum.split)
    (auto simp: up_get_def split: kind.split)

lemma up_other_writes [simp]:
  "result_on d (core_createOrUpdateUnstructured u) = None" "result_on d (infra_createOrUpdateUnstructured u) = None"
  "result_on d (rest_createOrUpdate x) = None" "result_on d (rest_createOrUpdateUnstructured u) = None"
  "result_on d (core_ensureNamespace ns) = None" "result_on d (infra_ensureNamespace ns) = None"
  by (simp_all add: core_unstructured_same infra_unstructured_same rest_createOrUpdate_def
      rest_createOrUpdateUnstructured_def core_ensureNamespace_def infra_ensureNamespace_def up_get_def)

lemma up_forEach [simp]: "(\<And>x. result_on d (body x) = None) \<Longrightarrow> result_on d (forEach xs body) = None"
  by (induction xs) simp_all

lemma up_ready [simp]:
  "result_on d (IsDeploymentReady ns n) = Inr True" "result_on d (IsDaemonSetReady ns n) = Inr True"
  "result_on d (IsJobComplete ns n) = Inr True" "result_on d (IsSecretAvailable ns n) = Inr True"
  "result_on d (IsPVCBound ns n) = Inr True" "result_on d (IsTemporalHelmReady ns) = Inr True"
  "result_on d (get_secret ns n) = Inr (up_secret ns n)"
  by (simp_all add: IsDeploymentReady_def IsDaemonSetReady_def IsJobComplete_def IsSecretAvailable_def IsPVCBound_def
      IsTemporalHelmReady_def get_secret_def check_object_def get_object_def up_get_def deployment_ready_def
      daemon_set_ready_def up_deployment_def up_daemon_set_def up_job_def up_pvc_def up_meta_def mk_meta_def word_sless_alt)

lemma up_operators [simp]:
  "result_on d ValidatePostgresOperator = None" "result_on d ValidateKeycloakOperator = None"
  "result_on d (ValidateStorageClass n) = None" "result_on d (IsPostgreSQLReady ns n) = Inr True"
  by (simp_all add: ValidatePostgresOperator_def ValidateKeycloakOperator_def ValidateOperatorInstalled_def
      ValidateStorageClass_def IsPostgreSQLReady_def check_object_def get_object_def up_get_def PostgresClusterKind_def
      pg_verdict_def up_custom_def NestedMap_def NestedSlice_def NestedInt64_def field_def first_instance_ready_def)

lemma up_or [simp]:
  "result_on d (orReturn p k) = (case result_on d p of Some e \<Rightarrow> Inl e | None \<Rightarrow> result_on d k)"
  "result_on d (orWrap what p k) =
     (case result_on d p of Some e \<Rightarrow> Inl (WrapErr (what @ '': '' @ err_text e) e) | None \<Rightarrow> result_on d k)"
  by (simp_all add: orReturn_def orWrap_def split: option.split)

lemma up_keycloak [simp]: "result_on d (IsKeycloakReady ns) = Inr True"
  by (simp add: IsKeycloakReady_def check_object_def get_object_def up_get_def KeycloakKind_def keycloak_verdict_def
      up_custom_def NestedMap_def NestedSlice_def NestedString_def string_or_empty_def field_def is_ready_condition_def)

lemma up_stage [simp]:
  "result_on d (stage name what p st k) =
     (case result_on d p of
        Inl e \<Rightarrow> result_on d (stopWith (addComponent name (Inl e) 0 st) what e)
      | Inr b \<Rightarrow> result_on d (k b (addComponent name (Inr b) 0 st)))"
  by (simp add: stage_def Let_def split: sum.split)

lemma up_eachOrFail [simp]:
  "(\<And>x. result_on d (body x) = None) \<Longrightarrow> result_on d (eachOrFail xs body m k) = result_on d k"
  by (simp add: eachOrFail_def)

lemma written_event: "written x tr \<Longrightarrow> \<exists>pre e post. tr = pre @ e # post \<and> writes_key e = Some (obj_key x)"
proof -
  assume "written x tr"
  then obtain e where "e \<in> set tr" "writes_key e = Some (obj_key x)" by (force simp: written_def)
  then show ?thesis by (metis split_list)
qed

lemma trace_on_get: "EGet k ns n a \<in> set (trace_on d p) \<Longrightarrow> a = up_get d k ns n"
  unfolding trace_on_def
  by (induction p) (auto simp: up_server_def emit_def split_beta)

end
