(* ===== verification/Core_Resources.thy ===== *)
theory Core_Resources
  imports Postgres_Resources
begin

text \<open>
  The objects of the core tier (\<^verbatim>\<open>internal/resources/core\<close>): service accounts, configuration,
  the carbide-api, DHCP, DNS, PXE, RLA and PSM workloads with their services, and the Vault jobs.
  Every workload satisfies the contract of the locale \<open>workload\<close>, except PXE, whose pod is shown to
  mount a volume that SPIFFE mode does not define.
\<close>

definition APIName :: string where "APIName = ''carbide-api''"
definition DHCPName :: string where "DHCPName = ''carbide-dhcp''"
definition DNSName :: string where "DNSName = ''carbide-dns''"
definition PXEName :: string where "PXEName = ''carbide-pxe''"
definition RLAName :: string where "RLAName = ''carbide-rla''"
definition PSMName :: string where "PSMName = ''carbide-psm''"
definition VaultHelmJobName :: string where "VaultHelmJobName = ''vault-helm-install''"
definition VaultInitJobName :: string where "VaultInitJobName = ''vault-init''"
definition VaultUnsealSecret :: string where "VaultUnsealSecret = ''vault-unseal-secret''"
definition VaultValuesMapName :: string where "VaultValuesMapName = ''vault-helm-values''"

section \<open>Shapes shared by the builders\<close>

text \<open>
  The literal every Deployment builder ends with: owned by the resource, selecting the pods of its
  template by the label \<^verbatim>\<open>app\<close>.
\<close>

definition mk_deployment ::
    "carbide_deployment \<Rightarrow> string \<Rightarrow> string \<Rightarrow> labels \<Rightarrow> int32 \<Rightarrow> pod_spec \<Rightarrow> deployment" where
  "mk_deployment d name ns ls replicas ps =
     \<lparr>dep_meta = mk_meta name ns ls [controllerRef d], dep_replicas = Some replicas,
      dep_selector = [''app'' \<mapsto> name], dep_template = \<lparr>tmpl_labels = ls, tmpl_spec = ps\<rparr>,
      dep_available = 0, dep_updated = 0, dep_observed_generation = 0\<rparr>"

definition mk_daemon_set :: "carbide_deployment \<Rightarrow> string \<Rightarrow> string \<Rightarrow> labels \<Rightarrow> pod_spec \<Rightarrow> daemon_set" where
  "mk_daemon_set d name ns ls ps =
     \<lparr>ds_meta = mk_meta name ns ls [controllerRef d], ds_selector = [''app'' \<mapsto> name],
      ds_template = \<lparr>tmpl_labels = ls, tmpl_spec = ps\<rparr>, ds_desired = 0, ds_ready = 0, ds_updated = 0,
      ds_observed_generation = 0\<rparr>"

definition mk_job ::
    "carbide_deployment \<Rightarrow> string \<Rightarrow> string \<Rightarrow> labels \<Rightarrow> int32 \<Rightarrow> int32 \<Rightarrow> pod_spec \<Rightarrow> job" where
  "mk_job d name ns ls backoff ttl ps =
     \<lparr>job_meta = mk_meta name ns ls [controllerRef d], job_backoff_limit = Some backoff, job_ttl = Some ttl,
      job_template = \<lparr>tmpl_labels = ls, tmpl_spec = ps\<rparr>, job_conditions = []\<rparr>"

definition tcp_port :: "string \<Rightarrow> int32 \<Rightarrow> container_port" where
  "tcp_port n p = \<lparr>cp_name = n, cp_port = p, cp_protocol = ''TCP''\<rparr>"

definition svc_port :: "string \<Rightarrow> int32 \<Rightarrow> service_port" where
  "svc_port n p = \<lparr>sp_name = n, sp_port = p, sp_target_port = p, sp_protocol = ''TCP'', sp_node_port = 0\<rparr>"

definition mk_service ::
    "carbide_deployment \<Rightarrow> string \<Rightarrow> string \<Rightarrow> labels \<Rightarrow> service_port list \<Rightarrow> service" where
  "mk_service d name ns ls ports =
     \<lparr>svc_meta = mk_meta name ns ls [controllerRef d], svc_selector = [''app'' \<mapsto> name], svc_ports = ports,
      svc_type = ''ClusterIP''\<rparr>"

definition cm_volume :: "string \<Rightarrow> string \<Rightarrow> volume" where
  "cm_volume n cm = \<lparr>vol_name = n, vol_source = ConfigMapVolume cm\<rparr>"

definition probe_of :: "probe_handler \<Rightarrow> int32 \<Rightarrow> int32 \<Rightarrow> probe option" where
  "probe_of h delay period = Some \<lparr>pr_handler = h, pr_initial_delay = delay, pr_period = period\<rparr>"

definition secretKeyRef :: "string \<Rightarrow> string \<Rightarrow> string \<times> string" where
  "secretKeyRef secretName key = (secretName, key)"

definition api_port_of :: "carbide_deployment \<Rightarrow> int32" where
  "api_port_of d = int_or (api_port (core_api (spec_core (cd_spec d)))) 1079"

section \<open>Service accounts and the Casbin policy\<close>

definition BuildServiceAccount :: "string \<Rightarrow> string \<Rightarrow> carbide_deployment \<Rightarrow> service_account" where
  "BuildServiceAccount name ns d =
     \<lparr>sacc_meta = mk_meta name ns (DefaultLabels name d) [controllerRef d], sacc_automount = Some True\<rparr>"

definition policy_base :: "string list" where
  "policy_base =
     [''# Casbin RBAC policy - auto-generated by carbide-operator'',
      [],
      ''# Map SPIFFE service IDs to roles'',
      ''g, spiffe-service-id/carbide-dhcp, carbide-dhcp'',
      ''g, spiffe-service-id/carbide-dns, carbide-dns'',
      ''g, spiffe-machine-id, machine'',
      [],
      ''# DHCP and DNS access'',
      ''p, carbide-dhcp, forge/DiscoverDhcp'',
      ''p, carbide-dns, forge/LookupRecord'',
      [],
      ''# Trusted certificate access'',
      ''p, trusted-certificate, forge/*'',
      [],
      ''# Anonymous access to safe endpoints'',
      ''p, anonymous, forge/Version'']"

definition rla_is_on :: "carbide_deployment \<Rightarrow> bool" where
  "rla_is_on d \<longleftrightarrow> (case core_rla (spec_core (cd_spec d)) of None \<Rightarrow> False | Some c \<Rightarrow> rla_enabled c)"

definition psm_is_on :: "carbide_deployment \<Rightarrow> bool" where
  "psm_is_on d \<longleftrightarrow> (case core_psm (spec_core (cd_spec d)) of None \<Rightarrow> False | Some c \<Rightarrow> psm_enabled c)"

definition policy_lines :: "carbide_deployment \<Rightarrow> string list" where
  "policy_lines d =
     policy_base @
     (if rla_is_on d then
        [[], ''# RLA service access'', ''g, spiffe-service-id/carbide-rla, carbide-rla'', ''p, carbide-rla, forge/*'']
      else []) @
     (if psm_is_on d then
        [[], ''# PSM service access'', ''g, spiffe-service-id/carbide-psm, carbide-psm'', ''p, carbide-psm, forge/*'']
      else [])"

definition BuildCasbinPolicyConfigMap :: "carbide_deployment \<Rightarrow> string \<Rightarrow> config_map" where
  "BuildCasbinPolicyConfigMap d ns =
     \<lparr>cm_meta = mk_meta ''casbin-policy'' ns
        [''app.kubernetes.io/name'' \<mapsto> ''casbin-policy'', ''app.kubernetes.io/part-of'' \<mapsto> ''carbide-core'',
         ''app.kubernetes.io/managed-by'' \<mapsto> ''carbide-operator''] [],
      cm_data = [''casbin-policy.csv'' \<mapsto> join nl (policy_lines d) @ nl]\<rparr>"

section \<open>carbide-api\<close>

definition listen_mode :: "carbide_deployment \<Rightarrow> string" where
  "listen_mode d =
     (case core_security (spec_core (cd_spec d)) of
        None \<Rightarrow> ''tls'' | Some s \<Rightarrow> if sec_tls_enabled s then ''tls'' else ''plain'')"

definition rbac_bypass :: "carbide_deployment \<Rightarrow> bool" where
  "rbac_bypass d = (case core_security (spec_core (cd_spec d)) of None \<Rightarrow> False | Some s \<Rightarrow> sec_rbac_bypass s)"

definition api_toml :: "carbide_deployment \<Rightarrow> string \<Rightarrow> string" where
  \<open>api_toml d ns =
     (let port = api_port_of d;
          domain = str_or (net_domain (spec_network (cd_spec d))) ''carbide.local'';
          networkIP = str_or (net_ip (spec_network (cd_spec d))) ''0.0.0.0''
      in unlines
     [''listen = "[::]:'' @ show_int32 port @ ''"'',
      ''listen_mode = "'' @ listen_mode d @ ''"'',
      ''metrics_endpoint = "[::]:'' @ show_int32 (port + 1) @ ''"'',
      ''asn = 65535'',
      ''dhcp_servers = ["'' @ networkIP @ ''"]'',
      ''route_servers = ["'' @ networkIP @ ''"]'',
      ''enable_route_servers = true'',
      ''dpu_ipmi_tool_impl = "prod"'',
      ''initial_domain_name = "'' @ domain @ ''"'',
      ''initial_dpu_agent_upgrade_policy = "off"'',
      ''nvue_enabled = true'',
      ''attestation_enabled = false'',
      [],
      ''[tls]'',
      ''root_cafile_path = "'' @ CertDir @ ''/ca.crt"'',
      ''identity_pemfile_path = "'' @ CertDir @ ''/tls.crt"'',
      ''identity_keyfile_path = "'' @ CertDir @ ''/tls.key"'',
      [],
      ''[site_explorer]'',
      ''enabled = true'',
      ''explorations_per_run = 200'',
      ''run_interval = "10s"'',
      ''create_machines = true'',
      ''override_target_port = 443'',
      ''allow_zero_dpu_hosts = true'',
      [],
      ''[auth]'',
      ''permissive_mode = '' @ show_bool (rbac_bypass d \<or> True),
      ''casbin_policy_file = "/opt/carbide/casbin-policy.csv"'',
      [],
      ''[auth.trust]'',
      ''spiffe_trust_domain = "'' @ spiffe_trust d @ ''"'',
      ''spiffe_service_base_paths = ["/ns/'' @ ns @ ''/sa/"]'',
      ''spiffe_machine_base_path = "/ns/'' @ ns @ ''/machine/"'',
      ''additional_issuer_cns = []'',
      [],
      ''[machine_state_controller]'',
      ''dpu_wait_time = "10s"'',
      ''power_down_wait = "10s"'',
      ''failure_retry_time = "30s"'',
      ''dpu_up_threshold = "52w"'',
      ''[machine_state_controller.controller]'',
      ''iteration_time = "10s"'',
      [],
      ''[network_segment_state_controller]'',
      ''network_segment_drain_time = "60s"'',
      ''[network_segment_state_controller.controller]'',
      ''iteration_time = "2s"'',
      [],
      ''[ib_partition_state_controller.controller]'',
      ''iteration_time = "60s"''])\<close>

definition admin_network_toml :: "carbide_deployment \<Rightarrow> string" where
  \<open>admin_network_toml d =
     (let cidr = net_admin_cidr (spec_network (cd_spec d)) in
      if is_site_profile (spec_profile (cd_spec d)) \<and> cidr \<noteq> [] then
        unlines [[], ''[networks.admin]'', ''type = "admin"'', ''prefix = "'' @ cidr @ ''"'', ''mtu = 1500'',
                 ''reserve_first = 20'']
      else [])\<close>

definition BuildAPIConfigMap :: "carbide_deployment \<Rightarrow> string \<Rightarrow> string \<Rightarrow> int32 \<Rightarrow> config_map" where
  "BuildAPIConfigMap d ns pgHost pgPort =
     (let net = spec_network (cd_spec d);
          base = [''carbide-api-config.toml'' \<mapsto> api_toml d ns @ admin_network_toml d,
                  ''CARBIDE_DOMAIN'' \<mapsto> str_or (net_domain net) ''carbide.local'',
                  ''POSTGRES_HOST'' \<mapsto> pgHost,
                  ''POSTGRES_PORT'' \<mapsto> show_int32 pgPort,
                  ''POSTGRES_DB'' \<mapsto> ''carbide'']
      in \<lparr>cm_meta = mk_meta (APIName @ ''-config'') ns (DefaultLabels ''api-config'' d) [controllerRef d],
          cm_data =
            (if is_site_profile (spec_profile (cd_spec d)) then
               base(''CARBIDE_NETWORK_INTERFACE'' \<mapsto> net_interface net, ''CARBIDE_NETWORK_IP'' \<mapsto> net_ip net,
                    ''CARBIDE_NETWORK_CIDR'' \<mapsto> net_admin_cidr net)
             else base)\<rparr>)"

text \<open>The Vault variables of an external or managed Vault, with the token if there is a reference to one.\<close>

definition vault_token_env :: "vault_config \<Rightarrow> env_var list" where
  "vault_token_env v =
     (case vault_token_secret_ref v of
        None \<Rightarrow> []
      | Some r \<Rightarrow> [secret_env ''VAULT_TOKEN'' (secretKeyRef (sr_name r) (str_or (sr_key r) ''token''))])"

definition api_vault_env :: "carbide_deployment \<Rightarrow> string \<Rightarrow> env_var list" where
  "api_vault_env d ns =
     (case core_vault (spec_core (cd_spec d)) of
        None \<Rightarrow> []
      | Some v \<Rightarrow>
          (let kvMount = str_or (vault_kv_mount_path v) ''secrets'' in
           if vault_mode v = ExternalMode \<and> vault_address v \<noteq> [] then
             [plain_env ''VAULT_ADDR'' (vault_address v), plain_env ''VAULT_KV_MOUNT_LOCATION'' kvMount,
              plain_env ''VAULT_PKI_MOUNT_LOCATION'' ''unsupported'', plain_env ''VAULT_PKI_ROLE_NAME'' ''unsupported''] @
             vault_token_env v
           else if vault_mode v = ManagedMode then
             [plain_env ''VAULT_ADDR'' (''http://vault.'' @ ns @ ''.svc:8200''),
              secret_env ''VAULT_TOKEN'' (secretKeyRef ''vault-unseal-secret'' ''root-token''),
              plain_env ''VAULT_KV_MOUNT_LOCATION'' kvMount,
              plain_env ''VAULT_PKI_MOUNT_LOCATION'' ''unsupported'', plain_env ''VAULT_PKI_ROLE_NAME'' ''unsupported'']
           else []))"

definition api_container :: "carbide_deployment \<Rightarrow> string \<Rightarrow> container" where
  "api_container d ns =
     (let port = api_port_of d; metricsPort = port + 1;
          pgSecretName = ResolveUserSecret d ''carbide''
      in zero_container
        \<lparr>c_name := ''carbide-api'', c_image := image_or d img_bmm_core ''carbide-core'',
         c_pull_policy := GetImagePullPolicy d, c_command := [''/opt/carbide/carbide-api''],
         c_args := [''run'', ''--config-path=/etc/carbide/carbide-api-config.toml''],
         c_ports := [tcp_port ''grpc'' port, tcp_port ''metrics'' metricsPort],
         c_env := [plain_env ''RUST_LOG'' ''info'',
                   secret_env ''CARBIDE_API_DATABASE_URL'' (secretKeyRef pgSecretName ''uri'')] @ api_vault_env d ns,
         c_mounts := [ro_mount ''config'' ''/etc/carbide'',
                      file_mount ''casbin-policy'' ''/opt/carbide/casbin-policy.csv'' ''casbin-policy.csv''],
         c_resources := (case api_resources (core_api (spec_core (cd_spec d))) of
            None \<Rightarrow> cpu_mem ''500m'' ''512Mi'' ''2000m'' ''2Gi'' | Some r \<Rightarrow> r),
         c_liveness := probe_of (HTTPGet ''/metrics'' metricsPort) 30 10,
         c_readiness := probe_of (HTTPGet ''/metrics'' metricsPort) 10 5\<rparr>)"

definition api_migrate_container :: "carbide_deployment \<Rightarrow> container" where
  "api_migrate_container d = zero_container
     \<lparr>c_name := ''db-migrations'', c_image := image_or d img_bmm_core ''carbide-core'',
      c_pull_policy := GetImagePullPolicy d, c_command := [''/opt/carbide/carbide-api''],
      c_args := [''migrate'', ''--datastore=$(CARBIDE_API_DATABASE_URL)''],
      c_env := [secret_env ''CARBIDE_API_DATABASE_URL'' (secretKeyRef (ResolveUserSecret d ''carbide'') ''uri'')],
      c_resources := cpu_mem ''100m'' ''256Mi'' ''500m'' ''512Mi''\<rparr>"

definition api_pod :: "carbide_deployment \<Rightarrow> string \<Rightarrow> pod_spec" where
  "api_pod d ns = zero_pod_spec
     \<lparr>ps_service_account := APIName, ps_init_containers := [api_migrate_container d],
      ps_containers := [api_container d ns],
      ps_volumes := [cm_volume ''config'' (APIName @ ''-config''), cm_volume ''casbin-policy'' ''casbin-policy'']\<rparr>"

definition BuildAPIDeployment :: "carbide_deployment \<Rightarrow> string \<Rightarrow> deployment" where
  "BuildAPIDeployment d ns =
     mk_deployment d APIName ns ((DefaultLabels ''api'' d)(''app'' \<mapsto> APIName))
       (int_or (api_replicas (core_api (spec_core (cd_spec d)))) 1) (InjectTLS d (api_pod d ns))"

definition BuildAPIService :: "carbide_deployment \<Rightarrow> string \<Rightarrow> service" where
  "BuildAPIService d ns =
     mk_service d APIName ns (DefaultLabels ''api-service'' d)
       [svc_port ''grpc'' (api_port_of d), svc_port ''metrics'' (api_port_of d + 1)]"

definition BuildAPISecret :: "carbide_deployment \<Rightarrow> string \<Rightarrow> string \<Rightarrow> int32 \<Rightarrow> string \<Rightarrow> secret" where
  "BuildAPISecret d ns pgHost pgPort pgPassword =
     \<lparr>secret_meta = mk_meta (APIName @ ''-secret'') ns (DefaultLabels ''api-secret'' d) [controllerRef d],
      secret_type = ''Opaque'', secret_data = Map.empty,
      secret_string_data = [''database-url'' \<mapsto> ''postgres://carbide:'' @ pgPassword @ ''@'' @ pgHost @ '':'' @
        show_int32 pgPort @ ''/carbide?sslmode=require'']\<rparr>"

section \<open>DHCP and DNS\<close>

definition host_pod :: "string \<Rightarrow> pod_spec" where
  "host_pod sa = zero_pod_spec
     \<lparr>ps_service_account := sa, ps_host_network := True, ps_dns_policy := ''ClusterFirstWithHostNet'',
      ps_node_selector := [''node-role.kubernetes.io/control-plane'' \<mapsto> []],
      ps_tolerations := [\<lparr>tol_key = ''node-role.kubernetes.io/master'', tol_operator = ''Exists'', tol_effect = ''NoSchedule''\<rparr>]\<rparr>"

definition dhcp_container :: "carbide_deployment \<Rightarrow> string \<Rightarrow> container" where
  "dhcp_container d ns = zero_container
     \<lparr>c_name := ''dhcp'', c_image := image_or d img_bmm_core ''carbide-core'',
      c_pull_policy := GetImagePullPolicy d, c_command := [''/usr/local/bin/carbide-dhcp''],
      c_security := Some (zero_security\<lparr>sc_add := [''NET_ADMIN'', ''NET_RAW'', ''NET_BIND_SERVICE''], sc_privileged := Some True\<rparr>),
      c_env := [plain_env ''RUST_LOG'' ''info'',
                plain_env ''BMM_API_URL'' (''https://carbide-api.'' @ ns @ ''.svc:'' @ show_int32 (api_port_of d)),
                plain_env ''NETWORK_INTERFACE'' (net_interface (spec_network (cd_spec d)))] @
               (if IsEnabled d then CertEnvVars else []),
      c_resources := (case dhcp_resources (core_dhcp (spec_core (cd_spec d))) of
         None \<Rightarrow> cpu_mem ''100m'' ''128Mi'' ''500m'' ''512Mi'' | Some r \<Rightarrow> r)\<rparr>"

definition BuildDHCPDaemonSet :: "carbide_deployment \<Rightarrow> string \<Rightarrow> daemon_set" where
  "BuildDHCPDaemonSet d ns =
     mk_daemon_set d DHCPName ns ((DefaultLabels ''dhcp'' d)(''app'' \<mapsto> DHCPName))
       (InjectTLS d ((host_pod DHCPName)\<lparr>ps_containers := [dhcp_container d ns]\<rparr>))"

definition dns_port_of :: "carbide_deployment \<Rightarrow> int32" where
  "dns_port_of d = int_or (dns_port (core_dns (spec_core (cd_spec d)))) 53"

definition dns_toml :: "carbide_deployment \<Rightarrow> string" where
  \<open>dns_toml d =
     (let networkIP = net_ip (spec_network (cd_spec d));
          legacyListen = (if networkIP = [] then ''0.0.0.0:'' @ show_int32 (dns_port_of d)
                          else networkIP @ '':'' @ show_int32 (dns_port_of d))
      in unlines
        [''carbide_uri = "https://carbide-api:'' @ show_int32 (api_port_of d) @ ''"'',
         ''legacy_listen = "'' @ legacyListen @ ''"'',
         ''forge_root_ca = "'' @ CertDir @ ''/ca.crt"'',
         ''client_cert_path = "'' @ CertDir @ ''/tls.crt"'',
         ''client_key_path = "'' @ CertDir @ ''/tls.key"''])\<close>

definition BuildDNSConfigMap :: "carbide_deployment \<Rightarrow> string \<Rightarrow> config_map" where
  "BuildDNSConfigMap d ns =
     \<lparr>cm_meta = mk_meta (DNSName @ ''-config'') ns (DefaultLabels ''dns-config'' d) [controllerRef d],
      cm_data = [''carbide-dns-config.toml'' \<mapsto> dns_toml d]\<rparr>"

definition dns_container :: "carbide_deployment \<Rightarrow> container" where
  "dns_container d = zero_container
     \<lparr>c_name := ''dns'', c_image := image_or d img_bmm_core ''carbide-core'',
      c_pull_policy := GetImagePullPolicy d, c_command := [''/usr/local/bin/carbide-dns''],
      c_ports := [tcp_port ''dns-tcp'' (dns_port_of d),
                  \<lparr>cp_name = ''dns-udp'', cp_port = dns_port_of d, cp_protocol = ''UDP''\<rparr>],
      c_security := Some (zero_security\<lparr>sc_add := [''NET_BIND_SERVICE'']\<rparr>),
      c_mounts := [file_mount ''dns-config'' ''/etc/carbide/carbide-dns-config.toml'' ''carbide-dns-config.toml''],
      c_resources := (case dns_resources (core_dns (spec_core (cd_spec d))) of
         None \<Rightarrow> cpu_mem ''100m'' ''128Mi'' ''500m'' ''512Mi'' | Some r \<Rightarrow> r)\<rparr>"

definition BuildDNSDaemonSet :: "carbide_deployment \<Rightarrow> string \<Rightarrow> daemon_set" where
  "BuildDNSDaemonSet d ns =
     mk_daemon_set d DNSName ns ((DefaultLabels ''dns'' d)(''app'' \<mapsto> DNSName))
       (InjectTLS d ((host_pod DNSName)\<lparr>ps_containers := [dns_container d],
          ps_volumes := [cm_volume ''dns-config'' (DNSName @ ''-config'')]\<rparr>))"

section \<open>PXE\<close>

definition pxe_pod :: "carbide_deployment \<Rightarrow> pod_spec" where
  "pxe_pod d =
     (let httpPort = int_or (pxe_http_port (core_pxe (spec_core (cd_spec d)))) 8080 in
      zero_pod_spec
       \<lparr>ps_service_account := PXEName,
        ps_containers := [zero_container
          \<lparr>c_name := ''carbide-pxe'', c_image := image_or d img_pxe ''carbide-core'',
           c_pull_policy := GetImagePullPolicy d, c_command := [''/opt/carbide/carbide''],
           c_args := [''-s'', ''/forge-boot-artifacts''],
           c_ports := [tcp_port ''http'' httpPort],
           c_mounts := [ro_mount ''spiffe'' ''/var/run/secrets/spiffe.io''],
           c_resources := (case pxe_resources (core_pxe (spec_core (cd_spec d))) of
              None \<Rightarrow> cpu_mem ''200m'' ''256Mi'' ''1000m'' ''1Gi'' | Some r \<Rightarrow> r),
           c_liveness := probe_of (HTTPGet ''/healthz'' httpPort) 15 20\<rparr>],
        ps_volumes := (if IsCertManagerMode d then
            [\<lparr>vol_name = ''spiffe'', vol_source = SecretVolume (PXEName @ ''-certificate'') [] None\<rparr>] else [])\<rparr>)"

definition BuildPXEDeployment :: "carbide_deployment \<Rightarrow> string \<Rightarrow> deployment" where
  "BuildPXEDeployment d ns =
     mk_deployment d PXEName ns ((DefaultLabels ''pxe'' d)(''app'' \<mapsto> PXEName)) 1 (InjectTLS d (pxe_pod d))"

definition BuildPXEPVC :: "carbide_deployment \<Rightarrow> string \<Rightarrow> pvc" where
  "BuildPXEPVC d ns =
     (let storage = pxe_storage (core_pxe (spec_core (cd_spec d)));
          amount = (case storage of None \<Rightarrow> Quantity ''50Gi'' | Some s \<Rightarrow> st_size s);
          storageClass = GetStorageClass d storage;
          accessMode = (case storage of None \<Rightarrow> ''ReadWriteOnce'' | Some s \<Rightarrow> str_or (st_access_mode s) ''ReadWriteOnce'')
      in \<lparr>pvc_meta = mk_meta (PXEName @ ''-data'') ns (DefaultLabels ''pxe-storage'' d) [controllerRef d],
          pvc_access_modes = [accessMode], pvc_requests = [(''storage'', amount)],
          pvc_storage_class = (if storageClass \<noteq> [] then Some storageClass else None), pvc_phase = []\<rparr>)"

section \<open>RLA and PSM\<close>

definition db_env :: "string \<Rightarrow> env_var list" where
  "db_env pgSecretName =
     [secret_env ''DB_ADDR'' (secretKeyRef pgSecretName ''host''), secret_env ''DB_PORT'' (secretKeyRef pgSecretName ''port''),
      secret_env ''DB_USER'' (secretKeyRef pgSecretName ''user''),
      secret_env ''DB_PASSWORD'' (secretKeyRef pgSecretName ''password''),
      secret_env ''DB_DATABASE'' (secretKeyRef pgSecretName ''dbname''),
      plain_env ''DB_CERT_PATH'' ''/var/run/secrets/db/ca.crt'']"

definition db_certs :: "string \<Rightarrow> volume" where
  "db_certs pgSecretName =
     \<lparr>vol_name = ''db-certs'', vol_source = SecretVolume pgSecretName [(''ca.crt'', ''ca.crt'')] (Some True)\<rparr>"

definition rla_pod :: "carbide_deployment \<Rightarrow> string \<Rightarrow> rla_config \<Rightarrow> pod_spec" where
  "rla_pod d ns rlaConfig =
     (let port = int_or (rla_port rlaConfig) 50051;
          pgSecretName = ResolveUserSecret d ''rla''
      in zero_pod_spec
        \<lparr>ps_service_account := RLAName, ps_volumes := [db_certs pgSecretName],
         ps_containers := [zero_container
           \<lparr>c_name := ''carbide-rla'', c_image := image_or d img_rla ''carbide-rla'',
            c_pull_policy := GetImagePullPolicy d, c_command := [''/app/rla''],
            c_args := [''serve'', ''--port'', show_int32 port], c_ports := [tcp_port ''grpc'' port],
            c_env := db_env pgSecretName @
              [plain_env ''TEMPORAL_HOST'' (''temporal-frontend.'' @ ns @ ''.svc''),
               plain_env ''TEMPORAL_PORT'' ''7233'', plain_env ''TEMPORAL_NAMESPACE'' ''rla'',
               plain_env ''TEMPORAL_ENABLE_TLS'' ''true'', plain_env ''TEMPORAL_CERT_PATH'' (CertDir @ ''/ca.crt''),
               plain_env ''CARBIDE_API_URL'' (''carbide-api:'' @ show_int32 (api_port_of d)),
               plain_env ''PSM_API_URL'' (''carbide-psm:'' @ show_int32 port), plain_env ''CERTDIR'' CertDir],
            c_mounts := [ro_mount ''db-certs'' ''/var/run/secrets/db''],
            c_resources := (case rla_resources rlaConfig of
               None \<Rightarrow> cpu_mem ''100m'' ''128Mi'' ''500m'' ''512Mi'' | Some r \<Rightarrow> r),
            c_liveness := probe_of (TCPSocket port) 30 10, c_readiness := probe_of (TCPSocket port) 5 5\<rparr>]\<rparr>)"

definition rla_deployment :: "rla_config \<Rightarrow> carbide_deployment \<Rightarrow> string \<Rightarrow> deployment" where
  "rla_deployment rlaConfig d ns =
     mk_deployment d RLAName ns ((DefaultLabels ''rla'' d)(''app'' \<mapsto> RLAName)) (int_or (rla_replicas rlaConfig) 1)
       (InjectTLS d (rla_pod d ns rlaConfig))"

definition BuildRLADeployment :: "carbide_deployment \<Rightarrow> string \<Rightarrow> deployment option" where
  "BuildRLADeployment d ns = map_option (\<lambda>c. rla_deployment c d ns) (core_rla (spec_core (cd_spec d)))"

definition BuildRLAService :: "carbide_deployment \<Rightarrow> string \<Rightarrow> service" where
  "BuildRLAService d ns =
     (let port = (case core_rla (spec_core (cd_spec d)) of None \<Rightarrow> 50051 | Some c \<Rightarrow> if 0 <s rla_port c then rla_port c else 50051)
      in mk_service d RLAName ns (DefaultLabels ''rla-service'' d) [svc_port ''grpc'' port])"

definition psm_vault_env :: "carbide_deployment \<Rightarrow> string \<Rightarrow> env_var list" where
  "psm_vault_env d ns =
     (case core_vault (spec_core (cd_spec d)) of
        None \<Rightarrow> []
      | Some v \<Rightarrow>
          if vault_mode v = ExternalMode \<and> vault_address v \<noteq> [] then
            [plain_env ''VAULT_ADDR'' (vault_address v)] @ vault_token_env v
          else if vault_mode v = ManagedMode then
            [plain_env ''VAULT_ADDR'' (''http://vault.'' @ ns @ ''.svc:8200''),
             secret_env ''VAULT_TOKEN'' (secretKeyRef ''vault-unseal-secret'' ''root-token'')]
          else [])"

definition psm_pod :: "carbide_deployment \<Rightarrow> string \<Rightarrow> psm_config \<Rightarrow> pod_spec" where
  "psm_pod d ns psmConfig =
     (let port = int_or (psm_port psmConfig) 50051;
          pgSecretName = ResolveUserSecret d ''psm''
      in zero_pod_spec
        \<lparr>ps_service_account := PSMName, ps_volumes := [db_certs pgSecretName],
         ps_containers := [zero_container
           \<lparr>c_name := ''carbide-psm'', c_image := image_or d img_psm ''carbide-psm'',
            c_pull_policy := GetImagePullPolicy d, c_command := [''/app/psm''],
            c_args := [''serve'', ''--port'', show_int32 port, ''--datastore'', ''Persistent''],
            c_ports := [tcp_port ''grpc'' port],
            c_env := db_env pgSecretName @ [plain_env ''CERTDIR'' CertDir] @ psm_vault_env d ns,
            c_mounts := [ro_mount ''db-certs'' ''/var/run/secrets/db''],
            c_resources := (case psm_resources psmConfig of
               None \<Rightarrow> cpu_mem ''100m'' ''128Mi'' ''500m'' ''512Mi'' | Some r \<Rightarrow> r),
            c_liveness := probe_of (TCPSocket port) 30 10, c_readiness := probe_of (TCPSocket port) 5 5\<rparr>]\<rparr>)"

definition psm_deployment :: "psm_config \<Rightarrow> carbide_deployment \<Rightarrow> string \<Rightarrow> deployment" where
  "psm_deployment psmConfig d ns =
     mk_deployment d PSMName ns ((DefaultLabels ''psm'' d)(''app'' \<mapsto> PSMName)) (int_or (psm_replicas psmConfig) 1)
       (InjectTLS d (psm_pod d ns psmConfig))"

definition BuildPSMDeployment :: "carbide_deployment \<Rightarrow> string \<Rightarrow> deployment option" where
  "BuildPSMDeployment d ns = map_option (\<lambda>c. psm_deployment c d ns) (core_psm (spec_core (cd_spec d)))"

definition BuildPSMService :: "carbide_deployment \<Rightarrow> string \<Rightarrow> service" where
  "BuildPSMService d ns =
     (let port = (case core_psm (spec_core (cd_spec d)) of None \<Rightarrow> 50051 | Some c \<Rightarrow> if 0 <s psm_port c then psm_port c else 50051)
      in mk_service d PSMName ns (DefaultLabels ''psm-service'' d) [svc_port ''grpc'' port])"

section \<open>Vault\<close>

definition vault_values :: "string \<Rightarrow> string" where
  \<open>vault_values version = unlines
     [''global:'', ''  enabled: true'', ''server:'', ''  image:'', ''    tag: "'' @ version @ ''"'',
      ''  standalone:'', ''    enabled: true'', ''  dataStorage:'', ''    enabled: true'', ''    size: 10Gi'',
      ''  ha:'', ''    enabled: false'', ''ui:'', ''  enabled: false'', ''injector:'', ''  enabled: false'']\<close>

definition BuildVaultHelmValuesConfigMap :: "carbide_deployment \<Rightarrow> string \<Rightarrow> config_map" where
  "BuildVaultHelmValuesConfigMap d ns =
     (let version = (case core_vault (spec_core (cd_spec d)) of None \<Rightarrow> ''1.15.6'' | Some v \<Rightarrow> str_or (vault_version v) ''1.15.6'')
      in \<lparr>cm_meta = mk_meta VaultValuesMapName ns (DefaultLabels ''vault-helm-values'' d) [controllerRef d],
          cm_data = [''values.yaml'' \<mapsto> vault_values version]\<rparr>)"

text \<open>A shell line that continues on the next one.\<close>

definition cont :: "string \<Rightarrow> string" where
  "cont l = l @ '' '' @ [CHR 0x5C]"

definition vault_helm_script :: "string \<Rightarrow> string" where
  "vault_helm_script ns =
     unlines [cont ''helm repo add hashicorp https://helm.releases.hashicorp.com &&'',
              cont ''helm repo update &&'',
              cont ''helm upgrade --install vault hashicorp/vault'',
              cont (''  -n '' @ ns),
              cont ''  -f /values/values.yaml''] @
     ''  --wait --timeout 10m''"

definition values_volume :: "string \<Rightarrow> volume" where
  "values_volume cm = cm_volume ''values'' cm"

definition BuildVaultHelmJob :: "carbide_deployment \<Rightarrow> string \<Rightarrow> job" where
  "BuildVaultHelmJob d ns =
     mk_job d VaultHelmJobName ns (DefaultLabels ''vault-helm'' d) 5 86400
       (zero_pod_spec
         \<lparr>ps_restart_policy := ''OnFailure'', ps_service_account := ''vault-helm-installer'',
          ps_containers := [zero_container
            \<lparr>c_name := ''helm'', c_image := ''alpine/helm:latest'', c_pull_policy := ''IfNotPresent'',
             c_command := [''/bin/sh''], c_args := [''-c'', vault_helm_script ns],
             c_mounts := [ro_mount ''values'' ''/values'']\<rparr>],
          ps_volumes := [values_volume VaultValuesMapName]\<rparr>)"

definition bs :: string where
  "bs = [CHR 0x5C]"

definition vault_init_script :: "string \<Rightarrow> string" where
  \<open>vault_init_script ns = unlines
     [[],
      ''export VAULT_ADDR=http://vault.'' @ ns @ ''.svc:8200'',
      [],
      ''echo "Waiting for Vault to be reachable..."'',
      ''until vault status -format=json 2>/dev/null | grep -q '"initialized"'; do'',
      ''  echo "Still waiting..."'',
      ''  sleep 5'',
      ''done'',
      [],
      ''# Check if already initialized'',
      ''INIT_STATUS=$(vault status -format=json 2>/dev/null | grep '"initialized"' | tr -d ' ",')'',
      ''if echo "$INIT_STATUS" | grep -q "true"; then'',
      ''  echo "Vault already initialized"'',
      ''  exit 0'',
      ''fi'',
      [],
      ''echo "Initializing Vault..."'',
      ''INIT_OUTPUT=$(vault operator init -key-shares=1 -key-threshold=1 -format=json)'',
      [],
      ''UNSEAL_KEY=$(echo "$INIT_OUTPUT" | grep -o '"unseal_keys_b64":'' @ bs @ ''['' @ bs @ ''"[^"]*'' @ bs @
        ''"' | sed 's/.*'' @ bs @ ''["//' | sed 's/".*//')'',
      ''ROOT_TOKEN=$(echo "$INIT_OUTPUT" | grep -o '"root_token":"[^"]*"' | sed 's/.*:"//' | sed 's/".*//')'',
      [],
      ''echo "Unsealing Vault..."'',
      ''vault operator unseal "$UNSEAL_KEY"'',
      [],
      ''# Create K8s secret with unseal key and root token'',
      ''cat <<EOSECRET | kubectl apply -f -'',
      ''apiVersion: v1'',
      ''kind: Secret'',
      ''metadata:'',
      ''  name: '' @ VaultUnsealSecret,
      ''  namespace: '' @ ns,
      ''type: Opaque'',
      ''stringData:'',
      ''  unseal-key: "$UNSEAL_KEY"'',
      ''  root-token: "$ROOT_TOKEN"'',
      ''EOSECRET'',
      [],
      ''echo "Vault initialized and unsealed successfully"'']\<close>

definition BuildVaultInitJob :: "carbide_deployment \<Rightarrow> string \<Rightarrow> job" where
  "BuildVaultInitJob d ns =
     mk_job d VaultInitJobName ns (DefaultLabels ''vault-init'' d) 10 86400
       (zero_pod_spec
         \<lparr>ps_restart_policy := ''OnFailure'', ps_service_account := ''vault-helm-installer'',
          ps_containers := [zero_container
            \<lparr>c_name := ''vault-init'', c_image := ''hashicorp/vault:latest'', c_pull_policy := ''IfNotPresent'',
             c_command := [''/bin/sh''], c_args := [''-c'', vault_init_script ns]\<rparr>]\<rparr>)"

section \<open>The contract of a workload\<close>

text \<open>
  What the API server requires of a Deployment and what the operator relies on: its key, a
  selector that matches the labels of its own pods, ownership by the custom resource, and a pod
  whose mounts all name volumes.
\<close>

locale workload =
  fixes build :: "carbide_deployment \<Rightarrow> string \<Rightarrow> deployment"
    and name :: string
    and ports :: "carbide_deployment \<Rightarrow> int32 set"
  assumes key: "obj_key (DeploymentObj (build d ns)) = (KDeployment, ns, name)"
    and selector: "dep_selector (build d ns) = [''app'' \<mapsto> name]"
    and pod_label: "tmpl_labels (dep_template (build d ns)) ''app'' = Some name"
    and owner: "meta_owners (dep_meta (build d ns)) = [controllerRef d]"
    and pod: "mounts_resolve (tmpl_spec (dep_template (build d ns)))"
    and account: "ps_service_account (tmpl_spec (dep_template (build d ns))) = name"
    and exposes: "ports d \<subseteq>
      (\<Union>c \<in> set (ps_containers (tmpl_spec (dep_template (build d ns)))). cp_port ` set (c_ports c))"
begin

lemma selects_own_pods: "dep_selector (build d ns) \<subseteq>\<^sub>m tmpl_labels (dep_template (build d ns))"
  by (simp add: selector map_le_def pod_label)

text \<open>A service that selects by the name and targets exposed ports reaches a container.\<close>

lemma service_reaches:
  assumes "svc_selector svc = [''app'' \<mapsto> name]" and "sp_target_port ` set (svc_ports svc) \<subseteq> ports d"
  shows "svc_selector svc \<subseteq>\<^sub>m tmpl_labels (dep_template (build d ns)) \<and>
    (\<forall>p \<in> set (svc_ports svc). \<exists>c \<in> set (ps_containers (tmpl_spec (dep_template (build d ns)))).
       sp_target_port p \<in> cp_port ` set (c_ports c))"
proof -
  have "sp_target_port ` set (svc_ports svc) \<subseteq>
      (\<Union>c \<in> set (ps_containers (tmpl_spec (dep_template (build d ns)))). cp_port ` set (c_ports c))"
    using assms(2) exposes by (rule subset_trans)
  then have "\<forall>p \<in> set (svc_ports svc). sp_target_port p \<in>
      (\<Union>c \<in> set (ps_containers (tmpl_spec (dep_template (build d ns)))). cp_port ` set (c_ports c))" by blast
  then show ?thesis using assms(1) selects_own_pods [of d ns] by (simp add: selector)
qed

end

text \<open>All builders use the same literal, so the contract comes down to the pod.\<close>

definition pod_ports :: "pod_spec \<Rightarrow> int32 set" where
  "pod_ports ps = (\<Union>c \<in> set (ps_containers ps). cp_port ` set (c_ports c))"

lemma same_app_ports: "same_app c c' \<Longrightarrow> c_ports c' = c_ports c"
  unfolding same_app_def by (drule conjunct1, drule arg_cong [where f = c_ports]) simp

lemma pod_ports_InjectTLS: "pod_ports ps \<subseteq> pod_ports (InjectTLS d ps)"
proof
  fix p
  assume "p \<in> pod_ports ps"
  then obtain c where c: "c \<in> set (ps_containers ps)" "p \<in> cp_port ` set (c_ports c)" by (auto simp: pod_ports_def)
  from tls_inject.keeps_apps [OF c(1), of d] obtain c' where
    "c' \<in> set (ps_containers (InjectTLS d ps))" "c_ports c' = c_ports c" using same_app_ports by blast
  then show "p \<in> pod_ports (InjectTLS d ps)" using c(2) unfolding pod_ports_def by (intro UN_I [of c']) simp_all
qed

lemma mk_deployment_workload:
  assumes "\<And>d ns. build d ns = mk_deployment d name ns ((DefaultLabels part d)(''app'' \<mapsto> name)) (reps d) (InjectTLS d (p d ns))"
    and "\<And>d ns. mounts_resolve (p d ns)" and "\<And>d ns. ps_service_account (p d ns) = name"
    and "\<And>d ns. ports d \<subseteq> pod_ports (p d ns)"
  shows "workload build name ports"
proof
  fix d ns
  show "ports d \<subseteq> (\<Union>c \<in> set (ps_containers (tmpl_spec (dep_template (build d ns)))). cp_port ` set (c_ports c))"
    using assms(4) [of d ns] pod_ports_InjectTLS [of "p d ns" d]
    unfolding pod_ports_def assms(1) by (auto simp: mk_deployment_def)
qed (simp_all add: assms(1) mk_deployment_def obj_key_def tls_inject.resolves tls_inject.service_account assms(2,3))

lemma zero_container_sel [simp]:
  "c_mounts zero_container = []" "c_ports zero_container = []"
  by (simp_all add: zero_container_def)

lemma zero_pod_spec_sel [simp]:
  "ps_init_containers zero_pod_spec = []" "ps_containers zero_pod_spec = []" "ps_volumes zero_pod_spec = []"
  by (simp_all add: zero_pod_spec_def)

lemma port_sel [simp]:
  "cp_port (tcp_port n p) = p" "sp_target_port (svc_port n p) = p" "sp_port (svc_port n p) = p"
  by (simp_all add: tcp_port_def svc_port_def)

lemma volume_sel [simp]: "vol_name (cm_volume n x) = n" "vol_name (db_certs x) = ''db-certs''"
  by (simp_all add: cm_volume_def db_certs_def)

lemmas pod_check = mounts_resolve_def volume_names_def pod_ports_def Let_def

interpretation api_workload: workload BuildAPIDeployment APIName "\<lambda>d. {api_port_of d, api_port_of d + 1}"
  by (rule mk_deployment_workload [where p = api_pod, OF BuildAPIDeployment_def])
    (simp_all add: pod_check api_pod_def api_container_def api_migrate_container_def)

interpretation rla_workload: workload "rla_deployment cfg" RLAName "\<lambda>d. {int_or (rla_port cfg) 50051}" for cfg
  by (rule mk_deployment_workload [where p = "\<lambda>d ns. rla_pod d ns cfg", OF rla_deployment_def])
    (simp_all add: pod_check rla_pod_def)

interpretation psm_workload: workload "psm_deployment cfg" PSMName "\<lambda>d. {int_or (psm_port cfg) 50051}" for cfg
  by (rule mk_deployment_workload [where p = "\<lambda>d ns. psm_pod d ns cfg", OF psm_deployment_def])
    (simp_all add: pod_check psm_pod_def)

section \<open>Properties\<close>

text \<open>
  The carbide-api Service reaches the carbide-api pods: its selector matches their labels
  and both its ports, gRPC and metrics, are ports of a container, also where the metrics port
  \<open>port + 1\<close> wraps around at 32 bits.
\<close>
theorem api_service_reaches_pods:
  "svc_selector (BuildAPIService d ns) \<subseteq>\<^sub>m tmpl_labels (dep_template (BuildAPIDeployment d ns)) \<and>
   (\<forall>p \<in> set (svc_ports (BuildAPIService d ns)).
      \<exists>c \<in> set (ps_containers (tmpl_spec (dep_template (BuildAPIDeployment d ns)))).
        sp_target_port p \<in> cp_port ` set (c_ports c))"
  by (rule api_workload.service_reaches) (simp_all add: BuildAPIService_def mk_service_def)

text \<open>
  The RLA Service reaches the RLA pods whenever the configured port is not negative; the
  Deployment and the Service apply the default port by different tests (equal to zero, and
  not positive) and agree on exactly these values.
\<close>
theorem rla_service_reaches_pods:
  assumes "core_rla (spec_core (cd_spec d)) = Some cfg" and "0 \<le>s rla_port cfg"
  shows "BuildRLADeployment d ns = Some (rla_deployment cfg d ns) \<and>
    svc_selector (BuildRLAService d ns) \<subseteq>\<^sub>m tmpl_labels (dep_template (rla_deployment cfg d ns)) \<and>
    (\<forall>p \<in> set (svc_ports (BuildRLAService d ns)).
       \<exists>c \<in> set (ps_containers (tmpl_spec (dep_template (rla_deployment cfg d ns)))).
         sp_target_port p \<in> cp_port ` set (c_ports c))"
proof -
  have "sp_target_port ` set (svc_ports (BuildRLAService d ns)) \<subseteq> {int_or (rla_port cfg) 50051}"
    using assms by (auto simp: BuildRLAService_def mk_service_def int_or_def word_sless_alt word_sle_eq
        signed_eq_0_iff less_le)
  with rla_workload.service_reaches [of "BuildRLAService d ns" cfg d ns] assms(1) show ?thesis
    by (simp add: BuildRLAService_def mk_service_def BuildRLADeployment_def)
qed

text \<open>
  The PXE pod cannot be scheduled in SPIFFE mode or without TLS: its container mounts the
  volume \<open>spiffe\<close>, which only cert-manager mode defines.
\<close>
theorem pxe_mount_unresolved:
  assumes "\<not> IsCertManagerMode d"
  shows "\<not> mounts_resolve (tmpl_spec (dep_template (BuildPXEDeployment d ns)))"
proof -
  let ?c = "hd (ps_containers (pxe_pod d))"
  have c: "?c \<in> set (ps_containers (pxe_pod d))" "''spiffe'' \<in> vm_name ` set (c_mounts ?c)"
    by (simp_all add: pxe_pod_def Let_def)
  from tls_inject.keeps_apps [OF c(1), of d] obtain c' where
    c': "c' \<in> set (ps_containers (InjectTLS d (pxe_pod d)))" "same_app ?c c'" by blast
  then have "''spiffe'' \<in> mounted (ps_containers (InjectTLS d (pxe_pod d)))"
    using c(2) by (auto simp: mounted_def same_app_def)
  moreover have "''spiffe'' \<notin> volume_names (InjectTLS d (pxe_pod d))"
    using assms by (auto simp: InjectTLS_eq InjectSpiffe_def volume_names_def pxe_pod_def SpiffeVolumes_def Let_def
        split: option.splits)
  ultimately show ?thesis by (auto simp: mounts_resolve_def BuildPXEDeployment_def mk_deployment_def)
qed

section \<open>Witnesses\<close>

definition rla_site :: carbide_deployment where
  "rla_site = sample_site\<lparr>cd_spec := site_spec\<lparr>spec_core := zero_core\<lparr>core_rla :=
     Some \<lparr>rla_enabled = True, rla_port = 50060, rla_replicas = 2, rla_resources = None\<rparr>\<rparr>\<rparr>\<rparr>"

theorem api_service_reaches_pods_witness:
  "\<exists>c \<in> set (ps_containers (tmpl_spec (dep_template (BuildAPIDeployment sample_site ''ns'')))).
     1079 \<in> cp_port ` set (c_ports c)"
proof -
  have "svc_port ''grpc'' 1079 \<in> set (svc_ports (BuildAPIService sample_site ''ns''))"
    by (simp add: BuildAPIService_def mk_service_def api_port_of_def sample_defs)
  from conjunct2 [OF api_service_reaches_pods, rule_format, OF this] show ?thesis by (simp add: svc_port_def)
qed

theorem rla_service_reaches_pods_witness:
  "BuildRLADeployment rla_site ''ns'' =
     Some (rla_deployment \<lparr>rla_enabled = True, rla_port = 50060, rla_replicas = 2, rla_resources = None\<rparr> rla_site ''ns'')"
proof -
  have "core_rla (spec_core (cd_spec rla_site)) =
      Some \<lparr>rla_enabled = True, rla_port = 50060, rla_replicas = 2, rla_resources = None\<rparr>"
    by (simp add: rla_site_def)
  moreover have "0 \<le>s rla_port \<lparr>rla_enabled = True, rla_port = 50060, rla_replicas = 2, rla_resources = None\<rparr>"
    by (simp add: word_sle_eq)
  ultimately show ?thesis using rla_service_reaches_pods by blast
qed

theorem pxe_mount_unresolved_witness:
  "\<not> mounts_resolve (tmpl_spec (dep_template (BuildPXEDeployment spiffe_site ''ns'')))"
proof -
  have "\<not> IsCertManagerMode spiffe_site" by (simp add: IsCertManagerMode_def spiffe_site_def)
  then show ?thesis by (rule pxe_mount_unresolved)
qed

end
