(* ===== verification/Core_Reconciler.thy ===== *)
theory Core_Reconciler
  imports Sample_Server Core_Resources
begin

text \<open>
  The core tier (\<^verbatim>\<open>internal/controller/core_reconciler.go\<close>): service accounts and TLS resources,
  configuration, carbide-api, the network services, Vault, RLA and PSM, each a stage that writes its
  objects and then asks whether its workload is ready.  Shown: the contract of a tier with the
  evidence that a ready status rests on, and the order in which the stages may write.
\<close>

section \<open>Connection details\<close>

definition core_ns :: "carbide_deployment \<Rightarrow> string" where
  "core_ns d =
     (let s = cd_spec d in
      if core_namespace (spec_core s) \<noteq> [] then core_namespace (spec_core s)
      else case spec_infrastructure s of
        None \<Rightarrow> restDefaultNamespace
      | Some infra \<Rightarrow> if infra_namespace infra \<noteq> [] then infra_namespace infra else restDefaultNamespace)"

definition getInfrastructureConnections :: "carbide_deployment \<Rightarrow> goerror + string \<times> int32" where
  "getInfrastructureConnections d =
     (case spec_infrastructure (cd_spec d) of
        None \<Rightarrow> Inl (Errorf ''infrastructure config is nil'')
      | Some infra \<Rightarrow>
          (let infraNamespace = str_or (infra_namespace infra) restDefaultNamespace;
               pgConfig = infra_postgresql infra;
               mode = str_or (pg_mode pgConfig) ManagedMode
           in if mode = ExternalMode then
                (case pg_connection pgConfig of
                   None \<Rightarrow> Inl (Errorf ''external PostgreSQL connection is nil'')
                 | Some c \<Rightarrow> Inr (pgc_host c, pgc_port c))
              else Inr (''carbide-postgres-primary.'' @ infraNamespace @ ''.svc'', 5432)))"

definition getPostgreSQLPassword :: "carbide_deployment \<Rightarrow> (goerror + string) prog" where
  "getPostgreSQLPassword d =
     (case spec_infrastructure (cd_spec d) of
        None \<Rightarrow> Ret (Inl (Errorf ''infrastructure config is nil''))
      | Some infra \<Rightarrow>
          if str_or (pg_mode (infra_postgresql infra)) ManagedMode = ExternalMode then
            (case pg_connection (infra_postgresql infra) of
               None \<Rightarrow> Ret (Inl (Errorf ''external PostgreSQL connection is required''))
             | Some c \<Rightarrow>
                 (case map_of (pgc_user_secrets c) ''carbide'' of
                    None \<Rightarrow> Ret (Inl (Errorf ''carbide user secret not found in external PostgreSQL connection''))
                  | Some ref \<Rightarrow>
                      tryThen (get_secret (infra_namespace infra) (sr_name ref))
                        (\<lambda>e. Ret (Inl (WrapErr (''failed to get external PostgreSQL secret: '' @ err_text e) e)))
                        (\<lambda>s. Ret (Inr (data_get s (str_or (sr_password_key ref) ''password''))))))
          else
            (let infraNamespace = str_or (infra_namespace infra) restDefaultNamespace;
                 secretName = GetPostgreSQLConnectionSecret ''carbide''
             in tryThen (get_secret infraNamespace secretName)
                  (\<lambda>e. Ret (Inl (WrapErr (''failed to get PostgreSQL secret '' @ infraNamespace @ ''/'' @ secretName @
                                  '': '' @ err_text e) e)))
                  (\<lambda>s. let password = data_get s ''password'' in
                     Ret (if password = [] then
                            Inl (Errorf (''password key not found in secret '' @ infraNamespace @ ''/'' @ secretName))
                          else Inr password))))"

section \<open>The stages\<close>

definition reconcileConfig :: "carbide_deployment \<Rightarrow> string \<Rightarrow> (goerror + bool) prog" where
  "reconcileConfig d ns =
     (case getInfrastructureConnections d of
        Inl e \<Rightarrow> Ret (Inl e)
      | Inr (pgHost, pgPort) \<Rightarrow>
          orReturn (core_createOrUpdate (ConfigMapObj (BuildAPIConfigMap d ns pgHost pgPort)))
         (orReturn (core_createOrUpdate (ConfigMapObj (BuildCasbinPolicyConfigMap d ns)))
         (orReturn (if dns_enabled (core_dns (spec_core (cd_spec d)))
                    then core_createOrUpdate (ConfigMapObj (BuildDNSConfigMap d ns)) else Ret None)
         (tryThen (getPostgreSQLPassword d) (\<lambda>e. Ret (Inl e)) (\<lambda>pgPassword.
          orReturn (core_createOrUpdate (SecretObj (BuildAPISecret d ns pgHost pgPort pgPassword)))
         (Ret (Inr True)))))))"

definition reconcileMigration :: "carbide_deployment \<Rightarrow> string \<Rightarrow> (goerror + bool) prog" where
  "reconcileMigration d ns = Ret (Inr True)"

definition reconcileAPI :: "carbide_deployment \<Rightarrow> string \<Rightarrow> (goerror + bool) prog" where
  "reconcileAPI d ns =
     orReturn (core_createOrUpdate (DeploymentObj (BuildAPIDeployment d ns)))
    (orReturn (core_createOrUpdate (ServiceObj (BuildAPIService d ns)))
    (IsDeploymentReady ns APIName))"

definition reconcileDHCP :: "carbide_deployment \<Rightarrow> string \<Rightarrow> (goerror + bool) prog" where
  "reconcileDHCP d ns =
     (if \<not> dhcp_enabled (core_dhcp (spec_core (cd_spec d))) then Ret (Inr True)
      else orReturn (core_createOrUpdate (DaemonSetObj (BuildDHCPDaemonSet d ns)))
          (IsDaemonSetReady ns ''carbide-dhcp''))"

definition reconcilePXE :: "carbide_deployment \<Rightarrow> string \<Rightarrow> (goerror + bool) prog" where
  "reconcilePXE d ns =
     (let deploy = orReturn (core_createOrUpdate (DeploymentObj (BuildPXEDeployment d ns))) (IsDeploymentReady ns PXEName)
      in if \<not> pxe_enabled (core_pxe (spec_core (cd_spec d))) then Ret (Inr True)
         else if pxe_storage (core_pxe (spec_core (cd_spec d))) \<noteq> None then
           orReturn (core_createOrUpdate (PVCObj (BuildPXEPVC d ns)))
             (tryThen (IsPVCBound ns (meta_name (pvc_meta (BuildPXEPVC d ns)))) (\<lambda>e. Ret (Inl e))
               (\<lambda>bound. if \<not> bound then Ret (Inr False) else deploy))
         else deploy)"

definition reconcileDNS :: "carbide_deployment \<Rightarrow> string \<Rightarrow> (goerror + bool) prog" where
  "reconcileDNS d ns =
     (if \<not> dns_enabled (core_dns (spec_core (cd_spec d))) then Ret (Inr True)
      else orReturn (core_createOrUpdate (DaemonSetObj (BuildDNSDaemonSet d ns)))
          (IsDaemonSetReady ns ''carbide-dns''))"

definition vaultRB :: "string \<Rightarrow> role_binding" where
  "vaultRB ns =
     \<lparr>rb_meta = mk_meta (''vault-helm-installer-'' @ ns) [] Map.empty [],
      rb_subjects = [\<lparr>subj_kind = ''ServiceAccount'', subj_name = ''vault-helm-installer'', subj_namespace = ns\<rparr>],
      rb_ref = \<lparr>ref_api_group = ''rbac.authorization.k8s.io'', ref_kind = ''ClusterRole'', ref_name = ''cluster-admin''\<rparr>\<rparr>"

definition reconcileVault :: "carbide_deployment \<Rightarrow> string \<Rightarrow> (goerror + bool) prog" where
  "reconcileVault d ns =
     (case core_vault (spec_core (cd_spec d)) of
        None \<Rightarrow> Ret (Inr True)
      | Some vaultConfig \<Rightarrow>
          if vault_mode vaultConfig = ManagedMode then
            orWrap ''failed to create vault-helm-installer SA''
              (core_createOrUpdate (ServiceAccountObj (BuildServiceAccount ''vault-helm-installer'' ns d)))
           (orWrap ''failed to create vault-helm-installer ClusterRoleBinding''
              (core_createOrUpdate (ClusterRoleBindingObj (vaultRB ns)))
           (orWrap ''failed to create Vault values ConfigMap''
              (core_createOrUpdate (ConfigMapObj (BuildVaultHelmValuesConfigMap d ns)))
           (orWrap ''failed to create Vault Helm job'' (core_createOrUpdate (JobObj (BuildVaultHelmJob d ns)))
           (tryThen (IsJobComplete ns VaultHelmJobName) (\<lambda>e. Ret (Inl e)) (\<lambda>helmComplete.
              if \<not> helmComplete then Ret (Inr False)
              else orWrap ''failed to create Vault init job'' (core_createOrUpdate (JobObj (BuildVaultInitJob d ns)))
                  (IsJobComplete ns VaultInitJobName))))))
          else if vault_mode vaultConfig = ExternalMode then
            (if vault_address vaultConfig = [] then Ret (Inl (Errorf ''external Vault address is required''))
             else case vault_token_secret_ref vaultConfig of
               None \<Rightarrow> Ret (Inr True)
             | Some ref \<Rightarrow>
                 tryThen (IsSecretAvailable ns (sr_name ref)) (\<lambda>e. Ret (Inl e)) (\<lambda>available.
                   if \<not> available then Ret (Inl (Errorf (''vault token secret '' @ sr_name ref @ '' not found'')))
                   else Ret (Inr True)))
          else Ret (Inl (Errorf (''invalid Vault mode: '' @ vault_mode vaultConfig))))"

definition reconcileRLA :: "carbide_deployment \<Rightarrow> string \<Rightarrow> (goerror + bool) prog" where
  "reconcileRLA d ns =
     (case BuildRLADeployment d ns of
        None \<Rightarrow> Ret (Inr True)
      | Some rlaDeployment \<Rightarrow>
          orWrap ''failed to create/update RLA Deployment'' (core_createOrUpdate (DeploymentObj rlaDeployment))
         (orWrap ''failed to create/update RLA Service'' (core_createOrUpdate (ServiceObj (BuildRLAService d ns)))
         (IsDeploymentReady ns RLAName)))"

definition reconcilePSM :: "carbide_deployment \<Rightarrow> string \<Rightarrow> (goerror + bool) prog" where
  "reconcilePSM d ns =
     (case BuildPSMDeployment d ns of
        None \<Rightarrow> Ret (Inr True)
      | Some psmDeployment \<Rightarrow>
          orWrap ''failed to create/update PSM Deployment'' (core_createOrUpdate (DeploymentObj psmDeployment))
         (orWrap ''failed to create/update PSM Service'' (core_createOrUpdate (ServiceObj (BuildPSMService d ns)))
         (IsDeploymentReady ns PSMName)))"

section \<open>The tier\<close>

definition saNames :: "carbide_deployment \<Rightarrow> string list" where
  "saNames d = [APIName, DHCPName, DNSName, PXEName] @ (if rla_is_on d then [RLAName] else []) @
     (if psm_is_on d then [PSMName] else [])"

definition spiffeNames :: "carbide_deployment \<Rightarrow> string list" where
  "spiffeNames d = [DHCPName, DNSName, PXEName] @ (if rla_is_on d then [RLAName] else []) @
     (if psm_is_on d then [PSMName] else [])"

text \<open>The loop that waits for the certificates' secrets.\<close>

primrec awaitSecrets :: "string \<Rightarrow> tier_status \<Rightarrow> string list \<Rightarrow> tier_result prog \<Rightarrow> tier_result prog" where
  "awaitSecrets ns st [] k = k"
| "awaitSecrets ns st (name # names) k =
     (let secretName = name @ ''-tls'' in
      tryThen (IsSecretAvailable ns secretName)
        (\<lambda>e. failWith (''Failed to check cert secret '' @ secretName) e)
        (\<lambda>available. if \<not> available then waitWith st (''Waiting for TLS certificate '' @ secretName)
                     else awaitSecrets ns st names k))"

definition core_certificate :: "carbide_deployment \<Rightarrow> string \<Rightarrow> string \<Rightarrow> unstructured option" where
  "core_certificate d ns name = BuildCertificate d name ns [name @ ''.'' @ ns @ ''.svc.cluster.local'']"

definition core_tls :: "carbide_deployment \<Rightarrow> string \<Rightarrow> tier_status \<Rightarrow> tier_result prog \<Rightarrow> tier_result prog" where
  "core_tls d ns st k =
     (if IsSpiffeMode d then
        checkThen (core_createOrUpdate (ConfigMapObj (BuildSpiffeHelperConfigMap d ns)))
          (failWith ''Failed to create spiffe-helper ConfigMap'')
       (checkThen (core_createOrUpdateUnstructured (BuildClusterSPIFFEID d ''carbide-api'' ns APIName
            [''carbide-api.'' @ ns @ ''.svc.cluster.local'']))
          (failWith ''Failed to create carbide-api ClusterSPIFFEID'')
       (eachOrFail (spiffeNames d)
          (\<lambda>name. core_createOrUpdateUnstructured (BuildClusterSPIFFEID d name ns name []))
          (\<lambda>name. ''Failed to create '' @ name @ '' ClusterSPIFFEID'') k))
      else if IsCertManagerMode d then
        certificatesOrFail core_createOrUpdateUnstructured (core_certificate d ns) (saNames d)
          (awaitSecrets ns st (saNames d) k)
      else k)"

text \<open>Stages 5 to 7 and the verdict.\<close>

definition core_extras ::
    "carbide_deployment \<Rightarrow> string \<Rightarrow> bool \<Rightarrow> bool \<Rightarrow> bool \<Rightarrow> bool \<Rightarrow> bool \<Rightarrow> bool \<Rightarrow> tier_status \<Rightarrow> tier_result prog" where
  "core_extras d ns configReady migrationComplete apiReady dhcpReady pxeReady dnsReady st =
     stageIf (apiReady \<and> core_vault (spec_core (cd_spec d)) \<noteq> None)
       ''Vault'' ''Vault reconciliation failed'' (reconcileVault d ns) st (\<lambda>vaultReady st1.
     stageIf (apiReady \<and> vaultReady \<and> rla_is_on d)
       ''RLA'' ''RLA reconciliation failed'' (reconcileRLA d ns) st1 (\<lambda>rlaReady st2.
     stageIf (apiReady \<and> vaultReady \<and> psm_is_on d)
       ''PSM'' ''PSM reconciliation failed'' (reconcilePSM d ns) st2 (\<lambda>psmReady st3.
     conclude (configReady \<and> migrationComplete \<and> apiReady \<and> dhcpReady \<and> pxeReady \<and> dnsReady \<and> vaultReady \<and>
               rlaReady \<and> psmReady)
       ''All core components ready'' ''Waiting for core components to be ready'' st3)))"

text \<open>Stages 1 to 4.\<close>

definition core_services :: "carbide_deployment \<Rightarrow> string \<Rightarrow> tier_status \<Rightarrow> tier_result prog" where
  "core_services d ns st =
     (let coreConfig = spec_core (cd_spec d) in
      tryThen (reconcileConfig d ns) (stopWith st ''Config reconciliation failed'') (\<lambda>configReady.
      stage ''Migration'' ''Migration failed'' (reconcileMigration d ns) st (\<lambda>migrationComplete st1.
      if \<not> migrationComplete then waitWith st1 ''Waiting for database migration to complete''
      else
      stage ''API'' ''API reconciliation failed'' (reconcileAPI d ns) st1 (\<lambda>apiReady st2.
      if apiReady then
        stageIf (dhcp_enabled (core_dhcp coreConfig))
          ''DHCP'' ''DHCP reconciliation failed'' (reconcileDHCP d ns) st2 (\<lambda>dhcpReady st3.
        stageIf (pxe_enabled (core_pxe coreConfig))
          ''PXE'' ''PXE reconciliation failed'' (reconcilePXE d ns) st3 (\<lambda>pxeReady st4.
        stageIf (dns_enabled (core_dns coreConfig))
          ''DNS'' ''DNS reconciliation failed'' (reconcileDNS d ns) st4 (\<lambda>dnsReady st5.
        core_extras d ns configReady migrationComplete apiReady dhcpReady pxeReady dnsReady st5)))
      else core_extras d ns configReady migrationComplete apiReady False False False st2))))"

definition core_Reconcile :: "carbide_deployment \<Rightarrow> tier_result prog" where
  "core_Reconcile d =
     (if spec_profile (cd_spec d) = ProfileManagement then notRequired ''Not required for management profile''
      else
        (let ns = core_ns d in
         checkThen (core_ensureNamespace ns) (failWith ''Failed to create namespace'')
           (Now (\<lambda>t. let st = initStatus t in
             eachOrFail (saNames d) (\<lambda>saName. core_createOrUpdate (ServiceAccountObj (BuildServiceAccount saName ns d)))
               (\<lambda>saName. ''Failed to create ServiceAccount '' @ saName)
               (core_tls d ns st (core_services d ns st))))))"

section \<open>What readiness rests on\<close>

text \<open>Where the password of the carbide user is kept.\<close>

definition pw_source :: "carbide_deployment \<Rightarrow> (string \<times> string \<times> string) option" where
  "pw_source d =
     (case spec_infrastructure (cd_spec d) of
        None \<Rightarrow> None
      | Some infra \<Rightarrow>
          if pg_mode (infra_postgresql infra) = ExternalMode then
            (case pg_connection (infra_postgresql infra) of
               None \<Rightarrow> None
             | Some c \<Rightarrow> map_option (\<lambda>ref. (infra_namespace infra, sr_name ref, str_or (sr_password_key ref) ''password''))
                           (map_of (pgc_user_secrets c) ''carbide''))
          else Some (str_or (infra_namespace infra) restDefaultNamespace, ''carbide-postgres-pguser-carbide'', ''password''))"

definition password_read :: "carbide_deployment \<Rightarrow> string \<Rightarrow> event list \<Rightarrow> bool" where
  "password_read d pw tr \<longleftrightarrow> (\<exists>ns n key s. pw_source d = Some (ns, n, key) \<and>
     EGet KSecret ns n (Inr (SecretObj s)) \<in> set tr \<and> pw = data_get s key)"

definition config_evidence :: "carbide_deployment \<Rightarrow> string \<Rightarrow> event list \<Rightarrow> bool" where
  "config_evidence d ns tr \<longleftrightarrow> (\<exists>host port pw. getInfrastructureConnections d = Inr (host, port) \<and> password_read d pw tr \<and>
     written (ConfigMapObj (BuildAPIConfigMap d ns host port)) tr \<and>
     written (ConfigMapObj (BuildCasbinPolicyConfigMap d ns)) tr \<and>
     (dns_enabled (core_dns (spec_core (cd_spec d))) \<longrightarrow> written (ConfigMapObj (BuildDNSConfigMap d ns)) tr) \<and>
     written (SecretObj (BuildAPISecret d ns host port pw)) tr)"

definition api_up :: "string \<Rightarrow> event list \<Rightarrow> bool" where
  "api_up ns tr \<longleftrightarrow> observed KDeployment as_deployment ns APIName deployment_ready tr"

definition api_evidence :: "carbide_deployment \<Rightarrow> string \<Rightarrow> event list \<Rightarrow> bool" where
  "api_evidence d ns tr \<longleftrightarrow> written (DeploymentObj (BuildAPIDeployment d ns)) tr \<and>
     written (ServiceObj (BuildAPIService d ns)) tr \<and> api_up ns tr"

definition dhcp_evidence :: "carbide_deployment \<Rightarrow> string \<Rightarrow> event list \<Rightarrow> bool" where
  "dhcp_evidence d ns tr \<longleftrightarrow> dhcp_enabled (core_dhcp (spec_core (cd_spec d))) \<longrightarrow>
     written (DaemonSetObj (BuildDHCPDaemonSet d ns)) tr \<and> observed KDaemonSet as_daemon_set ns ''carbide-dhcp'' daemon_set_ready tr"

definition pxe_evidence :: "carbide_deployment \<Rightarrow> string \<Rightarrow> event list \<Rightarrow> bool" where
  "pxe_evidence d ns tr \<longleftrightarrow> pxe_enabled (core_pxe (spec_core (cd_spec d))) \<longrightarrow>
     (pxe_storage (core_pxe (spec_core (cd_spec d))) \<noteq> None \<longrightarrow>
        written (PVCObj (BuildPXEPVC d ns)) tr \<and> observed KPVC as_pvc ns ''carbide-pxe-data'' (\<lambda>p. pvc_phase p = ''Bound'') tr) \<and>
     written (DeploymentObj (BuildPXEDeployment d ns)) tr \<and> observed KDeployment as_deployment ns PXEName deployment_ready tr"

definition dns_evidence :: "carbide_deployment \<Rightarrow> string \<Rightarrow> event list \<Rightarrow> bool" where
  "dns_evidence d ns tr \<longleftrightarrow> dns_enabled (core_dns (spec_core (cd_spec d))) \<longrightarrow>
     written (DaemonSetObj (BuildDNSDaemonSet d ns)) tr \<and> observed KDaemonSet as_daemon_set ns ''carbide-dns'' daemon_set_ready tr"

text \<open>Vault: managed, the installer bound to its role and both jobs complete; external, the token secret present.\<close>

definition vault_up :: "carbide_deployment \<Rightarrow> string \<Rightarrow> event list \<Rightarrow> bool" where
  "vault_up d ns tr \<longleftrightarrow>
     (case core_vault (spec_core (cd_spec d)) of
        None \<Rightarrow> True
      | Some v \<Rightarrow>
          if vault_mode v = ManagedMode then
            written (ClusterRoleBindingObj (vaultRB ns)) tr \<and> job_done ns VaultHelmJobName tr \<and> job_done ns VaultInitJobName tr
          else vault_mode v = ExternalMode \<and> vault_address v \<noteq> [] \<and>
            (\<forall>ref. vault_token_secret_ref v = Some ref \<longrightarrow> secret_read ns (sr_name ref) tr))"

definition rla_evidence :: "carbide_deployment \<Rightarrow> string \<Rightarrow> event list \<Rightarrow> bool" where
  "rla_evidence d ns tr \<longleftrightarrow> (\<forall>dep. BuildRLADeployment d ns = Some dep \<longrightarrow>
     written (DeploymentObj dep) tr \<and> written (ServiceObj (BuildRLAService d ns)) tr \<and>
     observed KDeployment as_deployment ns RLAName deployment_ready tr)"

definition psm_evidence :: "carbide_deployment \<Rightarrow> string \<Rightarrow> event list \<Rightarrow> bool" where
  "psm_evidence d ns tr \<longleftrightarrow> (\<forall>dep. BuildPSMDeployment d ns = Some dep \<longrightarrow>
     written (DeploymentObj dep) tr \<and> written (ServiceObj (BuildPSMService d ns)) tr \<and>
     observed KDeployment as_deployment ns PSMName deployment_ready tr)"

definition certs_issued :: "carbide_deployment \<Rightarrow> string \<Rightarrow> event list \<Rightarrow> bool" where
  "certs_issued d ns tr \<longleftrightarrow> IsCertManagerMode d \<longrightarrow>
     (\<forall>name\<in>set (saNames d). observed KSecret as_secret ns (name @ ''-tls'') (\<lambda>_. True) tr)"

definition tls_evidence :: "carbide_deployment \<Rightarrow> string \<Rightarrow> event list \<Rightarrow> bool" where
  "tls_evidence d ns tr \<longleftrightarrow>
     (IsSpiffeMode d \<longrightarrow> written (ConfigMapObj (BuildSpiffeHelperConfigMap d ns)) tr \<and>
        written (UnstructuredObj (BuildClusterSPIFFEID d ''carbide-api'' ns APIName [''carbide-api.'' @ ns @ ''.svc.cluster.local''])) tr \<and>
        (\<forall>name\<in>set (spiffeNames d). written (UnstructuredObj (BuildClusterSPIFFEID d name ns name [])) tr)) \<and>
     (IsCertManagerMode d \<longrightarrow>
        (\<forall>name\<in>set (saNames d). \<exists>u. core_certificate d ns name = Some u \<and> written (UnstructuredObj u) tr)) \<and>
     certs_issued d ns tr"

definition core_components :: "carbide_deployment \<Rightarrow> string list" where
  "core_components d =
     (let c = spec_core (cd_spec d) in
      if spec_profile (cd_spec d) = ProfileManagement then []
      else [''Migration'', ''API''] @ (if dhcp_enabled (core_dhcp c) then [''DHCP''] else []) @
        (if pxe_enabled (core_pxe c) then [''PXE''] else []) @ (if dns_enabled (core_dns c) then [''DNS''] else []) @
        (if core_vault c \<noteq> None then [''Vault''] else []) @ (if rla_is_on d then [''RLA''] else []) @
        (if psm_is_on d then [''PSM''] else []))"

definition core_evidence :: "carbide_deployment \<Rightarrow> event list \<Rightarrow> bool" where
  "core_evidence d tr \<longleftrightarrow> spec_profile (cd_spec d) \<noteq> ProfileManagement \<longrightarrow>
     (let ns = core_ns d in
      ensured ns tr \<and> (\<forall>n\<in>set (saNames d). written (ServiceAccountObj (BuildServiceAccount n ns d)) tr) \<and>
      tls_evidence d ns tr \<and> config_evidence d ns tr \<and> api_evidence d ns tr \<and> dhcp_evidence d ns tr \<and>
      pxe_evidence d ns tr \<and> dns_evidence d ns tr \<and> vault_up d ns tr \<and>
      (rla_is_on d \<longrightarrow> rla_evidence d ns tr) \<and> (psm_is_on d \<longrightarrow> psm_evidence d ns tr))"

section \<open>What may be written when\<close>

definition early_keys :: "carbide_deployment \<Rightarrow> string \<Rightarrow> object_key set" where
  "early_keys d ns =
     {(KNamespace, [], ns), (KConfigMap, ns, ''spiffe-helper-config'')} \<union>
     (\<lambda>n. (KServiceAccount, ns, n)) ` set (saNames d) \<union>
     (\<lambda>n. (KUnstructured ''spire.spiffe.io/v1alpha1'' ''ClusterSPIFFEID'', [], n)) ` set (saNames d) \<union>
     (\<lambda>n. (KUnstructured ''cert-manager.io/v1'' ''Certificate'', ns, n @ ''-cert'')) ` set (saNames d)"

definition api_keys :: "string \<Rightarrow> object_key set" where
  "api_keys ns =
     {(KConfigMap, ns, ''carbide-api-config''), (KConfigMap, ns, ''casbin-policy''), (KConfigMap, ns, ''carbide-dns-config''),
      (KSecret, ns, ''carbide-api-secret''), (KDeployment, ns, APIName), (KService, ns, APIName)}"

definition network_keys :: "string \<Rightarrow> object_key set" where
  "network_keys ns =
     {(KDaemonSet, ns, DHCPName), (KPVC, ns, ''carbide-pxe-data''), (KDeployment, ns, PXEName), (KDaemonSet, ns, DNSName),
      (KServiceAccount, ns, ''vault-helm-installer''), (KClusterRoleBinding, [], ''vault-helm-installer-'' @ ns),
      (KConfigMap, ns, VaultValuesMapName), (KJob, ns, VaultHelmJobName), (KJob, ns, VaultInitJobName)}"

definition site_keys :: "string \<Rightarrow> object_key set" where
  "site_keys ns =
     {(KDeployment, ns, RLAName), (KService, ns, RLAName), (KDeployment, ns, PSMName), (KService, ns, PSMName)}"

text \<open>The keys the tier may write after the history \<open>h\<close>.\<close>

definition allowed :: "carbide_deployment \<Rightarrow> string \<Rightarrow> event list \<Rightarrow> object_key set" where
  "allowed d ns h =
     early_keys d ns \<union>
     (if certs_issued d ns h then api_keys ns else {}) \<union>
     (if certs_issued d ns h \<and> api_up ns h then network_keys ns else {}) \<union>
     (if certs_issued d ns h \<and> api_up ns h \<and> vault_up d ns h then site_keys ns else {})"

definition core_keys :: "carbide_deployment \<Rightarrow> object_key set" where
  "core_keys d = early_keys d (core_ns d) \<union> api_keys (core_ns d) \<union> network_keys (core_ns d) \<union> site_keys (core_ns d)"

section \<open>The keys of the objects\<close>

lemma core_obj_keys [simp]:
  "obj_key (ServiceAccountObj (BuildServiceAccount n ns d)) = (KServiceAccount, ns, n)"
  "obj_key (ConfigMapObj (BuildAPIConfigMap d ns host port)) = (KConfigMap, ns, ''carbide-api-config'')"
  "obj_key (ConfigMapObj (BuildCasbinPolicyConfigMap d ns)) = (KConfigMap, ns, ''casbin-policy'')"
  "obj_key (ConfigMapObj (BuildDNSConfigMap d ns)) = (KConfigMap, ns, ''carbide-dns-config'')"
  "obj_key (SecretObj (BuildAPISecret d ns host port pw)) = (KSecret, ns, ''carbide-api-secret'')"
  "obj_key (DeploymentObj (BuildAPIDeployment d ns)) = (KDeployment, ns, APIName)"
  "obj_key (ServiceObj (BuildAPIService d ns)) = (KService, ns, APIName)"
  "obj_key (DaemonSetObj (BuildDHCPDaemonSet d ns)) = (KDaemonSet, ns, DHCPName)"
  "obj_key (DaemonSetObj (BuildDNSDaemonSet d ns)) = (KDaemonSet, ns, DNSName)"
  "obj_key (DeploymentObj (BuildPXEDeployment d ns)) = (KDeployment, ns, PXEName)"
  "obj_key (PVCObj (BuildPXEPVC d ns)) = (KPVC, ns, ''carbide-pxe-data'')"
  "obj_key (ClusterRoleBindingObj (vaultRB ns)) = (KClusterRoleBinding, [], ''vault-helm-installer-'' @ ns)"
  "obj_key (ConfigMapObj (BuildVaultHelmValuesConfigMap d ns)) = (KConfigMap, ns, VaultValuesMapName)"
  "obj_key (JobObj (BuildVaultHelmJob d ns)) = (KJob, ns, VaultHelmJobName)"
  "obj_key (JobObj (BuildVaultInitJob d ns)) = (KJob, ns, VaultInitJobName)"
  "obj_key (DeploymentObj (rla_deployment rcfg d ns)) = (KDeployment, ns, RLAName)"
  "obj_key (ServiceObj (BuildRLAService d ns)) = (KService, ns, RLAName)"
  "obj_key (DeploymentObj (psm_deployment pcfg d ns)) = (KDeployment, ns, PSMName)"
  "obj_key (ServiceObj (BuildPSMService d ns)) = (KService, ns, PSMName)"
  "obj_key (ConfigMapObj (BuildSpiffeHelperConfigMap d ns)) = (KConfigMap, ns, ''spiffe-helper-config'')"
  by (simp_all add: obj_key_def BuildServiceAccount_def BuildAPIConfigMap_def BuildCasbinPolicyConfigMap_def
      BuildDNSConfigMap_def BuildAPISecret_def BuildAPIDeployment_def BuildAPIService_def BuildDHCPDaemonSet_def
      BuildDNSDaemonSet_def BuildPXEDeployment_def BuildPXEPVC_def vaultRB_def BuildVaultHelmValuesConfigMap_def
      BuildVaultHelmJob_def BuildVaultInitJob_def rla_deployment_def BuildRLAService_def psm_deployment_def
      BuildPSMService_def BuildSpiffeHelperConfigMap_def mk_deployment_def mk_daemon_set_def mk_job_def mk_service_def
      APIName_def DNSName_def PXEName_def Let_def)

section \<open>The stages keep their promises\<close>

lemmas put_core = core_write.put_spec [unfolded id_apply]

lemma keeps_evidence [simp]:
  "keeps (api_up ns)" "keeps (api_evidence d ns)" "keeps (dhcp_evidence d ns)" "keeps (pxe_evidence d ns)"
  "keeps (dns_evidence d ns)" "keeps (rla_evidence d ns)" "keeps (psm_evidence d ns)"
  "keeps (certs_issued d ns)"
  unfolding api_up_def api_evidence_def dhcp_evidence_def pxe_evidence_def dns_evidence_def
    rla_evidence_def psm_evidence_def certs_issued_def
  by (intro keeps_intros)+

lemma api_spec:
  "spec_of (about (api_keys ns)) (reconcileAPI d ns) (\<lambda>r tr. r = Inr True \<longrightarrow> api_evidence d ns tr)"
proof (rule spec_ofI)
  show "valid (\<lambda>_. about (api_keys ns)) [] (reconcileAPI d ns) (\<lambda>r tr. r = Inr True \<longrightarrow> api_evidence d ns tr)"
    unfolding reconcileAPI_def api_evidence_def api_up_def
    by (rule valid_orReturn [OF put_core], simp add: api_keys_def)+
      (rule valid_final [OF deployment_spec], blast intro: grows)
qed (intro keeps_intros keeps_evidence)

lemma dhcp_spec:
  "spec_of (about (network_keys ns)) (reconcileDHCP d ns) (\<lambda>r tr. r = Inr True \<longrightarrow> dhcp_evidence d ns tr)"
proof (rule spec_ofI)
  show "valid (\<lambda>_. about (network_keys ns)) [] (reconcileDHCP d ns) (\<lambda>r tr. r = Inr True \<longrightarrow> dhcp_evidence d ns tr)"
    unfolding reconcileDHCP_def dhcp_evidence_def
    apply (rule valid_if, rule valid_Ret, simp)
    apply (rule valid_orReturn [OF put_core], simp add: network_keys_def)
    by (rule valid_final [OF daemon_set_spec], blast intro: grows)
qed (intro keeps_intros keeps_evidence)

lemma dns_spec:
  "spec_of (about (network_keys ns)) (reconcileDNS d ns) (\<lambda>r tr. r = Inr True \<longrightarrow> dns_evidence d ns tr)"
proof (rule spec_ofI)
  show "valid (\<lambda>_. about (network_keys ns)) [] (reconcileDNS d ns) (\<lambda>r tr. r = Inr True \<longrightarrow> dns_evidence d ns tr)"
    unfolding reconcileDNS_def dns_evidence_def
    apply (rule valid_if, rule valid_Ret, simp)
    apply (rule valid_orReturn [OF put_core], simp add: network_keys_def)
    by (rule valid_final [OF daemon_set_spec], blast intro: grows)
qed (intro keeps_intros keeps_evidence)

lemma pvc_name [simp]: "meta_name (pvc_meta (BuildPXEPVC d ns)) = ''carbide-pxe-data''"
  by (simp add: BuildPXEPVC_def PXEName_def Let_def)

lemma pxe_spec:
  "spec_of (about (network_keys ns)) (reconcilePXE d ns) (\<lambda>r tr. r = Inr True \<longrightarrow> pxe_evidence d ns tr)"
proof (rule spec_ofI)
  show "valid (\<lambda>_. about (network_keys ns)) [] (reconcilePXE d ns) (\<lambda>r tr. r = Inr True \<longrightarrow> pxe_evidence d ns tr)"
    unfolding reconcilePXE_def pxe_evidence_def Let_def pvc_name
    apply (rule valid_if, rule valid_Ret, simp)
    apply (rule valid_if)
     apply (rule valid_orReturn [OF put_core], simp add: network_keys_def)
     apply (rule valid_isReady [OF pvc_spec])
      apply simp
      apply (rule valid_orReturn [OF put_core], simp add: network_keys_def)
      apply (rule valid_final [OF deployment_spec], blast intro: grows)
     apply (simp add: valid_def)
    apply (rule valid_orReturn [OF put_core], simp add: network_keys_def)
    by (rule valid_final [OF deployment_spec], blast intro: grows)
qed (intro keeps_intros keeps_evidence)

lemma rla_spec:
  "spec_of (about (site_keys ns)) (reconcileRLA d ns) (\<lambda>r tr. r = Inr True \<longrightarrow> rla_evidence d ns tr)"
proof (rule spec_ofI)
  show "valid (\<lambda>_. about (site_keys ns)) [] (reconcileRLA d ns) (\<lambda>r tr. r = Inr True \<longrightarrow> rla_evidence d ns tr)"
    unfolding reconcileRLA_def rla_evidence_def
    apply (rule valid_option, rule valid_Ret, simp)
    apply (rule valid_orWrap [OF put_core])
     apply (auto simp: site_keys_def BuildRLADeployment_def) []
    apply (rule valid_orWrap [OF put_core], simp add: site_keys_def)
    apply (rule valid_final [OF deployment_spec], clarsimp)
    by (blast intro: grows)
qed (intro keeps_intros keeps_evidence)

lemma psm_spec:
  "spec_of (about (site_keys ns)) (reconcilePSM d ns) (\<lambda>r tr. r = Inr True \<longrightarrow> psm_evidence d ns tr)"
proof (rule spec_ofI)
  show "valid (\<lambda>_. about (site_keys ns)) [] (reconcilePSM d ns) (\<lambda>r tr. r = Inr True \<longrightarrow> psm_evidence d ns tr)"
    unfolding reconcilePSM_def psm_evidence_def
    apply (rule valid_option, rule valid_Ret, simp)
    apply (rule valid_orWrap [OF put_core])
     apply (auto simp: site_keys_def BuildPSMDeployment_def) []
    apply (rule valid_orWrap [OF put_core], simp add: site_keys_def)
    apply (rule valid_final [OF deployment_spec], clarsimp)
    by (blast intro: grows)
qed (intro keeps_intros keeps_evidence)

lemma keeps_vault_up [simp]: "keeps (vault_up d ns)"
  unfolding vault_up_def by (cases "core_vault (spec_core (cd_spec d))") (auto intro!: keeps_intros)

lemma vault_spec:
  "spec_of (about (network_keys ns)) (reconcileVault d ns) (\<lambda>r tr. r = Inr True \<longrightarrow> vault_up d ns tr)"
proof (rule spec_ofI)
  show "valid (\<lambda>_. about (network_keys ns)) [] (reconcileVault d ns) (\<lambda>r tr. r = Inr True \<longrightarrow> vault_up d ns tr)"
    unfolding reconcileVault_def
    apply (rule valid_option, rule valid_Ret, simp add: vault_up_def)
    apply (rule valid_if)
     apply (rule valid_orWrap [OF put_core], simp add: network_keys_def)
     apply (rule valid_orWrap [OF put_core], simp add: network_keys_def)
     apply (rule valid_orWrap [OF put_core], simp add: network_keys_def)
     apply (rule valid_orWrap [OF put_core], simp add: network_keys_def)
     apply (rule valid_isReady [OF job_spec])
      apply simp
      apply (rule valid_orWrap [OF put_core], simp add: network_keys_def)
      apply (rule valid_final [OF job_spec], simp add: vault_up_def job_done_def, blast intro: grows)
     apply (simp add: valid_def)
    apply (rule valid_if)
     apply (rule valid_if, simp add: valid_def)
     apply (rule valid_option, simp add: valid_def vault_up_def)
     apply (rule valid_isReady [OF secret_spec], simp add: valid_def vault_up_def secret_read_def, simp add: valid_def)
    by (simp add: valid_def)
qed (intro keeps_intros keeps_vault_up)

lemma keeps_password [simp]: "keeps (password_read d pw)"
  unfolding password_read_def keeps_def by blast

lemma password_spec:
  "spec_of (about K) (getPostgreSQLPassword d) (\<lambda>r tr. \<forall>pw. r = Inr pw \<longrightarrow> password_read d pw tr)"
proof (rule spec_ofI)
  show "valid (\<lambda>_. about K) [] (getPostgreSQLPassword d) (\<lambda>r tr. \<forall>pw. r = Inr pw \<longrightarrow> password_read d pw tr)"
    unfolding getPostgreSQLPassword_def mode_external
    apply (rule valid_option, simp add: valid_def)
    apply (rule valid_if)
     apply (rule valid_option, simp add: valid_def)
     apply (rule valid_option, simp add: valid_def)
     apply (rule valid_try [OF get_secret_spec], assumption, simp add: valid_def)
     apply (auto intro!: valid_Ret simp: password_read_def pw_source_def) []
    unfolding Let_def
    apply (rule valid_try [OF get_secret_spec], assumption, simp add: valid_def)
    by (auto intro!: valid_Ret simp: password_read_def pw_source_def GetPostgreSQLConnectionSecret_def PostgreSQLClusterName_def)
qed (intro keeps_intros keeps_password)

lemma keeps_config [simp]: "keeps (config_evidence d ns)"
  unfolding config_evidence_def by (intro keeps_intros keeps_password)

lemma config_spec:
  "spec_of (about (api_keys ns)) (reconcileConfig d ns) (\<lambda>r tr. r = Inr True \<longrightarrow> config_evidence d ns tr)"
proof (rule spec_ofI)
  let ?dns = "dns_enabled (core_dns (spec_core (cd_spec d)))"
  have dns: "spec_of (about {(KConfigMap, ns, ''carbide-dns-config'')})
      (if ?dns then core_createOrUpdate (ConfigMapObj (BuildDNSConfigMap d ns)) else Ret None)
      (\<lambda>r tr. r = None \<longrightarrow> (?dns \<longrightarrow> written (ConfigMapObj (BuildDNSConfigMap d ns)) tr))"
    using put_core [of "ConfigMapObj (BuildDNSConfigMap d ns)"] by (simp add: spec_of_def)
  show "valid (\<lambda>_. about (api_keys ns)) [] (reconcileConfig d ns) (\<lambda>r tr. r = Inr True \<longrightarrow> config_evidence d ns tr)"
  proof (cases "getInfrastructureConnections d")
    case (Inl e)
    then show ?thesis by (simp add: reconcileConfig_def valid_def)
  next
    case (Inr hp)
    then obtain host port where hp: "getInfrastructureConnections d = Inr (host, port)" by (cases hp) auto
    show ?thesis
      unfolding reconcileConfig_def hp sum.case prod.case config_evidence_def
      apply (rule valid_orReturn [OF put_core], simp add: api_keys_def)
      apply (rule valid_orReturn [OF put_core], simp add: api_keys_def)
      apply (rule valid_orReturn [OF dns], simp add: api_keys_def)
      apply (rule valid_try [OF password_spec], assumption, simp add: valid_def)
      apply (rule valid_orReturn [OF put_core], simp add: api_keys_def)
      apply (rule valid_Ret, simp)
      by (blast intro: grows keepsD [OF keeps_password, rotated])
  qed
qed (intro keeps_intros keeps_config)

section \<open>The tier keeps its promise\<close>

abbreviation core_guarantee :: "carbide_deployment \<Rightarrow> string \<Rightarrow> event list \<Rightarrow> event \<Rightarrow> bool" where
  "core_guarantee d ns \<equiv> \<lambda>h. about (allowed d ns h)"

lemma grow_facts:
  "set h \<subseteq> set h' \<Longrightarrow> certs_issued d ns h \<Longrightarrow> certs_issued d ns h'"
  "set h \<subseteq> set h' \<Longrightarrow> api_up ns h \<Longrightarrow> api_up ns h'"
  "set h \<subseteq> set h' \<Longrightarrow> vault_up d ns h \<Longrightarrow> vault_up d ns h'"
  by (rule keepsD [rotated], assumption+, simp)+

lemma may_write:
  "about K e \<Longrightarrow> set h \<subseteq> set h' \<Longrightarrow> K \<subseteq> allowed d ns h \<Longrightarrow> core_guarantee d ns h' e"
proof -
  assume a: "about K e" "set h \<subseteq> set h'" "K \<subseteq> allowed d ns h"
  have "allowed d ns h \<subseteq> allowed d ns h'"
    using grow_facts [OF a(2)] by (auto simp: allowed_def)
  with a show ?thesis by (blast intro: about_mono)
qed

lemma network_stage:
  assumes "certs_issued d ns h" "api_up ns h" "set h \<subseteq> set h'" "about (network_keys ns) e"
  shows "core_guarantee d ns h' e"
  by (rule may_write [OF assms(4,3)]) (use assms in \<open>auto simp: allowed_def\<close>)

lemma site_stage:
  assumes "certs_issued d ns h" "api_up ns h" "vault_up d ns h" "set h \<subseteq> set h'" "about (site_keys ns) e"
  shows "core_guarantee d ns h' e"
  by (rule may_write [OF assms(5,4)]) (use assms in \<open>auto simp: allowed_def\<close>)

definition extra_names :: "carbide_deployment \<Rightarrow> string list" where
  "extra_names d = (if core_vault (spec_core (cd_spec d)) \<noteq> None then [''Vault''] else []) @
     (if rla_is_on d then [''RLA''] else []) @ (if psm_is_on d then [''PSM''] else [])"

lemma no_vault_up: "core_vault (spec_core (cd_spec d)) = None \<Longrightarrow> vault_up d ns h"
  by (simp add: vault_up_def)

lemma extras_valid:
  assumes certs: "certs_issued d ns h" and api: "apiReady \<longrightarrow> api_up ns h"
    and so: "so_far (configReady \<and> migrationComplete \<and> apiReady \<and> dhcpReady \<and> pxeReady \<and> dnsReady) names P st h"
  shows "valid (core_guarantee d ns) h
    (core_extras d ns configReady migrationComplete apiReady dhcpReady pxeReady dnsReady st)
    (tier_post (names @ extra_names d)
      (\<lambda>tr. P tr \<and> vault_up d ns tr \<and> (rla_is_on d \<longrightarrow> rla_evidence d ns tr) \<and> (psm_is_on d \<longrightarrow> psm_evidence d ns tr)))"
  unfolding core_extras_def
proof (rule valid_next [OF so vault_spec], goal_cases)
  case (1 h' e)
  then show ?case using network_stage [OF certs] api by blast
next
  case (2 vaultReady st1 h1)
  have up: "vault_up d ns h1" if "apiReady" "vaultReady"
    using that 2(2) no_vault_up by blast
  have facts: "certs_issued d ns h1" "apiReady \<longrightarrow> api_up ns h1" using grow_facts(1,2) [OF 2(1)] certs api by blast+
  show ?case
  proof (rule valid_next [OF 2(4) rla_spec], goal_cases)
    case (1 h' e)
    then show ?case using site_stage [OF facts(1)] facts up by blast
  next
    case (2 rlaReady st2 h2)
    show ?case
    proof (rule valid_next [OF 2(4) psm_spec], goal_cases)
      case (1 h' e)
      then show ?case using site_stage [of d ns h1] facts up 2(1) by blast
    next
      case (2 psmReady st3 h3)
      show ?case
        by (rule valid_done [OF 2(4)])
          (cases "core_vault (spec_core (cd_spec d)) = None", auto simp: extra_names_def no_vault_up)
    qed
  qed
qed

lemma api_stage:
  assumes "certs_issued d ns h" "set h \<subseteq> set h'" "about (api_keys ns) e"
  shows "core_guarantee d ns h' e"
  by (rule may_write [OF assms(3,2)]) (use assms in \<open>auto simp: allowed_def\<close>)

lemma migration_spec: "spec_of (about {}) (reconcileMigration d ns) (\<lambda>r tr. r = Inr True \<longrightarrow> True)"
  by (simp add: reconcileMigration_def spec_of_def)

definition service_names :: "carbide_deployment \<Rightarrow> string list" where
  "service_names d = (let c = spec_core (cd_spec d) in
     (if dhcp_enabled (core_dhcp c) then [''DHCP''] else []) @
     (if pxe_enabled (core_pxe c) then [''PXE''] else []) @ (if dns_enabled (core_dns c) then [''DNS''] else []))"

text \<open>The part after a ready API: network services, then the extras.\<close>

lemma network_valid:
  assumes certs: "certs_issued d ns h" and api: "api_up ns h" and so: "so_far (c \<and> m) names P st h"
  shows "valid (core_guarantee d ns) h
    (stageIf (dhcp_enabled (core_dhcp (spec_core (cd_spec d)))) ''DHCP'' w1 (reconcileDHCP d ns) st (\<lambda>dhcpReady st3.
     stageIf (pxe_enabled (core_pxe (spec_core (cd_spec d)))) ''PXE'' w2 (reconcilePXE d ns) st3 (\<lambda>pxeReady st4.
     stageIf (dns_enabled (core_dns (spec_core (cd_spec d)))) ''DNS'' w3 (reconcileDNS d ns) st4 (\<lambda>dnsReady st5.
     core_extras d ns c m True dhcpReady pxeReady dnsReady st5))))
    (tier_post (names @ service_names d @ extra_names d)
      (\<lambda>tr. P tr \<and> dhcp_evidence d ns tr \<and> pxe_evidence d ns tr \<and> dns_evidence d ns tr \<and> vault_up d ns tr \<and>
        (rla_is_on d \<longrightarrow> rla_evidence d ns tr) \<and> (psm_is_on d \<longrightarrow> psm_evidence d ns tr)))"
proof (rule valid_next [OF so dhcp_spec], goal_cases)
  case (2 dhcpReady st3 h1)
  then have h1: "certs_issued d ns h1" "api_up ns h1" using grow_facts certs api by blast+
  show ?case
  proof (rule valid_next [OF 2(4) pxe_spec], goal_cases)
    case (2 pxeReady st4 h2)
    then have h2: "certs_issued d ns h2" "api_up ns h2" using grow_facts h1 by blast+
    show ?case
    proof (rule valid_next [OF 2(4) dns_spec], goal_cases)
      case (2 dnsReady st5 h3)
      then have h3: "certs_issued d ns h3" "api_up ns h3" using grow_facts h2 by blast+
      have "so_far (c \<and> m \<and> True \<and> dhcpReady \<and> pxeReady \<and> dnsReady) (names @ service_names d)
          (\<lambda>tr. P tr \<and> dhcp_evidence d ns tr \<and> pxe_evidence d ns tr \<and> dns_evidence d ns tr) st5 h3"
        using 2(4) by (auto simp: so_far_def service_names_def Let_def dhcp_evidence_def pxe_evidence_def dns_evidence_def
            intro!: keeps_intros)
      from extras_valid [OF h3(1) _ this] h3(2) show ?case by (simp add: conj_ac)
    qed (use network_stage [OF h2] in blast)
  qed (use network_stage [OF h1] in blast)
qed (use network_stage [OF certs api] in blast)

text \<open>The network services if the API is up, and the rest of the tier in either case.\<close>

lemma api_branch_valid:
  assumes certs: "certs_issued d ns h" and api: "a \<longrightarrow> api_up ns h" and so: "so_far ((c \<and> m) \<and> a) names P st h"
  shows "valid (core_guarantee d ns) h
    (if a then
       stageIf (dhcp_enabled (core_dhcp (spec_core (cd_spec d)))) ''DHCP'' w1 (reconcileDHCP d ns) st (\<lambda>dhcpReady st3.
       stageIf (pxe_enabled (core_pxe (spec_core (cd_spec d)))) ''PXE'' w2 (reconcilePXE d ns) st3 (\<lambda>pxeReady st4.
       stageIf (dns_enabled (core_dns (spec_core (cd_spec d)))) ''DNS'' w3 (reconcileDNS d ns) st4 (\<lambda>dnsReady st5.
       core_extras d ns c m a dhcpReady pxeReady dnsReady st5)))
     else core_extras d ns c m a False False False st)
    (tier_post (names @ service_names d @ extra_names d)
      (\<lambda>tr. P tr \<and> dhcp_evidence d ns tr \<and> pxe_evidence d ns tr \<and> dns_evidence d ns tr \<and> vault_up d ns tr \<and>
        (rla_is_on d \<longrightarrow> rla_evidence d ns tr) \<and> (psm_is_on d \<longrightarrow> psm_evidence d ns tr)))"
proof (cases a)
  case True
  with api so have "api_up ns h" "so_far (c \<and> m) names P st h" by simp_all
  from network_valid [OF certs this] True show ?thesis by simp
next
  case False
  with so have "so_far (c \<and> m \<and> False \<and> False \<and> False \<and> False) (names @ service_names d)
      (\<lambda>tr. P tr \<and> dhcp_evidence d ns tr \<and> pxe_evidence d ns tr \<and> dns_evidence d ns tr) st h"
    by (auto simp: so_far_def intro!: keeps_intros)
  from extras_valid [OF certs _ this] False show ?thesis by simp
qed

text \<open>Stages 1 to 7, from a status with no component yet.\<close>

lemma services_valid:
  assumes certs: "certs_issued d ns h" and so: "so_far True [] P st h"
  shows "valid (core_guarantee d ns) h (core_services d ns st)
    (tier_post ([''Migration'', ''API''] @ service_names d @ extra_names d)
      (\<lambda>tr. P tr \<and> config_evidence d ns tr \<and> api_evidence d ns tr \<and> dhcp_evidence d ns tr \<and> pxe_evidence d ns tr \<and>
        dns_evidence d ns tr \<and> vault_up d ns tr \<and> (rla_is_on d \<longrightarrow> rla_evidence d ns tr) \<and>
        (psm_is_on d \<longrightarrow> psm_evidence d ns tr)))"
  unfolding core_services_def Let_def
proof (rule valid_check [OF config_spec], goal_cases)
  case (2 e h')
  then show ?case using so by (intro valid_stopWith) (auto simp: so_far_def)
next
  case (3 c h0)
  have so0: "so_far (True \<and> c) [] (\<lambda>h. P h \<and> config_evidence d ns h) st h0"
    using 3 so by (intro so_far_add [of h]) auto
  have c0: "certs_issued d ns h0" using grow_facts(1) [OF 3(1) certs] .
  show ?case
  proof (rule valid_next_stage [OF so0 migration_spec], goal_cases)
    case (1 h' e)
    then show ?case by (cases e) auto
  next
    case (2 m st1 h1)
    note m = 2
    have c1: "certs_issued d ns h1" using grow_facts(1) [OF m(1) c0] .
    show ?case
    proof (rule valid_if, goal_cases)
      case 1
      then show ?case using m by (intro valid_waitWith) (auto simp: so_far_def)
    next
      case 2
      show ?case
      proof (rule valid_next_stage [OF m(3) api_spec], goal_cases)
        case (1 h' e)
        then show ?case by (rule api_stage [OF c1])
      next
        case (2 a st2 h2)
        have "a \<longrightarrow> api_up ns h2" "so_far ((c \<and> m) \<and> a) [''Migration'', ''API'']
          (\<lambda>h. (P h \<and> config_evidence d ns h) \<and> api_evidence d ns h) st2 h2"
          using 2(2,3) by (simp_all add: api_evidence_def)
        from api_branch_valid [OF grow_facts(1) [OF 2(1) c1] this] show ?case by simp
      qed
    qed
  qed
qed (use api_stage [OF certs] in blast)

subsection \<open>TLS\<close>

lemma early_write: "about K e \<Longrightarrow> K \<subseteq> early_keys d ns \<Longrightarrow> core_guarantee d ns h e"
  by (erule about_mono [rotated]) (auto simp: allowed_def)

lemma valid_awaitSecrets:
  assumes "\<not> tier_ready st"
    and "\<And>h'. set h \<subseteq> set h' \<Longrightarrow> \<forall>n\<in>set xs. observed KSecret as_secret ns (n @ ''-tls'') (\<lambda>_. True) h' \<Longrightarrow>
           valid (core_guarantee d ns) h' k (tier_post names F)"
  shows "valid (core_guarantee d ns) h (awaitSecrets ns st xs k) (tier_post names F)"
  using assms(2)
proof (induction xs arbitrary: h)
  case Nil
  then show ?case by simp
next
  case (Cons n xs)
  show ?case
    unfolding awaitSecrets.simps Let_def
  proof (rule valid_check [OF secret_spec [where K = "{}"]], goal_cases)
    case (1 h' e)
    show ?case by (rule early_write [OF 1(2)]) simp
  next
    case (3 available h')
    show ?case
    proof (rule valid_if)
      assume "\<not> \<not> available"
      with 3 have seen: "observed KSecret as_secret ns (n @ ''-tls'') (\<lambda>_. True) h'" by simp
      show "valid (core_guarantee d ns) h' (awaitSecrets ns st xs k) (tier_post names F)"
      proof (rule Cons.IH)
        fix h''
        assume "set h' \<subseteq> set h''" "\<forall>n\<in>set xs. observed KSecret as_secret ns (n @ ''-tls'') (\<lambda>_. True) h''"
        with 3(1) seen show "valid (core_guarantee d ns) h'' k (tier_post names F)"
          by (intro Cons.prems) (auto intro: grow_observed)
      qed
    qed (rule valid_waitWith [OF assms(1)])
  qed blast
qed

lemmas put_core_u = core_write_u.put_spec
lemmas put_core_each_u = core_write_u.put_each_spec

lemma spiffe_in_sa: "n \<in> set (spiffeNames d) \<Longrightarrow> n \<in> set (saNames d)"
  by (auto simp: spiffeNames_def saNames_def)

lemma tls_valid:
  assumes "\<not> tier_ready st"
    and k: "\<And>h'. set h \<subseteq> set h' \<Longrightarrow> tls_evidence d ns h' \<Longrightarrow> valid (core_guarantee d ns) h' k (tier_post names F)"
  shows "valid (core_guarantee d ns) h (core_tls d ns st k) (tier_post names F)"
  unfolding core_tls_def
proof (intro valid_if)
  assume spiffe: "IsSpiffeMode d"
  show "valid (core_guarantee d ns) h
    (checkThen (core_createOrUpdate (ConfigMapObj (BuildSpiffeHelperConfigMap d ns))) (failWith m1)
      (checkThen (core_createOrUpdateUnstructured (BuildClusterSPIFFEID d ''carbide-api'' ns APIName
          [''carbide-api.'' @ ns @ ''.svc.cluster.local''])) (failWith m2)
        (eachOrFail (spiffeNames d) (\<lambda>name. core_createOrUpdateUnstructured (BuildClusterSPIFFEID d name ns name [])) m3 k)))
    (tier_post names F)" for m1 m2 m3
    apply (rule valid_put [OF put_core], erule early_write, simp add: early_keys_def, rule valid_failWith)
    apply (rule valid_put [OF put_core_u], erule early_write)
      apply (simp add: early_keys_def saNames_def APIName_def image_iff)
     apply (rule valid_failWith)
    apply (rule valid_eachOrFail [OF put_core_each_u], erule early_write)
     apply (auto simp: early_keys_def dest: spiffe_in_sa) []
    apply (rule k, blast)
    using spiffe modes_exclusive [OF spiffe]
    by (auto simp: tls_evidence_def certs_issued_def elim: grow_written [rotated] grow_written [rotated, OF grow_written [rotated]])
next
  assume "\<not> IsSpiffeMode d" "IsCertManagerMode d"
  then show "valid (core_guarantee d ns) h
    (certificatesOrFail core_createOrUpdateUnstructured (core_certificate d ns) (saNames d) (awaitSecrets ns st (saNames d) k))
    (tier_post names F)"
    apply (intro valid_certificatesOrFail [OF put_core_u])
     apply (erule early_write)
     apply (auto simp: core_certificate_def early_keys_def dest!: certificate_key) []
    apply (rule valid_awaitSecrets [OF assms(1)])
    apply (rule k, blast)
    by (simp add: tls_evidence_def certs_issued_def) (meson grow_written)
next
  assume "\<not> IsSpiffeMode d" "\<not> IsCertManagerMode d"
  then show "valid (core_guarantee d ns) h k (tier_post names F)"
    by (intro k) (auto simp: tls_evidence_def certs_issued_def)
qed

subsection \<open>The whole tier\<close>

lemma put_sas_spec:
  "spec_of (about ((\<lambda>n. (KServiceAccount, ns, n)) ` set xs))
     (forEach xs (\<lambda>n. core_createOrUpdate (ServiceAccountObj (BuildServiceAccount n ns d))))
     (\<lambda>r tr. r = None \<longrightarrow> (\<forall>n\<in>set xs. written (ServiceAccountObj (BuildServiceAccount n ns d)) tr))"
  using core_write.put_each_spec [of "\<lambda>n. ServiceAccountObj (BuildServiceAccount n ns d)" xs] by simp

lemma keeps_tls_evidence [simp]: "keeps (tls_evidence d ns)"
  unfolding tls_evidence_def by (intro keeps_intros keeps_evidence)

lemma core_components_eq:
  "spec_profile (cd_spec d) \<noteq> ProfileManagement \<Longrightarrow>
   core_components d = [''Migration'', ''API''] @ service_names d @ extra_names d"
  by (simp add: core_components_def service_names_def extra_names_def Let_def)

lemma core_valid:
  "valid (core_guarantee d (core_ns d)) [] (core_Reconcile d) (tier_post (core_components d) (core_evidence d))"
proof (cases "spec_profile (cd_spec d) = ProfileManagement")
  case True
  then show ?thesis
    unfolding core_Reconcile_def by (auto intro!: valid_notRequired simp: core_components_def core_evidence_def Let_def)
next
  case False
  let ?ns = "core_ns d"
  let ?sas = "\<lambda>tr. \<forall>n\<in>set (saNames d). written (ServiceAccountObj (BuildServiceAccount n ?ns d)) tr"
  have main: "valid (core_guarantee d ?ns) h (core_services d ?ns (initStatus t))
      (tier_post (core_components d) (core_evidence d))"
    if h: "ensured ?ns h" "?sas h" "tls_evidence d ?ns h" for h t
  proof -
    have so: "so_far True [] (\<lambda>tr. ensured ?ns tr \<and> ?sas tr \<and> tls_evidence d ?ns tr) (initStatus t) h"
      using h by (intro so_far_init keeps_intros keeps_ensured keeps_tls_evidence) auto
    have "certs_issued d ?ns h" using h by (simp add: tls_evidence_def)
    from services_valid [OF this so] show ?thesis
      unfolding core_components_eq [OF False]
      by (rule valid_weaken) (auto simp: core_evidence_def Let_def elim!: tier_post_mono)
  qed
  show ?thesis
    unfolding core_Reconcile_def Let_def
    apply (simp only: False if_False)
    apply (rule valid_put [OF core_namespace_spec], erule early_write, simp add: early_keys_def, rule valid_failWith)
    apply (rule valid_Now)
    apply (rule valid_eachOrFail [OF put_sas_spec], erule early_write)
     apply (auto simp: early_keys_def) []
    apply (rule tls_valid, simp)
    apply (rule main)
    by (blast intro: keepsD [OF keeps_ensured] grow_written)+
qed

lemma allowed_core_keys: "allowed d (core_ns d) h \<subseteq> core_keys d"
  by (auto simp: allowed_def core_keys_def)

lemma noPanic_awaitSecrets: "noPanic k \<Longrightarrow> noPanic (awaitSecrets ns st xs k)"
  by (induction xs) (auto simp: Let_def intro!: noPanic_intros)

lemma core_no_panic: "tls_complete d \<Longrightarrow> noPanic (core_Reconcile d)"
  unfolding core_Reconcile_def core_tls_def core_services_def core_extras_def core_certificate_def Let_def
  by (intro noPanic_intros noPanic_awaitSecrets) (simp add: certificate_built)

lemma keeps_core_evidence [simp]: "keeps (core_evidence d)"
  unfolding core_evidence_def Let_def
  by (intro keeps_intros keeps_ensured keeps_tls_evidence keeps_config keeps_evidence keeps_vault_up)

lemma core_keys_status: "core_keys (d\<lparr>cd_status := s\<rparr>) = core_keys d"
  by (simp add: core_keys_def early_keys_def core_ns_def saNames_def rla_is_on_def psm_is_on_def)

interpretation core_tier: tier_reconciler core_Reconcile core_components core_evidence core_keys
proof
  fix d res tr
  assume r: "runs (core_Reconcile d) res tr"
  show "tier_post (core_components d) (core_evidence d) res tr"
    using validD [OF core_valid r] by simp
  show "list_all (about (core_keys d)) tr"
    using valid_guarantee [OF core_valid] r about_mono [OF allowed_core_keys]
    by (fastforce simp: list_all_iff dest!: split_list)
qed (simp_all add: core_no_panic core_keys_status, auto simp: core_keys_def early_keys_def api_keys_def network_keys_def site_keys_def)

lemma late_keys:
  "key \<in> api_keys ns \<Longrightarrow> key \<notin> early_keys d ns"
  "key \<in> network_keys ns \<Longrightarrow> key \<notin> early_keys d ns \<union> api_keys ns"
  "key \<in> site_keys ns \<Longrightarrow> key \<notin> early_keys d ns \<union> api_keys ns \<union> network_keys ns"
  by (auto simp: early_keys_def api_keys_def network_keys_def site_keys_def saNames_def APIName_def DHCPName_def
      DNSName_def PXEName_def RLAName_def PSMName_def VaultValuesMapName_def)

lemma network_not_site: "key \<in> network_keys ns \<Longrightarrow> key \<notin> site_keys ns"
  using late_keys(3) by blast

section \<open>Properties\<close>

text \<open>
  C21: the core tier reports ready only on evidence of the same pass: the namespace exists, all
  service accounts, TLS resources and configuration objects were written (the API secret with the
  password read from the PostgreSQL user's secret), the API and every enabled service was written and
  then seen ready, the certificates were seen issued and Vault was seen up.  The error is then nil,
  and the status lists exactly the enabled components, all ready.
\<close>
theorem core_ready_evidence:
  assumes "runs (core_Reconcile d) (Tier (Some st) err) tr" and "tier_ready st"
  shows "err = None \<and> comps st = map (\<lambda>n. (n, True)) (core_components d) \<and> core_evidence d tr"
  by (rule core_tier.ready_evidence [OF assms])

text \<open>
  C22: the order of the stages.  Whatever the API server answers, the tier writes only its own
  objects; in cert-manager mode nothing but the early objects before all certificates were seen;
  network services and Vault only after the API was seen ready; RLA and PSM only after Vault was seen up.
\<close>
theorem core_stage_order:
  assumes "runs (core_Reconcile d) res (pre @ e # post)" and "writes_key e = Some key"
  shows "key \<in> core_keys d \<and>
    (key \<notin> early_keys d (core_ns d) \<longrightarrow> certs_issued d (core_ns d) pre) \<and>
    (key \<in> network_keys (core_ns d) \<longrightarrow> api_up (core_ns d) pre) \<and>
    (key \<in> site_keys (core_ns d) \<longrightarrow> api_up (core_ns d) pre \<and> vault_up d (core_ns d) pre)"
proof -
  have "about (allowed d (core_ns d) pre) e" using valid_guarantee [OF core_valid assms(1)] by simp
  with assms(2) have k: "key \<in> allowed d (core_ns d) pre" by (cases e) auto
  then have "key \<in> core_keys d" using allowed_core_keys by blast
  with k late_keys [of key "core_ns d" d] network_not_site [of key "core_ns d"] show ?thesis
    by (auto simp: allowed_def split: if_splits)
qed

text \<open>
  C34: the infrastructure section is optional in the API, but a site without it never becomes
  ready: the configuration stage needs it.
\<close>
theorem core_needs_infrastructure:
  assumes "runs (core_Reconcile d) (Tier (Some st) err) tr"
    and "spec_profile (cd_spec d) \<noteq> ProfileManagement" and "spec_infrastructure (cd_spec d) = None"
  shows "\<not> tier_ready st"
proof
  assume "tier_ready st"
  with core_tier.ready_evidence [OF assms(1)] assms(2) have "config_evidence d (core_ns d) tr"
    by (simp add: core_evidence_def Let_def)
  with assms(3) show False by (simp add: config_evidence_def getInfrastructureConnections_def)
qed

section \<open>Witnesses\<close>

definition dhcp_site :: carbide_deployment where
  "dhcp_site = sample_resource ''boston'' (site_spec\<lparr>spec_core := zero_core
     \<lparr>core_dhcp := \<lparr>dhcp_enabled = True, dhcp_resources = None\<rparr>\<rparr>\<rparr>)"

lemma dhcp_site_up:
  "\<exists>st. result_on d (core_Reconcile dhcp_site) = Tier (Some st) None \<and> tier_ready st"
  by (simp add: core_Reconcile_def dhcp_site_def sample_defs core_tls_def core_services_def core_extras_def
      IsSpiffeMode_def IsCertManagerMode_def reconcileConfig_def getInfrastructureConnections_def orReturn_def
      getPostgreSQLPassword_def reconcileMigration_def reconcileAPI_def reconcileDHCP_def stageIf_def conclude_def
      rla_is_on_def psm_is_on_def up_secret_def data_get_def Let_def)

theorem core_ready_evidence_witness:
  "core_evidence dhcp_site (trace_on dhcp_site (core_Reconcile dhcp_site)) \<and>
   core_components dhcp_site = [''Migration'', ''API'', ''DHCP'']"
proof
  obtain st where st: "result_on dhcp_site (core_Reconcile dhcp_site) = Tier (Some st) None" "tier_ready st"
    using dhcp_site_up by blast
  with core_ready_evidence [of dhcp_site st None] runs_on [of "core_Reconcile dhcp_site" dhcp_site]
  show "core_evidence dhcp_site (trace_on dhcp_site (core_Reconcile dhcp_site))" by simp
qed (simp add: core_components_def dhcp_site_def sample_defs rla_is_on_def psm_is_on_def)

theorem core_stage_order_witness:
  "\<exists>pre e post. trace_on dhcp_site (core_Reconcile dhcp_site) = pre @ e # post \<and>
     writes_key e = Some (KDaemonSet, ''nvidia-carbide'', ''carbide-dhcp'') \<and> api_up ''nvidia-carbide'' pre"
proof -
  let ?tr = "trace_on dhcp_site (core_Reconcile dhcp_site)"
  have ns: "core_ns dhcp_site = ''nvidia-carbide''"
    by (simp add: core_ns_def dhcp_site_def sample_defs restDefaultNamespace_def Let_def)
  obtain st where "result_on dhcp_site (core_Reconcile dhcp_site) = Tier (Some st) None" "tier_ready st"
    using dhcp_site_up by blast
  with core_tier.ready_evidence [of dhcp_site st None] runs_on [of "core_Reconcile dhcp_site" dhcp_site]
  have "core_evidence dhcp_site ?tr" by simp
  then have "written (DaemonSetObj (BuildDHCPDaemonSet dhcp_site ''nvidia-carbide'')) ?tr"
    by (simp add: core_evidence_def Let_def ns) (simp add: dhcp_evidence_def dhcp_site_def sample_defs)
  then obtain pre e post where e: "?tr = pre @ e # post" "writes_key e = Some (KDaemonSet, ''nvidia-carbide'', DHCPName)"
    using written_event by fastforce
  from core_stage_order [of dhcp_site _ pre e post, OF _ e(2)] runs_on [of "core_Reconcile dhcp_site" dhcp_site] e
  show ?thesis by (auto simp: ns network_keys_def DHCPName_def)
qed

definition bare_site :: carbide_deployment where
  "bare_site = sample_resource ''boston'' (site_spec\<lparr>spec_infrastructure := None\<rparr>)"

theorem core_needs_infrastructure_witness:
  "\<exists>st. result_on bare_site (core_Reconcile bare_site) = Tier (Some st) (Some (Errorf ''infrastructure config is nil'')) \<and>
     \<not> tier_ready st"
proof -
  have "\<exists>st. result_on bare_site (core_Reconcile bare_site) = Tier (Some st) (Some (Errorf ''infrastructure config is nil''))"
    by (simp add: core_Reconcile_def bare_site_def sample_defs core_tls_def core_services_def core_ns_def
        IsSpiffeMode_def IsCertManagerMode_def reconcileConfig_def getInfrastructureConnections_def stopWith_def Let_def)
  with core_needs_infrastructure [of bare_site] runs_on [of "core_Reconcile bare_site" bare_site] show ?thesis
    by (fastforce simp: bare_site_def sample_defs)
qed

end
