(* ===== verification/Rest_Resources.thy ===== *)
theory Rest_Resources
  imports Core_Resources
begin

text \<open>
  The objects of the REST tier (\<^verbatim>\<open>internal/resources/rest\<close>): REST API, Temporal (Helm values, Helm
  job, namespace job), Keycloak custom resources, workers, site manager and site agent.  The
  builders dereference \<^verbatim>\<open>Spec.Rest\<close>; here they take the section as the argument \<open>rest\<close>.
\<close>

definition RestAPIName :: string where "RestAPIName = ''carbide-rest-api''"
definition CloudWorkerName :: string where "CloudWorkerName = ''carbide-rest-cloud-worker''"
definition SiteWorkerName :: string where "SiteWorkerName = ''carbide-rest-site-worker''"
definition WorkflowCMName :: string where "WorkflowCMName = ''carbide-rest-workflow-config''"
definition SiteManagerName :: string where "SiteManagerName = ''carbide-rest-site-manager''"
definition SiteAgentName :: string where "SiteAgentName = ''carbide-rest-site-agent''"
definition TemporalNamespace :: string where "TemporalNamespace = ''temporal''"
definition TemporalReleaseName :: string where "TemporalReleaseName = ''temporal''"
definition TemporalHelmJobName :: string where "TemporalHelmJobName = ''temporal-helm-install''"
definition TemporalValuesConfigMap :: string where "TemporalValuesConfigMap = ''temporal-helm-values''"
definition TemporalSetupJobName :: string where "TemporalSetupJobName = ''temporal-namespace-init''"
definition KeycloakName :: string where "KeycloakName = ''keycloak''"

section \<open>REST API\<close>

definition rest_api_yaml :: "rest_config \<Rightarrow> string \<Rightarrow> string \<Rightarrow> string" where
  "rest_api_yaml rest ns keycloakURL = unlines
     [''temporal:'', ''  host: temporal-frontend'', ''  port: 7233'', ''  serverName: temporal-frontend'',
      ''  namespace: cloud'', ''  queue: cloud'', ''  tls:'', ''    enabled: true'',
      ''    caPath: '' @ CertDir @ ''/ca.crt'', ''    certPath: '' @ CertDir @ ''/tls.crt'',
      ''    keyPath: '' @ CertDir @ ''/tls.key'',
      ''db:'', ''  tls:'', ''    enabled: true'',
      ''    caPath: '' @ CertDir @ ''/ca.crt'', ''    certPath: '' @ CertDir @ ''/tls.crt'',
      ''    keyPath: '' @ CertDir @ ''/tls.key'',
      ''auth:'', ''  - name: keycloak'', ''    origin: 2'',
      ''    url: '' @ keycloakURL @ ''/realms/'' @ kc_realm (rest_keycloak rest) @ ''/protocol/openid-connect/certs'',
      ''siteManager:'', ''  endpoint: http://site-manager.'' @ ns @ ''.svc:8080'']"

definition BuildRestAPIConfigMap ::
    "carbide_deployment \<Rightarrow> rest_config \<Rightarrow> string \<Rightarrow> string \<Rightarrow> string \<Rightarrow> config_map" where
  "BuildRestAPIConfigMap d rest ns temporalEndpoint keycloakURL =
     \<lparr>cm_meta = mk_meta (RestAPIName @ ''-config'') ns (DefaultLabels ''rest-api-config'' d) [controllerRef d],
      cm_data = [''config.yaml'' \<mapsto> rest_api_yaml rest ns keycloakURL]\<rparr>"

definition db_password_env :: env_var where
  "db_password_env = secret_env ''DB_PASSWORD'' (RestAPIName @ ''-secret'', ''DB_PASSWORD'')"

definition rest_api_pod :: "carbide_deployment \<Rightarrow> rest_config \<Rightarrow> pod_spec" where
  "rest_api_pod d rest =
     (let port = int_or (ra_port (rest_restapi rest)) 8080;
          imageName = image_or d img_rest_api ''carbide-rest''
      in zero_pod_spec
        \<lparr>ps_service_account := RestAPIName,
         ps_init_containers := [zero_container
           \<lparr>c_name := ''db-migrations'', c_image := imageName, c_pull_policy := GetImagePullPolicy d,
            c_command := [''/usr/local/bin/carbide-rest''], c_args := [''migrate''], c_env := [db_password_env]\<rparr>],
         ps_containers := [zero_container
           \<lparr>c_name := ''rest-api'', c_image := imageName, c_pull_policy := GetImagePullPolicy d,
            c_ports := [tcp_port ''http'' port],
            c_env := [plain_env ''CONFIG_FILE_PATH'' ''/app/config.yaml'', db_password_env],
            c_mounts := [file_mount ''config'' ''/app/config.yaml'' ''config.yaml''],
            c_resources := (case ra_resources (rest_restapi rest) of
               None \<Rightarrow> cpu_mem ''100m'' ''128Mi'' ''500m'' ''512Mi'' | Some r \<Rightarrow> r),
            c_liveness := probe_of (HTTPGet ''/healthz'' port) 30 10,
            c_readiness := probe_of (HTTPGet ''/readyz'' port) 5 5\<rparr>],
         ps_volumes := [cm_volume ''config'' (RestAPIName @ ''-config'')]\<rparr>)"

definition BuildRestAPIDeployment :: "rest_config \<Rightarrow> carbide_deployment \<Rightarrow> string \<Rightarrow> deployment" where
  "BuildRestAPIDeployment rest d ns =
     mk_deployment d RestAPIName ns ((DefaultLabels ''rest-api'' d)(''app'' \<mapsto> RestAPIName))
       (int_or (ra_replicas (rest_restapi rest)) 1) (InjectTLS d (rest_api_pod d rest))"

definition BuildRestAPIService :: "rest_config \<Rightarrow> carbide_deployment \<Rightarrow> string \<Rightarrow> service" where
  "BuildRestAPIService rest d ns =
     (let port = int_or (ra_port (rest_restapi rest)) 8080;
          svc = mk_service d RestAPIName ns (DefaultLabels ''rest-api-service'' d) [svc_port ''http'' port]
      in if 0 <s ra_node_port (rest_restapi rest) then
           svc\<lparr>svc_type := ''NodePort'',
               svc_ports := [(svc_port ''http'' port)\<lparr>sp_node_port := ra_node_port (rest_restapi rest)\<rparr>]\<rparr>
         else svc)"

definition BuildRestAPISecret :: "carbide_deployment \<Rightarrow> string \<Rightarrow> string \<Rightarrow> string \<Rightarrow> secret" where
  "BuildRestAPISecret d ns pgPassword keycloakClientSecret =
     \<lparr>secret_meta = mk_meta (RestAPIName @ ''-secret'') ns (DefaultLabels ''rest-api-secret'' d) [controllerRef d],
      secret_type = ''Opaque'', secret_data = Map.empty,
      secret_string_data = [''DB_PASSWORD'' \<mapsto> pgPassword, ''KEYCLOAK_CLIENT_SECRET'' \<mapsto> keycloakClientSecret]\<rparr>"

definition BuildRestAPIServiceAccount :: "carbide_deployment \<Rightarrow> string \<Rightarrow> service_account" where
  "BuildRestAPIServiceAccount d ns =
     \<lparr>sacc_meta = mk_meta RestAPIName ns (DefaultLabels ''rest-api'' d) [controllerRef d], sacc_automount = Some True\<rparr>"

section \<open>Workers\<close>

definition workflow_yaml :: string where
  "workflow_yaml = unlines
     [''temporal:'', ''  host: temporal-frontend'', ''  port: 7233'', ''  serverName: temporal-frontend'',
      ''  namespace: cloud'', ''  queue: cloud'', ''  tls:'', ''    enabled: true'',
      ''    certPath: '' @ CertDir @ ''/tls.crt'', ''    keyPath: '' @ CertDir @ ''/tls.key'',
      ''    caPath: '' @ CertDir @ ''/ca.crt'',
      ''  encryptionKeyPath: /var/secrets/temporal-encryption/encryption-key'',
      ''db:'', ''  tls:'', ''    enabled: true'',
      ''    caPath: '' @ CertDir @ ''/ca.crt'', ''    certPath: '' @ CertDir @ ''/tls.crt'',
      ''    keyPath: '' @ CertDir @ ''/tls.key'']"

definition BuildWorkflowConfigMap :: "carbide_deployment \<Rightarrow> string \<Rightarrow> config_map" where
  "BuildWorkflowConfigMap d ns =
     \<lparr>cm_meta = mk_meta WorkflowCMName ns (DefaultLabels ''workflow-config'' d) [controllerRef d],
      cm_data = [''config.yaml'' \<mapsto> workflow_yaml]\<rparr>"

definition worker_pod :: "carbide_deployment \<Rightarrow> string \<Rightarrow> string \<Rightarrow> pod_spec" where
  "worker_pod d name temporalNamespace = zero_pod_spec
     \<lparr>ps_service_account := name,
      ps_containers := [zero_container
        \<lparr>c_name := name, c_image := image_or d img_workflow ''carbide-workflow'', c_pull_policy := GetImagePullPolicy d,
         c_env := [plain_env ''CONFIG_FILE_PATH'' ''/app/config.yaml'',
                   plain_env ''TEMPORAL_NAMESPACE'' temporalNamespace, plain_env ''TEMPORAL_QUEUE'' temporalNamespace,
                   secret_env ''DB_PASSWORD'' (''carbide-postgres-pguser-forge'', ''password'')],
         c_mounts := [file_mount ''config'' ''/app/config.yaml'' ''config.yaml'',
                      ro_mount ''temporal-encryption-key'' ''/var/secrets/temporal-encryption''],
         c_resources := cpu_mem ''100m'' ''256Mi'' ''1000m'' ''1Gi'',
         c_security := Some (zero_security\<lparr>sc_allow_escalation := Some False, sc_run_as_non_root := Some True,
                                            sc_drop := [''ALL'']\<rparr>)\<rparr>],
      ps_volumes := [cm_volume ''config'' WorkflowCMName,
        \<lparr>vol_name = ''temporal-encryption-key'', vol_source = SecretVolume ''temporal-encryption-key'' [] None\<rparr>]\<rparr>"

definition buildWorkerDeployment :: "string \<Rightarrow> string \<Rightarrow> carbide_deployment \<Rightarrow> string \<Rightarrow> deployment" where
  "buildWorkerDeployment name temporalNamespace d ns =
     mk_deployment d name ns ((DefaultLabels name d)(''app'' \<mapsto> name)) 1 (InjectTLS d (worker_pod d name temporalNamespace))"

definition BuildCloudWorkerDeployment :: "carbide_deployment \<Rightarrow> string \<Rightarrow> deployment" where
  "BuildCloudWorkerDeployment d ns = buildWorkerDeployment CloudWorkerName ''cloud'' d ns"

definition BuildSiteWorkerDeployment :: "carbide_deployment \<Rightarrow> string \<Rightarrow> deployment" where
  "BuildSiteWorkerDeployment d ns = buildWorkerDeployment SiteWorkerName ''site'' d ns"

definition BuildWorkerServiceAccount :: "string \<Rightarrow> string \<Rightarrow> carbide_deployment \<Rightarrow> service_account" where
  "BuildWorkerServiceAccount name ns d =
     \<lparr>sacc_meta = mk_meta name ns (DefaultLabels name d) [controllerRef d], sacc_automount = Some True\<rparr>"

section \<open>Temporal\<close>

definition temporal_ns :: "rest_config \<Rightarrow> string" where
  "temporal_ns rest = str_or (temporal_namespace (rest_temporal rest)) ''temporal''"

definition persistence_yaml :: "string \<Rightarrow> string \<Rightarrow> string \<Rightarrow> int32 \<Rightarrow> string \<Rightarrow> string list" where
  "persistence_yaml store database pgHost pgPort pgSecretName =
     [''      '' @ store @ '':'', ''        driver: sql'', ''        sql:'', ''          driver: postgres12'',
      ''          host: '' @ pgHost, ''          port: '' @ show_int32 pgPort, ''          database: '' @ database,
      ''          user: temporal'', ''          existingSecret: '' @ pgSecretName, ''          maxConns: 20'',
      ''          maxIdleConns: 20'', ''          maxConnLifetime: 1h'']"

definition temporal_values :: "rest_config \<Rightarrow> string \<Rightarrow> int32 \<Rightarrow> string \<Rightarrow> string" where
  "temporal_values rest pgHost pgPort pgSecretName = unlines
     ([''server:'', ''  config:'', ''    persistence:''] @
      persistence_yaml ''default'' ''temporal'' pgHost pgPort pgSecretName @
      persistence_yaml ''visibility'' ''temporal_visibility'' pgHost pgPort pgSecretName @
      [''  replicaCount: '' @ show_int32 (temporal_replicas (rest_temporal rest)),
       ''cassandra:'', ''  enabled: false'', ''mysql:'', ''  enabled: false'', ''postgresql:'', ''  enabled: false'',
       ''elasticsearch:'', ''  enabled: false'', ''schema:'', ''  setup:'', ''    enabled: true'', ''  update:'',
       ''    enabled: true'', ''admintools:'', ''  enabled: true'', ''web:'', ''  enabled: false''])"

definition BuildTemporalHelmValuesConfigMap ::
    "carbide_deployment \<Rightarrow> rest_config \<Rightarrow> string \<Rightarrow> string \<Rightarrow> int32 \<Rightarrow> string \<Rightarrow> config_map" where
  "BuildTemporalHelmValuesConfigMap d rest ns pgHost pgPort pgSecretName =
     \<lparr>cm_meta = mk_meta TemporalValuesConfigMap ns (DefaultLabels ''temporal-helm-values'' d) [controllerRef d],
      cm_data = [''values.yaml'' \<mapsto> temporal_values rest pgHost pgPort pgSecretName]\<rparr>"

definition temporal_helm_script :: "rest_config \<Rightarrow> string" where
  "temporal_helm_script rest =
     unlines [cont ''helm repo add temporal https://go.temporal.io/helm-charts &&'',
              cont ''helm repo update &&'',
              cont (''helm upgrade --install '' @ TemporalReleaseName @ '' temporal/temporal''),
              cont (''  --version '' @ str_or (temporal_chart_version (rest_temporal rest)) ''0.73.1''),
              cont (''  -n '' @ temporal_ns rest @ '' --create-namespace''),
              cont ''  -f /values/values.yaml''] @
     ''  --wait --timeout 15m''"

definition BuildTemporalHelmJob :: "carbide_deployment \<Rightarrow> rest_config \<Rightarrow> string \<Rightarrow> job" where
  "BuildTemporalHelmJob d rest ns =
     mk_job d TemporalHelmJobName ns (DefaultLabels ''temporal-helm'' d) 5 86400
       (zero_pod_spec
         \<lparr>ps_restart_policy := ''OnFailure'', ps_service_account := ''temporal-helm-installer'',
          ps_containers := [zero_container
            \<lparr>c_name := ''helm'', c_image := ''alpine/helm:latest'', c_pull_policy := ''IfNotPresent'',
             c_command := [''/bin/sh''], c_args := [''-c'', temporal_helm_script rest],
             c_mounts := [ro_mount ''values'' ''/values'']\<rparr>],
          ps_volumes := [values_volume TemporalValuesConfigMap]\<rparr>)"

definition GetTemporalFrontendURL :: "string \<Rightarrow> string" where
  "GetTemporalFrontendURL ns = TemporalReleaseName @ ''-frontend.'' @ str_or ns TemporalNamespace @ ''.svc:7233''"

definition temporal_setup_script :: "string \<Rightarrow> string" where
  \<open>temporal_setup_script temporalEndpoint = unlines
     [[],
      ''# Wait for Temporal frontend to be ready'',
      ''echo "Waiting for Temporal to be ready..."'',
      ''until tctl --address '' @ temporalEndpoint @ '' cluster health; do'',
      ''  echo "Still waiting for Temporal..."'',
      ''  sleep 5'',
      ''done'',
      [],
      ''echo "Temporal is ready, registering namespaces..."'',
      [],
      ''# Register standard Temporal namespaces'',
      ''tctl --address '' @ temporalEndpoint @ '' namespace register carbide --retention 7 || true'',
      ''tctl --address '' @ temporalEndpoint @ '' namespace register default --retention 7 || true'',
      ''tctl --address '' @ temporalEndpoint @ '' namespace register site --retention 7 || true'',
      ''tctl --address '' @ temporalEndpoint @ '' namespace register cloud --retention 7 || true'',
      [],
      ''echo "Temporal namespaces initialized successfully"'']\<close>

definition BuildTemporalSetupJob :: "carbide_deployment \<Rightarrow> string \<Rightarrow> string \<Rightarrow> job" where
  "BuildTemporalSetupJob d ns temporalEndpoint =
     mk_job d TemporalSetupJobName ns (DefaultLabels ''temporal-setup'' d) 5 86400
       (zero_pod_spec
         \<lparr>ps_restart_policy := ''OnFailure'',
          ps_containers := [zero_container
            \<lparr>c_name := ''namespace-init'', c_image := ''temporalio/admin-tools:latest'',
             c_pull_policy := GetImagePullPolicy d, c_command := [''/bin/bash''],
             c_args := [''-c'', temporal_setup_script temporalEndpoint]\<rparr>]\<rparr>)"

section \<open>Keycloak\<close>

definition BuildKeycloakInstance ::
    "(quantity \<Rightarrow> string) \<Rightarrow> carbide_deployment \<Rightarrow> rest_config \<Rightarrow> string \<Rightarrow> unstructured" where
  "BuildKeycloakInstance qstr d rest ns =
     SetOwnerReferences [controllerRef d] \<lparr>u_object =
       [(''apiVersion'', JString ''k8s.keycloak.org/v2alpha1''),
        (''kind'', JString ''Keycloak''),
        (''metadata'', JMap [(''name'', JString KeycloakName), (''namespace'', JString ns),
           (''labels'', DefaultLabelsUnstructured ''keycloak'' d)]),
        (''spec'', JMap
          ([(''instances'', JInt 1), (''http'', JMap [(''httpEnabled'', JBool True)]),
            (''hostname'', JMap [(''hostname'', JString (''keycloak.'' @ ns @ ''.svc''))])] @
           (case kc_resources (rest_keycloak rest) of
              None \<Rightarrow> [] | Some r \<Rightarrow> [(''resources'', convertResources qstr r)])))]\<rparr>"

definition realm_client :: json where
  "realm_client = JMap
     [(''clientId'', JString ''carbide-rest-api''), (''enabled'', JBool True), (''protocol'', JString ''openid-connect''),
      (''publicClient'', JBool False), (''serviceAccountsEnabled'', JBool True),
      (''directAccessGrantsEnabled'', JBool True), (''standardFlowEnabled'', JBool True),
      (''redirectUris'', JList [JString ''*'']), (''webOrigins'', JList [JString ''*''])]"

definition realm_role :: "string \<Rightarrow> string \<Rightarrow> json" where
  "realm_role n descr = JMap [(''name'', JString n), (''description'', JString descr)]"

definition BuildKeycloakRealmImport :: "carbide_deployment \<Rightarrow> rest_config \<Rightarrow> string \<Rightarrow> unstructured" where
  "BuildKeycloakRealmImport d rest ns =
     (let realm = kc_realm (rest_keycloak rest) in
      SetOwnerReferences [controllerRef d] \<lparr>u_object =
       [(''apiVersion'', JString ''k8s.keycloak.org/v2alpha1''),
        (''kind'', JString ''KeycloakRealmImport''),
        (''metadata'', JMap [(''name'', JString (KeycloakName @ ''-'' @ realm)), (''namespace'', JString ns),
           (''labels'', DefaultLabelsUnstructured ''keycloak-realm'' d)]),
        (''spec'', JMap
          [(''keycloakCRName'', JString KeycloakName),
           (''realm'', JMap
             [(''id'', JString realm), (''realm'', JString realm), (''enabled'', JBool True),
              (''displayName'', JString ''BMM''), (''clients'', JList [realm_client]),
              (''roles'', JMap [(''realm'', JList [realm_role ''carbide-admin'' ''BMM Administrator'',
                                                    realm_role ''carbide-user'' ''BMM User''])]),
              (''users'', JList [JMap [(''username'', JString ''admin''), (''enabled'', JBool True),
                                        (''realmRoles'', JList [JString ''carbide-admin''])]])])])]\<rparr>)"

definition GetKeycloakURL :: "string \<Rightarrow> string" where
  "GetKeycloakURL ns = ''http://'' @ KeycloakName @ ''-service.'' @ ns @ ''.svc:8080''"

definition GetKeycloakClientSecretName :: string where
  "GetKeycloakClientSecretName = KeycloakName @ ''-client-secret-carbide-rest-api''"

fun auth_lines :: "nat \<Rightarrow> auth_provider_config list \<Rightarrow> string list" where
  "auth_lines i [] = []"
| "auth_lines i (p # ps) =
     [''  - name: '' @ ap_name p, ''    origin: '' @ show_nat (i + 2), ''    url: '' @ ap_jwks_url p] @ auth_lines (Suc i) ps"

definition BuildRestAPIAuthConfig :: "carbide_deployment \<Rightarrow> string \<Rightarrow> string" where
  "BuildRestAPIAuthConfig d ns =
     (case spec_rest (cd_spec d) of
        None \<Rightarrow> []
      | Some rest \<Rightarrow>
          (let k = rest_keycloak rest in
           if kc_mode k = AuthModeManaged then
             unlines [''auth:'', ''  - name: keycloak'', ''    origin: 2'',
                      ''    url: '' @ GetKeycloakURL ns @ ''/realms/'' @ kc_realm k @ ''/protocol/openid-connect/certs'']
           else if kc_mode k = AuthModeExternal then
             (if kc_auth_providers k = [] then [] else unlines (''auth:'' # auth_lines 0 (kc_auth_providers k)))
           else if kc_mode k = AuthModeDisabled then unlines [''# auth disabled'']
           else []))"

section \<open>Site manager\<close>

definition site_manager_pod :: "carbide_deployment \<Rightarrow> rest_config \<Rightarrow> string \<Rightarrow> pod_spec" where
  "site_manager_pod d rest ns = zero_pod_spec
     \<lparr>ps_service_account := SiteManagerName,
      ps_containers := [zero_container
        \<lparr>c_name := ''site-manager'', c_image := image_or d img_site_manager ''site-manager'',
         c_pull_policy := GetImagePullPolicy d,
         c_args := (if IsEnabled d then [''--tls-cert-path'', CertDir @ ''/tls.crt'', ''--tls-key-path'', CertDir @ ''/tls.key''] else []),
         c_ports := [tcp_port ''http'' 8080],
         c_env := [plain_env ''REST_API_URL'' (''http://carbide-rest-api.'' @ ns @ ''.svc:8080''),
                   plain_env ''TEMPORAL_ENDPOINT'' (''temporal-frontend.'' @ temporal_ns rest @ ''.svc:7233'')],
         c_liveness := probe_of (HTTPGet ''/healthz'' 8080) 30 10,
         c_readiness := probe_of (HTTPGet ''/readyz'' 8080) 5 5\<rparr>]\<rparr>"

definition BuildSiteManagerDeployment :: "rest_config \<Rightarrow> carbide_deployment \<Rightarrow> string \<Rightarrow> deployment" where
  "BuildSiteManagerDeployment rest d ns =
     mk_deployment d SiteManagerName ns ((DefaultLabels ''site-manager'' d)(''app'' \<mapsto> SiteManagerName)) 1
       (InjectTLS d (site_manager_pod d rest ns))"

definition BuildSiteManagerService :: "carbide_deployment \<Rightarrow> string \<Rightarrow> service" where
  "BuildSiteManagerService d ns =
     mk_service d SiteManagerName ns (DefaultLabels ''site-manager'' d) [svc_port ''http'' 8080]"

definition BuildSiteManagerServiceAccount :: "carbide_deployment \<Rightarrow> string \<Rightarrow> service_account" where
  "BuildSiteManagerServiceAccount d ns =
     \<lparr>sacc_meta = mk_meta SiteManagerName ns (DefaultLabels ''site-manager'' d) [controllerRef d], sacc_automount = None\<rparr>"

definition BuildSiteManagerRole :: "carbide_deployment \<Rightarrow> string \<Rightarrow> role" where
  "BuildSiteManagerRole d ns =
     \<lparr>role_meta = mk_meta SiteManagerName ns (DefaultLabels ''site-manager'' d) [controllerRef d],
      role_rules =
        [\<lparr>rule_api_groups = [''forge.nvidia.io''], rule_resources = [''sites''],
          rule_verbs = [''get'', ''list'', ''watch'', ''create'', ''update'', ''patch'', ''delete'']\<rparr>,
         \<lparr>rule_api_groups = [''forge.nvidia.io''], rule_resources = [''sites/status''],
          rule_verbs = [''get'', ''update'', ''patch'']\<rparr>]\<rparr>"

definition BuildSiteManagerRoleBinding :: "carbide_deployment \<Rightarrow> string \<Rightarrow> role_binding" where
  "BuildSiteManagerRoleBinding d ns =
     \<lparr>rb_meta = mk_meta SiteManagerName ns (DefaultLabels ''site-manager'' d) [controllerRef d],
      rb_subjects = [\<lparr>subj_kind = ''ServiceAccount'', subj_name = SiteManagerName, subj_namespace = ns\<rparr>],
      rb_ref = \<lparr>ref_api_group = ''rbac.authorization.k8s.io'', ref_kind = ''Role'', ref_name = SiteManagerName\<rparr>\<rparr>"

section \<open>Site agent\<close>

definition BuildSiteAgentConfigMap ::
    "carbide_deployment \<Rightarrow> rest_config \<Rightarrow> string \<Rightarrow> string \<Rightarrow> config_map" where
  "BuildSiteAgentConfigMap d rest ns temporalEndpoint =
     (let hubEndpoint = (case rest_site_agent rest of None \<Rightarrow> temporalEndpoint
                         | Some a \<Rightarrow> str_or (sa_hub_temporal_endpoint a) temporalEndpoint);
          base = [''ESA_PORT'' \<mapsto> ''8080'',
                  ''CARBIDE_ADDRESS'' \<mapsto> ''carbide-api.'' @ core_namespace (spec_core (cd_spec d)) @ ''.svc:'' @ show_int32 (api_port_of d),
                  ''CARBIDE_SEC_OPT'' \<mapsto> ''2'', ''TEMPORAL_HOST'' \<mapsto> ''temporal-frontend'', ''TEMPORAL_PORT'' \<mapsto> ''7233'',
                  ''TEMPORAL_PUBLISH_NAMESPACE'' \<mapsto> ''site'', ''ENABLE_TLS'' \<mapsto> ''true'', ''TEMPORAL_CERT_PATH'' \<mapsto> CertDir];
          hub = (if hubEndpoint \<noteq> [] then base(''TEMPORAL_ENDPOINT'' \<mapsto> hubEndpoint) else base)
      in \<lparr>cm_meta = mk_meta (SiteAgentName @ ''-config'') ns (DefaultLabels ''site-agent-config'' d) [controllerRef d],
          cm_data = (if IsEnabled d then
             hub(''CARBIDE_CA_CERT_PATH'' \<mapsto> CertDir @ ''/ca.crt'', ''CARBIDE_CLIENT_CERT_PATH'' \<mapsto> CertDir @ ''/tls.crt'',
                 ''CARBIDE_CLIENT_KEY_PATH'' \<mapsto> CertDir @ ''/tls.key'') else hub)\<rparr>)"

definition site_agent_pod :: "carbide_deployment \<Rightarrow> pod_spec" where
  "site_agent_pod d = zero_pod_spec
     \<lparr>ps_service_account := SiteAgentName,
      ps_containers := [zero_container
        \<lparr>c_name := ''agent'', c_image := image_or d img_site_agent ''carbide-rest-site-agent'',
         c_pull_policy := GetImagePullPolicy d, c_env_from := [SiteAgentName @ ''-config'']\<rparr>]\<rparr>"

definition BuildSiteAgentDeployment :: "carbide_deployment \<Rightarrow> string \<Rightarrow> deployment" where
  "BuildSiteAgentDeployment d ns =
     mk_deployment d SiteAgentName ns ((DefaultLabels ''site-agent'' d)(''app'' \<mapsto> SiteAgentName)) 1
       (InjectTLS d (site_agent_pod d))"

section \<open>The workload contract\<close>

interpretation rest_api_workload: workload "BuildRestAPIDeployment rest" RestAPIName
    "\<lambda>d. {int_or (ra_port (rest_restapi rest)) 8080}" for rest
  by (rule mk_deployment_workload [where p = "\<lambda>d ns. rest_api_pod d rest", OF BuildRestAPIDeployment_def])
    (simp_all add: pod_check rest_api_pod_def)

interpretation worker_workload: workload "buildWorkerDeployment name tns" name "\<lambda>d. {}" for name tns
  by (rule mk_deployment_workload [where p = "\<lambda>d ns. worker_pod d name tns", OF buildWorkerDeployment_def])
    (simp_all add: pod_check worker_pod_def)

interpretation site_manager_workload: workload "BuildSiteManagerDeployment rest" SiteManagerName "\<lambda>d. {8080}" for rest
  by (rule mk_deployment_workload [where p = "\<lambda>d ns. site_manager_pod d rest ns", OF BuildSiteManagerDeployment_def])
    (simp_all add: pod_check site_manager_pod_def)

interpretation site_agent_workload: workload BuildSiteAgentDeployment SiteAgentName "\<lambda>d. {}"
  by (rule mk_deployment_workload [where p = "\<lambda>d ns. site_agent_pod d", OF BuildSiteAgentDeployment_def])
    (simp_all add: pod_check site_agent_pod_def)

section \<open>Properties\<close>

text \<open>
  The REST API Service reaches the REST API pods in both its forms, ClusterIP and NodePort.
\<close>
theorem rest_service_reaches_pods:
  "svc_selector (BuildRestAPIService rest d ns) \<subseteq>\<^sub>m tmpl_labels (dep_template (BuildRestAPIDeployment rest d ns)) \<and>
   (\<forall>p \<in> set (svc_ports (BuildRestAPIService rest d ns)).
      \<exists>c \<in> set (ps_containers (tmpl_spec (dep_template (BuildRestAPIDeployment rest d ns)))).
        sp_target_port p \<in> cp_port ` set (c_ports c))"
  by (rule rest_api_workload.service_reaches)
    (auto simp: BuildRestAPIService_def mk_service_def svc_port_def Let_def)

section \<open>Witnesses\<close>

theorem rest_service_reaches_pods_witness:
  "\<exists>c \<in> set (ps_containers (tmpl_spec (dep_template (BuildRestAPIDeployment zero_rest sample_management ''ns'')))).
     8080 \<in> cp_port ` set (c_ports c)"
proof -
  have "svc_port ''http'' 8080 \<in> set (svc_ports (BuildRestAPIService zero_rest sample_management ''ns''))"
    by (simp add: BuildRestAPIService_def mk_service_def zero_rest_def svc_port_def Let_def)
  from conjunct2 [OF rest_service_reaches_pods, rule_format, OF this] show ?thesis by (simp add: svc_port_def)
qed

end
