(* ===== verification/Rest_Reconciler.thy ===== *)
theory Rest_Reconciler
  imports Sample_Server Rest_Resources
begin

text \<open>
  The REST tier (\<^verbatim>\<open>internal/controller/rest_reconciler.go\<close>): Temporal, Keycloak, the Temporal
  namespaces, the REST API, the workers, the site manager and the site agent.  The methods read
  \<^verbatim>\<open>deployment.Spec.Rest\<close>, which the guard at the top has found present; they take it as the argument
  \<open>rest\<close>.  Shown: the contract of a tier with the evidence that a ready status rests on, the order
  in which the stages may write, and what a managed Keycloak waits for.
\<close>

section \<open>Connection details\<close>

definition getPostgreSQLConnection :: "carbide_deployment \<Rightarrow> goerror + string \<times> int32 \<times> string" where
  "getPostgreSQLConnection d =
     (case spec_infrastructure (cd_spec d) of
        None \<Rightarrow> Inl (Errorf ''infrastructure config is nil'')
      | Some infra \<Rightarrow>
          (let pgConfig = infra_postgresql infra;
               mode = str_or (pg_mode pgConfig) ManagedMode
           in if mode = ExternalMode then
                (case pg_connection pgConfig of
                   None \<Rightarrow> Inl (Errorf ''external PostgreSQL connection is nil'')
                 | Some c \<Rightarrow>
                     (let temporalSecret = (case map_of (pgc_user_secrets c) ''temporal'' of None \<Rightarrow> [] | Some ref \<Rightarrow> sr_name ref)
                      in Inr (pgc_host c, pgc_port c, temporalSecret)))
              else
                (let infraNamespace = str_or (infra_namespace infra) restDefaultNamespace
                 in Inr (''carbide-postgres-primary.'' @ infraNamespace @ ''.svc'', 5432,
                         GetPostgreSQLConnectionSecret ''temporal''))))"

definition getForgePassword :: "carbide_deployment \<Rightarrow> (goerror + string) prog" where
  "getForgePassword d =
     (case spec_infrastructure (cd_spec d) of
        None \<Rightarrow> Ret (Inl (Errorf ''infrastructure config is nil''))
      | Some infra \<Rightarrow>
          if str_or (pg_mode (infra_postgresql infra)) ManagedMode = ExternalMode then
            (case pg_connection (infra_postgresql infra) of
               None \<Rightarrow> Ret (Inl (Errorf ''external PostgreSQL connection is nil''))
             | Some c \<Rightarrow>
                 (case map_of (pgc_user_secrets c) ''forge'' of
                    None \<Rightarrow> Ret (Inl (Errorf ''forge user secret not found in external PostgreSQL connection''))
                  | Some secretRef \<Rightarrow>
                      (let key = str_or (sr_password_key secretRef) ''password'' in
                       tryThen (get_secret (infra_namespace infra) (sr_name secretRef)) (\<lambda>e. Ret (Inl e))
                         (\<lambda>s. Ret (Inr (data_get s key))))))
          else
            (let infraNamespace = str_or (infra_namespace infra) restDefaultNamespace in
             tryThen (get_secret infraNamespace (GetPostgreSQLConnectionSecret ''forge''))
               (\<lambda>e. Ret (Inl (WrapErr (''failed to get forge PostgreSQL secret: '' @ err_text e) e)))
               (\<lambda>s. Ret (Inr (data_get s ''password'')))))"

definition getTemporalEndpoint :: "rest_config \<Rightarrow> string" where
  "getTemporalEndpoint rest =
     (let temporalConfig = rest_temporal rest;
          mode = str_or (temporal_mode temporalConfig) ManagedMode
      in if mode = ExternalMode then temporal_endpoint temporalConfig
         else GetTemporalFrontendURL (str_or (temporal_namespace temporalConfig) restTemporalNamespace))"

definition getKeycloakEndpoint :: "carbide_deployment \<Rightarrow> rest_config \<Rightarrow> string" where
  "getKeycloakEndpoint d rest =
     (let keycloakConfig = rest_keycloak rest in
      if kc_mode keycloakConfig = AuthModeExternal then
        (case kc_auth_providers keycloakConfig of p # _ \<Rightarrow> ap_issuer_url p | [] \<Rightarrow> [])
      else if kc_mode keycloakConfig = AuthModeDisabled then []
      else ''http://carbide-keycloak.'' @ str_or (core_namespace (spec_core (cd_spec d))) restDefaultNamespace @
             ''.svc:8080/auth'')"

section \<open>The stages\<close>

definition reconcileManagedTemporal :: "carbide_deployment \<Rightarrow> rest_config \<Rightarrow> string \<Rightarrow> (goerror + bool) prog" where
  "reconcileManagedTemporal d rest ns =
     (case getPostgreSQLConnection d of
        Inl e \<Rightarrow> Ret (Inl e)
      | Inr (pgHost, pgPort, pgSecretName) \<Rightarrow>
          orReturn (rest_createOrUpdate
            (ConfigMapObj (BuildTemporalHelmValuesConfigMap d rest ns pgHost pgPort pgSecretName)))
         (orReturn (rest_createOrUpdate (JobObj (BuildTemporalHelmJob d rest ns)))
         (tryThen (IsJobComplete ns TemporalHelmJobName) (\<lambda>e. Ret (Inl e)) (\<lambda>helmComplete.
            if \<not> helmComplete then Ret (Inr False)
            else IsTemporalHelmReady (str_or (temporal_namespace (rest_temporal rest)) ''temporal'')))))"

definition reconcileExternalTemporal :: "rest_config \<Rightarrow> (goerror + bool) prog" where
  "reconcileExternalTemporal rest =
     (if temporal_endpoint (rest_temporal rest) = [] then Ret (Inl (Errorf ''external Temporal endpoint is required''))
      else orReturn (ValidateExternalTemporal (temporal_endpoint (rest_temporal rest))) (Ret (Inr True)))"

definition reconcileTemporal :: "carbide_deployment \<Rightarrow> rest_config \<Rightarrow> string \<Rightarrow> (goerror + bool) prog" where
  "reconcileTemporal d rest ns =
     (let mode = str_or (temporal_mode (rest_temporal rest)) ManagedMode in
      if mode = ManagedMode then reconcileManagedTemporal d rest ns
      else if mode = ExternalMode then reconcileExternalTemporal rest
      else Ret (Inl (Errorf (''invalid Temporal mode: '' @ mode))))"

definition reconcileManagedKeycloak ::
    "(quantity \<Rightarrow> string) \<Rightarrow> carbide_deployment \<Rightarrow> rest_config \<Rightarrow> string \<Rightarrow> (goerror + bool) prog" where
  "reconcileManagedKeycloak qstr d rest ns =
     orReturn ValidateKeycloakOperator
    (orReturn (rest_createOrUpdateUnstructured (BuildKeycloakInstance qstr d rest ns))
    (orReturn (rest_createOrUpdateUnstructured (BuildKeycloakRealmImport d rest ns))
    (IsKeycloakReady ns)))"

text \<open>The loop over the auth providers.\<close>

primrec checkProviderSecrets :: "string \<Rightarrow> auth_provider_config list \<Rightarrow> (goerror + bool) prog" where
  "checkProviderSecrets ns [] = Ret (Inr True)"
| "checkProviderSecrets ns (provider # ps) =
     (case ap_client_secret_ref provider of
        None \<Rightarrow> checkProviderSecrets ns ps
      | Some ref \<Rightarrow>
          tryThen (IsSecretAvailable ns (sr_name ref)) (\<lambda>e. Ret (Inl e)) (\<lambda>available.
            if \<not> available then
              Ret (Inl (Errorf (''auth provider '' @ ap_name provider @ '' client secret '' @ sr_name ref @ '' not found'')))
            else checkProviderSecrets ns ps))"

definition reconcileExternalKeycloak :: "rest_config \<Rightarrow> string \<Rightarrow> (goerror + bool) prog" where
  "reconcileExternalKeycloak rest ns =
     (if kc_auth_providers (rest_keycloak rest) = [] then
        Ret (Inl (Errorf ''at least one auth provider is required when mode is external''))
      else checkProviderSecrets ns (kc_auth_providers (rest_keycloak rest)))"

definition reconcileKeycloak ::
    "(quantity \<Rightarrow> string) \<Rightarrow> carbide_deployment \<Rightarrow> rest_config \<Rightarrow> string \<Rightarrow> (goerror + bool) prog" where
  "reconcileKeycloak qstr d rest ns =
     (let mode = kc_mode (rest_keycloak rest) in
      if mode = AuthModeManaged then reconcileManagedKeycloak qstr d rest ns
      else if mode = AuthModeExternal then reconcileExternalKeycloak rest ns
      else if mode = AuthModeDisabled then Ret (Inr True)
      else if mode = [] then reconcileManagedKeycloak qstr d rest ns
      else Ret (Inl (Errorf (''invalid Keycloak mode: '' @ mode))))"

definition reconcileTemporalSetup :: "carbide_deployment \<Rightarrow> rest_config \<Rightarrow> string \<Rightarrow> (goerror + bool) prog" where
  "reconcileTemporalSetup d rest ns =
     (let temporalNamespace = str_or (temporal_namespace (rest_temporal rest)) ''temporal'';
          initJob = BuildTemporalSetupJob d ns temporalNamespace
      in orReturn (rest_createOrUpdate (JobObj initJob)) (IsJobComplete ns (meta_name (job_meta initJob))))"

definition reconcileRestAPI :: "carbide_deployment \<Rightarrow> rest_config \<Rightarrow> string \<Rightarrow> (goerror + bool) prog" where
  "reconcileRestAPI d rest ns =
     orReturn (rest_createOrUpdate (ConfigMapObj
       (BuildRestAPIConfigMap d rest ns (getTemporalEndpoint rest) (getKeycloakEndpoint d rest))))
    (orReturn (rest_createOrUpdate (DeploymentObj (BuildRestAPIDeployment rest d ns)))
    (orReturn (rest_createOrUpdate (ServiceObj (BuildRestAPIService rest d ns)))
    (IsDeploymentReady ns ''carbide-rest-api'')))"

definition workerDeployment :: "carbide_deployment \<Rightarrow> string \<Rightarrow> string \<Rightarrow> deployment" where
  "workerDeployment d ns name =
     (if name = CloudWorkerName then BuildCloudWorkerDeployment d ns else BuildSiteWorkerDeployment d ns)"

definition reconcileWorker :: "carbide_deployment \<Rightarrow> string \<Rightarrow> string \<Rightarrow> (goerror + bool) prog" where
  "reconcileWorker d ns name =
     (let w = workerDeployment d ns name in
      orReturn (rest_createOrUpdate (DeploymentObj w)) (IsDeploymentReady ns (meta_name (dep_meta w))))"

definition has_site_manager :: "carbide_deployment \<Rightarrow> bool" where
  "has_site_manager d \<longleftrightarrow> spec_profile (cd_spec d) = ProfileManagement \<or> spec_profile (cd_spec d) = ProfileManagementWithSite"

definition reconcileSiteManager :: "carbide_deployment \<Rightarrow> rest_config \<Rightarrow> string \<Rightarrow> (goerror + bool) prog" where
  "reconcileSiteManager d rest ns =
     (if \<not> has_site_manager d then Ret (Inr True)
      else
        orReturn (rest_createOrUpdate (ServiceAccountObj (BuildSiteManagerServiceAccount d ns)))
       (orReturn (rest_createOrUpdate (RoleObj (BuildSiteManagerRole d ns)))
       (orReturn (rest_createOrUpdate (RoleBindingObj (BuildSiteManagerRoleBinding d ns)))
       (orReturn (rest_createOrUpdate (DeploymentObj (BuildSiteManagerDeployment rest d ns)))
       (orReturn (rest_createOrUpdate (ServiceObj (BuildSiteManagerService d ns)))
       (IsDeploymentReady ns SiteManagerName))))))"

definition has_site_agent :: "rest_config \<Rightarrow> bool" where
  "has_site_agent rest \<longleftrightarrow> (case rest_site_agent rest of None \<Rightarrow> False | Some a \<Rightarrow> sa_enabled a)"

definition reconcileSiteAgent :: "carbide_deployment \<Rightarrow> rest_config \<Rightarrow> string \<Rightarrow> (goerror + bool) prog" where
  "reconcileSiteAgent d rest ns =
     (if \<not> has_site_agent rest then Ret (Inr True)
      else
        orReturn (rest_createOrUpdate (ConfigMapObj (BuildSiteAgentConfigMap d rest ns (getTemporalEndpoint rest))))
       (orReturn (rest_createOrUpdate (DeploymentObj (BuildSiteAgentDeployment d ns)))
       (IsDeploymentReady ns ''carbide-rest-site-agent'')))"

section \<open>The tier\<close>

definition rest_ns :: "carbide_deployment \<Rightarrow> string" where
  "rest_ns d = str_or (core_namespace (spec_core (cd_spec d))) restDefaultNamespace"

definition rest_certificate :: "carbide_deployment \<Rightarrow> string \<Rightarrow> string \<Rightarrow> unstructured option" where
  "rest_certificate d ns name = BuildCertificate d name ns [name @ ''.'' @ ns @ ''.svc.cluster.local'']"

definition temporalSID :: "carbide_deployment \<Rightarrow> rest_config \<Rightarrow> unstructured" where
  "temporalSID d rest =
     (let temporalNs = str_or (temporal_namespace (rest_temporal rest)) restTemporalNamespace in
      BuildClusterSPIFFEID d ''temporal'' temporalNs ''temporal''
        [''temporal-frontend'', ''cloud.temporal-frontend'', ''site.temporal-frontend''])"

definition siteManagerSID :: "carbide_deployment \<Rightarrow> string \<Rightarrow> unstructured" where
  "siteManagerSID d ns =
     BuildClusterSPIFFEID d SiteManagerName ns SiteManagerName [SiteManagerName @ ''.'' @ ns @ ''.svc.cluster.local'']"

definition rest_tls :: "carbide_deployment \<Rightarrow> rest_config \<Rightarrow> string \<Rightarrow> tier_result prog \<Rightarrow> tier_result prog" where
  "rest_tls d rest ns k =
     (if IsSpiffeMode d then
        checkThen (rest_createOrUpdate (ConfigMapObj (BuildSpiffeHelperConfigMap d ns)))
          (failWith ''Failed to create spiffe-helper ConfigMap'')
       (checkThen (rest_createOrUpdateUnstructured (BuildClusterSPIFFEID d RestAPIName ns RestAPIName []))
          (failWith ''Failed to create REST API ClusterSPIFFEID'')
       (eachOrFail [CloudWorkerName, SiteWorkerName]
          (\<lambda>name. rest_createOrUpdateUnstructured (BuildClusterSPIFFEID d name ns name []))
          (\<lambda>name. ''Failed to create '' @ name @ '' ClusterSPIFFEID'')
       (checkThen (rest_createOrUpdateUnstructured (temporalSID d rest))
          (failWith ''Failed to create Temporal ClusterSPIFFEID'')
       (checkThen (rest_createOrUpdateUnstructured (siteManagerSID d ns))
          (failWith ''Failed to create site-manager ClusterSPIFFEID'') k))))
      else if IsCertManagerMode d then
        certificatesOrFail rest_createOrUpdateUnstructured (rest_certificate d ns)
          [RestAPIName, CloudWorkerName, SiteWorkerName, SiteManagerName] k
      else k)"

text \<open>Stages 6 and 7 and the verdict.\<close>

definition rest_final ::
    "carbide_deployment \<Rightarrow> rest_config \<Rightarrow> string \<Rightarrow> bool \<Rightarrow> bool \<Rightarrow> bool \<Rightarrow> bool \<Rightarrow> bool \<Rightarrow> bool \<Rightarrow> tier_status \<Rightarrow>
     tier_result prog" where
  "rest_final d rest ns temporalReady keycloakReady temporalSetupReady restAPIReady cloudWorkerReady siteWorkerReady st =
     stageIf (has_site_manager d \<and> restAPIReady)
       ''SiteManager'' ''Site manager reconciliation failed'' (reconcileSiteManager d rest ns) st (\<lambda>siteManagerReady st1.
     stageIf (has_site_agent rest \<and> restAPIReady)
       ''SiteAgent'' ''Site agent reconciliation failed'' (reconcileSiteAgent d rest ns) st1 (\<lambda>siteAgentReady st2.
     conclude (temporalReady \<and> keycloakReady \<and> temporalSetupReady \<and> restAPIReady \<and> cloudWorkerReady \<and>
               siteWorkerReady \<and> siteManagerReady \<and> siteAgentReady)
       ''All REST components ready'' ''Waiting for REST components to be ready'' st2))"

text \<open>Stage 5: a worker enters the status only when its stage returned no error.\<close>

definition workerStage ::
    "string \<Rightarrow> string \<Rightarrow> (goerror + bool) prog \<Rightarrow> tier_status \<Rightarrow> (bool \<Rightarrow> tier_status \<Rightarrow> tier_result prog) \<Rightarrow> tier_result prog" where
  "workerStage name what p st k =
     tryThen p (stopWith st what) (\<lambda>ready. Now (\<lambda>t. k ready (addComponent name (Inr ready) t st)))"

definition rest_workers ::
    "carbide_deployment \<Rightarrow> rest_config \<Rightarrow> string \<Rightarrow> bool \<Rightarrow> bool \<Rightarrow> bool \<Rightarrow> bool \<Rightarrow> tier_status \<Rightarrow> tier_result prog" where
  "rest_workers d rest ns temporalReady keycloakReady temporalSetupReady restAPIReady st =
     (if temporalReady \<and> temporalSetupReady then
        workerStage ''CloudWorker'' ''Cloud worker reconciliation failed'' (reconcileWorker d ns CloudWorkerName) st
          (\<lambda>cloudWorkerReady st1.
        workerStage ''SiteWorker'' ''Site worker reconciliation failed'' (reconcileWorker d ns SiteWorkerName) st1
          (\<lambda>siteWorkerReady st2.
        rest_final d rest ns temporalReady keycloakReady temporalSetupReady restAPIReady cloudWorkerReady siteWorkerReady st2))
      else rest_final d rest ns temporalReady keycloakReady temporalSetupReady restAPIReady True True st)"

text \<open>Stage 4: a REST API that is not yet due counts as not ready.\<close>

definition rest_api ::
    "carbide_deployment \<Rightarrow> rest_config \<Rightarrow> string \<Rightarrow> bool \<Rightarrow> bool \<Rightarrow> bool \<Rightarrow> tier_status \<Rightarrow> tier_result prog" where
  "rest_api d rest ns temporalReady keycloakReady temporalSetupReady st =
     (if temporalReady \<and> keycloakReady \<and> temporalSetupReady then
        stage ''RestAPI'' ''REST API reconciliation failed'' (reconcileRestAPI d rest ns) st
          (\<lambda>restAPIReady. rest_workers d rest ns temporalReady keycloakReady temporalSetupReady restAPIReady)
      else rest_workers d rest ns temporalReady keycloakReady temporalSetupReady False st)"

text \<open>Stages 1 to 3.\<close>

definition rest_stages ::
    "(quantity \<Rightarrow> string) \<Rightarrow> carbide_deployment \<Rightarrow> rest_config \<Rightarrow> string \<Rightarrow> tier_status \<Rightarrow> tier_result prog" where
  "rest_stages qstr d rest ns st =
     stage ''Temporal'' ''Temporal reconciliation failed'' (reconcileTemporal d rest ns) st (\<lambda>temporalReady st1.
     stage ''Keycloak'' ''Keycloak reconciliation failed'' (reconcileKeycloak qstr d rest ns) st1 (\<lambda>keycloakReady st2.
     if temporalReady then
       tryThen (reconcileTemporalSetup d rest ns) (stopWith st2 ''Temporal setup failed'') (\<lambda>temporalSetupReady.
         rest_api d rest ns temporalReady keycloakReady temporalSetupReady st2)
     else rest_api d rest ns temporalReady keycloakReady False st2))"

definition rest_Reconcile :: "(quantity \<Rightarrow> string) \<Rightarrow> carbide_deployment \<Rightarrow> tier_result prog" where
  "rest_Reconcile qstr d =
     (case spec_rest (cd_spec d) of
        None \<Rightarrow> notRequired ''REST tier not enabled''
      | Some rest \<Rightarrow>
          if \<not> rest_enabled rest then notRequired ''REST tier not enabled''
          else
            (let ns = rest_ns d in
             Now (\<lambda>t. let st = initStatus t in
               checkThen (rest_createOrUpdate (ServiceAccountObj (BuildRestAPIServiceAccount d ns)))
                 (failWith ''Failed to create REST API ServiceAccount'')
              (eachOrFail [CloudWorkerName, SiteWorkerName]
                 (\<lambda>saName. rest_createOrUpdate (ServiceAccountObj (BuildWorkerServiceAccount saName ns d)))
                 (\<lambda>saName. ''Failed to create '' @ saName @ '' ServiceAccount'')
              (rest_tls d rest ns
              (tryThen (getForgePassword d) (\<lambda>e. waitWith st ''Waiting for PostgreSQL forge password'') (\<lambda>pgPassword.
               checkThen (rest_createOrUpdate (SecretObj (BuildRestAPISecret d ns pgPassword [])))
                 (failWith ''Failed to create REST API Secret'')
              (checkThen (rest_createOrUpdate (ConfigMapObj (BuildWorkflowConfigMap d ns)))
                 (failWith ''Failed to create workflow ConfigMap'')
              (rest_stages qstr d rest ns st)))))))))"

section \<open>What readiness rests on\<close>

text \<open>Where the password of the forge user is kept.\<close>

definition forge_source :: "carbide_deployment \<Rightarrow> (string \<times> string \<times> string) option" where
  "forge_source d =
     (case spec_infrastructure (cd_spec d) of
        None \<Rightarrow> None
      | Some infra \<Rightarrow>
          if pg_mode (infra_postgresql infra) = ExternalMode then
            (case pg_connection (infra_postgresql infra) of
               None \<Rightarrow> None
             | Some c \<Rightarrow> map_option (\<lambda>ref. (infra_namespace infra, sr_name ref, str_or (sr_password_key ref) ''password''))
                           (map_of (pgc_user_secrets c) ''forge''))
          else Some (str_or (infra_namespace infra) restDefaultNamespace, ''carbide-postgres-pguser-forge'', ''password''))"

definition forge_read :: "carbide_deployment \<Rightarrow> string \<Rightarrow> event list \<Rightarrow> bool" where
  "forge_read d pw tr \<longleftrightarrow> (\<exists>ns n key s. forge_source d = Some (ns, n, key) \<and>
     EGet KSecret ns n (Inr (SecretObj s)) \<in> set tr \<and> pw = data_get s key)"

definition temporal_dialled :: "string \<Rightarrow> event list \<Rightarrow> bool" where
  "temporal_dialled endpoint tr \<longleftrightarrow> (\<exists>host port. SplitHostPort endpoint = Inr (host, port) \<and>
     EProbe (DialTCP (JoinHostPort host port)) None \<in> set tr)"

text \<open>Temporal: external, dialled; managed, the Helm job complete and the frontend up.\<close>

definition temporal_up :: "carbide_deployment \<Rightarrow> rest_config \<Rightarrow> string \<Rightarrow> event list \<Rightarrow> bool" where
  "temporal_up d rest ns tr \<longleftrightarrow>
     (if temporal_mode (rest_temporal rest) = ExternalMode then temporal_dialled (temporal_endpoint (rest_temporal rest)) tr
      else
        (\<exists>host port sec. getPostgreSQLConnection d = Inr (host, port, sec) \<and>
           written (ConfigMapObj (BuildTemporalHelmValuesConfigMap d rest ns host port sec)) tr) \<and>
        written (JobObj (BuildTemporalHelmJob d rest ns)) tr \<and> job_done ns TemporalHelmJobName tr \<and>
        observed KDeployment as_deployment (temporal_ns rest) ''temporal-frontend'' deployment_ready tr)"

definition keycloak_seen :: "string \<Rightarrow> event list \<Rightarrow> bool" where
  "keycloak_seen ns tr \<longleftrightarrow> observed KeycloakKind as_unstructured ns ''carbide-keycloak'' (\<lambda>u. keycloak_verdict u = Inr True) tr"

definition managed_keycloak :: "rest_config \<Rightarrow> bool" where
  "managed_keycloak rest \<longleftrightarrow> kc_mode (rest_keycloak rest) = AuthModeManaged \<or> kc_mode (rest_keycloak rest) = []"

definition providers_ok :: "string \<Rightarrow> auth_provider_config list \<Rightarrow> event list \<Rightarrow> bool" where
  "providers_ok ns ps tr \<longleftrightarrow> (\<forall>p\<in>set ps. \<forall>ref. ap_client_secret_ref p = Some ref \<longrightarrow> secret_read ns (sr_name ref) tr)"

definition keycloak_up :: "(quantity \<Rightarrow> string) \<Rightarrow> carbide_deployment \<Rightarrow> rest_config \<Rightarrow> string \<Rightarrow> event list \<Rightarrow> bool" where
  "keycloak_up qstr d rest ns tr \<longleftrightarrow>
     (managed_keycloak rest \<longrightarrow>
        written (UnstructuredObj (BuildKeycloakInstance qstr d rest ns)) tr \<and>
        written (UnstructuredObj (BuildKeycloakRealmImport d rest ns)) tr \<and> keycloak_seen ns tr) \<and>
     (kc_mode (rest_keycloak rest) = AuthModeExternal \<longrightarrow>
        kc_auth_providers (rest_keycloak rest) \<noteq> [] \<and> providers_ok ns (kc_auth_providers (rest_keycloak rest)) tr)"

definition setup_done :: "carbide_deployment \<Rightarrow> rest_config \<Rightarrow> string \<Rightarrow> event list \<Rightarrow> bool" where
  "setup_done d rest ns tr \<longleftrightarrow> written (JobObj (BuildTemporalSetupJob d ns (temporal_ns rest))) tr \<and> job_done ns TemporalSetupJobName tr"

definition rest_api_seen :: "string \<Rightarrow> event list \<Rightarrow> bool" where
  "rest_api_seen ns tr \<longleftrightarrow> observed KDeployment as_deployment ns RestAPIName deployment_ready tr"

definition rest_api_evidence :: "carbide_deployment \<Rightarrow> rest_config \<Rightarrow> string \<Rightarrow> event list \<Rightarrow> bool" where
  "rest_api_evidence d rest ns tr \<longleftrightarrow>
     written (ConfigMapObj (BuildRestAPIConfigMap d rest ns (getTemporalEndpoint rest) (getKeycloakEndpoint d rest))) tr \<and>
     written (DeploymentObj (BuildRestAPIDeployment rest d ns)) tr \<and>
     written (ServiceObj (BuildRestAPIService rest d ns)) tr \<and> rest_api_seen ns tr"

definition worker_evidence :: "carbide_deployment \<Rightarrow> string \<Rightarrow> string \<Rightarrow> event list \<Rightarrow> bool" where
  "worker_evidence d ns name tr \<longleftrightarrow> written (DeploymentObj (workerDeployment d ns name)) tr \<and>
     observed KDeployment as_deployment ns name deployment_ready tr"

definition site_manager_evidence :: "carbide_deployment \<Rightarrow> rest_config \<Rightarrow> string \<Rightarrow> event list \<Rightarrow> bool" where
  "site_manager_evidence d rest ns tr \<longleftrightarrow> has_site_manager d \<longrightarrow>
     written (ServiceAccountObj (BuildSiteManagerServiceAccount d ns)) tr \<and> written (RoleObj (BuildSiteManagerRole d ns)) tr \<and>
     written (RoleBindingObj (BuildSiteManagerRoleBinding d ns)) tr \<and>
     written (DeploymentObj (BuildSiteManagerDeployment rest d ns)) tr \<and>
     written (ServiceObj (BuildSiteManagerService d ns)) tr \<and>
     observed KDeployment as_deployment ns SiteManagerName deployment_ready tr"

definition site_agent_evidence :: "carbide_deployment \<Rightarrow> rest_config \<Rightarrow> string \<Rightarrow> event list \<Rightarrow> bool" where
  "site_agent_evidence d rest ns tr \<longleftrightarrow> has_site_agent rest \<longrightarrow>
     written (ConfigMapObj (BuildSiteAgentConfigMap d rest ns (getTemporalEndpoint rest))) tr \<and>
     written (DeploymentObj (BuildSiteAgentDeployment d ns)) tr \<and>
     observed KDeployment as_deployment ns SiteAgentName deployment_ready tr"

definition rest_tls_evidence :: "carbide_deployment \<Rightarrow> rest_config \<Rightarrow> string \<Rightarrow> event list \<Rightarrow> bool" where
  "rest_tls_evidence d rest ns tr \<longleftrightarrow>
     (IsSpiffeMode d \<longrightarrow> written (ConfigMapObj (BuildSpiffeHelperConfigMap d ns)) tr \<and>
        (\<forall>n\<in>{RestAPIName, CloudWorkerName, SiteWorkerName}.
           written (UnstructuredObj (BuildClusterSPIFFEID d n ns n [])) tr) \<and>
        written (UnstructuredObj (temporalSID d rest)) tr \<and> written (UnstructuredObj (siteManagerSID d ns)) tr) \<and>
     (IsCertManagerMode d \<longrightarrow>
        (\<forall>n\<in>{RestAPIName, CloudWorkerName, SiteWorkerName, SiteManagerName}.
           \<exists>u. rest_certificate d ns n = Some u \<and> written (UnstructuredObj u) tr))"

definition rest_accounts :: "carbide_deployment \<Rightarrow> string \<Rightarrow> event list \<Rightarrow> bool" where
  "rest_accounts d ns tr \<longleftrightarrow> written (ServiceAccountObj (BuildRestAPIServiceAccount d ns)) tr \<and>
     (\<forall>n\<in>{CloudWorkerName, SiteWorkerName}. written (ServiceAccountObj (BuildWorkerServiceAccount n ns d)) tr)"

definition rest_components :: "carbide_deployment \<Rightarrow> string list" where
  "rest_components d =
     (case spec_rest (cd_spec d) of
        None \<Rightarrow> []
      | Some rest \<Rightarrow>
          if \<not> rest_enabled rest then []
          else [''Temporal'', ''Keycloak'', ''RestAPI'', ''CloudWorker'', ''SiteWorker''] @
            (if has_site_manager d then [''SiteManager''] else []) @ (if has_site_agent rest then [''SiteAgent''] else []))"

definition rest_evidence :: "(quantity \<Rightarrow> string) \<Rightarrow> carbide_deployment \<Rightarrow> event list \<Rightarrow> bool" where
  "rest_evidence qstr d tr \<longleftrightarrow> (\<forall>rest. spec_rest (cd_spec d) = Some rest \<and> rest_enabled rest \<longrightarrow>
     (let ns = rest_ns d in
      rest_accounts d ns tr \<and> rest_tls_evidence d rest ns tr \<and>
      (\<exists>pw. forge_read d pw tr \<and> written (SecretObj (BuildRestAPISecret d ns pw [])) tr) \<and>
      written (ConfigMapObj (BuildWorkflowConfigMap d ns)) tr \<and>
      temporal_up d rest ns tr \<and> keycloak_up qstr d rest ns tr \<and> setup_done d rest ns tr \<and>
      rest_api_evidence d rest ns tr \<and> worker_evidence d ns CloudWorkerName tr \<and> worker_evidence d ns SiteWorkerName tr \<and>
      site_manager_evidence d rest ns tr \<and> site_agent_evidence d rest ns tr))"

section \<open>What may be written when\<close>

definition sid_kind :: kind where
  "sid_kind = KUnstructured ''spire.spiffe.io/v1alpha1'' ''ClusterSPIFFEID''"

definition cert_kind :: kind where
  "cert_kind = KUnstructured ''cert-manager.io/v1'' ''Certificate''"

definition realm_kind :: kind where
  "realm_kind = KUnstructured ''k8s.keycloak.org/v2alpha1'' ''KeycloakRealmImport''"

definition account_keys :: "string \<Rightarrow> object_key set" where
  "account_keys ns =
     {(KServiceAccount, ns, RestAPIName), (KServiceAccount, ns, CloudWorkerName), (KServiceAccount, ns, SiteWorkerName),
      (KConfigMap, ns, ''spiffe-helper-config''),
      (sid_kind, [], RestAPIName), (sid_kind, [], CloudWorkerName), (sid_kind, [], SiteWorkerName),
      (sid_kind, [], ''temporal''), (sid_kind, [], SiteManagerName),
      (cert_kind, ns, RestAPIName @ ''-cert''), (cert_kind, ns, CloudWorkerName @ ''-cert''),
      (cert_kind, ns, SiteWorkerName @ ''-cert''), (cert_kind, ns, SiteManagerName @ ''-cert'')}"

definition backend_keys :: "rest_config \<Rightarrow> string \<Rightarrow> object_key set" where
  "backend_keys rest ns =
     {(KSecret, ns, RestAPIName @ ''-secret''), (KConfigMap, ns, WorkflowCMName), (KConfigMap, ns, TemporalValuesConfigMap),
      (KJob, ns, TemporalHelmJobName), (KeycloakKind, ns, KeycloakName),
      (realm_kind, ns, KeycloakName @ ''-'' @ kc_realm (rest_keycloak rest))}"

definition setup_keys :: "string \<Rightarrow> object_key set" where
  "setup_keys ns = {(KJob, ns, TemporalSetupJobName)}"

definition worker_keys :: "string \<Rightarrow> object_key set" where
  "worker_keys ns = {(KDeployment, ns, CloudWorkerName), (KDeployment, ns, SiteWorkerName)}"

definition rest_api_keys :: "string \<Rightarrow> object_key set" where
  "rest_api_keys ns = {(KConfigMap, ns, RestAPIName @ ''-config''), (KDeployment, ns, RestAPIName), (KService, ns, RestAPIName)}"

definition edge_keys :: "string \<Rightarrow> object_key set" where
  "edge_keys ns =
     {(KServiceAccount, ns, SiteManagerName), (KRole, ns, SiteManagerName), (KRoleBinding, ns, SiteManagerName),
      (KDeployment, ns, SiteManagerName), (KService, ns, SiteManagerName),
      (KConfigMap, ns, SiteAgentName @ ''-config''), (KDeployment, ns, SiteAgentName)}"

text \<open>The keys the tier may write after the history \<open>h\<close>.\<close>

definition rest_allowed ::
    "(quantity \<Rightarrow> string) \<Rightarrow> carbide_deployment \<Rightarrow> rest_config \<Rightarrow> string \<Rightarrow> event list \<Rightarrow> object_key set" where
  "rest_allowed qstr d rest ns h =
     account_keys ns \<union>
     (if \<exists>pw. forge_read d pw h then backend_keys rest ns else {}) \<union>
     (if temporal_up d rest ns h then setup_keys ns else {}) \<union>
     (if temporal_up d rest ns h \<and> setup_done d rest ns h then worker_keys ns else {}) \<union>
     (if temporal_up d rest ns h \<and> setup_done d rest ns h \<and> keycloak_up qstr d rest ns h then rest_api_keys ns else {}) \<union>
     (if rest_api_seen ns h then edge_keys ns else {})"

definition rest_keys :: "carbide_deployment \<Rightarrow> object_key set" where
  "rest_keys d =
     (case spec_rest (cd_spec d) of
        None \<Rightarrow> {}
      | Some rest \<Rightarrow> let ns = rest_ns d in
          account_keys ns \<union> backend_keys rest ns \<union> setup_keys ns \<union> worker_keys ns \<union> rest_api_keys ns \<union> edge_keys ns)"

section \<open>The keys of the objects\<close>

lemma rest_obj_keys [simp]:
  "obj_key (ServiceAccountObj (BuildRestAPIServiceAccount d ns)) = (KServiceAccount, ns, RestAPIName)"
  "obj_key (ServiceAccountObj (BuildWorkerServiceAccount n ns d)) = (KServiceAccount, ns, n)"
  "obj_key (SecretObj (BuildRestAPISecret d ns pw kc)) = (KSecret, ns, RestAPIName @ ''-secret'')"
  "obj_key (ConfigMapObj (BuildWorkflowConfigMap d ns)) = (KConfigMap, ns, WorkflowCMName)"
  "obj_key (ConfigMapObj (BuildTemporalHelmValuesConfigMap d rest ns host port sec)) = (KConfigMap, ns, TemporalValuesConfigMap)"
  "obj_key (JobObj (BuildTemporalHelmJob d rest ns)) = (KJob, ns, TemporalHelmJobName)"
  "obj_key (JobObj (BuildTemporalSetupJob d ns tns)) = (KJob, ns, TemporalSetupJobName)"
  "obj_key (ConfigMapObj (BuildRestAPIConfigMap d rest ns te ke)) = (KConfigMap, ns, RestAPIName @ ''-config'')"
  "obj_key (DeploymentObj (BuildRestAPIDeployment rest d ns)) = (KDeployment, ns, RestAPIName)"
  "obj_key (ServiceObj (BuildRestAPIService rest d ns)) = (KService, ns, RestAPIName)"
  "obj_key (ConfigMapObj (BuildSpiffeHelperConfigMap d ns)) = (KConfigMap, ns, ''spiffe-helper-config'')"
  by (simp_all add: obj_key_def BuildRestAPIServiceAccount_def BuildWorkerServiceAccount_def BuildRestAPISecret_def
      BuildWorkflowConfigMap_def BuildTemporalHelmValuesConfigMap_def BuildTemporalHelmJob_def BuildTemporalSetupJob_def
      BuildRestAPIConfigMap_def BuildRestAPIDeployment_def BuildRestAPIService_def BuildSpiffeHelperConfigMap_def
      mk_deployment_def mk_job_def mk_service_def Let_def)

lemma edge_obj_keys [simp]:
  "obj_key (ServiceAccountObj (BuildSiteManagerServiceAccount d ns)) = (KServiceAccount, ns, SiteManagerName)"
  "obj_key (RoleObj (BuildSiteManagerRole d ns)) = (KRole, ns, SiteManagerName)"
  "obj_key (RoleBindingObj (BuildSiteManagerRoleBinding d ns)) = (KRoleBinding, ns, SiteManagerName)"
  "obj_key (DeploymentObj (BuildSiteManagerDeployment rest d ns)) = (KDeployment, ns, SiteManagerName)"
  "obj_key (ServiceObj (BuildSiteManagerService d ns)) = (KService, ns, SiteManagerName)"
  "obj_key (ConfigMapObj (BuildSiteAgentConfigMap d rest ns te)) = (KConfigMap, ns, SiteAgentName @ ''-config'')"
  "obj_key (DeploymentObj (BuildSiteAgentDeployment d ns)) = (KDeployment, ns, SiteAgentName)"
  by (simp_all add: obj_key_def BuildSiteManagerServiceAccount_def BuildSiteManagerRole_def BuildSiteManagerRoleBinding_def
      BuildSiteManagerDeployment_def BuildSiteManagerService_def BuildSiteAgentConfigMap_def BuildSiteAgentDeployment_def
      mk_deployment_def mk_service_def Let_def)

lemma keycloak_keys [simp]:
  "obj_key (UnstructuredObj (BuildKeycloakInstance qstr d rest ns)) = (KeycloakKind, ns, KeycloakName)"
  "obj_key (UnstructuredObj (BuildKeycloakRealmImport d rest ns)) =
     (realm_kind, ns, KeycloakName @ ''-'' @ kc_realm (rest_keycloak rest))"
  by (simp_all add: obj_key_def BuildKeycloakInstance_def BuildKeycloakRealmImport_def SetOwnerReferences_def u_kind_def
      u_api_version_def u_name_def u_namespace_def u_metadata_def NestedString_def NestedMap_def field_def
      string_or_empty_def KeycloakKind_def realm_kind_def u_set_metadata_def Let_def)

lemma worker_name [simp]:
  "name \<in> {CloudWorkerName, SiteWorkerName} \<Longrightarrow> obj_key (DeploymentObj (workerDeployment d ns name)) = (KDeployment, ns, name)"
  "name \<in> {CloudWorkerName, SiteWorkerName} \<Longrightarrow> meta_name (dep_meta (workerDeployment d ns name)) = name"
  by (auto simp: workerDeployment_def BuildCloudWorkerDeployment_def BuildSiteWorkerDeployment_def
      buildWorkerDeployment_def mk_deployment_def obj_key_def)

section \<open>The stages keep their promises\<close>

lemmas put_rest = rest_write.put_spec [unfolded id_apply]
lemmas put_rest_u = rest_write_u.put_spec

lemma keeps_rest_evidence [simp]:
  "keeps (rest_api_seen ns)" "keeps (rest_api_evidence d rest ns)" "keeps (worker_evidence d ns name)"
  "keeps (site_manager_evidence d rest ns)" "keeps (site_agent_evidence d rest ns)" "keeps (setup_done d rest ns)"
  "keeps (keycloak_seen ns)" "keeps (providers_ok ns ps)" "keeps (rest_tls_evidence d rest ns)" "keeps (rest_accounts d ns)"
  unfolding rest_api_seen_def rest_api_evidence_def worker_evidence_def site_manager_evidence_def site_agent_evidence_def
    setup_done_def keycloak_seen_def providers_ok_def rest_tls_evidence_def rest_accounts_def
  by (intro keeps_intros keeps_job_done keeps_secret_read)+

lemma keeps_backends [simp]:
  "keeps (temporal_dialled ep)" "keeps (temporal_up d rest ns)" "keeps (keycloak_up qstr d rest ns)" "keeps (forge_read d pw)"
proof -
  show dial: "keeps (temporal_dialled ep)" for ep unfolding temporal_dialled_def keeps_def by blast
  show "keeps (temporal_up d rest ns)"
    unfolding temporal_up_def if_bool_eq_conj by (intro keeps_intros dial keeps_job_done)
  show "keeps (keycloak_up qstr d rest ns)"
    unfolding keycloak_up_def by (intro keeps_intros keeps_rest_evidence)
  show "keeps (forge_read d pw)" unfolding forge_read_def keeps_def by blast
qed

lemma temporal_frontend_spec:
  "spec_of (about K) (IsTemporalHelmReady ns)
     (\<lambda>r tr. r = Inr True \<longrightarrow> observed KDeployment as_deployment ns ''temporal-frontend'' deployment_ready tr)"
  by (rule temporal_check.check_spec) simp

lemma managed_temporal_spec:
  assumes "temporal_mode (rest_temporal rest) \<noteq> ExternalMode"
  shows "spec_of (about (backend_keys rest ns)) (reconcileManagedTemporal d rest ns)
     (\<lambda>r tr. r = Inr True \<longrightarrow> temporal_up d rest ns tr)"
proof (rule spec_ofI)
  show "valid (\<lambda>_. about (backend_keys rest ns)) [] (reconcileManagedTemporal d rest ns)
     (\<lambda>r tr. r = Inr True \<longrightarrow> temporal_up d rest ns tr)"
  proof (cases "getPostgreSQLConnection d")
    case (Inl e)
    then show ?thesis by (simp add: reconcileManagedTemporal_def valid_def)
  next
    case (Inr c)
    then obtain host port sec where c: "getPostgreSQLConnection d = Inr (host, port, sec)" by (cases c) auto
    have up: "temporal_up d rest ns h"
      if "written (ConfigMapObj (BuildTemporalHelmValuesConfigMap d rest ns host port sec)) h"
        "written (JobObj (BuildTemporalHelmJob d rest ns)) h" "job_done ns TemporalHelmJobName h"
        "observed KDeployment as_deployment (temporal_ns rest) ''temporal-frontend'' deployment_ready h" for h
      using that assms c by (simp add: temporal_up_def)
    show ?thesis
      unfolding reconcileManagedTemporal_def c sum.case prod.case temporal_ns_def [symmetric]
      apply (rule valid_orReturn [OF put_rest], simp add: backend_keys_def)
      apply (rule valid_orReturn [OF put_rest], simp add: backend_keys_def)
      apply (rule valid_isReady [OF job_spec])
       apply simp
       apply (rule valid_final [OF temporal_frontend_spec])
       apply (rule up; (simp add: job_done_def)?; (blast intro: grows))
      by (simp add: valid_def)
  qed
qed (intro keeps_intros keeps_backends)

lemma dial_spec:
  "spec_of (about K) (ValidateExternalTemporal ep) (\<lambda>r tr. r = None \<longrightarrow> temporal_dialled ep tr)"
proof -
  have "runs (ValidateExternalTemporal ep) None tr \<Longrightarrow> temporal_dialled ep tr" for tr
    by (auto simp: ValidateExternalTemporal_def temporal_dialled_def split: if_splits sum.splits option.splits)
  then show ?thesis
    unfolding spec_of_def
    using onlyDoes_weaken [OF ValidateExternalTemporal_probes] about_probe by (auto intro!: keeps_intros keeps_backends)
qed

lemma temporal_spec:
  "spec_of (about (backend_keys rest ns)) (reconcileTemporal d rest ns) (\<lambda>r tr. r = Inr True \<longrightarrow> temporal_up d rest ns tr)"
proof (cases "temporal_mode (rest_temporal rest) = ExternalMode")
  case False
  then show ?thesis
    unfolding reconcileTemporal_def Let_def mode_external
    using managed_temporal_spec [OF False, of ns d] by (auto simp: spec_of_def keeps_imp)
next
  case True
  show ?thesis
  proof (rule spec_ofI)
    show "valid (\<lambda>_. about (backend_keys rest ns)) [] (reconcileTemporal d rest ns)
       (\<lambda>r tr. r = Inr True \<longrightarrow> temporal_up d rest ns tr)"
      unfolding reconcileTemporal_def Let_def
      using True
      apply (simp add: str_or_def reconcileExternalTemporal_def)
      apply (intro conjI impI)
       apply (simp add: valid_def)
      apply (rule valid_orReturn [OF dial_spec [where K = "{}"]], simp)
      by (simp add: valid_def temporal_up_def)
  qed (intro keeps_intros keeps_backends)
qed

lemma rest_read_spec: "onlyDoes is_read p \<Longrightarrow> spec_of (about K) p (\<lambda>r tr. r = None \<longrightarrow> True)"
  unfolding spec_of_def by (auto intro: onlyDoes_weaken about_read)

lemma keycloak_operator_reads: "onlyDoes is_read ValidateKeycloakOperator"
  unfolding ValidateKeycloakOperator_def ValidateOperatorInstalled_def get_object_def
  by (intro onlyDoes_intros onlyDoes_Get) simp_all

lemma managed_keycloak_spec:
  assumes "managed_keycloak rest"
  shows "spec_of (about (backend_keys rest ns)) (reconcileManagedKeycloak qstr d rest ns)
     (\<lambda>r tr. r = Inr True \<longrightarrow> keycloak_up qstr d rest ns tr)"
proof (rule spec_ofI)
  show "valid (\<lambda>_. about (backend_keys rest ns)) [] (reconcileManagedKeycloak qstr d rest ns)
     (\<lambda>r tr. r = Inr True \<longrightarrow> keycloak_up qstr d rest ns tr)"
    unfolding reconcileManagedKeycloak_def
    apply (rule valid_orReturn [OF rest_read_spec [OF keycloak_operator_reads, of "{}"]], simp)
    apply (rule valid_orReturn [OF put_rest_u], simp add: backend_keys_def)
    apply (rule valid_orReturn [OF put_rest_u], simp add: backend_keys_def)
    apply (rule valid_final [OF keycloak_check.check_spec], simp)
    using assms unfolding keycloak_up_def keycloak_seen_def managed_keycloak_def by (auto intro: grows)
qed (intro keeps_intros keeps_backends)

lemma providers_Cons:
  "providers_ok ns (p # ps) tr \<longleftrightarrow>
     (\<forall>ref. ap_client_secret_ref p = Some ref \<longrightarrow> secret_read ns (sr_name ref) tr) \<and> providers_ok ns ps tr"
  by (simp add: providers_ok_def)

lemma providers_spec:
  "spec_of (about K) (checkProviderSecrets ns ps) (\<lambda>r tr. r = Inr True \<longrightarrow> providers_ok ns ps tr)"
proof (rule spec_ofI)
  show "valid (\<lambda>_. about K) [] (checkProviderSecrets ns ps) (\<lambda>r tr. r = Inr True \<longrightarrow> providers_ok ns ps tr)"
  proof -
    have "valid (\<lambda>_. about K) h (checkProviderSecrets ns ps) (\<lambda>r tr. r = Inr True \<longrightarrow> providers_ok ns ps tr)" for h
    proof (induction ps arbitrary: h)
      case Nil
      then show ?case by (simp add: valid_def providers_ok_def)
    next
      case (Cons p ps)
      show ?case
        unfolding checkProviderSecrets.simps
      proof (rule valid_option)
        assume "ap_client_secret_ref p = None"
        with Cons [of h] show "valid (\<lambda>_. about K) h (checkProviderSecrets ns ps)
            (\<lambda>r tr. r = Inr True \<longrightarrow> providers_ok ns (p # ps) tr)" by (simp add: providers_ok_def)
      next
        fix ref
        assume ref: "ap_client_secret_ref p = Some ref"
        show "valid (\<lambda>_. about K) h (tryThen (IsSecretAvailable ns (sr_name ref)) (\<lambda>e. Ret (Inl e)) (\<lambda>available.
            if \<not> available then Ret (Inl (Errorf (''auth provider '' @ ap_name p @ '' client secret '' @ sr_name ref @ '' not found'')))
            else checkProviderSecrets ns ps)) (\<lambda>r tr. r = Inr True \<longrightarrow> providers_ok ns (p # ps) tr)"
          apply (rule valid_isReady [OF secret_spec])
           apply simp
           apply (rule valid_weaken [OF Cons])
           apply (simp add: providers_Cons ref secret_read_def, blast intro: grow_observed)
          by (simp add: valid_def)
      qed
    qed
    then show ?thesis .
  qed
qed (intro keeps_intros keeps_rest_evidence)

lemma keycloak_spec:
  "spec_of (about (backend_keys rest ns)) (reconcileKeycloak qstr d rest ns)
     (\<lambda>r tr. r = Inr True \<longrightarrow> keycloak_up qstr d rest ns tr)"
proof -
  let ?m = "kc_mode (rest_keycloak rest)"
  consider (managed) "managed_keycloak rest" | (ext) "?m = AuthModeExternal" | (off) "?m = AuthModeDisabled"
    | (bad) "?m \<notin> {AuthModeManaged, AuthModeExternal, AuthModeDisabled, []}" by (auto simp: managed_keycloak_def)
  then show ?thesis
  proof cases
    case managed
    then have "reconcileKeycloak qstr d rest ns = reconcileManagedKeycloak qstr d rest ns"
      by (auto simp: reconcileKeycloak_def managed_keycloak_def Let_def)
    with managed_keycloak_spec [OF managed] show ?thesis by simp
  next
    case ext
    have up: "providers_ok ns (kc_auth_providers (rest_keycloak rest)) tr \<Longrightarrow> kc_auth_providers (rest_keycloak rest) \<noteq> [] \<Longrightarrow>
        keycloak_up qstr d rest ns tr" for tr
      using ext by (auto simp: keycloak_up_def managed_keycloak_def)
    from ext have "reconcileKeycloak qstr d rest ns = reconcileExternalKeycloak rest ns"
      by (auto simp: reconcileKeycloak_def Let_def)
    with providers_spec [of "backend_keys rest ns" ns "kc_auth_providers (rest_keycloak rest)"] up show ?thesis
      by (auto simp: reconcileExternalKeycloak_def spec_of_def keeps_imp)
  next
    case off
    then show ?thesis by (auto simp: reconcileKeycloak_def keycloak_up_def managed_keycloak_def spec_of_def keeps_imp)
  next
    case bad
    then show ?thesis by (auto simp: reconcileKeycloak_def spec_of_def keeps_imp Let_def)
  qed
qed

lemma setup_spec:
  "spec_of (about (setup_keys ns)) (reconcileTemporalSetup d rest ns) (\<lambda>r tr. r = Inr True \<longrightarrow> setup_done d rest ns tr)"
proof (rule spec_ofI)
  have name: "meta_name (job_meta (BuildTemporalSetupJob d ns x)) = TemporalSetupJobName" for x
    by (simp add: BuildTemporalSetupJob_def mk_job_def)
  show "valid (\<lambda>_. about (setup_keys ns)) [] (reconcileTemporalSetup d rest ns) (\<lambda>r tr. r = Inr True \<longrightarrow> setup_done d rest ns tr)"
    unfolding reconcileTemporalSetup_def Let_def name setup_done_def job_done_def temporal_ns_def
    apply (rule valid_orReturn [OF put_rest], simp add: setup_keys_def)
    by (rule valid_final [OF job_spec], blast intro: grows)
qed (intro keeps_intros keeps_rest_evidence)

lemma rest_api_spec:
  "spec_of (about (rest_api_keys ns)) (reconcileRestAPI d rest ns) (\<lambda>r tr. r = Inr True \<longrightarrow> rest_api_evidence d rest ns tr)"
proof (rule spec_ofI)
  show "valid (\<lambda>_. about (rest_api_keys ns)) [] (reconcileRestAPI d rest ns)
     (\<lambda>r tr. r = Inr True \<longrightarrow> rest_api_evidence d rest ns tr)"
    unfolding reconcileRestAPI_def rest_api_evidence_def rest_api_seen_def RestAPIName_def [symmetric]
    apply (rule valid_orReturn [OF put_rest], simp add: rest_api_keys_def)+
    by (rule valid_final [OF deployment_spec], blast intro: grows)
qed (intro keeps_intros keeps_rest_evidence)

lemma worker_spec:
  assumes "name \<in> {CloudWorkerName, SiteWorkerName}"
  shows "spec_of (about (worker_keys ns)) (reconcileWorker d ns name) (\<lambda>r tr. r = Inr True \<longrightarrow> worker_evidence d ns name tr)"
proof (rule spec_ofI)
  show "valid (\<lambda>_. about (worker_keys ns)) [] (reconcileWorker d ns name) (\<lambda>r tr. r = Inr True \<longrightarrow> worker_evidence d ns name tr)"
    unfolding reconcileWorker_def Let_def worker_evidence_def worker_name(2) [OF assms]
    apply (rule valid_orReturn [OF put_rest])
    using assms apply (auto simp: worker_keys_def) []
    by (rule valid_final [OF deployment_spec], blast intro: grows)
qed (intro keeps_intros keeps_rest_evidence)

lemma site_manager_spec:
  "spec_of (about (edge_keys ns)) (reconcileSiteManager d rest ns) (\<lambda>r tr. r = Inr True \<longrightarrow> site_manager_evidence d rest ns tr)"
proof (rule spec_ofI)
  show "valid (\<lambda>_. about (edge_keys ns)) [] (reconcileSiteManager d rest ns)
     (\<lambda>r tr. r = Inr True \<longrightarrow> site_manager_evidence d rest ns tr)"
    unfolding reconcileSiteManager_def site_manager_evidence_def
    apply (rule valid_if, rule valid_Ret, simp)
    apply (rule valid_orReturn [OF put_rest], simp add: edge_keys_def)+
    by (rule valid_final [OF deployment_spec], blast intro: grows)
qed (intro keeps_intros keeps_rest_evidence)

lemma site_agent_spec:
  "spec_of (about (edge_keys ns)) (reconcileSiteAgent d rest ns) (\<lambda>r tr. r = Inr True \<longrightarrow> site_agent_evidence d rest ns tr)"
proof (rule spec_ofI)
  show "valid (\<lambda>_. about (edge_keys ns)) [] (reconcileSiteAgent d rest ns)
     (\<lambda>r tr. r = Inr True \<longrightarrow> site_agent_evidence d rest ns tr)"
    unfolding reconcileSiteAgent_def site_agent_evidence_def SiteAgentName_def [symmetric]
    apply (rule valid_if, rule valid_Ret, simp)
    apply (rule valid_orReturn [OF put_rest], simp add: edge_keys_def)+
    by (rule valid_final [OF deployment_spec], blast intro: grows)
qed (intro keeps_intros keeps_rest_evidence)

lemma forge_spec:
  "spec_of (about K) (getForgePassword d) (\<lambda>r tr. \<forall>pw. r = Inr pw \<longrightarrow> forge_read d pw tr)"
proof (rule spec_ofI)
  show "valid (\<lambda>_. about K) [] (getForgePassword d) (\<lambda>r tr. \<forall>pw. r = Inr pw \<longrightarrow> forge_read d pw tr)"
    unfolding getForgePassword_def mode_external Let_def
    apply (rule valid_option, simp add: valid_def)
    apply (rule valid_if)
     apply (rule valid_option, simp add: valid_def)
     apply (rule valid_option, simp add: valid_def)
     apply (rule valid_try [OF get_secret_spec], assumption, simp add: valid_def)
     apply (auto intro!: valid_Ret simp: forge_read_def forge_source_def) []
    apply (rule valid_try [OF get_secret_spec], assumption, simp add: valid_def)
    by (auto intro!: valid_Ret simp: forge_read_def forge_source_def GetPostgreSQLConnectionSecret_def PostgreSQLClusterName_def)
qed (intro keeps_intros keeps_backends)

section \<open>The tier keeps its promise\<close>

abbreviation rest_guarantee ::
    "(quantity \<Rightarrow> string) \<Rightarrow> carbide_deployment \<Rightarrow> rest_config \<Rightarrow> string \<Rightarrow> event list \<Rightarrow> event \<Rightarrow> bool" where
  "rest_guarantee qstr d rest ns \<equiv> \<lambda>h. about (rest_allowed qstr d rest ns h)"

lemma grow_rest:
  "set h \<subseteq> set h' \<Longrightarrow> forge_read d pw h \<Longrightarrow> forge_read d pw h'"
  "set h \<subseteq> set h' \<Longrightarrow> temporal_up d rest ns h \<Longrightarrow> temporal_up d rest ns h'"
  "set h \<subseteq> set h' \<Longrightarrow> keycloak_up qstr d rest ns h \<Longrightarrow> keycloak_up qstr d rest ns h'"
  "set h \<subseteq> set h' \<Longrightarrow> setup_done d rest ns h \<Longrightarrow> setup_done d rest ns h'"
  "set h \<subseteq> set h' \<Longrightarrow> rest_api_seen ns h \<Longrightarrow> rest_api_seen ns h'"
  by (rule keepsD [rotated], assumption+, simp)+

lemma rest_allowed_mono:
  assumes "set h \<subseteq> set h'"
  shows "rest_allowed qstr d rest ns h \<subseteq> rest_allowed qstr d rest ns h'"
proof -
  have guarded: "(b \<Longrightarrow> b') \<Longrightarrow> (if b then K else {}) \<subseteq> (if b' then K else {})" for b b' and K :: "object_key set"
    by simp
  show ?thesis
    unfolding rest_allowed_def
    by (intro Un_mono guarded order_refl; use grow_rest [OF assms] in blast)
qed

lemma rest_may_write:
  assumes "K \<subseteq> rest_allowed qstr d rest ns h" and "set h \<subseteq> set h'" and "about K e"
  shows "rest_guarantee qstr d rest ns h' e"
  using about_mono [OF subset_trans [OF assms(1) rest_allowed_mono [OF assms(2)]] assms(3)] .

lemma rest_may:
  "account_keys ns \<subseteq> rest_allowed qstr d rest ns h"
  "forge_read d pw h \<Longrightarrow> backend_keys rest ns \<subseteq> rest_allowed qstr d rest ns h"
  "temporal_up d rest ns h \<Longrightarrow> setup_keys ns \<subseteq> rest_allowed qstr d rest ns h"
  "temporal_up d rest ns h \<Longrightarrow> setup_done d rest ns h \<Longrightarrow> worker_keys ns \<subseteq> rest_allowed qstr d rest ns h"
  "temporal_up d rest ns h \<Longrightarrow> setup_done d rest ns h \<Longrightarrow> keycloak_up qstr d rest ns h \<Longrightarrow>
     rest_api_keys ns \<subseteq> rest_allowed qstr d rest ns h"
  "rest_api_seen ns h \<Longrightarrow> edge_keys ns \<subseteq> rest_allowed qstr d rest ns h"
  by (auto simp: rest_allowed_def)

lemma so_far_vacuous: "\<not> ok \<Longrightarrow> \<not> tier_ready st \<Longrightarrow> keeps P \<Longrightarrow> so_far ok names P st h"
  by (simp add: so_far_def)

lemma so_far_keeps: "so_far ok names P st h \<Longrightarrow> keeps P"
  by (simp add: so_far_def)

lemma valid_workerStage:
  assumes so: "so_far ok names P st h"
    and sp: "spec_of A p (\<lambda>r tr. r = Inr True \<longrightarrow> E tr)" and "\<And>h' e. set h \<subseteq> set h' \<Longrightarrow> A e \<Longrightarrow> G h' e"
    and k: "\<And>b st' h'. set h \<subseteq> set h' \<Longrightarrow> so_far (ok \<and> b) (names @ [name]) (\<lambda>h. P h \<and> E h) st' h' \<Longrightarrow>
           valid G h' (k b st') (tier_post N F)"
  shows "valid G h (workerStage name what p st k) (tier_post N F)"
  unfolding workerStage_def
proof (rule valid_check [OF sp assms(3)])
  fix b h'
  assume h': "set h \<subseteq> set h'" "b \<longrightarrow> E h'"
  have "so_far (ok \<and> b) (names @ [name]) (\<lambda>h. P h \<and> E h) (addComponent name (Inr b) t st) h'" for t
    using h' so spec_of_keeps [OF sp] by (auto simp: so_far_def stage_ready_def intro: keepsD keeps_conj)
  then show "valid G h' (Now (\<lambda>t. k b (addComponent name (Inr b) t st))) (tier_post N F)"
    using h'(1) by (intro valid_Now k)
qed (use so in \<open>auto intro!: valid_stopWith\<close>)

definition edge_names :: "carbide_deployment \<Rightarrow> rest_config \<Rightarrow> string list" where
  "edge_names d rest = (if has_site_manager d then [''SiteManager''] else []) @ (if has_site_agent rest then [''SiteAgent''] else [])"

lemma rest_final_valid:
  assumes api: "a \<longrightarrow> rest_api_seen ns h" and so: "so_far (t \<and> k \<and> s \<and> a \<and> cw \<and> sw) names P st h"
  shows "valid (rest_guarantee qstr d rest ns) h (rest_final d rest ns t k s a cw sw st)
    (tier_post (names @ edge_names d rest)
      (\<lambda>tr. P tr \<and> site_manager_evidence d rest ns tr \<and> site_agent_evidence d rest ns tr))"
  unfolding rest_final_def
proof (rule valid_next [OF so site_manager_spec], goal_cases)
  case (1 h' e)
  then show ?case using api by (intro rest_may_write [OF rest_may(6)]) auto
next
  case (2 sm st1 h1)
  show ?case
  proof (rule valid_next [OF 2(4) site_agent_spec], goal_cases)
    case (1 h' e)
    then show ?case using api grow_rest(5) [OF 2(1)] by (intro rest_may_write [OF rest_may(6)]) auto
  next
    case (2 ag st2 h2)
    show ?case
      by (rule valid_done [OF 2(4)]) (auto simp: edge_names_def site_manager_evidence_def site_agent_evidence_def)
  qed
qed

abbreviation late_evidence :: "carbide_deployment \<Rightarrow> rest_config \<Rightarrow> string \<Rightarrow> event list \<Rightarrow> bool" where
  "late_evidence d rest ns tr \<equiv> worker_evidence d ns CloudWorkerName tr \<and> worker_evidence d ns SiteWorkerName tr \<and>
     site_manager_evidence d rest ns tr \<and> site_agent_evidence d rest ns tr"

abbreviation late_names :: "carbide_deployment \<Rightarrow> rest_config \<Rightarrow> string list" where
  "late_names d rest \<equiv> [''CloudWorker'', ''SiteWorker''] @ edge_names d rest"

lemma rest_workers_valid:
  assumes api: "a \<longrightarrow> rest_api_seen ns h" and up: "t \<longrightarrow> temporal_up d rest ns h" "s \<longrightarrow> setup_done d rest ns h"
    and so: "so_far (t \<and> k \<and> s \<and> a) names P st h"
  shows "valid (rest_guarantee qstr d rest ns) h (rest_workers d rest ns t k s a st)
    (tier_post (names @ late_names d rest)
      (\<lambda>tr. P tr \<and> late_evidence d rest ns tr))"
  unfolding rest_workers_def
proof (rule valid_if)
  assume ts: "t \<and> s"
  have w: "rest_guarantee qstr d rest ns h' e" if "set h \<subseteq> set h'" "about (worker_keys ns) e" for h' e
    using ts up that by (intro rest_may_write [OF rest_may(4)]) auto
  show "valid (rest_guarantee qstr d rest ns) h
      (workerStage ''CloudWorker'' m1 (reconcileWorker d ns CloudWorkerName) st (\<lambda>cw st1.
       workerStage ''SiteWorker'' m2 (reconcileWorker d ns SiteWorkerName) st1 (\<lambda>sw st2.
       rest_final d rest ns t k s a cw sw st2)))
      (tier_post (names @ late_names d rest)
        (\<lambda>tr. P tr \<and> late_evidence d rest ns tr))" for m1 m2
  proof (rule valid_workerStage [OF so worker_spec], simp, erule w, assumption)
    fix cw st1 h1
    assume 1: "set h \<subseteq> set h1"
      and so1: "so_far ((t \<and> k \<and> s \<and> a) \<and> cw) (names @ [''CloudWorker'']) (\<lambda>h. P h \<and> worker_evidence d ns CloudWorkerName h) st1 h1"
    show "valid (rest_guarantee qstr d rest ns) h1
      (workerStage ''SiteWorker'' m2 (reconcileWorker d ns SiteWorkerName) st1 (\<lambda>sw st2. rest_final d rest ns t k s a cw sw st2))
      (tier_post (names @ late_names d rest)
        (\<lambda>tr. P tr \<and> late_evidence d rest ns tr))"
    proof (rule valid_workerStage [OF so1 worker_spec], simp)
      fix sw st2 h2
      assume 2: "set h1 \<subseteq> set h2"
        and so2: "so_far (((t \<and> k \<and> s \<and> a) \<and> cw) \<and> sw) ((names @ [''CloudWorker'']) @ [''SiteWorker''])
          (\<lambda>h. (P h \<and> worker_evidence d ns CloudWorkerName h) \<and> worker_evidence d ns SiteWorkerName h) st2 h2"
      from api 1 2 have "a \<longrightarrow> rest_api_seen ns h2" using grow_rest(5) by blast
      from rest_final_valid [OF this, of t k s cw sw] so2
      show "valid (rest_guarantee qstr d rest ns) h2 (rest_final d rest ns t k s a cw sw st2)
        (tier_post (names @ late_names d rest)
          (\<lambda>tr. P tr \<and> late_evidence d rest ns tr))"
        by fastforce
    qed (use w 1 in blast)
  qed
next
  assume ts: "\<not> (t \<and> s)"
  have "so_far (t \<and> k \<and> s \<and> a \<and> True \<and> True) (names @ [''CloudWorker'', ''SiteWorker''])
      (\<lambda>h. P h \<and> worker_evidence d ns CloudWorkerName h \<and> worker_evidence d ns SiteWorkerName h) st h"
    using ts so so_far_keeps [OF so] by (intro so_far_vacuous keeps_intros keeps_rest_evidence) auto
  from rest_final_valid [OF api this]
  show "valid (rest_guarantee qstr d rest ns) h (rest_final d rest ns t k s a True True st)
      (tier_post (names @ late_names d rest)
        (\<lambda>tr. P tr \<and> late_evidence d rest ns tr))"
    by simp
qed

lemma rest_api_valid:
  assumes up: "t \<longrightarrow> temporal_up d rest ns h" "k \<longrightarrow> keycloak_up qstr d rest ns h" "s \<longrightarrow> setup_done d rest ns h"
    and so: "so_far (t \<and> k \<and> s) names P st h"
  shows "valid (rest_guarantee qstr d rest ns) h (rest_api d rest ns t k s st)
    (tier_post (names @ [''RestAPI''] @ late_names d rest)
      (\<lambda>tr. P tr \<and> rest_api_evidence d rest ns tr \<and> late_evidence d rest ns tr))"
  unfolding rest_api_def
proof (rule valid_if)
  assume tks: "t \<and> k \<and> s"
  show "valid (rest_guarantee qstr d rest ns) h
      (stage ''RestAPI'' m (reconcileRestAPI d rest ns) st (\<lambda>a. rest_workers d rest ns t k s a))
      (tier_post (names @ [''RestAPI''] @ late_names d rest)
        (\<lambda>tr. P tr \<and> rest_api_evidence d rest ns tr \<and> late_evidence d rest ns tr))" for m
  proof (rule valid_next_stage [OF so rest_api_spec], goal_cases)
    case (1 h' e)
    then show ?case using tks up by (intro rest_may_write [OF rest_may(5)]) auto
  next
    case (2 a st' h')
    have facts: "a \<longrightarrow> rest_api_seen ns h'" "t \<longrightarrow> temporal_up d rest ns h'" "s \<longrightarrow> setup_done d rest ns h'"
      using 2(2) up grow_rest(2,4) [OF 2(1)] by (auto simp: rest_api_evidence_def)
    from 2(3) have "so_far (t \<and> k \<and> s \<and> a) (names @ [''RestAPI'']) (\<lambda>h. P h \<and> rest_api_evidence d rest ns h) st' h'" by simp
    from rest_workers_valid [OF facts this] show ?case by simp
  qed
next
  assume tks: "\<not> (t \<and> k \<and> s)"
  have "so_far (t \<and> k \<and> s \<and> False) (names @ [''RestAPI'']) (\<lambda>h. P h \<and> rest_api_evidence d rest ns h) st h"
    using so so_far_keeps [OF so] by (intro so_far_vacuous keeps_intros keeps_rest_evidence) auto
  from rest_workers_valid [OF _ up(1,3) this]
  show "valid (rest_guarantee qstr d rest ns) h (rest_workers d rest ns t k s False st)
      (tier_post (names @ [''RestAPI''] @ late_names d rest)
        (\<lambda>tr. P tr \<and> rest_api_evidence d rest ns tr \<and> late_evidence d rest ns tr))" by simp
qed

lemma rest_setup_valid:
  assumes up: "t \<longrightarrow> temporal_up d rest ns h" "k \<longrightarrow> keycloak_up qstr d rest ns h" and so: "so_far (t \<and> k) names P st h"
  shows "valid (rest_guarantee qstr d rest ns) h
    (if t then tryThen (reconcileTemporalSetup d rest ns) (stopWith st m) (\<lambda>s. rest_api d rest ns t k s st)
     else rest_api d rest ns t k False st)
    (tier_post (names @ [''RestAPI''] @ late_names d rest)
      (\<lambda>tr. (P tr \<and> setup_done d rest ns tr) \<and> rest_api_evidence d rest ns tr \<and> late_evidence d rest ns tr))"
    (is "valid ?G h _ ?Q")
proof (rule valid_if)
  assume t1: t
  show "valid ?G h (tryThen (reconcileTemporalSetup d rest ns) (stopWith st m) (\<lambda>s. rest_api d rest ns t k s st)) ?Q"
  proof (rule valid_check [OF setup_spec], goal_cases)
    case (1 h' e)
    then show ?case using t1 up by (intro rest_may_write [OF rest_may(3)]) auto
  next
    case (2 e h')
    then show ?case using so by (auto intro: valid_stopWith)
  next
    case (3 s h')
    have "so_far ((t \<and> k) \<and> s) names (\<lambda>h. P h \<and> setup_done d rest ns h) st h'"
      using 3 so by (intro so_far_add keeps_rest_evidence) auto
    then show ?case using up grow_rest [OF 3(1)] 3(2) by (intro rest_api_valid) auto
  qed
next
  assume "\<not> t"
  then have "so_far (t \<and> k \<and> False) names (\<lambda>h. P h \<and> setup_done d rest ns h) st h"
    using so so_far_keeps [OF so] by (intro so_far_vacuous keeps_intros keeps_rest_evidence) auto
  then show "valid ?G h (rest_api d rest ns t k False st) ?Q" using up by (intro rest_api_valid) auto
qed

lemma rest_stages_valid:
  assumes pw: "forge_read d pw h" and so: "so_far True [] P st h"
  shows "valid (rest_guarantee qstr d rest ns) h (rest_stages qstr d rest ns st)
    (tier_post ([''Temporal'', ''Keycloak'', ''RestAPI''] @ late_names d rest)
      (\<lambda>tr. P tr \<and> temporal_up d rest ns tr \<and> keycloak_up qstr d rest ns tr \<and> setup_done d rest ns tr \<and>
        rest_api_evidence d rest ns tr \<and> late_evidence d rest ns tr))"
  unfolding rest_stages_def
proof (rule valid_next_stage [OF so temporal_spec], goal_cases)
  case (1 h' e)
  then show ?case using pw by (intro rest_may_write [OF rest_may(2)]) auto
next
  case (2 t st1 h1)
  note t = 2
  show ?case
  proof (rule valid_next_stage [OF t(3) keycloak_spec], goal_cases)
    case (1 h' e)
    then show ?case using grow_rest(1) [OF t(1) pw] by (intro rest_may_write [OF rest_may(2)]) auto
  next
    case (2 k st2 h2)
    have up: "t \<longrightarrow> temporal_up d rest ns h2" "k \<longrightarrow> keycloak_up qstr d rest ns h2"
      using t(2) 2(2) grow_rest(2) [OF 2(1)] by auto
    have "so_far (t \<and> k) [''Temporal'', ''Keycloak''] (\<lambda>h. (P h \<and> temporal_up d rest ns h) \<and> keycloak_up qstr d rest ns h) st2 h2"
      using 2(3) by simp
    from rest_setup_valid [OF up this] show ?case by simp
  qed
qed

lemma rest_early: "about K e \<Longrightarrow> K \<subseteq> account_keys ns \<Longrightarrow> rest_guarantee qstr d rest ns h e"
  by (rule rest_may_write [OF rest_may(1) subset_refl about_mono])

lemma sid_keys [simp]:
  "obj_key (UnstructuredObj (temporalSID d rest)) = (sid_kind, [], ''temporal'')"
  "obj_key (UnstructuredObj (siteManagerSID d ns)) = (sid_kind, [], SiteManagerName)"
  by (simp_all add: temporalSID_def siteManagerSID_def sid_kind_def Let_def)

lemma put_workers_spec:
  "spec_of (about ((\<lambda>n. (sid_kind, [], n)) ` set xs))
     (forEach xs (\<lambda>n. rest_createOrUpdateUnstructured (BuildClusterSPIFFEID d n ns n [])))
     (\<lambda>r tr. r = None \<longrightarrow> (\<forall>n\<in>set xs. written (UnstructuredObj (BuildClusterSPIFFEID d n ns n [])) tr))"
  using rest_write_u.put_each_spec [of "\<lambda>n. BuildClusterSPIFFEID d n ns n []" xs] by (simp add: sid_kind_def)

lemma put_accounts_spec:
  "spec_of (about ((\<lambda>n. (KServiceAccount, ns, n)) ` set xs))
     (forEach xs (\<lambda>n. rest_createOrUpdate (ServiceAccountObj (BuildWorkerServiceAccount n ns d))))
     (\<lambda>r tr. r = None \<longrightarrow> (\<forall>n\<in>set xs. written (ServiceAccountObj (BuildWorkerServiceAccount n ns d)) tr))"
  using rest_write.put_each_spec [of "\<lambda>n. ServiceAccountObj (BuildWorkerServiceAccount n ns d)" xs] by simp

lemma rest_tls_valid:
  assumes k: "\<And>h'. set h \<subseteq> set h' \<Longrightarrow> rest_tls_evidence d rest ns h' \<Longrightarrow>
    valid (rest_guarantee qstr d rest ns) h' k (tier_post names F)"
  shows "valid (rest_guarantee qstr d rest ns) h (rest_tls d rest ns k) (tier_post names F)"
  unfolding rest_tls_def
proof (intro valid_if)
  assume spiffe: "IsSpiffeMode d"
  show "valid (rest_guarantee qstr d rest ns) h
    (checkThen (rest_createOrUpdate (ConfigMapObj (BuildSpiffeHelperConfigMap d ns))) (failWith m1)
      (checkThen (rest_createOrUpdateUnstructured (BuildClusterSPIFFEID d RestAPIName ns RestAPIName [])) (failWith m2)
        (eachOrFail [CloudWorkerName, SiteWorkerName]
          (\<lambda>name. rest_createOrUpdateUnstructured (BuildClusterSPIFFEID d name ns name [])) m3
          (checkThen (rest_createOrUpdateUnstructured (temporalSID d rest)) (failWith m4)
            (checkThen (rest_createOrUpdateUnstructured (siteManagerSID d ns)) (failWith m5) k)))))
    (tier_post names F)" for m1 m2 m3 m4 m5
    apply (rule valid_put [OF put_rest], erule rest_early, simp add: account_keys_def, rule valid_failWith)
    apply (rule valid_put [OF put_rest_u], erule rest_early, simp add: account_keys_def sid_kind_def, rule valid_failWith)
    apply (rule valid_eachOrFail [OF put_workers_spec], erule rest_early, simp add: account_keys_def)
    apply (rule valid_put [OF put_rest_u], erule rest_early, simp add: account_keys_def, rule valid_failWith)
    apply (rule valid_put [OF put_rest_u], erule rest_early, simp add: account_keys_def, rule valid_failWith)
    apply (rule k, blast)
    using spiffe modes_exclusive [OF spiffe] unfolding rest_tls_evidence_def
    by (simp, blast intro: grow_written)
next
  assume "\<not> IsSpiffeMode d" "IsCertManagerMode d"
  then show "valid (rest_guarantee qstr d rest ns) h
    (certificatesOrFail rest_createOrUpdateUnstructured (rest_certificate d ns)
      [RestAPIName, CloudWorkerName, SiteWorkerName, SiteManagerName] k) (tier_post names F)"
    apply (intro valid_certificatesOrFail [OF put_rest_u])
     apply (erule rest_early)
     apply (auto simp: rest_certificate_def account_keys_def cert_kind_def dest!: certificate_key) []
    by (rule k) (auto simp: rest_tls_evidence_def)
next
  assume "\<not> IsSpiffeMode d" "\<not> IsCertManagerMode d"
  then show "valid (rest_guarantee qstr d rest ns) h k (tier_post names F)"
    by (intro k) (auto simp: rest_tls_evidence_def)
qed

lemma rest_valid:
  assumes on: "spec_rest (cd_spec d) = Some rest" "rest_enabled rest"
  shows "valid (rest_guarantee qstr d rest (rest_ns d)) [] (rest_Reconcile qstr d)
    (tier_post (rest_components d) (rest_evidence qstr d))"
proof -
  let ?ns = "rest_ns d"
  have names: "rest_components d = [''Temporal'', ''Keycloak'', ''RestAPI''] @ late_names d rest"
    using on by (simp add: rest_components_def edge_names_def)
  have main: "valid (rest_guarantee qstr d rest ?ns) h (rest_stages qstr d rest ?ns (initStatus t))
      (tier_post (rest_components d) (rest_evidence qstr d))"
    if h: "rest_accounts d ?ns h" "rest_tls_evidence d rest ?ns h" "forge_read d pw h"
      "written (SecretObj (BuildRestAPISecret d ?ns pw [])) h" "written (ConfigMapObj (BuildWorkflowConfigMap d ?ns)) h" for h t pw
  proof -
    have so: "so_far True [] (\<lambda>tr. rest_accounts d ?ns tr \<and> rest_tls_evidence d rest ?ns tr \<and>
        (\<exists>pw. forge_read d pw tr \<and> written (SecretObj (BuildRestAPISecret d ?ns pw [])) tr) \<and>
        written (ConfigMapObj (BuildWorkflowConfigMap d ?ns)) tr) (initStatus t) h"
      using h by (intro so_far_init keeps_intros keeps_rest_evidence keeps_backends) auto
    from rest_stages_valid [OF h(3) so] show ?thesis
      unfolding names
      by (rule valid_weaken) (use on in \<open>auto simp: rest_evidence_def Let_def elim!: tier_post_mono\<close>)
  qed
  show ?thesis
    unfolding rest_Reconcile_def on option.case Let_def
    apply (simp only: on if_False not_True_eq_False)
    apply (rule valid_Now)
    apply (rule valid_put [OF put_rest], erule rest_early, simp add: account_keys_def, rule valid_failWith)
    apply (rule valid_eachOrFail [OF put_accounts_spec], erule rest_early, simp add: account_keys_def)
    apply (rule rest_tls_valid)
    apply (rule valid_try [OF forge_spec [where K = "{}"]], erule rest_early, simp, rule valid_waitWith, simp)
    apply (rule valid_put [OF put_rest])
      apply (erule (1) rest_may_write [rotated], rule subset_trans [OF _ rest_may(2)], simp add: backend_keys_def, assumption)
     apply (rule valid_failWith)
    apply (rule valid_put [OF put_rest])
      apply (erule (1) rest_may_write [rotated], rule subset_trans [OF _ rest_may(2)], simp add: backend_keys_def)
      apply (erule (1) grow_rest)
     apply (rule valid_failWith)
    apply (rule main)
        apply (simp add: rest_accounts_def, blast intro: grow_written)
    by (blast intro: grow_written grow_rest(1) keepsD [OF keeps_rest_evidence(9)])+
qed

lemma rest_off:
  "\<not> (\<exists>rest. spec_rest (cd_spec d) = Some rest \<and> rest_enabled rest) \<Longrightarrow>
   rest_Reconcile qstr d = notRequired ''REST tier not enabled''"
  by (auto simp: rest_Reconcile_def split: option.split)

lemma rest_allowed_keys:
  "spec_rest (cd_spec d) = Some rest \<Longrightarrow> rest_allowed qstr d rest (rest_ns d) h \<subseteq> rest_keys d"
  unfolding rest_allowed_def rest_keys_def Let_def by simp blast

lemma rest_no_panic: "tls_complete d \<Longrightarrow> noPanic (rest_Reconcile qstr d)"
  unfolding rest_Reconcile_def rest_tls_def rest_stages_def rest_api_def rest_workers_def rest_final_def
    workerStage_def rest_certificate_def Let_def
  by (intro noPanic_intros) (simp add: certificate_built)

lemma rest_tier_laws:
  assumes "runs (rest_Reconcile qstr d) res tr"
  shows "tier_post (rest_components d) (rest_evidence qstr d) res tr" "list_all (about (rest_keys d)) tr"
proof -
  have "tier_post (rest_components d) (rest_evidence qstr d) res tr \<and> list_all (about (rest_keys d)) tr"
  proof (cases "\<exists>rest. spec_rest (cd_spec d) = Some rest \<and> rest_enabled rest")
    case True
    then obtain rest where on: "spec_rest (cd_spec d) = Some rest" "rest_enabled rest" by blast
    have "tier_post (rest_components d) (rest_evidence qstr d) res tr"
      using validD [OF rest_valid [OF on] assms] by simp
    moreover have "list_all (about (rest_keys d)) tr"
      using valid_guarantee [OF rest_valid [OF on]] assms about_mono [OF rest_allowed_keys [OF on(1)]]
      by (fastforce simp: list_all_iff dest!: split_list)
    ultimately show ?thesis by blast
  next
    case False
    then have "rest_components d = []" "rest_evidence qstr d tr"
      by (auto simp: rest_components_def rest_evidence_def split: option.split)
    with assms show ?thesis by (auto simp: rest_off [OF False] notRequired_def comps_def)
  qed
  then show "tier_post (rest_components d) (rest_evidence qstr d) res tr" "list_all (about (rest_keys d)) tr" by auto
qed

lemmas key_set_defs = account_keys_def backend_keys_def setup_keys_def worker_keys_def rest_api_keys_def edge_keys_def
  sid_kind_def cert_kind_def realm_kind_def KeycloakKind_def

lemma keeps_rest_tier [simp]: "keeps (rest_evidence qstr d)"
  unfolding rest_evidence_def Let_def by (intro keeps_intros keeps_rest_evidence keeps_backends)

lemma rest_keys_status: "rest_keys (d\<lparr>cd_status := s\<rparr>) = rest_keys d"
  by (simp add: rest_keys_def rest_ns_def split: option.split)

interpretation rest_tier: tier_reconciler "rest_Reconcile qstr" rest_components "rest_evidence qstr" rest_keys for qstr
  using rest_tier_laws rest_no_panic
  by unfold_locales (simp_all add: rest_keys_status, auto simp: rest_keys_def key_set_defs Let_def split: option.splits)

lemma rest_keys_disjoint:
  "key \<in> backend_keys rest ns \<Longrightarrow> key \<notin> account_keys ns \<union> setup_keys ns \<union> worker_keys ns \<union> rest_api_keys ns \<union> edge_keys ns"
  "key \<in> setup_keys ns \<Longrightarrow> key \<notin> account_keys ns \<union> worker_keys ns \<union> rest_api_keys ns \<union> edge_keys ns"
  "key \<in> worker_keys ns \<Longrightarrow> key \<notin> account_keys ns \<union> rest_api_keys ns \<union> edge_keys ns"
  "key \<in> rest_api_keys ns \<Longrightarrow> key \<notin> account_keys ns \<union> edge_keys ns"
  "key \<in> edge_keys ns \<Longrightarrow> key \<notin> account_keys ns"
  by (auto simp: key_set_defs RestAPIName_def CloudWorkerName_def SiteWorkerName_def WorkflowCMName_def SiteManagerName_def
      SiteAgentName_def TemporalHelmJobName_def TemporalValuesConfigMap_def TemporalSetupJobName_def KeycloakName_def)

lemma rest_allowed_order:
  assumes "key \<in> rest_allowed qstr d rest ns h"
  shows "(key \<in> backend_keys rest ns \<longrightarrow> (\<exists>pw. forge_read d pw h)) \<and>
    (key \<in> setup_keys ns \<longrightarrow> temporal_up d rest ns h) \<and>
    (key \<in> worker_keys ns \<longrightarrow> temporal_up d rest ns h \<and> setup_done d rest ns h) \<and>
    (key \<in> rest_api_keys ns \<longrightarrow> temporal_up d rest ns h \<and> setup_done d rest ns h \<and> keycloak_up qstr d rest ns h) \<and>
    (key \<in> edge_keys ns \<longrightarrow> rest_api_seen ns h)"
  using assms rest_keys_disjoint [of key] unfolding rest_allowed_def by (auto simp del: ex_simps split: if_splits)

lemma foreign_key: "(KeycloakKind, ns, ''carbide-keycloak'') \<notin> rest_keys d"
  by (simp add: rest_keys_def key_set_defs KeycloakName_def Let_def split: option.split)

section \<open>Properties\<close>

text \<open>
  C23: the REST tier reports ready only on evidence of the same pass: its accounts, TLS resources,
  secret (with the forge password that was read) and workflow configuration were written, Temporal
  was seen up or dialled, authentication is in place, the Temporal namespaces were set up, and the
  REST API, both workers and the enabled edge components were written and seen ready.
\<close>
theorem rest_ready_evidence:
  assumes "runs (rest_Reconcile qstr d) (Tier (Some st) err) tr" and "tier_ready st"
  shows "err = None \<and> comps st = map (\<lambda>n. (n, True)) (rest_components d) \<and> rest_evidence qstr d tr"
  by (rule rest_tier.ready_evidence [OF assms])

text \<open>
  C24: the order of the REST stages.  The tier writes only its own objects: secret, workflow,
  Temporal and Keycloak objects only after the forge password was read; the namespace job only after
  Temporal was seen up; workers only after that job was seen complete; the REST API only after
  authentication is in place as well; site manager and site agent only after the REST API was seen
  ready.
\<close>
theorem rest_stage_order:
  assumes "runs (rest_Reconcile qstr d) res (pre @ e # post)" and "writes_key e = Some key"
  shows "key \<in> rest_keys d \<and> (\<exists>rest. spec_rest (cd_spec d) = Some rest \<and> rest_enabled rest \<and>
    (let ns = rest_ns d in
     (key \<in> backend_keys rest ns \<longrightarrow> (\<exists>pw. forge_read d pw pre)) \<and>
     (key \<in> setup_keys ns \<longrightarrow> temporal_up d rest ns pre) \<and>
     (key \<in> worker_keys ns \<longrightarrow> temporal_up d rest ns pre \<and> setup_done d rest ns pre) \<and>
     (key \<in> rest_api_keys ns \<longrightarrow> temporal_up d rest ns pre \<and> setup_done d rest ns pre \<and> keycloak_up qstr d rest ns pre) \<and>
     (key \<in> edge_keys ns \<longrightarrow> rest_api_seen ns pre)))"
proof (cases "\<exists>rest. spec_rest (cd_spec d) = Some rest \<and> rest_enabled rest")
  case True
  then obtain rest where on: "spec_rest (cd_spec d) = Some rest" "rest_enabled rest" by blast
  have "about (rest_allowed qstr d rest (rest_ns d) pre) e"
    using valid_guarantee [OF rest_valid [OF on] assms(1)] by simp
  with assms(2) have k: "key \<in> rest_allowed qstr d rest (rest_ns d) pre" by (cases e) auto
  with rest_allowed_keys [OF on(1)] have "key \<in> rest_keys d" by blast
  with on rest_allowed_order [OF k] show ?thesis by (simp add: Let_def)
next
  case False
  from assms(1) show ?thesis by (simp add: rest_off [OF False] notRequired_def)
qed

text \<open>
  C35: with a managed Keycloak the tier can only become ready on a Keycloak that it did not create:
  it must have seen a ready instance called carbide-keycloak, and it never writes an instance of that
  name (the one it creates is called keycloak).
\<close>
theorem rest_keycloak_foreign:
  assumes "runs (rest_Reconcile qstr d) (Tier (Some st) err) tr" and "tier_ready st"
    and "spec_rest (cd_spec d) = Some rest" and "rest_enabled rest" and "managed_keycloak rest"
  shows "keycloak_seen (rest_ns d) tr \<and>
    written (UnstructuredObj (BuildKeycloakInstance qstr d rest (rest_ns d))) tr \<and>
    (KeycloakKind, rest_ns d, ''carbide-keycloak'') \<notin> {key. \<exists>e\<in>set tr. writes_key e = Some key}"
proof -
  have "keycloak_up qstr d rest (rest_ns d) tr"
    using rest_tier.ready_evidence [OF assms(1,2)] assms(3,4) by (simp add: rest_evidence_def Let_def)
  moreover have "writes_key e \<noteq> Some (KeycloakKind, rest_ns d, ''carbide-keycloak'')" if "e \<in> set tr" for e
  proof -
    have "about (rest_keys d) e" using rest_tier.writes_own [OF assms(1)] that by (simp add: list_all_iff)
    then show ?thesis using foreign_key by (cases e) auto
  qed
  ultimately show ?thesis using assms(5) by (auto simp: keycloak_up_def)
qed

section \<open>Witnesses\<close>

definition rest_site :: "AuthMode \<Rightarrow> carbide_deployment" where
  "rest_site mode = sample_resource ''hub'' (management_spec\<lparr>spec_rest := Some (zero_rest
     \<lparr>rest_enabled := True, rest_keycloak := zero_keycloak\<lparr>kc_mode := mode\<rparr>\<rparr>)\<rparr>)"

lemma rest_site_up:
  assumes "mode \<in> {AuthModeManaged, AuthModeDisabled}"
  shows "\<exists>st. result_on d (rest_Reconcile qstr (rest_site mode)) = Tier (Some st) None \<and> tier_ready st"
  using assms
  by (auto simp: rest_Reconcile_def rest_site_def sample_defs rest_tls_def rest_stages_def rest_api_def rest_workers_def
      rest_final_def workerStage_def IsSpiffeMode_def IsCertManagerMode_def getForgePassword_def orReturn_def
      reconcileTemporal_def reconcileManagedTemporal_def getPostgreSQLConnection_def reconcileKeycloak_def
      reconcileManagedKeycloak_def reconcileTemporalSetup_def reconcileRestAPI_def reconcileWorker_def
      reconcileSiteManager_def stageIf_def conclude_def has_site_manager_def has_site_agent_def up_secret_def
      data_get_def Let_def)

theorem rest_ready_evidence_witness:
  "rest_evidence (\<lambda>_. []) (rest_site ''disabled'')
     (trace_on (rest_site ''disabled'') (rest_Reconcile (\<lambda>_. []) (rest_site ''disabled'')))"
proof -
  let ?d = "rest_site ''disabled''" and ?q = "\<lambda>_::quantity. []::string"
  obtain st where "result_on ?d (rest_Reconcile ?q ?d) = Tier (Some st) None" "tier_ready st"
    using rest_site_up [of "''disabled''"] by auto
  with rest_ready_evidence [of ?q ?d st None] runs_on [of "rest_Reconcile ?q ?d" ?d] show ?thesis by simp
qed

theorem rest_keycloak_foreign_witness:
  "keycloak_seen ''nvidia-carbide''
     (trace_on (rest_site ''managed'') (rest_Reconcile (\<lambda>_. []) (rest_site ''managed'')))"
proof -
  let ?d = "rest_site ''managed''" and ?q = "\<lambda>_::quantity. []::string"
  obtain st where "result_on ?d (rest_Reconcile ?q ?d) = Tier (Some st) None" "tier_ready st"
    using rest_site_up [of "''managed''"] by auto
  moreover have "\<exists>rest. spec_rest (cd_spec ?d) = Some rest \<and> rest_enabled rest \<and> managed_keycloak rest"
    "rest_ns ?d = ''nvidia-carbide''"
    by (simp_all add: rest_site_def sample_defs managed_keycloak_def rest_ns_def restDefaultNamespace_def)
  ultimately show ?thesis
    using rest_keycloak_foreign [of ?q ?d st None] runs_on [of "rest_Reconcile ?q ?d" ?d] by auto
qed

theorem rest_stage_order_witness:
  "\<exists>pre e post. trace_on (rest_site ''disabled'') (rest_Reconcile (\<lambda>_. []) (rest_site ''disabled'')) = pre @ e # post \<and>
     writes_key e = Some (KDeployment, ''nvidia-carbide'', SiteManagerName) \<and> rest_api_seen ''nvidia-carbide'' pre"
proof -
  let ?d = "rest_site ''disabled''" and ?q = "\<lambda>_::quantity. []::string"
  let ?tr = "trace_on ?d (rest_Reconcile ?q ?d)"
  obtain rest where on: "spec_rest (cd_spec ?d) = Some rest" "rest_enabled rest" "has_site_manager ?d"
    by (simp add: rest_site_def sample_defs has_site_manager_def)
  have ns: "rest_ns ?d = ''nvidia-carbide''" by (simp add: rest_site_def sample_defs rest_ns_def restDefaultNamespace_def)
  obtain st where "result_on ?d (rest_Reconcile ?q ?d) = Tier (Some st) None" "tier_ready st"
    using rest_site_up [of "''disabled''"] by auto
  with rest_tier.ready_evidence [of ?q ?d st None] runs_on [of "rest_Reconcile ?q ?d" ?d]
  have "rest_evidence ?q ?d ?tr" by simp
  with on have "written (DeploymentObj (BuildSiteManagerDeployment rest ?d ''nvidia-carbide'')) ?tr"
    by (simp add: rest_evidence_def Let_def ns site_manager_evidence_def)
  then obtain pre e post where e: "?tr = pre @ e # post"
    "writes_key e = Some (KDeployment, ''nvidia-carbide'', SiteManagerName)"
    using written_event by fastforce
  from rest_stage_order [of ?q ?d _ pre e post, OF _ e(2)] runs_on [of "rest_Reconcile ?q ?d" ?d] e
  have "rest_api_seen ''nvidia-carbide'' pre" by (auto simp: ns edge_keys_def Let_def)
  with e show ?thesis by blast
qed

end
