(* ===== verification/Conditions.thy ===== *)
theory Conditions
  imports Effects Samples
begin

text \<open>
  Status conditions (\<^verbatim>\<open>internal/conditions/helpers.go\<close>).  The two functions of
  \<^verbatim>\<open>k8s.io/apimachinery/pkg/api/meta\<close> that the package calls are the parameter \<open>L\<close>; what it relies
  on is the locale \<open>condition_laws\<close>.  Through the abstraction \<open>cond_view\<close>, a finite map from
  condition types to (status, reason, message, observed generation), every setter of the package
  is a map update.
\<close>

record status_lib =
  SetStatusCondition :: "go_time \<Rightarrow> condition list \<Rightarrow> condition \<Rightarrow> condition list"
  FindStatusCondition :: "condition list \<Rightarrow> string \<Rightarrow> condition option"

section \<open>The setters\<close>

definition conds :: "carbide_deployment \<Rightarrow> condition list" where
  "conds d = status_conditions (cd_status d)"

definition with_conds :: "condition list \<Rightarrow> carbide_deployment \<Rightarrow> carbide_deployment" where
  "with_conds cs d = d\<lparr>cd_status := (cd_status d)\<lparr>status_conditions := cs\<rparr>\<rparr>"

definition with_phase :: "DeploymentPhase \<Rightarrow> carbide_deployment \<Rightarrow> carbide_deployment" where
  "with_phase p d = d\<lparr>cd_status := (cd_status d)\<lparr>status_phase := p\<rparr>\<rparr>"

text \<open>\<^verbatim>\<open>meta.SetStatusCondition\<close> stamps a new or changed condition with the current time.\<close>

definition SetCondition ::
    "status_lib \<Rightarrow> carbide_deployment \<Rightarrow> string \<Rightarrow> string \<Rightarrow> string \<Rightarrow> string \<Rightarrow> carbide_deployment prog" where
  "SetCondition L d conditionType st reason message =
     Now (\<lambda>t. Ret (with_conds (SetStatusCondition L t (conds d)
       \<lparr>cond_type = conditionType, cond_status = st, cond_observed_generation = cd_generation d,
        cond_last_transition = 0, cond_reason = reason, cond_message = message\<rparr>) d))"

definition IsConditionTrue :: "status_lib \<Rightarrow> carbide_deployment \<Rightarrow> string \<Rightarrow> bool" where
  "IsConditionTrue L d conditionType =
     (case FindStatusCondition L (conds d) conditionType of
        None \<Rightarrow> False | Some c \<Rightarrow> cond_status c = ConditionTrue)"

definition GetCondition :: "status_lib \<Rightarrow> carbide_deployment \<Rightarrow> string \<Rightarrow> condition option" where
  "GetCondition L d conditionType = FindStatusCondition L (conds d) conditionType"

text \<open>The body shared by the six setters that report a tier or component status.\<close>

definition tierCondition ::
    "status_lib \<Rightarrow> string \<Rightarrow> string \<Rightarrow> carbide_deployment \<Rightarrow> tier_status option \<Rightarrow> carbide_deployment prog" where
  "tierCondition L ty notConfigured d tierStatus =
     (case tierStatus of
        None \<Rightarrow> SetCondition L d ty ConditionFalse ''NotConfigured'' notConfigured
      | Some ts \<Rightarrow>
          if tier_ready ts then SetCondition L d ty ConditionTrue ''Ready'' (tier_message ts)
          else SetCondition L d ty ConditionFalse ''NotReady'' (tier_message ts))"

definition SetInfrastructureCondition ::
    "status_lib \<Rightarrow> carbide_deployment \<Rightarrow> tier_status option \<Rightarrow> carbide_deployment prog" where
  "SetInfrastructureCondition L = tierCondition L ConditionTypeInfrastructureReady ''Infrastructure tier not configured''"

definition SetCoreCondition ::
    "status_lib \<Rightarrow> carbide_deployment \<Rightarrow> tier_status option \<Rightarrow> carbide_deployment prog" where
  "SetCoreCondition L = tierCondition L ConditionTypeCoreReady ''Core tier not configured''"

definition SetRestCondition ::
    "status_lib \<Rightarrow> carbide_deployment \<Rightarrow> tier_status option \<Rightarrow> carbide_deployment prog" where
  "SetRestCondition L = tierCondition L ConditionTypeRestReady ''REST tier not configured''"

definition SetVaultCondition ::
    "status_lib \<Rightarrow> carbide_deployment \<Rightarrow> tier_status option \<Rightarrow> carbide_deployment prog" where
  "SetVaultCondition L = tierCondition L ConditionTypeVaultReady ''Vault not configured''"

definition SetRLACondition ::
    "status_lib \<Rightarrow> carbide_deployment \<Rightarrow> tier_status option \<Rightarrow> carbide_deployment prog" where
  "SetRLACondition L = tierCondition L ConditionTypeRLAReady ''RLA not configured''"

definition SetPSMCondition ::
    "status_lib \<Rightarrow> carbide_deployment \<Rightarrow> tier_status option \<Rightarrow> carbide_deployment prog" where
  "SetPSMCondition L = tierCondition L ConditionTypePSMReady ''PSM not configured''"

definition SetTLSCondition ::
    "status_lib \<Rightarrow> carbide_deployment \<Rightarrow> bool \<Rightarrow> string \<Rightarrow> carbide_deployment prog" where
  "SetTLSCondition L d available message =
     (if available then SetCondition L d ConditionTypeTLSReady ConditionTrue ''Available'' message
      else SetCondition L d ConditionTypeTLSReady ConditionFalse ''Unavailable'' message)"

definition SetSPIFFEAvailableCondition ::
    "status_lib \<Rightarrow> carbide_deployment \<Rightarrow> bool \<Rightarrow> carbide_deployment prog" where
  "SetSPIFFEAvailableCondition L d available =
     (if available then
        SetCondition L d ConditionTypeSPIFFEAvailable ConditionTrue ''Detected'' ''SPIRE CSI driver detected''
      else SetCondition L d ConditionTypeSPIFFEAvailable ConditionFalse ''NotDetected'' ''SPIRE CSI driver not found'')"

definition SetCertManagerAvailableCondition ::
    "status_lib \<Rightarrow> carbide_deployment \<Rightarrow> bool \<Rightarrow> carbide_deployment prog" where
  "SetCertManagerAvailableCondition L d available =
     (if available then
        SetCondition L d ConditionTypeCertManagerAvailable ConditionTrue ''Detected'' ''cert-manager CRDs detected''
      else
        SetCondition L d ConditionTypeCertManagerAvailable ConditionFalse ''NotDetected'' ''cert-manager CRDs not found'')"

section \<open>The overall condition\<close>

definition infraReady :: "carbide_deployment \<Rightarrow> bool" where
  "infraReady d \<longleftrightarrow> spec_infrastructure (cd_spec d) = None \<or>
     (case status_infrastructure (cd_status d) of None \<Rightarrow> False | Some t \<Rightarrow> tier_ready t)"

definition coreReady :: "carbide_deployment \<Rightarrow> bool" where
  "coreReady d \<longleftrightarrow> (case status_core (cd_status d) of None \<Rightarrow> False | Some t \<Rightarrow> tier_ready t)"

definition restReady :: "carbide_deployment \<Rightarrow> bool" where
  "restReady d \<longleftrightarrow> spec_rest (cd_spec d) = None \<or>
     (case status_rest (cd_status d) of None \<Rightarrow> False | Some t \<Rightarrow> tier_ready t)"

definition SetReadyCondition :: "status_lib \<Rightarrow> carbide_deployment \<Rightarrow> carbide_deployment prog" where
  "SetReadyCondition L d =
     (let tlsReady = IsConditionTrue L d ConditionTypeTLSReady in
      if spec_tls (cd_spec d) \<noteq> None \<and> \<not> tlsReady then
        andThen (SetCondition L d ConditionTypeReady ConditionFalse ''NotReady'' ''TLS backend not available'')
          (\<lambda>d'. Ret (with_phase PhaseFailed d'))
      else if infraReady d \<and> coreReady d \<and> restReady d then
        andThen (SetCondition L d ConditionTypeReady ConditionTrue ''Ready'' ''All components are ready'')
          (\<lambda>d'. Ret (with_phase PhaseReady d'))
      else
        (let message =
           (if \<not> infraReady d then ''Infrastructure tier not ready''
            else if \<not> coreReady d then ''Core tier not ready''
            else if \<not> restReady d then ''REST tier not ready''
            else [])
         in andThen (SetCondition L d ConditionTypeReady ConditionFalse ''NotReady'' message)
              (\<lambda>d'. Ret (with_phase PhaseProvisioning d'))))"

section \<open>Initial conditions\<close>

definition initCondition ::
    "status_lib \<Rightarrow> bool \<Rightarrow> string \<Rightarrow> string \<Rightarrow> carbide_deployment \<Rightarrow> carbide_deployment prog" where
  "initCondition L b ty message d =
     (if b then SetCondition L d ty ConditionUnknown ''Initializing'' message else Ret d)"

definition tls_mode_is :: "carbide_deployment \<Rightarrow> TLSMode \<Rightarrow> bool" where
  "tls_mode_is d m \<longleftrightarrow> (case spec_tls (cd_spec d) of None \<Rightarrow> False | Some t \<Rightarrow> tls_mode t = m)"

definition rest_on :: "carbide_deployment \<Rightarrow> bool" where
  "rest_on d \<longleftrightarrow> (case spec_rest (cd_spec d) of None \<Rightarrow> False | Some r \<Rightarrow> rest_enabled r)"

definition rla_wanted :: "carbide_deployment \<Rightarrow> bool" where
  "rla_wanted d \<longleftrightarrow> (case core_rla (spec_core (cd_spec d)) of None \<Rightarrow> False | Some c \<Rightarrow> rla_enabled c)"

definition psm_wanted :: "carbide_deployment \<Rightarrow> bool" where
  "psm_wanted d \<longleftrightarrow> (case core_psm (spec_core (cd_spec d)) of None \<Rightarrow> False | Some c \<Rightarrow> psm_enabled c)"

text \<open>The switch of \<^verbatim>\<open>InitializeConditions\<close> is two mutually exclusive tests on the mode.\<close>

definition InitializeConditions :: "status_lib \<Rightarrow> carbide_deployment \<Rightarrow> carbide_deployment prog" where
  "InitializeConditions L d0 =
     (let s = cd_spec d0 in
      andThen (initCondition L True ConditionTypeReady ''Starting deployment'' d0) (\<lambda>d1.
      andThen (initCondition L (spec_infrastructure s \<noteq> None) ConditionTypeInfrastructureReady
                ''Infrastructure tier initializing'' d1) (\<lambda>d2.
      andThen (initCondition L True ConditionTypeCoreReady ''Core tier initializing'' d2) (\<lambda>d3.
      andThen (initCondition L (rest_on d0) ConditionTypeRestReady ''REST tier initializing'' d3) (\<lambda>d4.
      andThen (initCondition L (spec_tls s \<noteq> None) ConditionTypeTLSReady ''Checking TLS backend'' d4) (\<lambda>d5.
      andThen (initCondition L (tls_mode_is d0 TLSModeSpiffe) ConditionTypeSPIFFEAvailable
                ''Checking SPIRE availability'' d5) (\<lambda>d6.
      andThen (initCondition L (tls_mode_is d0 TLSModeCertManager) ConditionTypeCertManagerAvailable
                ''Checking cert-manager availability'' d6) (\<lambda>d7.
      andThen (initCondition L (core_vault (spec_core s) \<noteq> None) ConditionTypeVaultReady
                ''Vault initializing'' d7) (\<lambda>d8.
      andThen (initCondition L (rla_wanted d0) ConditionTypeRLAReady ''RLA initializing'' d8) (\<lambda>d9.
      andThen (initCondition L (psm_wanted d0) ConditionTypePSMReady ''PSM initializing'' d9) (\<lambda>d10.
      Ret (with_phase PhasePending d10))))))))))))"

section \<open>The abstract view\<close>

type_synonym cond_entry = "string \<times> string \<times> string \<times> int64"

definition entry :: "condition \<Rightarrow> cond_entry" where
  "entry c = (cond_status c, cond_reason c, cond_message c, cond_observed_generation c)"

definition cond_view :: "status_lib \<Rightarrow> carbide_deployment \<Rightarrow> string \<rightharpoonup> cond_entry" where
  "cond_view L d = (\<lambda>ty. map_option entry (FindStatusCondition L (conds d) ty))"

text \<open>What the package relies on in \<^verbatim>\<open>meta\<close>: a lookup after a set finds what was set, and other types keep theirs.\<close>

locale condition_laws =
  fixes L :: status_lib
  assumes find_set_same:
      "map_option entry (FindStatusCondition L (SetStatusCondition L t cs c) (cond_type c)) = Some (entry c)"
    and find_set_other:
      "ty \<noteq> cond_type c \<Longrightarrow>
       FindStatusCondition L (SetStatusCondition L t cs c) ty = FindStatusCondition L cs ty"
begin

lemma SetCondition_view:
  assumes "runs (SetCondition L d ty st reason message) d' tr"
  shows "cond_view L d' = (cond_view L d)(ty \<mapsto> (st, reason, message, cd_generation d))"
proof
  fix ty'
  define c where "c = \<lparr>cond_type = ty, cond_status = st, cond_observed_generation = cd_generation d,
    cond_last_transition = 0, cond_reason = reason, cond_message = message\<rparr>"
  from assms obtain t where d': "d' = with_conds (SetStatusCondition L t (conds d) c) d"
    by (auto simp: SetCondition_def c_def)
  have c: "cond_type c = ty" "entry c = (st, reason, message, cd_generation d)"
    by (simp_all add: c_def entry_def)
  show "cond_view L d' ty' = ((cond_view L d)(ty \<mapsto> (st, reason, message, cd_generation d))) ty'"
    using find_set_same [of t "conds d" c] find_set_other [of ty' c t "conds d"]
    by (auto simp: cond_view_def conds_def with_conds_def d' c)
qed

end

text \<open>What the setters leave alone.\<close>

definition only_conds :: "carbide_deployment \<Rightarrow> carbide_deployment \<Rightarrow> bool" where
  "only_conds d d' \<longleftrightarrow> d' = with_conds (conds d') d"

lemma with_conds_sel [simp]:
  "cd_spec (with_conds cs d) = cd_spec d" "cd_name (with_conds cs d) = cd_name d"
  "cd_namespace (with_conds cs d) = cd_namespace d" "cd_uid (with_conds cs d) = cd_uid d"
  "cd_generation (with_conds cs d) = cd_generation d" "cd_finalizers (with_conds cs d) = cd_finalizers d"
  "status_phase (cd_status (with_conds cs d)) = status_phase (cd_status d)"
  "status_infrastructure (cd_status (with_conds cs d)) = status_infrastructure (cd_status d)"
  "status_core (cd_status (with_conds cs d)) = status_core (cd_status d)"
  "status_rest (cd_status (with_conds cs d)) = status_rest (cd_status d)"
  "status_observed_generation (cd_status (with_conds cs d)) = status_observed_generation (cd_status d)"
  "conds (with_conds cs d) = cs" "with_conds cs (with_conds cs' d) = with_conds cs d"
  by (simp_all add: with_conds_def conds_def)

lemma with_phase_sel [simp]:
  "cd_spec (with_phase p d) = cd_spec d" "cd_generation (with_phase p d) = cd_generation d"
  "cd_name (with_phase p d) = cd_name d" "cd_finalizers (with_phase p d) = cd_finalizers d"
  "status_phase (cd_status (with_phase p d)) = p"
  "status_infrastructure (cd_status (with_phase p d)) = status_infrastructure (cd_status d)"
  "status_core (cd_status (with_phase p d)) = status_core (cd_status d)"
  "status_rest (cd_status (with_phase p d)) = status_rest (cd_status d)"
  "status_observed_generation (cd_status (with_phase p d)) = status_observed_generation (cd_status d)"
  "conds (with_phase p d) = conds d" "cond_view L (with_phase p d) = cond_view L d"
  by (simp_all add: with_phase_def conds_def cond_view_def)

lemma SetCondition_frame:
  "runs (SetCondition L d ty st r m) d' tr \<Longrightarrow> only_conds d d' \<and> tr = []"
  by (auto simp: SetCondition_def only_conds_def)

lemma only_conds_refl [simp]: "only_conds d d"
  by (simp add: only_conds_def with_conds_def conds_def)

lemma only_conds_trans: "only_conds d d' \<Longrightarrow> only_conds d' d'' \<Longrightarrow> only_conds d d''"
  unfolding only_conds_def by (metis with_conds_sel(13))

lemma only_conds_sel:
  assumes "only_conds d d'"
  shows "cd_spec d' = cd_spec d" "cd_generation d' = cd_generation d" "cd_name d' = cd_name d"
    "cd_finalizers d' = cd_finalizers d" "cd_namespace d' = cd_namespace d"
    "status_phase (cd_status d') = status_phase (cd_status d)"
    "status_infrastructure (cd_status d') = status_infrastructure (cd_status d)"
    "status_core (cd_status d') = status_core (cd_status d)"
    "status_rest (cd_status d') = status_rest (cd_status d)"
    "status_observed_generation (cd_status d') = status_observed_generation (cd_status d)"
  using assms unfolding only_conds_def by (metis with_conds_sel)+


section \<open>Refinement of the setters\<close>

definition tier_entry :: "string \<Rightarrow> carbide_deployment \<Rightarrow> tier_status option \<Rightarrow> cond_entry" where
  "tier_entry notConfigured d ts =
     (case ts of
        None \<Rightarrow> (ConditionFalse, ''NotConfigured'', notConfigured, cd_generation d)
      | Some t \<Rightarrow> (if tier_ready t then ConditionTrue else ConditionFalse,
                   if tier_ready t then ''Ready'' else ''NotReady'', tier_message t, cd_generation d))"

definition all_ready :: "status_lib \<Rightarrow> carbide_deployment \<Rightarrow> bool" where
  "all_ready L d \<longleftrightarrow>
     (spec_tls (cd_spec d) \<noteq> None \<longrightarrow> IsConditionTrue L d ConditionTypeTLSReady) \<and>
     infraReady d \<and> coreReady d \<and> restReady d"

text \<open>The phase and the condition entry that \<open>SetReadyCondition\<close> computes.\<close>

definition ready_verdict :: "status_lib \<Rightarrow> carbide_deployment \<Rightarrow> DeploymentPhase \<times> cond_entry" where
  "ready_verdict L d =
     (if spec_tls (cd_spec d) \<noteq> None \<and> \<not> IsConditionTrue L d ConditionTypeTLSReady
      then (PhaseFailed, ConditionFalse, ''NotReady'', ''TLS backend not available'', cd_generation d)
      else if all_ready L d
      then (PhaseReady, ConditionTrue, ''Ready'', ''All components are ready'', cd_generation d)
      else (PhaseProvisioning, ConditionFalse, ''NotReady'',
            if \<not> infraReady d then ''Infrastructure tier not ready''
            else if \<not> coreReady d then ''Core tier not ready'' else ''REST tier not ready'',
            cd_generation d))"

type_synonym init_entry = "bool \<times> string \<times> string"

definition init_entries :: "carbide_deployment \<Rightarrow> init_entry list" where
  "init_entries d =
     [(True, ConditionTypeReady, ''Starting deployment''),
      (spec_infrastructure (cd_spec d) \<noteq> None, ConditionTypeInfrastructureReady, ''Infrastructure tier initializing''),
      (True, ConditionTypeCoreReady, ''Core tier initializing''),
      (rest_on d, ConditionTypeRestReady, ''REST tier initializing''),
      (spec_tls (cd_spec d) \<noteq> None, ConditionTypeTLSReady, ''Checking TLS backend''),
      (tls_mode_is d TLSModeSpiffe, ConditionTypeSPIFFEAvailable, ''Checking SPIRE availability''),
      (tls_mode_is d TLSModeCertManager, ConditionTypeCertManagerAvailable, ''Checking cert-manager availability''),
      (core_vault (spec_core (cd_spec d)) \<noteq> None, ConditionTypeVaultReady, ''Vault initializing''),
      (rla_wanted d, ConditionTypeRLAReady, ''RLA initializing''),
      (psm_wanted d, ConditionTypePSMReady, ''PSM initializing'')]"

primrec initAll :: "status_lib \<Rightarrow> init_entry list \<Rightarrow> carbide_deployment \<Rightarrow> carbide_deployment prog" where
  "initAll L [] d = Ret d"
| "initAll L (e # es) d = andThen (case e of (b, ty, m) \<Rightarrow> initCondition L b ty m d) (initAll L es)"

lemma InitializeConditions_initAll:
  "InitializeConditions L d = andThen (initAll L (init_entries d) d) (\<lambda>d'. Ret (with_phase PhasePending d'))"
  by (simp add: InitializeConditions_def init_entries_def andThen_assoc Let_def)

lemma SetReadyCondition_eq:
  "SetReadyCondition L d =
     (case ready_verdict L d of (p, st, r, m, g) \<Rightarrow>
        andThen (SetCondition L d ConditionTypeReady st r m) (\<lambda>d'. Ret (with_phase p d')))"
  by (simp add: SetReadyCondition_def ready_verdict_def all_ready_def Let_def)

context condition_laws begin

lemma tierCondition_view:
  "runs (tierCondition L ty nc d ts) d' tr \<Longrightarrow>
   cond_view L d' = (cond_view L d)(ty \<mapsto> tier_entry nc d ts) \<and> only_conds d d' \<and> tr = []"
  by (cases ts)
    (auto simp: tierCondition_def tier_entry_def split: if_splits
      dest: SetCondition_view SetCondition_frame)

lemma SetReadyCondition_view:
  assumes "runs (SetReadyCondition L d) d' tr"
  shows "\<exists>d1. d' = with_phase (fst (ready_verdict L d)) d1 \<and> only_conds d d1 \<and> tr = [] \<and>
     cond_view L d' = (cond_view L d)(ConditionTypeReady \<mapsto> snd (ready_verdict L d))"
proof -
  obtain p st r m g where v: "ready_verdict L d = (p, st, r, m, g)" by (metis surj_pair)
  then have g: "g = cd_generation d" by (auto simp: ready_verdict_def split: if_splits)
  from assms v obtain d1 where d1: "runs (SetCondition L d ConditionTypeReady st r m) d1 tr" "d' = with_phase p d1"
    by (auto simp: SetReadyCondition_eq runs_andThen)
  show ?thesis
    using SetCondition_view [OF d1(1)] SetCondition_frame [OF d1(1)] by (auto simp: d1(2) v g)
qed

lemma initCondition_view:
  "runs (initCondition L b ty m d) d' tr \<Longrightarrow>
   cond_view L d' = (if b then (cond_view L d)(ty \<mapsto> (ConditionUnknown, ''Initializing'', m, cd_generation d))
                     else cond_view L d) \<and> only_conds d d' \<and> tr = []"
  by (auto simp: initCondition_def split: if_splits dest: SetCondition_view SetCondition_frame)

lemma initAll_view:
  "runs (initAll L es d) d' tr \<Longrightarrow> distinct (map (fst \<circ> snd) es) \<Longrightarrow>
   only_conds d d' \<and> tr = [] \<and>
   (\<forall>(b, ty, m) \<in> set es. b \<longrightarrow> cond_view L d' ty = Some (ConditionUnknown, ''Initializing'', m, cd_generation d)) \<and>
   (\<forall>ty. (\<forall>(b, ty', m) \<in> set es. b \<longrightarrow> ty' \<noteq> ty) \<longrightarrow> cond_view L d' ty = cond_view L d ty)"
proof (induction es arbitrary: d tr)
  case (Cons e es)
  obtain b ty m where e: "e = (b, ty, m)" by (cases e)
  from Cons.prems(1) e obtain d1 t1 t2 where r: "tr = t1 @ t2" "runs (initCondition L b ty m d) d1 t1"
    "runs (initAll L es d1) d' t2" by (auto simp: runs_andThen)
  note v = initCondition_view [OF r(2)]
  have gen: "cd_generation d1 = cd_generation d" using v by (simp add: only_conds_sel)
  from Cons.prems(2) e have fresh: "\<forall>(b', ty', m') \<in> set es. ty' \<noteq> ty" by force
  from Cons.prems(2) have "distinct (map (fst \<circ> snd) es)" by (simp add: o_def)
  note IH = Cons.IH [OF r(3) this]
  have "cond_view L d' ty = cond_view L d1 ty"
    using IH fresh by fastforce
  then show ?case
    using IH v r(1) e gen fresh by (auto intro: only_conds_trans split: if_splits)
qed simp

end

section \<open>The library functions, in the reference implementation of the witnesses\<close>

text \<open>
  A list-based instance of the parameter, after the documented behaviour of \<^verbatim>\<open>meta\<close>: a condition of
  a new type is appended, an existing one is updated in place, and the transition time moves
  when the status does.
\<close>

fun ref_set :: "go_time \<Rightarrow> condition list \<Rightarrow> condition \<Rightarrow> condition list" where
  "ref_set t [] c = [if cond_last_transition c = 0 then c\<lparr>cond_last_transition := t\<rparr> else c]"
| "ref_set t (x # xs) c =
     (if cond_type x = cond_type c then
        (if cond_status x = cond_status c then c\<lparr>cond_last_transition := cond_last_transition x\<rparr>
         else if cond_last_transition c = 0 then c\<lparr>cond_last_transition := t\<rparr> else c) # xs
      else x # ref_set t xs c)"

definition ref_find :: "condition list \<Rightarrow> string \<Rightarrow> condition option" where
  "ref_find cs ty = List.find (\<lambda>c. cond_type c = ty) cs"

definition ref_lib :: status_lib where
  "ref_lib = \<lparr>SetStatusCondition = ref_set, FindStatusCondition = ref_find\<rparr>"

lemma ref_find_set_same: "map_option entry (ref_find (ref_set t cs c) (cond_type c)) = Some (entry c)"
  by (induction cs) (auto simp: ref_find_def entry_def)

lemma ref_find_set_other: "ty \<noteq> cond_type c \<Longrightarrow> ref_find (ref_set t cs c) ty = ref_find cs ty"
  by (induction cs) (auto simp: ref_find_def)

interpretation ref_conditions: condition_laws ref_lib
  by unfold_locales (simp_all add: ref_lib_def ref_find_set_same ref_find_set_other)

section \<open>Properties\<close>

text \<open>
  \<open>SetReadyCondition\<close> reports readiness exactly: it touches only the phase and the Ready
  condition, and phase and condition both say Ready if and only if the TLS backend (when TLS is
  configured) and every configured tier are ready.
\<close>
theorem SetReadyCondition_exact:
  assumes "condition_laws L" and "runs (SetReadyCondition L d) d' tr"
  shows "(status_phase (cd_status d') = PhaseReady \<longleftrightarrow> all_ready L d) \<and>
    (IsConditionTrue L d' ConditionTypeReady \<longleftrightarrow> all_ready L d) \<and>
    (\<forall>ty. ty \<noteq> ConditionTypeReady \<longrightarrow> cond_view L d' ty = cond_view L d ty) \<and>
    cd_spec d' = cd_spec d \<and> status_infrastructure (cd_status d') = status_infrastructure (cd_status d) \<and>
    status_core (cd_status d') = status_core (cd_status d) \<and> status_rest (cd_status d') = status_rest (cd_status d)"
proof -
  from condition_laws.SetReadyCondition_view [OF assms] obtain d1
    where d': "d' = with_phase (fst (ready_verdict L d)) d1" "only_conds d d1"
      and view: "cond_view L d' = (cond_view L d)(ConditionTypeReady \<mapsto> snd (ready_verdict L d))" by blast
  have "IsConditionTrue L d' ty \<longleftrightarrow> (\<exists>r m g. cond_view L d' ty = Some (ConditionTrue, r, m, g))" for ty
    by (auto simp: IsConditionTrue_def cond_view_def entry_def split: option.splits)
  then have "IsConditionTrue L d' ConditionTypeReady \<longleftrightarrow> fst (snd (ready_verdict L d)) = ConditionTrue"
    using view by (cases "snd (ready_verdict L d)") auto
  then show ?thesis
    using d' view by (auto simp: only_conds_sel ready_verdict_def all_ready_def split: if_splits)
qed

text \<open>
  \<open>InitializeConditions\<close> sets to Unknown exactly the conditions of the parts the spec
  configures, leaves every other condition alone and puts the resource in phase Pending.
\<close>
theorem InitializeConditions_exact:
  assumes "condition_laws L" and "runs (InitializeConditions L d) d' tr"
  shows "status_phase (cd_status d') = PhasePending \<and> cd_spec d' = cd_spec d \<and>
    (\<forall>(b, ty, m) \<in> set (init_entries d). cond_view L d' ty =
       (if b then Some (ConditionUnknown, ''Initializing'', m, cd_generation d) else cond_view L d ty)) \<and>
    (\<forall>ty. ty \<notin> (fst \<circ> snd) ` set (init_entries d) \<longrightarrow> cond_view L d' ty = cond_view L d ty)"
proof -
  from assms(2) obtain d1 where d1: "runs (initAll L (init_entries d) d) d1 tr" "d' = with_phase PhasePending d1"
    by (auto simp: InitializeConditions_initAll runs_andThen)
  have dist: "distinct (map (fst \<circ> snd) (init_entries d))" by (simp add: init_entries_def)
  note v = condition_laws.initAll_view [OF assms(1) d1(1) dist]
  have once: "(b, ty, m) \<in> set (init_entries d) \<Longrightarrow> (b', ty, m') \<in> set (init_entries d) \<Longrightarrow> b = b'" for b b' ty m m'
    by (auto simp: init_entries_def)
  have set: "\<forall>(b, ty, m) \<in> set (init_entries d). b \<longrightarrow>
      cond_view L d' ty = Some (ConditionUnknown, ''Initializing'', m, cd_generation d)"
    using v d1(2) by simp
  have kept: "(\<forall>(b, ty', m) \<in> set (init_entries d). b \<longrightarrow> ty' \<noteq> ty) \<Longrightarrow> cond_view L d' ty = cond_view L d ty" for ty
    using v d1(2) by simp
  have unset: "\<forall>(b, ty, m) \<in> set (init_entries d). \<not> b \<longrightarrow> cond_view L d' ty = cond_view L d ty"
    using once by (blast intro: kept)
  have other: "ty \<notin> (fst \<circ> snd) ` set (init_entries d) \<Longrightarrow> cond_view L d' ty = cond_view L d ty" for ty
    by (rule kept) force
  show ?thesis using set unset other d1(2) v by (auto simp: only_conds_sel)
qed

section \<open>Witnesses\<close>

definition ready_tier :: tier_status where
  "ready_tier = \<lparr>tier_ready = True, tier_message = ''ok'', tier_components = [], tier_last_transition = None\<rparr>"

definition ready_site :: carbide_deployment where
  "ready_site = sample_site\<lparr>cd_status :=
     zero_status\<lparr>status_infrastructure := Some ready_tier, status_core := Some ready_tier\<rparr>\<rparr>"

theorem SetReadyCondition_exact_witness:
  "\<exists>d' tr. runs (SetReadyCondition ref_lib ready_site) d' tr \<and> status_phase (cd_status d') = PhaseReady"
proof -
  obtain d' tr where r: "runs (SetReadyCondition ref_lib ready_site) d' tr"
    using runs_exists [of "_ :: carbide_deployment prog"] by meson
  have "all_ready ref_lib ready_site"
    by (simp add: all_ready_def infraReady_def coreReady_def restReady_def ready_site_def ready_tier_def sample_defs)
  with SetReadyCondition_exact [OF ref_conditions.condition_laws_axioms r] r show ?thesis by blast
qed

theorem InitializeConditions_exact_witness:
  "\<exists>d' tr. runs (InitializeConditions ref_lib sample_site) d' tr \<and>
     cond_view ref_lib d' ''InfrastructureReady'' =
       Some (''Unknown'', ''Initializing'', ''Infrastructure tier initializing'', 1) \<and>
     cond_view ref_lib d' ''RestReady'' = None"
proof -
  obtain d' tr where r: "runs (InitializeConditions ref_lib sample_site) d' tr"
    using runs_exists [of "_ :: carbide_deployment prog"] by meson
  have mem: "(True, ''InfrastructureReady'', ''Infrastructure tier initializing'') \<in> set (init_entries sample_site)"
    "(False, ''RestReady'', ''REST tier initializing'') \<in> set (init_entries sample_site)"
    by (simp_all add: init_entries_def rest_on_def sample_defs)
  have start: "cd_generation sample_site = 1" "cond_view ref_lib sample_site ''RestReady'' = None"
    by (simp_all add: sample_defs cond_view_def conds_def ref_lib_def ref_find_def)
  from InitializeConditions_exact [OF ref_conditions.condition_laws_axioms r]
  have view: "\<forall>(b, ty, m) \<in> set (init_entries sample_site). cond_view ref_lib d' ty =
      (if b then Some (ConditionUnknown, ''Initializing'', m, cd_generation sample_site)
       else cond_view ref_lib sample_site ty)" by (elim conjE)
  have "cond_view ref_lib d' ''InfrastructureReady'' =
      Some (''Unknown'', ''Initializing'', ''Infrastructure tier initializing'', 1)"
    using bspec [OF view mem(1)] start by simp
  moreover have "cond_view ref_lib d' ''RestReady'' = None"
    using bspec [OF view mem(2)] start by simp
  ultimately show ?thesis using r by blast
qed

end
