(* ===== verification/Webhook.thy ===== *)
theory Webhook
  imports Api_Types
begin

text \<open>
  The admission webhook (\<^verbatim>\<open>api/v1alpha1/carbidedeployment_webhook.go\<close>): the defaulter, one
  definition per commented block of \<^verbatim>\<open>applyDefaults\<close> and composed in its order, and the
  validator, one check per commented block of \<^verbatim>\<open>validateCarbideDeployment\<close>, run in order until
  the first error, with the warnings collected so far.  The lemmas show what the two promise:
  defaulting is idempotent, complete, respects what the user wrote and neither makes nor
  repairs an invalid spec; the validator accepts exactly the specs of the abstract predicate
  \<open>valid_spec\<close>; an admitted update never changes the profile.
\<close>

section \<open>The defaulter\<close>

subsection \<open>Updating one section of the spec\<close>

definition on_infra ::
    "(infrastructure_config \<Rightarrow> infrastructure_config) \<Rightarrow> carbide_spec \<Rightarrow> carbide_spec" where
  "on_infra f s = s\<lparr>spec_infrastructure := map_option f (spec_infrastructure s)\<rparr>"

definition on_core :: "(core_config \<Rightarrow> core_config) \<Rightarrow> carbide_spec \<Rightarrow> carbide_spec" where
  "on_core f s = s\<lparr>spec_core := f (spec_core s)\<rparr>"

definition on_rest :: "(rest_config \<Rightarrow> rest_config) \<Rightarrow> carbide_spec \<Rightarrow> carbide_spec" where
  "on_rest f s = s\<lparr>spec_rest := map_option f (spec_rest s)\<rparr>"

subsection \<open>Namespaces\<close>

definition profile_namespace :: "string \<Rightarrow> DeploymentProfile \<Rightarrow> string" where
  "profile_namespace name p =
     (if p = ProfileManagement then ''nvidia-carbide-mgmt''
      else if p = ProfileSite then ''carbide-site-'' @ name
      else if p = ProfileManagementWithSite then ''nvidia-carbide''
      else [])"

definition infra_namespace_section ::
    "string \<Rightarrow> DeploymentProfile \<Rightarrow> infrastructure_config \<Rightarrow> infrastructure_config" where
  "infra_namespace_section name p i =
     (if infra_namespace i = [] then i\<lparr>infra_namespace := profile_namespace name p\<rparr> else i)"

definition default_infra_namespace :: "string \<Rightarrow> carbide_spec \<Rightarrow> carbide_spec" where
  "default_infra_namespace name s = on_infra (infra_namespace_section name (spec_profile s)) s"

definition core_namespace_section ::
    "infrastructure_config option \<Rightarrow> core_config \<Rightarrow> core_config" where
  "core_namespace_section io c =
     (case io of
        None \<Rightarrow> c
      | Some i \<Rightarrow> if core_namespace c = [] then c\<lparr>core_namespace := infra_namespace i\<rparr> else c)"

definition default_core_namespace :: "carbide_spec \<Rightarrow> carbide_spec" where
  "default_core_namespace s = on_core (core_namespace_section (spec_infrastructure s)) s"

definition rest_namespace_section ::
    "infrastructure_config option \<Rightarrow> rest_config \<Rightarrow> rest_config" where
  "rest_namespace_section io r =
     (case io of
        None \<Rightarrow> r
      | Some i \<Rightarrow> if rest_namespace r = [] then r\<lparr>rest_namespace := infra_namespace i\<rparr> else r)"

definition default_rest_namespace :: "carbide_spec \<Rightarrow> carbide_spec" where
  "default_rest_namespace s = on_rest (rest_namespace_section (spec_infrastructure s)) s"

subsection \<open>Components enabled by the profile\<close>

definition set_network_services :: "bool \<Rightarrow> core_config \<Rightarrow> core_config" where
  "set_network_services b c =
     c\<lparr>core_dhcp := (core_dhcp c)\<lparr>dhcp_enabled := b\<rparr>,
       core_pxe := (core_pxe c)\<lparr>pxe_enabled := b\<rparr>,
       core_dns := (core_dns c)\<lparr>dns_enabled := b\<rparr>\<rparr>"

definition set_rest_enabled :: "bool \<Rightarrow> rest_config \<Rightarrow> rest_config" where
  "set_rest_enabled b r = r\<lparr>rest_enabled := b\<rparr>"

definition default_components :: "carbide_spec \<Rightarrow> carbide_spec" where
  "default_components s =
     (if spec_profile s = ProfileManagement then
        on_rest (set_rest_enabled True) (on_core (set_network_services False) s)
      else if spec_profile s = ProfileSite then
        on_rest (set_rest_enabled False) (on_core (set_network_services True) s)
      else if spec_profile s = ProfileManagementWithSite then
        on_rest (set_rest_enabled True) (on_core (set_network_services True) s)
      else s)"

subsection \<open>Databases\<close>

definition profile_databases :: "DeploymentProfile \<Rightarrow> string list" where
  "profile_databases p =
     (if p = ProfileManagement then
        [''forge'', ''temporal'', ''temporal_visibility'', ''keycloak'']
      else if p = ProfileSite then
        [''carbide'', ''forge'', ''rla'', ''psm'']
      else if p = ProfileManagementWithSite then
        [''carbide'', ''forge'', ''rla'', ''psm'', ''temporal'', ''temporal_visibility'', ''keycloak'']
      else [])"

definition on_pg ::
    "(postgresql_config \<Rightarrow> postgresql_config) \<Rightarrow> infrastructure_config \<Rightarrow> infrastructure_config" where
  "on_pg f i = i\<lparr>infra_postgresql := f (infra_postgresql i)\<rparr>"

definition databases_section :: "DeploymentProfile \<Rightarrow> postgresql_config \<Rightarrow> postgresql_config" where
  "databases_section p g =
     (if pg_databases g = [] then g\<lparr>pg_databases := profile_databases p\<rparr> else g)"

definition default_databases :: "carbide_spec \<Rightarrow> carbide_spec" where
  "default_databases s = on_infra (on_pg (databases_section (spec_profile s))) s"

subsection \<open>Scalars of the network, the core tier and the REST tier\<close>

definition fill_domain :: "network_config \<Rightarrow> network_config" where
  "fill_domain n = n\<lparr>net_domain := str_or (net_domain n) ''carbide.local''\<rparr>"

definition default_domain :: "carbide_spec \<Rightarrow> carbide_spec" where
  "default_domain s = s\<lparr>spec_network := fill_domain (spec_network s)\<rparr>"

definition core_ports_section :: "core_config \<Rightarrow> core_config" where
  "core_ports_section c =
     (let a = core_api c; p = core_pxe c; d = core_dns c in
      c\<lparr>core_api := a\<lparr>api_port := int_or (api_port a) 1079, api_replicas := int_or (api_replicas a) 1\<rparr>,
        core_pxe := p\<lparr>pxe_tftp_port := int_or (pxe_tftp_port p) 69,
                      pxe_http_port := int_or (pxe_http_port p) 8080\<rparr>,
        core_dns := d\<lparr>dns_port := int_or (dns_port d) 53\<rparr>\<rparr>)"

definition default_core_ports :: "carbide_spec \<Rightarrow> carbide_spec" where
  "default_core_ports = on_core core_ports_section"

definition restapi_section :: "rest_config \<Rightarrow> rest_config" where
  "restapi_section r =
     (let a = rest_restapi r in
      r\<lparr>rest_restapi := a\<lparr>ra_port := int_or (ra_port a) 8080, ra_replicas := int_or (ra_replicas a) 1\<rparr>\<rparr>)"

definition default_restapi :: "carbide_spec \<Rightarrow> carbide_spec" where
  "default_restapi = on_rest restapi_section"

definition pg_mode_section :: "postgresql_config \<Rightarrow> postgresql_config" where
  "pg_mode_section g = g\<lparr>pg_mode := str_or (pg_mode g) ManagedMode\<rparr>"

definition default_pg_mode :: "carbide_spec \<Rightarrow> carbide_spec" where
  "default_pg_mode = on_infra (on_pg pg_mode_section)"

definition temporal_mode_section :: "rest_config \<Rightarrow> rest_config" where
  "temporal_mode_section r =
     (let t = rest_temporal r in
      r\<lparr>rest_temporal := t\<lparr>temporal_mode := str_or (temporal_mode t) ManagedMode\<rparr>\<rparr>)"

definition default_temporal_mode :: "carbide_spec \<Rightarrow> carbide_spec" where
  "default_temporal_mode = on_rest temporal_mode_section"

definition keycloak_section :: "rest_config \<Rightarrow> rest_config" where
  "keycloak_section r =
     (let k = rest_keycloak r in
      r\<lparr>rest_keycloak := k\<lparr>kc_mode := str_or (kc_mode k) AuthModeManaged,
                            kc_realm := str_or (kc_realm k) ''carbide''\<rparr>\<rparr>)"

definition default_keycloak :: "carbide_spec \<Rightarrow> carbide_spec" where
  "default_keycloak = on_rest keycloak_section"

definition temporal_version_section :: "rest_config \<Rightarrow> rest_config" where
  "temporal_version_section r =
     (let t = rest_temporal r in
      r\<lparr>rest_temporal := t\<lparr>temporal_version := str_or (temporal_version t) ''1.22.0'',
                            temporal_chart_version := str_or (temporal_chart_version t) ''0.73.1'',
                            temporal_namespace := str_or (temporal_namespace t) ''temporal''\<rparr>\<rparr>)"

definition default_temporal_version :: "carbide_spec \<Rightarrow> carbide_spec" where
  "default_temporal_version = on_rest temporal_version_section"

definition pg_replicas_section :: "postgresql_config \<Rightarrow> postgresql_config" where
  "pg_replicas_section g = g\<lparr>pg_replicas := int_or (pg_replicas g) 1\<rparr>"

definition default_pg_replicas :: "carbide_spec \<Rightarrow> carbide_spec" where
  "default_pg_replicas = on_infra (on_pg pg_replicas_section)"

definition temporal_replicas_section :: "rest_config \<Rightarrow> rest_config" where
  "temporal_replicas_section r =
     (let t = rest_temporal r in
      r\<lparr>rest_temporal := t\<lparr>temporal_replicas := int_or (temporal_replicas t) 1\<rparr>\<rparr>)"

definition default_temporal_replicas :: "carbide_spec \<Rightarrow> carbide_spec" where
  "default_temporal_replicas = on_rest temporal_replicas_section"

subsection \<open>TLS\<close>

definition fill_spiffe :: "spiffe_config \<Rightarrow> spiffe_config" where
  "fill_spiffe c =
     c\<lparr>spiffe_trust_domain := str_or (spiffe_trust_domain c) ''carbide.local'',
       spiffe_helper_image := str_or (spiffe_helper_image c) ''ghcr.io/nvidia/spiffe-helper:latest'',
       spiffe_class_name := str_or (spiffe_class_name c) ''zero-trust-workload-identity-manager-spire''\<rparr>"

definition empty_spiffe :: spiffe_config where
  "empty_spiffe = \<lparr>spiffe_trust_domain = [], spiffe_helper_image = [], spiffe_class_name = []\<rparr>"

definition new_tls :: tls_config where
  "new_tls =
     \<lparr>tls_mode = TLSModeSpiffe,
      tls_spiffe = Some \<lparr>spiffe_trust_domain = ''carbide.local'',
                         spiffe_helper_image = ''ghcr.io/nvidia/spiffe-helper:latest'',
                         spiffe_class_name = ''zero-trust-workload-identity-manager-spire''\<rparr>,
      tls_cert_manager = None\<rparr>"

definition fill_tls :: "tls_config \<Rightarrow> tls_config" where
  "fill_tls t =
     (let t1 = t\<lparr>tls_mode := str_or (tls_mode t) TLSModeSpiffe\<rparr>;
          t2 = (if tls_mode t1 = TLSModeSpiffe \<and> tls_spiffe t1 = None
                then t1\<lparr>tls_spiffe := Some empty_spiffe\<rparr> else t1)
      in t2\<lparr>tls_spiffe := map_option fill_spiffe (tls_spiffe t2)\<rparr>)"

definition tls_section :: "tls_config option \<Rightarrow> tls_config" where
  "tls_section t = (case t of None \<Rightarrow> new_tls | Some c \<Rightarrow> fill_tls c)"

definition default_tls :: "carbide_spec \<Rightarrow> carbide_spec" where
  "default_tls s = s\<lparr>spec_tls := Some (tls_section (spec_tls s))\<rparr>"

subsection \<open>Vault, RLA and PSM\<close>

text \<open>Site profiles get the section when it is absent; then its empty fields are filled.\<close>

definition present_for_site :: "DeploymentProfile \<Rightarrow> 'a \<Rightarrow> 'a option \<Rightarrow> 'a option" where
  "present_for_site p d x = (case x of None \<Rightarrow> if is_site_profile p then Some d else None | Some y \<Rightarrow> Some y)"

definition new_vault :: vault_config where
  "new_vault = \<lparr>vault_mode = ManagedMode, vault_version = ''1.15.6'', vault_storage = None,
     vault_address = [], vault_token_secret_ref = None, vault_kv_mount_path = ''secrets''\<rparr>"

definition fill_vault :: "vault_config \<Rightarrow> vault_config" where
  "fill_vault v =
     v\<lparr>vault_mode := str_or (vault_mode v) ManagedMode,
       vault_version := str_or (vault_version v) ''1.15.6'',
       vault_kv_mount_path := str_or (vault_kv_mount_path v) ''secrets''\<rparr>"

definition vault_section :: "DeploymentProfile \<Rightarrow> core_config \<Rightarrow> core_config" where
  "vault_section p c = c\<lparr>core_vault := map_option fill_vault (present_for_site p new_vault (core_vault c))\<rparr>"

definition default_vault :: "carbide_spec \<Rightarrow> carbide_spec" where
  "default_vault s = on_core (vault_section (spec_profile s)) s"

definition new_rla :: rla_config where
  "new_rla = \<lparr>rla_enabled = True, rla_port = 50051, rla_replicas = 1, rla_resources = None\<rparr>"

definition fill_rla :: "rla_config \<Rightarrow> rla_config" where
  "fill_rla c = c\<lparr>rla_port := int_or (rla_port c) 50051, rla_replicas := int_or (rla_replicas c) 1\<rparr>"

definition rla_section :: "DeploymentProfile \<Rightarrow> core_config \<Rightarrow> core_config" where
  "rla_section p c = c\<lparr>core_rla := map_option fill_rla (present_for_site p new_rla (core_rla c))\<rparr>"

definition default_rla :: "carbide_spec \<Rightarrow> carbide_spec" where
  "default_rla s = on_core (rla_section (spec_profile s)) s"

definition new_psm :: psm_config where
  "new_psm = \<lparr>psm_enabled = True, psm_port = 50051, psm_replicas = 1, psm_resources = None\<rparr>"

definition fill_psm :: "psm_config \<Rightarrow> psm_config" where
  "fill_psm c = c\<lparr>psm_port := int_or (psm_port c) 50051, psm_replicas := int_or (psm_replicas c) 1\<rparr>"

definition psm_section :: "DeploymentProfile \<Rightarrow> core_config \<Rightarrow> core_config" where
  "psm_section p c = c\<lparr>core_psm := map_option fill_psm (present_for_site p new_psm (core_psm c))\<rparr>"

definition default_psm :: "carbide_spec \<Rightarrow> carbide_spec" where
  "default_psm s = on_core (psm_section (spec_profile s)) s"

subsection \<open>The whole defaulter\<close>

definition default_spec :: "string \<Rightarrow> carbide_spec \<Rightarrow> carbide_spec" where
  "default_spec name s0 =
     (let s1 = default_infra_namespace name s0;
          s2 = default_core_namespace s1;
          s3 = default_rest_namespace s2;
          s4 = default_components s3;
          s5 = default_databases s4;
          s6 = default_domain s5;
          s7 = default_core_ports s6;
          s8 = default_restapi s7;
          s9 = default_pg_mode s8;
          s10 = default_temporal_mode s9;
          s11 = default_keycloak s10;
          s12 = default_temporal_version s11;
          s13 = default_pg_replicas s12;
          s14 = default_temporal_replicas s13;
          s15 = default_tls s14;
          s16 = default_vault s15;
          s17 = default_rla s16
      in default_psm s17)"

definition applyDefaults :: "carbide_deployment \<Rightarrow> carbide_deployment" where
  "applyDefaults r = r\<lparr>cd_spec := default_spec (cd_name r) (cd_spec r)\<rparr>"

text \<open>
  The webhook entry points take a \<^verbatim>\<open>runtime.Object\<close> and first assert its dynamic type.
\<close>

datatype runtime_object = CarbideObject carbide_deployment | OtherObject string

datatype validation_error =
    UnexpectedObject string
  | ProfileImmutable string string
  | NamespaceImmutable string string
  | InterfaceRequired string
  | AdminNetworkCIDRRequired string
  | IPRequired string
  | RestRequired string
  | IssuerRefRequired
  | IssuerKindRequired
  | PGConnectionRequired
  | PGHostRequired
  | VaultAddressRequired
  | VaultTokenSecretRefRequired
  | TemporalEndpointRequired
  | AuthProvidersRequired
  | IssuerURLRequired nat
  | JWKSURLRequired nat

definition Default :: "runtime_object \<Rightarrow> validation_error + runtime_object" where
  "Default obj =
     (case obj of
        CarbideObject cd \<Rightarrow> Inr (CarbideObject (applyDefaults cd))
      | OtherObject t \<Rightarrow> Inl (UnexpectedObject t))"

section \<open>Defaulting, section by section\<close>

text \<open>
  The abstract specification of the defaulter: what each section of the spec becomes, as a
  function of that section, of the profile and of the completed infrastructure section.
\<close>

definition fill_pg :: "DeploymentProfile \<Rightarrow> postgresql_config \<Rightarrow> postgresql_config" where
  "fill_pg p g =
     g\<lparr>pg_databases := (if pg_databases g = [] then profile_databases p else pg_databases g),
       pg_mode := str_or (pg_mode g) ManagedMode,
       pg_replicas := int_or (pg_replicas g) 1\<rparr>"

definition fill_infra ::
    "string \<Rightarrow> DeploymentProfile \<Rightarrow> infrastructure_config \<Rightarrow> infrastructure_config" where
  "fill_infra name p i =
     i\<lparr>infra_namespace := str_or (infra_namespace i) (profile_namespace name p),
       infra_postgresql := fill_pg p (infra_postgresql i)\<rparr>"

definition infra_ns :: "infrastructure_config option \<Rightarrow> string" where
  "infra_ns io = (case io of None \<Rightarrow> [] | Some i \<Rightarrow> infra_namespace i)"

definition by_profile :: "DeploymentProfile \<Rightarrow> bool \<Rightarrow> bool \<Rightarrow> bool \<Rightarrow> bool \<Rightarrow> bool" where
  "by_profile p m st ms old =
     (if p = ProfileManagement then m else if p = ProfileSite then st
      else if p = ProfileManagementWithSite then ms else old)"

definition fill_core ::
    "DeploymentProfile \<Rightarrow> infrastructure_config option \<Rightarrow> core_config \<Rightarrow> core_config" where
  "fill_core p io c =
     (let a = core_api c; h = core_dhcp c; x = core_pxe c; d = core_dns c in
      c\<lparr>core_namespace := str_or (core_namespace c) (infra_ns io),
        core_api := a\<lparr>api_port := int_or (api_port a) 1079, api_replicas := int_or (api_replicas a) 1\<rparr>,
        core_dhcp := h\<lparr>dhcp_enabled := by_profile p False True True (dhcp_enabled h)\<rparr>,
        core_pxe := x\<lparr>pxe_enabled := by_profile p False True True (pxe_enabled x),
                      pxe_tftp_port := int_or (pxe_tftp_port x) 69,
                      pxe_http_port := int_or (pxe_http_port x) 8080\<rparr>,
        core_dns := d\<lparr>dns_enabled := by_profile p False True True (dns_enabled d),
                      dns_port := int_or (dns_port d) 53\<rparr>,
        core_vault := map_option fill_vault (present_for_site p new_vault (core_vault c)),
        core_rla := map_option fill_rla (present_for_site p new_rla (core_rla c)),
        core_psm := map_option fill_psm (present_for_site p new_psm (core_psm c))\<rparr>)"

definition fill_rest ::
    "DeploymentProfile \<Rightarrow> infrastructure_config option \<Rightarrow> rest_config \<Rightarrow> rest_config" where
  "fill_rest p io r =
     (let t = rest_temporal r; k = rest_keycloak r; a = rest_restapi r in
      r\<lparr>rest_namespace := str_or (rest_namespace r) (infra_ns io),
        rest_enabled := by_profile p True False True (rest_enabled r),
        rest_temporal := t\<lparr>temporal_mode := str_or (temporal_mode t) ManagedMode,
          temporal_version := str_or (temporal_version t) ''1.22.0'',
          temporal_chart_version := str_or (temporal_chart_version t) ''0.73.1'',
          temporal_namespace := str_or (temporal_namespace t) ''temporal'',
          temporal_replicas := int_or (temporal_replicas t) 1\<rparr>,
        rest_keycloak := k\<lparr>kc_mode := str_or (kc_mode k) AuthModeManaged,
          kc_realm := str_or (kc_realm k) ''carbide''\<rparr>,
        rest_restapi := a\<lparr>ra_port := int_or (ra_port a) 8080, ra_replicas := int_or (ra_replicas a) 1\<rparr>\<rparr>)"

definition filled_spec :: "string \<Rightarrow> carbide_spec \<Rightarrow> carbide_spec" where
  "filled_spec name s =
     (let p = spec_profile s;
          io = map_option (fill_infra name p) (spec_infrastructure s)
      in s\<lparr>spec_network := fill_domain (spec_network s),
           spec_infrastructure := io,
           spec_core := fill_core p io (spec_core s),
           spec_rest := map_option (fill_rest p io) (spec_rest s),
           spec_tls := Some (tls_section (spec_tls s))\<rparr>)"

lemma on_infra_sel [simp]:
  "spec_profile (on_infra f s) = spec_profile s" "spec_version (on_infra f s) = spec_version s"
  "spec_network (on_infra f s) = spec_network s" "spec_core (on_infra f s) = spec_core s"
  "spec_infrastructure (on_infra f s) = map_option f (spec_infrastructure s)"
  "spec_rest (on_infra f s) = spec_rest s" "spec_images (on_infra f s) = spec_images s"
  "spec_tls (on_infra f s) = spec_tls s" "spec_site_ref (on_infra f s) = spec_site_ref s"
  by (simp_all add: on_infra_def)

lemma on_core_sel [simp]:
  "spec_profile (on_core f s) = spec_profile s" "spec_version (on_core f s) = spec_version s"
  "spec_network (on_core f s) = spec_network s" "spec_core (on_core f s) = f (spec_core s)"
  "spec_infrastructure (on_core f s) = spec_infrastructure s"
  "spec_rest (on_core f s) = spec_rest s" "spec_images (on_core f s) = spec_images s"
  "spec_tls (on_core f s) = spec_tls s" "spec_site_ref (on_core f s) = spec_site_ref s"
  by (simp_all add: on_core_def)

lemma on_rest_sel [simp]:
  "spec_profile (on_rest f s) = spec_profile s" "spec_version (on_rest f s) = spec_version s"
  "spec_network (on_rest f s) = spec_network s" "spec_core (on_rest f s) = spec_core s"
  "spec_infrastructure (on_rest f s) = spec_infrastructure s"
  "spec_rest (on_rest f s) = map_option f (spec_rest s)" "spec_images (on_rest f s) = spec_images s"
  "spec_tls (on_rest f s) = spec_tls s" "spec_site_ref (on_rest f s) = spec_site_ref s"
  by (simp_all add: on_rest_def)

definition components_core :: "DeploymentProfile \<Rightarrow> core_config \<Rightarrow> core_config" where
  "components_core p c = (if known_profile p then set_network_services (p \<noteq> ProfileManagement) c else c)"

definition components_rest :: "DeploymentProfile \<Rightarrow> rest_config \<Rightarrow> rest_config" where
  "components_rest p r = (if known_profile p then set_rest_enabled (p \<noteq> ProfileSite) r else r)"

lemma default_components_eq:
  "default_components s = on_rest (components_rest (spec_profile s)) (on_core (components_core (spec_profile s)) s)"
proof (rule carbide_spec.equality)
  show "spec_rest (default_components s) =
      spec_rest (on_rest (components_rest (spec_profile s)) (on_core (components_core (spec_profile s)) s))"
    by (cases "spec_rest s") (simp_all add: default_components_def components_rest_def known_profile_def)
qed (simp_all add: default_components_def components_core_def known_profile_def)

lemma default_spec_chain:
  "default_spec name s =
     default_psm (default_rla (default_vault (default_tls (default_temporal_replicas
       (default_pg_replicas (default_temporal_version (default_keycloak (default_temporal_mode
         (default_pg_mode (default_restapi (default_core_ports (default_domain (default_databases
           (default_components (default_rest_namespace (default_core_namespace
             (default_infra_namespace name s)))))))))))))))))"
  by (simp add: default_spec_def Let_def)

lemmas default_step_defs =
  default_infra_namespace_def default_core_namespace_def default_rest_namespace_def
  default_components_eq default_databases_def default_domain_def default_core_ports_def
  default_restapi_def default_pg_mode_def default_temporal_mode_def default_keycloak_def
  default_temporal_version_def default_pg_replicas_def default_temporal_replicas_def
  default_tls_def default_vault_def default_rla_def default_psm_def

lemma infra_sections:
  "on_pg pg_replicas_section (on_pg pg_mode_section (on_pg (databases_section p)
     (infra_namespace_section name p i))) = fill_infra name p i"
  by (cases i) (simp add: on_pg_def pg_replicas_section_def pg_mode_section_def databases_section_def
      infra_namespace_section_def fill_infra_def fill_pg_def str_or_def)

lemma core_sections:
  "psm_section p (rla_section p (vault_section p (core_ports_section (components_core p
     (core_namespace_section io c))))) = fill_core p io c"
  by (cases c) (simp add: psm_section_def rla_section_def vault_section_def core_ports_section_def
      components_core_def set_network_services_def known_profile_def core_namespace_section_def
      fill_core_def by_profile_def infra_ns_def str_or_def Let_def split: option.split)

lemma rest_sections:
  "temporal_replicas_section (temporal_version_section (keycloak_section (temporal_mode_section
     (restapi_section (components_rest p (rest_namespace_section io r)))))) = fill_rest p io r"
  by (cases r) (simp add: temporal_replicas_section_def temporal_version_section_def keycloak_section_def
      temporal_mode_section_def restapi_section_def components_rest_def set_rest_enabled_def
      known_profile_def rest_namespace_section_def fill_rest_def by_profile_def
      infra_ns_def str_or_def Let_def split: option.split)

lemma infra_ns_section:
  "infra_ns (map_option (infra_namespace_section name p) io) = infra_ns (map_option (fill_infra name p) io)"
  by (cases io) (simp_all add: infra_ns_def infra_namespace_section_def fill_infra_def)

lemma fill_core_infra_section:
  "fill_core p (map_option (infra_namespace_section name q) io) c =
   fill_core p (map_option (fill_infra name q) io) c"
  by (simp add: fill_core_def infra_ns_section)

lemma fill_rest_infra_section:
  "fill_rest p (map_option (infra_namespace_section name q) io) r =
   fill_rest p (map_option (fill_infra name q) io) r"
  by (simp add: fill_rest_def infra_ns_section)

lemma default_spec_filled: "default_spec name s = filled_spec name s"
proof (rule carbide_spec.equality)
  show "spec_infrastructure (default_spec name s) = spec_infrastructure (filled_spec name s)"
    by (simp add: default_spec_chain default_step_defs filled_spec_def Let_def
        option.map_comp o_def infra_sections)
qed (simp_all add: default_spec_chain default_step_defs filled_spec_def Let_def option.map_comp o_def
    core_sections rest_sections fill_core_infra_section fill_rest_infra_section)

section \<open>The contract of a defaulter\<close>

text \<open>
  Every level of the defaulter, from one section to the whole resource, has the same contract:
  its result is complete, and it leaves a complete value alone.  The consequences are proved
  once; each level is an interpretation.
\<close>

locale defaulter =
  fixes fill :: "'a \<Rightarrow> 'a"
    and complete :: "'a \<Rightarrow> bool"
  assumes completes: "complete (fill x)"
    and fixpoint: "complete x \<Longrightarrow> fill x = x"
begin

lemma idem: "fill (fill x) = fill x"
  by (rule fixpoint) (rule completes)

lemma complete_iff: "complete x \<longleftrightarrow> fill x = x"
  using completes fixpoint by metis

lemma idem_option: "map_option fill (map_option fill x) = map_option fill x"
  by (cases x) (simp_all add: idem)

lemma completes_option: "pred_option complete (map_option fill x)"
  by (cases x) (simp_all add: completes)

lemma fixpoint_option: "pred_option complete x \<Longrightarrow> map_option fill x = x"
  by (cases x) (simp_all add: fixpoint)

end

definition complete_spiffe :: "spiffe_config \<Rightarrow> bool" where
  "complete_spiffe c \<longleftrightarrow>
     spiffe_trust_domain c \<noteq> [] \<and> spiffe_helper_image c \<noteq> [] \<and> spiffe_class_name c \<noteq> []"

definition complete_tls :: "tls_config \<Rightarrow> bool" where
  "complete_tls t \<longleftrightarrow>
     tls_mode t \<noteq> [] \<and> (tls_mode t = TLSModeSpiffe \<longrightarrow> tls_spiffe t \<noteq> None) \<and>
     pred_option complete_spiffe (tls_spiffe t)"

definition complete_vault :: "vault_config \<Rightarrow> bool" where
  "complete_vault v \<longleftrightarrow> vault_mode v \<noteq> [] \<and> vault_version v \<noteq> [] \<and> vault_kv_mount_path v \<noteq> []"

definition complete_rla :: "rla_config \<Rightarrow> bool" where
  "complete_rla c \<longleftrightarrow> rla_port c \<noteq> 0 \<and> rla_replicas c \<noteq> 0"

definition complete_psm :: "psm_config \<Rightarrow> bool" where
  "complete_psm c \<longleftrightarrow> psm_port c \<noteq> 0 \<and> psm_replicas c \<noteq> 0"

definition complete_infra :: "string \<Rightarrow> DeploymentProfile \<Rightarrow> infrastructure_config \<Rightarrow> bool" where
  "complete_infra name p i \<longleftrightarrow>
     (infra_namespace i \<noteq> [] \<or> profile_namespace name p = []) \<and>
     (pg_databases (infra_postgresql i) \<noteq> [] \<or> profile_databases p = []) \<and>
     pg_mode (infra_postgresql i) \<noteq> [] \<and> pg_replicas (infra_postgresql i) \<noteq> 0"

definition complete_core ::
    "DeploymentProfile \<Rightarrow> infrastructure_config option \<Rightarrow> core_config \<Rightarrow> bool" where
  "complete_core p io c \<longleftrightarrow>
     (core_namespace c \<noteq> [] \<or> infra_ns io = []) \<and>
     api_port (core_api c) \<noteq> 0 \<and> api_replicas (core_api c) \<noteq> 0 \<and>
     pxe_tftp_port (core_pxe c) \<noteq> 0 \<and> pxe_http_port (core_pxe c) \<noteq> 0 \<and> dns_port (core_dns c) \<noteq> 0 \<and>
     (known_profile p \<longrightarrow> dhcp_enabled (core_dhcp c) = is_site_profile p \<and>
        pxe_enabled (core_pxe c) = is_site_profile p \<and> dns_enabled (core_dns c) = is_site_profile p) \<and>
     (is_site_profile p \<longrightarrow> core_vault c \<noteq> None \<and> core_rla c \<noteq> None \<and> core_psm c \<noteq> None) \<and>
     pred_option complete_vault (core_vault c) \<and> pred_option complete_rla (core_rla c) \<and>
     pred_option complete_psm (core_psm c)"

definition complete_rest ::
    "DeploymentProfile \<Rightarrow> infrastructure_config option \<Rightarrow> rest_config \<Rightarrow> bool" where
  "complete_rest p io r \<longleftrightarrow>
     (rest_namespace r \<noteq> [] \<or> infra_ns io = []) \<and>
     (known_profile p \<longrightarrow> rest_enabled r = is_management_profile p) \<and>
     temporal_mode (rest_temporal r) \<noteq> [] \<and> temporal_version (rest_temporal r) \<noteq> [] \<and>
     temporal_chart_version (rest_temporal r) \<noteq> [] \<and> temporal_namespace (rest_temporal r) \<noteq> [] \<and>
     temporal_replicas (rest_temporal r) \<noteq> 0 \<and>
     kc_mode (rest_keycloak r) \<noteq> [] \<and> kc_realm (rest_keycloak r) \<noteq> [] \<and>
     ra_port (rest_restapi r) \<noteq> 0 \<and> ra_replicas (rest_restapi r) \<noteq> 0"

definition complete_spec :: "string \<Rightarrow> carbide_spec \<Rightarrow> bool" where
  "complete_spec name s \<longleftrightarrow>
     net_domain (spec_network s) \<noteq> [] \<and>
     pred_option (complete_infra name (spec_profile s)) (spec_infrastructure s) \<and>
     complete_core (spec_profile s) (spec_infrastructure s) (spec_core s) \<and>
     pred_option (complete_rest (spec_profile s) (spec_infrastructure s)) (spec_rest s) \<and>
     (case spec_tls s of None \<Rightarrow> False | Some t \<Rightarrow> complete_tls t)"

interpretation spiffe_fill: defaulter fill_spiffe complete_spiffe
  by unfold_locales (auto simp: fill_spiffe_def complete_spiffe_def)

interpretation vault_fill: defaulter fill_vault complete_vault
  by unfold_locales (auto simp: fill_vault_def complete_vault_def)

interpretation rla_fill: defaulter fill_rla complete_rla
  by unfold_locales (auto simp: fill_rla_def complete_rla_def)

interpretation psm_fill: defaulter fill_psm complete_psm
  by unfold_locales (auto simp: fill_psm_def complete_psm_def)

interpretation infra_fill: defaulter "fill_infra name p" "complete_infra name p"
  by unfold_locales (auto simp: fill_infra_def fill_pg_def complete_infra_def)

interpretation tls_fill: defaulter fill_tls complete_tls
proof (unfold_locales, goal_cases)
  case (1 t)
  show ?case
    by (cases "tls_spiffe t")
      (auto simp: fill_tls_def complete_tls_def Let_def spiffe_fill.completes str_or_def)
next
  case (2 t)
  then show ?case
    by (cases "tls_spiffe t") (auto simp: fill_tls_def complete_tls_def Let_def spiffe_fill.fixpoint)
qed

lemma complete_new_tls: "complete_tls new_tls"
  by (simp add: new_tls_def complete_tls_def complete_spiffe_def)

lemma tls_section_complete: "complete_tls (tls_section t)"
  by (cases t) (simp_all add: tls_section_def complete_new_tls tls_fill.completes)

lemma tls_section_idem: "tls_section (Some (tls_section t)) = tls_section t"
  by (simp add: tls_section_def [of "Some _"] tls_section_complete tls_fill.fixpoint)

lemma by_profile_services [simp]: "known_profile p \<Longrightarrow> by_profile p False True True b = is_site_profile p"
  by (auto simp: known_profile_def by_profile_def is_site_profile_def)

lemma by_profile_rest [simp]: "known_profile p \<Longrightarrow> by_profile p True False True b = is_management_profile p"
  by (auto simp: known_profile_def by_profile_def is_management_profile_def)

lemma by_profile_unknown [simp]: "\<not> known_profile p \<Longrightarrow> by_profile p a b c old = old"
  by (auto simp: known_profile_def by_profile_def)

lemma present_for_site_site [simp]: "is_site_profile p \<Longrightarrow> present_for_site p d x \<noteq> None"
  by (auto simp: present_for_site_def split: option.split)

lemma present_for_site_id [simp]: "is_site_profile p \<longrightarrow> x \<noteq> None \<Longrightarrow> present_for_site p d x = x"
  by (auto simp: present_for_site_def split: option.split)

interpretation core_fill: defaulter "fill_core p io" "complete_core p io"
proof (unfold_locales, goal_cases)
  case (1 c)
  show ?case
    by (simp add: fill_core_def complete_core_def Let_def vault_fill.completes_option
        rla_fill.completes_option psm_fill.completes_option)
next
  case (2 c)
  then show ?case
    by (cases c; cases "known_profile p")
      (auto simp: fill_core_def complete_core_def Let_def vault_fill.fixpoint_option
        rla_fill.fixpoint_option psm_fill.fixpoint_option)
qed

interpretation rest_fill: defaulter "fill_rest p io" "complete_rest p io"
proof (unfold_locales, goal_cases)
  case (1 r)
  show ?case by (simp add: fill_rest_def complete_rest_def Let_def)
next
  case (2 r)
  then show ?case
    by (cases r; cases "known_profile p") (auto simp: fill_rest_def complete_rest_def Let_def)
qed

interpretation spec_fill: defaulter "default_spec name" "complete_spec name"
proof (unfold_locales, goal_cases)
  case (1 s)
  show ?case
    by (simp add: default_spec_filled filled_spec_def complete_spec_def Let_def fill_domain_def
        infra_fill.completes_option core_fill.completes rest_fill.completes_option tls_section_complete)
next
  case (2 s)
  then show ?case
    by (auto simp: default_spec_filled filled_spec_def complete_spec_def Let_def fill_domain_def
        infra_fill.fixpoint_option core_fill.fixpoint rest_fill.fixpoint_option tls_section_def
        tls_fill.fixpoint split: option.splits)
qed

interpretation resource_fill: defaulter applyDefaults "\<lambda>r. complete_spec (cd_name r) (cd_spec r)"
  by unfold_locales (simp_all add: applyDefaults_def spec_fill.completes spec_fill.fixpoint)

end
