(* ===== verification/Validation.thy ===== *)
theory Validation
  imports Webhook
begin

text \<open>
  The validating half of the admission webhook (\<^verbatim>\<open>ValidateCreate\<close>, \<^verbatim>\<open>ValidateUpdate\<close>,
  \<^verbatim>\<open>ValidateDelete\<close> and \<^verbatim>\<open>validateCarbideDeployment\<close>).  A check takes the warnings collected so far
  and returns the warnings and, if it fails, the error; the checks run in the order of the
  source and the first error stops them.  \<open>valid_spec\<close> is the abstract specification, a
  conjunction without any order; the checks refine it.
\<close>

type_synonym check = "string list \<Rightarrow> string list \<times> validation_error option"

fun run_checks :: "check list \<Rightarrow> check" where
  "run_checks [] w = (w, None)"
| "run_checks (c # cs) w =
     (case c w of (w', Some e) \<Rightarrow> (w', Some e) | (w', None) \<Rightarrow> run_checks cs w')"

subsection \<open>The checks\<close>

definition check_network :: "carbide_spec \<Rightarrow> check" where
  "check_network s w =
     (if is_site_profile (spec_profile s) then
        (if net_interface (spec_network s) = [] then (w, Some (InterfaceRequired (spec_profile s)))
         else if net_admin_cidr (spec_network s) = [] then (w, Some (AdminNetworkCIDRRequired (spec_profile s)))
         else if net_ip (spec_network s) = [] then (w, Some (IPRequired (spec_profile s)))
         else (w, None))
      else (w, None))"

definition check_management_network :: "carbide_spec \<Rightarrow> check" where
  "check_management_network s w =
     (if spec_profile s = ProfileManagement \<and>
         (net_interface (spec_network s) \<noteq> [] \<or> net_admin_cidr (spec_network s) \<noteq> []) then
        (w @ [''network.interface and network.adminNetworkCIDR are not used for management profile''], None)
      else (w, None))"

definition check_rest_present :: "carbide_spec \<Rightarrow> check" where
  "check_rest_present s w =
     (if is_management_profile (spec_profile s) \<and> spec_rest s = None
      then (w, Some (RestRequired (spec_profile s))) else (w, None))"

definition check_tls :: "carbide_spec \<Rightarrow> check" where
  "check_tls s w =
     (case spec_tls s of
        None \<Rightarrow> (w, None)
      | Some t \<Rightarrow>
          if tls_mode t = TLSModeCertManager then
            (case tls_cert_manager t of
               None \<Rightarrow> (w, Some IssuerRefRequired)
             | Some cm \<Rightarrow>
                 if issuer_name (cm_issuer_ref cm) = [] then (w, Some IssuerRefRequired)
                 else if issuer_kind (cm_issuer_ref cm) = [] then (w, Some IssuerKindRequired)
                 else (w, None))
          else if tls_mode t = TLSModeSpiffe then
            (w @ [''SPIRE must be installed in the cluster for SPIFFE TLS mode''], None)
          else (w, None))"

definition check_postgresql :: "carbide_spec \<Rightarrow> check" where
  "check_postgresql s w =
     (case spec_infrastructure s of
        None \<Rightarrow> (w, None)
      | Some i \<Rightarrow>
          if pg_mode (infra_postgresql i) = ExternalMode then
            (case pg_connection (infra_postgresql i) of
               None \<Rightarrow> (w, Some PGConnectionRequired)
             | Some c \<Rightarrow>
                 if pgc_host c = [] then (w, Some PGHostRequired)
                 else if pgc_user_secrets c = [] then
                   (w @ [''infrastructure.postgresql.connection.userSecrets is recommended for external mode''], None)
                 else (w, None))
          else (w, None))"

definition check_vault :: "carbide_spec \<Rightarrow> check" where
  "check_vault s w =
     (case core_vault (spec_core s) of
        None \<Rightarrow> (w, None)
      | Some v \<Rightarrow>
          if vault_mode v = ExternalMode then
            (if vault_address v = [] then (w, Some VaultAddressRequired)
             else if vault_token_secret_ref v = None then (w, Some VaultTokenSecretRefRequired)
             else (w, None))
          else (w, None))"

definition rla_on :: "carbide_spec \<Rightarrow> bool" where
  "rla_on s \<longleftrightarrow> (case core_rla (spec_core s) of None \<Rightarrow> False | Some c \<Rightarrow> rla_enabled c)"

definition psm_on :: "carbide_spec \<Rightarrow> bool" where
  "psm_on s \<longleftrightarrow> (case core_psm (spec_core s) of None \<Rightarrow> False | Some c \<Rightarrow> psm_enabled c)"

definition check_rla_psm :: "carbide_spec \<Rightarrow> check" where
  "check_rla_psm s w =
     (if is_site_profile (spec_profile s) then (w, None)
      else
        (let w1 = (if rla_on s
                   then w @ [''core.rla is only supported for site and management-with-site profiles''] else w);
             w2 = (if psm_on s
                   then w1 @ [''core.psm is only supported for site and management-with-site profiles''] else w1)
         in (w2, None)))"

definition check_temporal :: "carbide_spec \<Rightarrow> check" where
  "check_temporal s w =
     (case spec_rest s of
        None \<Rightarrow> (w, None)
      | Some r \<Rightarrow>
          if temporal_mode (rest_temporal r) = ExternalMode \<and> temporal_endpoint (rest_temporal r) = []
          then (w, Some TemporalEndpointRequired) else (w, None))"

fun check_providers :: "nat \<Rightarrow> auth_provider_config list \<Rightarrow> validation_error option" where
  "check_providers i [] = None"
| "check_providers i (p # ps) =
     (if ap_issuer_url p = [] then Some (IssuerURLRequired i)
      else if ap_jwks_url p = [] then Some (JWKSURLRequired i)
      else check_providers (Suc i) ps)"

definition check_keycloak :: "carbide_spec \<Rightarrow> check" where
  "check_keycloak s w =
     (case spec_rest s of
        None \<Rightarrow> (w, None)
      | Some r \<Rightarrow>
          (let k = rest_keycloak r in
           if kc_mode k = AuthModeExternal then
             (if kc_auth_providers k = [] then (w, Some AuthProvidersRequired)
              else (w, check_providers 0 (kc_auth_providers k)))
           else if kc_mode k = AuthModeDisabled then
             (w @ [''Authentication disabled - not recommended for production''], None)
           else (w, None)))"

definition validate_spec :: "carbide_spec \<Rightarrow> string list \<times> validation_error option" where
  "validate_spec s =
     run_checks [check_network s, check_management_network s, check_rest_present s, check_tls s,
                 check_postgresql s, check_vault s, check_rla_psm s, check_temporal s, check_keycloak s] []"

definition validateCarbideDeployment ::
    "carbide_deployment \<Rightarrow> string list \<times> validation_error option" where
  "validateCarbideDeployment r = validate_spec (cd_spec r)"

subsection \<open>The webhook entry points\<close>

definition ValidateCreate :: "runtime_object \<Rightarrow> string list \<times> validation_error option" where
  "ValidateCreate obj =
     (case obj of
        CarbideObject cd \<Rightarrow> validateCarbideDeployment cd
      | OtherObject t \<Rightarrow> ([], Some (UnexpectedObject t)))"

definition check_immutable :: "carbide_spec \<Rightarrow> carbide_spec \<Rightarrow> validation_error option" where
  "check_immutable old new =
     (if spec_profile old \<noteq> spec_profile new
      then Some (ProfileImmutable (spec_profile old) (spec_profile new))
      else case (spec_infrastructure old, spec_infrastructure new) of
        (Some i, Some j) \<Rightarrow>
          if infra_namespace i \<noteq> [] \<and> infra_namespace j \<noteq> [] \<and> infra_namespace i \<noteq> infra_namespace j
          then Some (NamespaceImmutable (infra_namespace i) (infra_namespace j)) else None
      | _ \<Rightarrow> None)"

definition ValidateUpdate ::
    "runtime_object \<Rightarrow> runtime_object \<Rightarrow> string list \<times> validation_error option" where
  "ValidateUpdate oldObj newObj =
     (case oldObj of
        OtherObject t \<Rightarrow> ([], Some (UnexpectedObject t))
      | CarbideObject oldCD \<Rightarrow>
          (case newObj of
             OtherObject t \<Rightarrow> ([], Some (UnexpectedObject t))
           | CarbideObject cd \<Rightarrow>
               (case check_immutable (cd_spec oldCD) (cd_spec cd) of
                  Some e \<Rightarrow> ([], Some e)
                | None \<Rightarrow> validateCarbideDeployment cd)))"

definition ValidateDelete :: "runtime_object \<Rightarrow> string list \<times> validation_error option" where
  "ValidateDelete obj = ([], None)"

section \<open>The abstract specification and its refinement\<close>

definition valid_network :: "carbide_spec \<Rightarrow> bool" where
  "valid_network s \<longleftrightarrow>
     (is_site_profile (spec_profile s) \<longrightarrow>
        net_interface (spec_network s) \<noteq> [] \<and> net_admin_cidr (spec_network s) \<noteq> [] \<and> net_ip (spec_network s) \<noteq> [])"

definition valid_tls :: "carbide_spec \<Rightarrow> bool" where
  "valid_tls s \<longleftrightarrow>
     pred_option (\<lambda>t. tls_mode t = TLSModeCertManager \<longrightarrow>
       (\<exists>cm. tls_cert_manager t = Some cm \<and> issuer_name (cm_issuer_ref cm) \<noteq> [] \<and>
             issuer_kind (cm_issuer_ref cm) \<noteq> [])) (spec_tls s)"

definition valid_postgresql :: "carbide_spec \<Rightarrow> bool" where
  "valid_postgresql s \<longleftrightarrow>
     pred_option (\<lambda>i. pg_mode (infra_postgresql i) = ExternalMode \<longrightarrow>
       (\<exists>c. pg_connection (infra_postgresql i) = Some c \<and> pgc_host c \<noteq> [])) (spec_infrastructure s)"

definition valid_vault :: "carbide_spec \<Rightarrow> bool" where
  "valid_vault s \<longleftrightarrow>
     pred_option (\<lambda>v. vault_mode v = ExternalMode \<longrightarrow> vault_address v \<noteq> [] \<and> vault_token_secret_ref v \<noteq> None)
       (core_vault (spec_core s))"

definition valid_rest :: "carbide_spec \<Rightarrow> bool" where
  "valid_rest s \<longleftrightarrow>
     (is_management_profile (spec_profile s) \<longrightarrow> spec_rest s \<noteq> None) \<and>
     pred_option (\<lambda>r.
       (temporal_mode (rest_temporal r) = ExternalMode \<longrightarrow> temporal_endpoint (rest_temporal r) \<noteq> []) \<and>
       (kc_mode (rest_keycloak r) = AuthModeExternal \<longrightarrow>
          kc_auth_providers (rest_keycloak r) \<noteq> [] \<and>
          (\<forall>p \<in> set (kc_auth_providers (rest_keycloak r)). ap_issuer_url p \<noteq> [] \<and> ap_jwks_url p \<noteq> [])))
       (spec_rest s)"

definition valid_spec :: "carbide_spec \<Rightarrow> bool" where
  "valid_spec s \<longleftrightarrow>
     valid_network s \<and> valid_tls s \<and> valid_postgresql s \<and> valid_vault s \<and> valid_rest s"

lemma check_providers_None:
  "check_providers i ps = None \<longleftrightarrow> (\<forall>p \<in> set ps. ap_issuer_url p \<noteq> [] \<and> ap_jwks_url p \<noteq> [])"
  by (induction ps arbitrary: i) auto

lemma check_ok:
  "snd (check_network s w) = None \<longleftrightarrow> valid_network s"
  "snd (check_management_network s w) = None"
  "snd (check_rest_present s w) = None \<longleftrightarrow> (is_management_profile (spec_profile s) \<longrightarrow> spec_rest s \<noteq> None)"
  "snd (check_tls s w) = None \<longleftrightarrow> valid_tls s"
  "snd (check_postgresql s w) = None \<longleftrightarrow> valid_postgresql s"
  "snd (check_vault s w) = None \<longleftrightarrow> valid_vault s"
  "snd (check_rla_psm s w) = None"
  by (auto simp: check_network_def valid_network_def check_management_network_def check_rest_present_def
      check_tls_def valid_tls_def check_postgresql_def valid_postgresql_def check_vault_def valid_vault_def
      check_rla_psm_def Let_def split: option.split)

lemma check_rest_ok:
  "snd (check_temporal s w) = None \<longleftrightarrow> pred_option (\<lambda>r. temporal_mode (rest_temporal r) = ExternalMode \<longrightarrow>
     temporal_endpoint (rest_temporal r) \<noteq> []) (spec_rest s)"
  "snd (check_keycloak s w) = None \<longleftrightarrow> pred_option (\<lambda>r. kc_mode (rest_keycloak r) = AuthModeExternal \<longrightarrow>
     kc_auth_providers (rest_keycloak r) \<noteq> [] \<and>
     (\<forall>p \<in> set (kc_auth_providers (rest_keycloak r)). ap_issuer_url p \<noteq> [] \<and> ap_jwks_url p \<noteq> [])) (spec_rest s)"
  by (auto simp: check_temporal_def check_keycloak_def check_providers_None Let_def split: option.split)

lemma run_checks_Cons_ok:
  "snd (run_checks (c # cs) w) = None \<longleftrightarrow> snd (c w) = None \<and> snd (run_checks cs (fst (c w))) = None"
  by (cases "c w"; cases "snd (c w)") auto

lemma validate_spec_ok: "snd (validate_spec s) = None \<longleftrightarrow> valid_spec s"
  unfolding validate_spec_def
  by (cases "spec_rest s"; simp only: run_checks_Cons_ok check_ok check_rest_ok)
    (auto simp: valid_spec_def valid_rest_def)

subsection \<open>Defaulting and validity\<close>

lemma fill_spiffe_tls [simp]:
  "tls_mode (fill_tls t) = str_or (tls_mode t) TLSModeSpiffe"
  "tls_cert_manager (fill_tls t) = tls_cert_manager t"
  by (auto simp: fill_tls_def Let_def)

lemma default_spec_sel [simp]:
  "spec_profile (default_spec name s) = spec_profile s"
  "spec_version (default_spec name s) = spec_version s"
  "spec_images (default_spec name s) = spec_images s"
  "spec_site_ref (default_spec name s) = spec_site_ref s"
  "spec_network (default_spec name s) = fill_domain (spec_network s)"
  "spec_infrastructure (default_spec name s) = map_option (fill_infra name (spec_profile s)) (spec_infrastructure s)"
  "spec_rest (default_spec name s) =
     map_option (fill_rest (spec_profile s) (map_option (fill_infra name (spec_profile s)) (spec_infrastructure s)))
       (spec_rest s)"
  "spec_core (default_spec name s) =
     fill_core (spec_profile s) (map_option (fill_infra name (spec_profile s)) (spec_infrastructure s)) (spec_core s)"
  "spec_tls (default_spec name s) = Some (tls_section (spec_tls s))"
  by (simp_all add: default_spec_filled filled_spec_def Let_def)

lemma str_or_eq_other: "d \<noteq> v \<Longrightarrow> v \<noteq> [] \<Longrightarrow> str_or x d = v \<longleftrightarrow> x = v"
  by (auto simp: str_or_def)

lemma valid_network_default: "valid_network (default_spec name s) = valid_network s"
  by (simp add: valid_network_def fill_domain_def)

lemma valid_tls_default: "valid_tls (default_spec name s) = valid_tls s"
  by (cases "spec_tls s") (simp_all add: valid_tls_def tls_section_def new_tls_def str_or_eq_other)

lemma valid_postgresql_default: "valid_postgresql (default_spec name s) = valid_postgresql s"
  by (cases "spec_infrastructure s")
    (simp_all add: valid_postgresql_def fill_infra_def fill_pg_def str_or_eq_other)

lemma valid_vault_default: "valid_vault (default_spec name s) = valid_vault s"
  by (cases "core_vault (spec_core s)")
    (simp_all add: valid_vault_def fill_core_def Let_def present_for_site_def new_vault_def fill_vault_def
      str_or_eq_other)

lemma valid_rest_default: "valid_rest (default_spec name s) = valid_rest s"
  by (cases "spec_rest s") (simp_all add: valid_rest_def fill_rest_def Let_def str_or_eq_other)

lemmas valid_default_simps =
  valid_network_default valid_tls_default valid_postgresql_default valid_vault_default valid_rest_default

end
