(* ===== verification/Admission.thy ===== *)
theory Admission
  imports Validation Samples
begin

text \<open>
  The admission webhook as a whole: what the API server stores after it has called the
  defaulter and then the validator on an update, sequences of admitted updates, and the
  properties of the webhook.
\<close>

text \<open>
  One admitted update: the request \<open>req\<close> is defaulted, the result is validated against the
  stored object and replaces it.
\<close>

inductive admit :: "carbide_deployment \<Rightarrow> carbide_deployment \<Rightarrow> bool" where
  admitI: "snd (ValidateUpdate (CarbideObject r) (CarbideObject (applyDefaults req))) = None \<Longrightarrow>
     admit r (applyDefaults req)"

inductive_cases admitE: "admit r r'"

text \<open>The updates of a history in which the infrastructure section is never dropped.\<close>

definition admit_keeping_infra :: "carbide_deployment \<Rightarrow> carbide_deployment \<Rightarrow> bool" where
  "admit_keeping_infra r r' \<longleftrightarrow> admit r r' \<and> spec_infrastructure (cd_spec r') \<noteq> None"

text \<open>What a defaulter may do to a field: set it if the user left it empty.\<close>

definition kept :: "'a \<Rightarrow> 'a \<Rightarrow> 'a \<Rightarrow> bool" where
  "kept zero x y \<longleftrightarrow> x = zero \<or> y = x"

definition keeps_infra :: "infrastructure_config \<Rightarrow> infrastructure_config \<Rightarrow> bool" where
  "keeps_infra i j \<longleftrightarrow>
     infra_storage_class j = infra_storage_class i \<and> kept [] (infra_namespace i) (infra_namespace j) \<and>
     (let g = infra_postgresql i; h = infra_postgresql j in
      kept [] (pg_mode g) (pg_mode h) \<and> kept [] (pg_databases g) (pg_databases h) \<and>
      kept 0 (pg_replicas g) (pg_replicas h) \<and> pg_version h = pg_version g \<and> pg_storage h = pg_storage g \<and>
      pg_resources h = pg_resources g \<and> pg_connection h = pg_connection g)"

definition keeps_vault :: "vault_config \<Rightarrow> vault_config \<Rightarrow> bool" where
  "keeps_vault v u \<longleftrightarrow>
     kept [] (vault_mode v) (vault_mode u) \<and> kept [] (vault_version v) (vault_version u) \<and>
     kept [] (vault_kv_mount_path v) (vault_kv_mount_path u) \<and> vault_storage u = vault_storage v \<and>
     vault_address u = vault_address v \<and> vault_token_secret_ref u = vault_token_secret_ref v"

definition keeps_core :: "core_config \<Rightarrow> core_config \<Rightarrow> bool" where
  "keeps_core c d \<longleftrightarrow>
     kept [] (core_namespace c) (core_namespace d) \<and>
     kept 0 (api_port (core_api c)) (api_port (core_api d)) \<and>
     kept 0 (api_replicas (core_api c)) (api_replicas (core_api d)) \<and>
     api_resources (core_api d) = api_resources (core_api c) \<and>
     dhcp_resources (core_dhcp d) = dhcp_resources (core_dhcp c) \<and>
     pxe_storage (core_pxe d) = pxe_storage (core_pxe c) \<and> pxe_resources (core_pxe d) = pxe_resources (core_pxe c) \<and>
     kept 0 (pxe_tftp_port (core_pxe c)) (pxe_tftp_port (core_pxe d)) \<and>
     kept 0 (pxe_http_port (core_pxe c)) (pxe_http_port (core_pxe d)) \<and>
     dns_resources (core_dns d) = dns_resources (core_dns c) \<and>
     kept 0 (dns_port (core_dns c)) (dns_port (core_dns d)) \<and>
     core_security d = core_security c \<and>
     (\<forall>v. core_vault c = Some v \<longrightarrow> (\<exists>u. core_vault d = Some u \<and> keeps_vault v u)) \<and>
     (\<forall>v. core_rla c = Some v \<longrightarrow> (\<exists>u. core_rla d = Some u \<and> rla_enabled u = rla_enabled v \<and>
        rla_resources u = rla_resources v \<and> kept 0 (rla_port v) (rla_port u) \<and>
        kept 0 (rla_replicas v) (rla_replicas u))) \<and>
     (\<forall>v. core_psm c = Some v \<longrightarrow> (\<exists>u. core_psm d = Some u \<and> psm_enabled u = psm_enabled v \<and>
        psm_resources u = psm_resources v \<and> kept 0 (psm_port v) (psm_port u) \<and>
        kept 0 (psm_replicas v) (psm_replicas u)))"

definition keeps_rest :: "rest_config \<Rightarrow> rest_config \<Rightarrow> bool" where
  "keeps_rest r q \<longleftrightarrow>
     kept [] (rest_namespace r) (rest_namespace q) \<and> rest_site_agent q = rest_site_agent r \<and>
     (let t = rest_temporal r; u = rest_temporal q in
      kept [] (temporal_mode t) (temporal_mode u) \<and> kept [] (temporal_version t) (temporal_version u) \<and>
      kept [] (temporal_chart_version t) (temporal_chart_version u) \<and>
      kept [] (temporal_namespace t) (temporal_namespace u) \<and>
      kept 0 (temporal_replicas t) (temporal_replicas u) \<and> temporal_resources u = temporal_resources t \<and>
      temporal_endpoint u = temporal_endpoint t \<and> temporal_tls_secret_ref u = temporal_tls_secret_ref t) \<and>
     (let k = rest_keycloak r; l = rest_keycloak q in
      kept [] (kc_mode k) (kc_mode l) \<and> kept [] (kc_realm k) (kc_realm l) \<and>
      kc_admin_password_secret_ref l = kc_admin_password_secret_ref k \<and> kc_resources l = kc_resources k \<and>
      kc_auth_providers l = kc_auth_providers k) \<and>
     (let a = rest_restapi r; b = rest_restapi q in
      kept 0 (ra_port a) (ra_port b) \<and> kept 0 (ra_replicas a) (ra_replicas b) \<and>
      ra_node_port b = ra_node_port a \<and> ra_resources b = ra_resources a)"

definition keeps_user_values :: "carbide_spec \<Rightarrow> carbide_spec \<Rightarrow> bool" where
  "keeps_user_values s t \<longleftrightarrow>
     spec_profile t = spec_profile s \<and> spec_version t = spec_version s \<and> spec_images t = spec_images s \<and>
     spec_site_ref t = spec_site_ref s \<and>
     net_interface (spec_network t) = net_interface (spec_network s) \<and>
     net_ip (spec_network t) = net_ip (spec_network s) \<and>
     net_admin_cidr (spec_network t) = net_admin_cidr (spec_network s) \<and>
     kept [] (net_domain (spec_network s)) (net_domain (spec_network t)) \<and>
     rel_option keeps_infra (spec_infrastructure s) (spec_infrastructure t) \<and>
     keeps_core (spec_core s) (spec_core t) \<and>
     rel_option keeps_rest (spec_rest s) (spec_rest t) \<and>
     (\<forall>c. spec_tls s = Some c \<longrightarrow> (\<exists>d. spec_tls t = Some d \<and> kept [] (tls_mode c) (tls_mode d) \<and>
        tls_cert_manager d = tls_cert_manager c \<and>
        (\<forall>x. tls_spiffe c = Some x \<longrightarrow> (\<exists>y. tls_spiffe d = Some y \<and>
           kept [] (spiffe_trust_domain x) (spiffe_trust_domain y) \<and>
           kept [] (spiffe_helper_image x) (spiffe_helper_image y) \<and>
           kept [] (spiffe_class_name x) (spiffe_class_name y)))))"

section \<open>Lemmas\<close>

lemma kept_str_or [simp]: "kept [] x (str_or x d)"
  by (simp add: kept_def str_or_def)

lemma kept_int_or [simp]: "kept 0 x (int_or x d)"
  by (simp add: kept_def int_or_def)

lemma kept_same [simp]: "kept z x x"
  by (simp add: kept_def)

lemma kept_if_empty [simp]: "kept [] x (if x = [] then d else x)"
  by (simp add: kept_def)

lemma keeps_fill_infra: "keeps_infra i (fill_infra name p i)"
  by (simp add: keeps_infra_def fill_infra_def fill_pg_def Let_def)

lemma keeps_fill_core: "keeps_core c (fill_core p io c)"
  by (simp add: keeps_core_def fill_core_def Let_def present_for_site_def keeps_vault_def fill_vault_def
      fill_rla_def fill_psm_def)

lemma keeps_fill_rest: "keeps_rest r (fill_rest p io r)"
  by (simp add: keeps_rest_def fill_rest_def Let_def)

lemma keeps_default_spec: "keeps_user_values s (default_spec name s)"
proof -
  have infra: "rel_option keeps_infra (spec_infrastructure s) (spec_infrastructure (default_spec name s))"
    by (cases "spec_infrastructure s") (simp_all add: keeps_fill_infra)
  have rest: "rel_option keeps_rest (spec_rest s) (spec_rest (default_spec name s))"
    by (cases "spec_rest s") (simp_all add: keeps_fill_rest)
  have tls: "kept [] (tls_mode c) (tls_mode (fill_tls c))" for c
    by simp
  have spiffe: "tls_spiffe c = Some x \<Longrightarrow> tls_spiffe (fill_tls c) = Some (fill_spiffe x)" for c x
    by (simp add: fill_tls_def Let_def)
  show ?thesis
    using infra rest tls spiffe
    by (auto simp: keeps_user_values_def keeps_fill_core fill_domain_def tls_section_def fill_spiffe_def)
qed

lemma validate_update_ok:
  "snd (ValidateUpdate (CarbideObject r) (CarbideObject r')) = None \<longleftrightarrow>
   check_immutable (cd_spec r) (cd_spec r') = None \<and> valid_spec (cd_spec r')"
  by (simp add: ValidateUpdate_def validateCarbideDeployment_def validate_spec_ok split: option.split)

lemma admit_iff:
  "admit r r' \<longleftrightarrow> (\<exists>req. r' = applyDefaults req) \<and> check_immutable (cd_spec r) (cd_spec r') = None \<and>
     valid_spec (cd_spec r')"
  by (auto elim!: admitE intro: admitI simp: validate_update_ok)

lemma admit_profile: "admit r r' \<Longrightarrow> spec_profile (cd_spec r') = spec_profile (cd_spec r)"
  by (auto simp: admit_iff check_immutable_def split: if_splits)

lemma admit_valid: "admit r r' \<Longrightarrow> valid_spec (cd_spec r') \<and> complete_spec (cd_name r') (cd_spec r')"
  by (auto simp: admit_iff resource_fill.completes)

lemma profile_namespace_nonempty: "known_profile p \<Longrightarrow> profile_namespace name p \<noteq> []"
  by (auto simp: known_profile_def profile_namespace_def)

lemma profile_databases_nonempty: "known_profile p \<Longrightarrow> profile_databases p \<noteq> []"
  by (auto simp: known_profile_def profile_databases_def)

lemma defaulted_infra_namespace:
  assumes "known_profile (spec_profile (cd_spec r))" "spec_infrastructure (cd_spec (applyDefaults r)) = Some i"
  shows "infra_namespace i \<noteq> []" "pg_databases (infra_postgresql i) \<noteq> []"
proof -
  from assms(2) obtain z where z: "i = fill_infra (cd_name r) (spec_profile (cd_spec r)) z"
    by (auto simp: applyDefaults_def)
  show "infra_namespace i \<noteq> []" "pg_databases (infra_postgresql i) \<noteq> []"
    using assms(1) by (simp_all add: z fill_infra_def fill_pg_def profile_namespace_nonempty
        profile_databases_nonempty)
qed

lemma admit_keeping_infra_namespace:
  assumes step: "admit_keeping_infra r r'"
    and known: "known_profile (spec_profile (cd_spec r))"
    and i: "spec_infrastructure (cd_spec r) = Some i" "infra_namespace i \<noteq> []"
  shows "\<exists>j. spec_infrastructure (cd_spec r') = Some j \<and> infra_namespace j = infra_namespace i"
proof -
  from step obtain j where j: "spec_infrastructure (cd_spec r') = Some j"
    by (auto simp: admit_keeping_infra_def)
  from step have adm: "admit r r'" by (simp add: admit_keeping_infra_def)
  then obtain req where req: "r' = applyDefaults req"
    and imm: "check_immutable (cd_spec r) (cd_spec r') = None" by (auto simp: admit_iff)
  have "known_profile (spec_profile (cd_spec req))"
    using known admit_profile [OF adm] req by (simp add: applyDefaults_def)
  with req j have "infra_namespace j \<noteq> []" by (auto dest: defaulted_infra_namespace)
  with imm i j show ?thesis by (auto simp: check_immutable_def split: if_splits)
qed

section \<open>Properties\<close>

text \<open>
  Defaulting is idempotent: running the defaulter on a resource it has already defaulted
  changes nothing, so re-admission of a stored object is a no-op.
\<close>
theorem applyDefaults_idempotent: "applyDefaults (applyDefaults r) = applyDefaults r"
  by (rule resource_fill.idem)

text \<open>
  The defaulter fills exactly what is missing: a resource is left unchanged by it if and
  only if its spec is complete (ports, replicas, modes, domain, TLS section, namespaces and
  databases of its profile, network services switched as the profile says).
\<close>
theorem applyDefaults_fixpoint_iff:
  "applyDefaults r = r \<longleftrightarrow> complete_spec (cd_name r) (cd_spec r)"
  by (rule resource_fill.complete_iff [symmetric])


text \<open>
  C28: the ordered, early-returning validator accepts a resource if and only if it satisfies
  the order-free specification \<open>valid_spec\<close>.
\<close>
theorem ValidateCreate_refines:
  "snd (ValidateCreate (CarbideObject r)) = None \<longleftrightarrow> valid_spec (cd_spec r)"
  by (simp add: ValidateCreate_def validateCarbideDeployment_def validate_spec_ok)

text \<open>
  C26: defaulting and validation commute: the defaulter neither makes an accepted resource
  invalid nor repairs a rejected one.
\<close>
theorem defaulting_preserves_validity:
  "snd (ValidateCreate (CarbideObject (applyDefaults r))) = None \<longleftrightarrow>
   snd (ValidateCreate (CarbideObject r)) = None"
  by (simp add: ValidateCreate_def validateCarbideDeployment_def validate_spec_ok applyDefaults_def
      valid_spec_def valid_default_simps)

lemma admits_profile: "admit\<^sup>*\<^sup>* r r' \<Longrightarrow> spec_profile (cd_spec r') = spec_profile (cd_spec r)"
  by (induction rule: rtranclp_induct) (simp_all add: admit_profile)

lemma admits_namespace:
  assumes "admit_keeping_infra\<^sup>*\<^sup>* r r'" and "known_profile (spec_profile (cd_spec r))"
    and "spec_infrastructure (cd_spec r) = Some i" "infra_namespace i \<noteq> []"
  shows "known_profile (spec_profile (cd_spec r')) \<and>
     (\<exists>j. spec_infrastructure (cd_spec r') = Some j \<and> infra_namespace j = infra_namespace i)"
  using assms
proof (induction rule: rtranclp_induct)
  case (step y z)
  then obtain j where j: "spec_infrastructure (cd_spec y) = Some j" "infra_namespace j = infra_namespace i"
    and known: "known_profile (spec_profile (cd_spec y))" by auto
  have "admit y z" using step.hyps(2) by (simp add: admit_keeping_infra_def)
  moreover have "\<exists>k. spec_infrastructure (cd_spec z) = Some k \<and> infra_namespace k = infra_namespace j"
    using step.hyps(2) known j(1) by (rule admit_keeping_infra_namespace) (simp add: j(2) assms(4))
  ultimately show ?case using known j(2) by (simp add: admit_profile)
qed simp

text \<open>
  The profile is immutable over the whole life of a resource: no sequence of admitted
  updates, each defaulted and validated, changes it.
\<close>
theorem profile_immutable:
  assumes "admit\<^sup>*\<^sup>* r r'"
  shows "spec_profile (cd_spec r') = spec_profile (cd_spec r)"
  using assms by (rule admits_profile)

text \<open>
  The infrastructure namespace is immutable over every sequence of admitted updates that
  never drops the infrastructure section, once it is set and the profile is one the API allows.
\<close>
theorem namespace_immutable:
  assumes "admit_keeping_infra\<^sup>*\<^sup>* r r'" and "known_profile (spec_profile (cd_spec r))"
    and "spec_infrastructure (cd_spec r) = Some i" "infra_namespace i \<noteq> []"
  shows "\<exists>j. spec_infrastructure (cd_spec r') = Some j \<and> infra_namespace j = infra_namespace i"
  using admits_namespace [OF assms] by blast

text \<open>
  The namespace check has a loophole: two admitted updates, the first of which drops the
  infrastructure section, move a deployment to another infrastructure namespace.
\<close>
theorem namespace_loophole:
  "\<exists>r r' i j. admit\<^sup>*\<^sup>* r r' \<and> spec_infrastructure (cd_spec r) = Some i \<and>
     spec_infrastructure (cd_spec r') = Some j \<and> infra_namespace i \<noteq> [] \<and>
     infra_namespace j \<noteq> [] \<and> infra_namespace i \<noteq> infra_namespace j"
proof -
  define r where "r = applyDefaults sample_site"
  define dropped where "dropped = applyDefaults (sample_site\<lparr>cd_spec := site_spec\<lparr>spec_infrastructure := None\<rparr>\<rparr>)"
  define moved where "moved = applyDefaults (sample_site\<lparr>cd_spec :=
    site_spec\<lparr>spec_infrastructure := Some (zero_infra\<lparr>infra_namespace := ''elsewhere''\<rparr>)\<rparr>\<rparr>)"
  have valid: "valid_spec (cd_spec dropped)" "valid_spec (cd_spec moved)"
    by (simp_all add: dropped_def moved_def applyDefaults_def valid_spec_def valid_default_simps)
      (simp_all add: sample_defs valid_network_def valid_tls_def valid_postgresql_def valid_vault_def
        valid_rest_def is_management_profile_def)
  have "admit r dropped" "admit dropped moved"
    using valid
    by (auto simp: admit_iff r_def dropped_def moved_def)
      (simp_all add: applyDefaults_def check_immutable_def sample_defs)
  then have "admit\<^sup>*\<^sup>* r moved" by (meson r_into_rtranclp rtranclp.rtrancl_into_rtrancl)
  then show ?thesis
    by (intro exI conjI) (auto simp: r_def moved_def applyDefaults_def sample_defs fill_infra_def
        profile_namespace_def)
qed

section \<open>Witnesses\<close>

definition edited_site :: carbide_deployment where
  "edited_site = sample_site\<lparr>cd_spec := site_spec\<lparr>spec_version := ''v1.1.0''\<rparr>\<rparr>"

lemma edited_site_admitted: "admit_keeping_infra (applyDefaults sample_site) (applyDefaults edited_site)"
proof -
  have "valid_spec (cd_spec (applyDefaults edited_site))"
    by (simp add: applyDefaults_def valid_spec_def valid_default_simps)
      (simp add: edited_site_def sample_defs valid_network_def valid_tls_def valid_postgresql_def
        valid_vault_def valid_rest_def is_management_profile_def)
  then show ?thesis
    by (auto simp: admit_keeping_infra_def admit_iff)
      (simp_all add: applyDefaults_def check_immutable_def edited_site_def sample_defs fill_infra_def)
qed

theorem profile_immutable_witness:
  "admit\<^sup>*\<^sup>* (applyDefaults sample_site) (applyDefaults edited_site) \<and>
   spec_profile (cd_spec (applyDefaults edited_site)) = spec_profile (cd_spec (applyDefaults sample_site))"
proof -
  have "admit\<^sup>*\<^sup>* (applyDefaults sample_site) (applyDefaults edited_site)"
    using edited_site_admitted by (auto simp: admit_keeping_infra_def)
  from this profile_immutable [OF this] show ?thesis by blast
qed

theorem namespace_immutable_witness:
  "\<exists>j. spec_infrastructure (cd_spec (applyDefaults edited_site)) = Some j \<and>
     infra_namespace j = ''carbide-site-boston''"
proof -
  have "admit_keeping_infra\<^sup>*\<^sup>* (applyDefaults sample_site) (applyDefaults edited_site)"
    using edited_site_admitted by blast
  from namespace_immutable [OF this]
  show ?thesis by (simp add: applyDefaults_def sample_defs fill_infra_def profile_namespace_def known_profile_def)
qed

end
