(* ===== verification/Controller.thy ===== *)
theory Controller
  imports Infra_Reconciler Core_Reconciler Rest_Reconciler Conditions Admission
begin

text \<open>
  The controller (\<^verbatim>\<open>internal/controller/carbidedeployment_controller.go\<close>): one pass of
  \<^verbatim>\<open>Reconcile\<close> over a CarbideDeployment, from the first read of the resource to the status update.
  Parameters: the finalizer helpers of controller-runtime (record \<open>finalizer_lib\<close>, laws in the locale
  \<open>finalizer_laws\<close>) and the condition helpers of apimachinery (\<open>status_lib\<close>).  The tier reconcilers are
  fields of the controller, as in the Go struct; the locale \<open>controller\<close> states what it relies on in
  them, and the interpretation \<open>carbide\<close> discharges that for the three tiers.
\<close>

section \<open>Parameters and results\<close>

record finalizer_lib =
  ContainsFinalizer :: "carbide_deployment \<Rightarrow> string \<Rightarrow> bool"
  AddFinalizer :: "carbide_deployment \<Rightarrow> string \<Rightarrow> carbide_deployment"
  RemoveFinalizer :: "carbide_deployment \<Rightarrow> string \<Rightarrow> carbide_deployment"

locale finalizer_laws =
  fixes F :: finalizer_lib
  assumes contains_iff: "ContainsFinalizer F d f \<longleftrightarrow> f \<in> set (cd_finalizers d)"
    and add_only: "\<exists>fs. AddFinalizer F d f = d\<lparr>cd_finalizers := fs\<rparr> \<and> set fs = insert f (set (cd_finalizers d))"
    and remove_only: "\<exists>fs. RemoveFinalizer F d f = d\<lparr>cd_finalizers := fs\<rparr> \<and> set fs = set (cd_finalizers d) - {f}"

definition carbideFinalizer :: string where "carbideFinalizer = ''carbide.nvidia.com/finalizer''"
definition requeueDelay :: nat where "requeueDelay = 30"

text \<open>\<^verbatim>\<open>ctrl.Result\<close>, with the delay in seconds (0 for none).\<close>

record ctrl_result =
  requeue :: bool
  requeue_after :: nat

definition noRequeue :: ctrl_result where "noRequeue = \<lparr>requeue = False, requeue_after = 0\<rparr>"
definition requeueNow :: ctrl_result where "requeueNow = \<lparr>requeue = True, requeue_after = 0\<rparr>"
definition requeueLater :: ctrl_result where "requeueLater = \<lparr>requeue = False, requeue_after = requeueDelay\<rparr>"

datatype outcome = Returned ctrl_result "goerror option" | Panicked

record reconciler =
  InfrastructureReconciler :: "(carbide_deployment \<Rightarrow> tier_result prog) option"
  CoreReconciler :: "(carbide_deployment \<Rightarrow> tier_result prog) option"
  RestReconciler :: "(carbide_deployment \<Rightarrow> tier_result prog) option"

text \<open>The tier reconcilers that \<^verbatim>\<open>SetupWithManager\<close> installs.\<close>

definition SetupWithManager :: "(quantity \<Rightarrow> string) \<Rightarrow> reconciler" where
  "SetupWithManager qstr =
     \<lparr>InfrastructureReconciler = Some (infra_Reconcile qstr), CoreReconciler = Some core_Reconcile,
      RestReconciler = Some (rest_Reconcile qstr)\<rparr>"

section \<open>TLS prerequisites\<close>

text \<open>Returns the deployment with its conditions updated, the verdict and the error.\<close>

definition checkTLSPrerequisites ::
    "status_lib \<Rightarrow> carbide_deployment \<Rightarrow> (carbide_deployment \<times> bool \<times> goerror option) prog" where
  "checkTLSPrerequisites L d =
     (case spec_tls (cd_spec d) of
        None \<Rightarrow> Ret (d, True, None)
      | Some t \<Rightarrow>
          if tls_mode t = TLSModeSpiffe then
            andThen DetectSPIRE (\<lambda>r. case r of
              Inl err \<Rightarrow>
                andThen (SetSPIFFEAvailableCondition L d False) (\<lambda>d1.
                andThen (SetTLSCondition L d1 False ''Failed to detect SPIRE CSI driver'') (\<lambda>d2.
                Ret (d2, False, Some err)))
            | Inr available \<Rightarrow>
                andThen (SetSPIFFEAvailableCondition L d available) (\<lambda>d1.
                if \<not> available then
                  andThen (SetTLSCondition L d1 False ''SPIRE CSI driver not found - install SPIRE first'') (\<lambda>d2.
                  Ret (d2, False, None))
                else
                  andThen (SetTLSCondition L d1 True ''SPIFFE/SPIRE TLS backend available'') (\<lambda>d2.
                  Ret (d2, True, None))))
          else if tls_mode t = TLSModeCertManager then
            andThen DetectCertManager (\<lambda>r. case r of
              Inl err \<Rightarrow>
                andThen (SetCertManagerAvailableCondition L d False) (\<lambda>d1.
                andThen (SetTLSCondition L d1 False ''Failed to detect cert-manager'') (\<lambda>d2.
                Ret (d2, False, Some err)))
            | Inr available \<Rightarrow>
                andThen (SetCertManagerAvailableCondition L d available) (\<lambda>d1.
                if \<not> available then
                  andThen (SetTLSCondition L d1 False ''cert-manager CRDs not found - install cert-manager first'') (\<lambda>d2.
                  Ret (d2, False, None))
                else
                  andThen (SetTLSCondition L d1 True ''cert-manager TLS backend available'') (\<lambda>d2.
                  Ret (d2, True, None))))
          else
            andThen (SetTLSCondition L d False (''Unknown TLS mode: '' @ tls_mode t)) (\<lambda>d1.
            Ret (d1, False, Some (Errorf (''unknown TLS mode: '' @ tls_mode t)))))"

section \<open>Calling a tier\<close>

definition with_infra :: "tier_status option \<Rightarrow> carbide_deployment \<Rightarrow> carbide_deployment" where
  "with_infra st d = d\<lparr>cd_status := (cd_status d)\<lparr>status_infrastructure := st\<rparr>\<rparr>"

definition with_core :: "tier_status option \<Rightarrow> carbide_deployment \<Rightarrow> carbide_deployment" where
  "with_core st d = d\<lparr>cd_status := (cd_status d)\<lparr>status_core := st\<rparr>\<rparr>"

definition with_rest :: "tier_status option \<Rightarrow> carbide_deployment \<Rightarrow> carbide_deployment" where
  "with_rest st d = d\<lparr>cd_status := (cd_status d)\<lparr>status_rest := st\<rparr>\<rparr>"

text \<open>
  The body shared by \<^verbatim>\<open>reconcileInfrastructure\<close>, \<^verbatim>\<open>reconcileCore\<close> and \<^verbatim>\<open>reconcileRest\<close>; \<open>None\<close> is a panic
  in the tier.
\<close>

definition reconcileTier ::
    "(carbide_deployment \<Rightarrow> tier_result prog) option \<Rightarrow> string \<Rightarrow>
     (tier_status option \<Rightarrow> carbide_deployment \<Rightarrow> carbide_deployment) \<Rightarrow>
     (carbide_deployment \<Rightarrow> tier_status option \<Rightarrow> carbide_deployment prog) \<Rightarrow> carbide_deployment \<Rightarrow>
     (carbide_deployment \<times> bool \<times> goerror option) option prog" where
  "reconcileTier tier uninitialized store setCondition d =
     (case tier of
        None \<Rightarrow> Ret (Some (d, False, Some (Errorf uninitialized)))
      | Some reconcile \<Rightarrow>
          andThen (reconcile d) (\<lambda>res. case res of
            TierPanic \<Rightarrow> Ret None
          | Tier tierStatus err \<Rightarrow>
              andThen (setCondition (store tierStatus d) tierStatus) (\<lambda>d'.
                Ret (Some (d', err = None \<and> (case tierStatus of None \<Rightarrow> False | Some st \<Rightarrow> tier_ready st), err)))))"

definition reconcileInfrastructure ::
    "reconciler \<Rightarrow> status_lib \<Rightarrow> carbide_deployment \<Rightarrow> (carbide_deployment \<times> bool \<times> goerror option) option prog" where
  "reconcileInfrastructure r L =
     reconcileTier (InfrastructureReconciler r) ''infrastructure reconciler not initialized'' with_infra
       (SetInfrastructureCondition L)"

definition reconcileCore ::
    "reconciler \<Rightarrow> status_lib \<Rightarrow> carbide_deployment \<Rightarrow> (carbide_deployment \<times> bool \<times> goerror option) option prog" where
  "reconcileCore r L =
     reconcileTier (CoreReconciler r) ''core reconciler not initialized'' with_core (SetCoreCondition L)"

definition reconcileRest ::
    "reconciler \<Rightarrow> status_lib \<Rightarrow> carbide_deployment \<Rightarrow> (carbide_deployment \<times> bool \<times> goerror option) option prog" where
  "reconcileRest r L =
     reconcileTier (RestReconciler r) ''rest reconciler not initialized'' with_rest (SetRestCondition L)"

text \<open>
  How \<^verbatim>\<open>Reconcile\<close> calls a tier: when its condition holds; on an error the phase fails, an event is
  recorded and the error is kept; a tier that is not ready asks for a requeue.
\<close>

definition runTier ::
    "bool \<Rightarrow> (carbide_deployment \<Rightarrow> (carbide_deployment \<times> bool \<times> goerror option) option prog) \<Rightarrow> string \<Rightarrow> string \<Rightarrow>
     carbide_deployment \<Rightarrow> bool \<Rightarrow> goerror option \<Rightarrow>
     (carbide_deployment \<Rightarrow> bool \<Rightarrow> goerror option \<Rightarrow> outcome prog) \<Rightarrow> outcome prog" where
  "runTier due tier reason what d requeueRequired err k =
     (if \<not> due then k d requeueRequired err
      else andThen (tier d) (\<lambda>out. case out of
        None \<Rightarrow> Ret Panicked
      | Some (d', ready, tierErr) \<Rightarrow>
          (case tierErr of
             Some e \<Rightarrow> Recorder ''Warning'' reason (what @ '': '' @ err_text e) (k (with_phase PhaseFailed d') requeueRequired (Some e))
           | None \<Rightarrow> k d' (requeueRequired \<or> \<not> ready) err)))"

section \<open>Reconcile\<close>

fun as_carbide :: "k8s_object \<Rightarrow> carbide_deployment option" where
  "as_carbide (CarbideDeploymentObj d) = Some d" | "as_carbide _ = None"

definition get_carbide :: "string \<Rightarrow> string \<Rightarrow> (goerror + carbide_deployment) prog" where
  "get_carbide ns n = get_object KCarbideDeployment as_carbide ns n"

definition with_status :: "carbide_status \<Rightarrow> carbide_deployment \<Rightarrow> carbide_deployment" where
  "with_status s d = d\<lparr>cd_status := s\<rparr>"

text \<open>Steps 8 to 10.\<close>

definition finish :: "status_lib \<Rightarrow> string \<Rightarrow> string \<Rightarrow> carbide_deployment \<Rightarrow> bool \<Rightarrow> goerror option \<Rightarrow> outcome prog" where
  "finish L ns n d requeueRequired err =
     (let previousPhase = status_phase (cd_status d) in
      andThen (SetReadyCondition L d) (\<lambda>d1.
        let update =
          tryThen (get_carbide ns n) (\<lambda>statusErr. Ret (Returned noRequeue (Some statusErr))) (\<lambda>latest.
            StatusUpdate (with_status (cd_status d1) latest) (\<lambda>a. case a of
              Some statusErr \<Rightarrow> Ret (Returned noRequeue (Some statusErr))
            | None \<Rightarrow>
                Ret (if err \<noteq> None then Returned requeueLater err
                     else if requeueRequired then Returned requeueLater None
                     else Returned noRequeue None)))
        in if status_phase (cd_status d1) = PhaseReady \<and> previousPhase \<noteq> PhaseReady
           then Recorder ''Normal'' ''Ready'' ''All components are ready'' update else update))"

text \<open>Step 7.\<close>

definition reconcileTiers ::
    "reconciler \<Rightarrow> status_lib \<Rightarrow> carbide_deployment \<Rightarrow>
     (carbide_deployment \<Rightarrow> bool \<Rightarrow> goerror option \<Rightarrow> outcome prog) \<Rightarrow> outcome prog" where
  "reconcileTiers r L d k =
     runTier (spec_infrastructure (cd_spec d) \<noteq> None) (reconcileInfrastructure r L)
       ''InfrastructureFailed'' ''Infrastructure tier failed'' d False None (\<lambda>d1 rq1 err1.
     runTier (infraReady d1) (reconcileCore r L) ''CoreFailed'' ''Core tier failed'' d1 rq1 err1 (\<lambda>d2 rq2 err2.
     runTier (rest_on d2 \<and> coreReady d2) (reconcileRest r L) ''RestFailed'' ''REST tier failed'' d2 rq2 err2 k))"

text \<open>Step 6: without a TLS backend the pass ends with a failed phase and a requeue.\<close>

definition tlsFailed :: "status_lib \<Rightarrow> string \<Rightarrow> string \<Rightarrow> carbide_deployment \<Rightarrow> outcome prog" where
  "tlsFailed L ns n d =
     andThen (SetReadyCondition L (with_phase PhaseFailed d)) (\<lambda>d1.
       Recorder ''Warning'' ''TLSUnavailable''
         (''TLS backend '' @ (case spec_tls (cd_spec d) of None \<Rightarrow> [] | Some t \<Rightarrow> tls_mode t) @ '' not available'')
       (tryThen (get_carbide ns n) (\<lambda>_. Ret (Returned requeueLater None)) (\<lambda>latest.
         StatusUpdate (with_status (cd_status d1) latest) (\<lambda>_. Ret (Returned requeueLater None)))))"

definition withTLS ::
    "status_lib \<Rightarrow> string \<Rightarrow> string \<Rightarrow> carbide_deployment \<Rightarrow> (carbide_deployment \<Rightarrow> outcome prog) \<Rightarrow> outcome prog" where
  "withTLS L ns n d k =
     (if spec_tls (cd_spec d) \<noteq> None then
        andThen (checkTLSPrerequisites L d) (\<lambda>(d1, tlsAvailable, tlsErr).
          if \<not> tlsAvailable then tlsFailed L ns n d1 else k d1)
      else k d)"

text \<open>Step 5: a changed spec moves a ready resource to Updating.\<close>

definition observeGeneration :: "carbide_deployment \<Rightarrow> (carbide_deployment \<Rightarrow> outcome prog) \<Rightarrow> outcome prog" where
  "observeGeneration d k =
     (let observed = status_observed_generation (cd_status d);
          observe = (\<lambda>d'. d'\<lparr>cd_status := (cd_status d')\<lparr>status_observed_generation := cd_generation d'\<rparr>\<rparr>)
      in if observed \<noteq> 0 \<and> observed < cd_generation d \<and> status_phase (cd_status d) = PhaseReady
         then Recorder ''Normal'' ''Updating'' ''Spec changed, reconciling updates'' (k (observe (with_phase PhaseUpdating d)))
         else k (observe d))"

text \<open>
  Step 4.  The client overwrites the object it sent with the stored one; the profile named in the
  event is taken from the object sent.
\<close>

definition initStatusOnce :: "status_lib \<Rightarrow> carbide_deployment \<Rightarrow> outcome prog" where
  "initStatusOnce L d =
     andThen (InitializeConditions L d) (\<lambda>d1.
       StatusUpdate d1 (\<lambda>a. case a of
         Some _ \<Rightarrow> Ret (Returned requeueNow None)
       | None \<Rightarrow> Recorder ''Normal'' ''Initializing'' (''Starting '' @ spec_profile (cd_spec d1) @ '' deployment'')
                   (Ret (Returned requeueNow None))))"

definition reconcileDelete :: "finalizer_lib \<Rightarrow> carbide_deployment \<Rightarrow> outcome prog" where
  "reconcileDelete F d =
     (if \<not> ContainsFinalizer F d carbideFinalizer then Ret (Returned noRequeue None)
      else Recorder ''Normal'' ''Deleting'' ''Cleaning up managed resources''
        (Update (CarbideDeploymentObj (RemoveFinalizer F d carbideFinalizer)) (\<lambda>a. case a of
          Some err \<Rightarrow> Ret (Returned noRequeue (Some err))
        | None \<Rightarrow> Ret (Returned noRequeue None))))"

definition timeIsZero :: "go_time option \<Rightarrow> bool" where
  "timeIsZero t = (case t of None \<Rightarrow> True | Some x \<Rightarrow> x = 0)"

text \<open>Steps 2 to 10, for the resource as it was read.\<close>

definition reconcileFetched ::
    "reconciler \<Rightarrow> status_lib \<Rightarrow> finalizer_lib \<Rightarrow> string \<Rightarrow> string \<Rightarrow> carbide_deployment \<Rightarrow> outcome prog" where
  "reconcileFetched r L F ns n d =
     (if \<not> timeIsZero (cd_deletion_timestamp d) then reconcileDelete F d
      else if \<not> ContainsFinalizer F d carbideFinalizer then
        Update (CarbideDeploymentObj (AddFinalizer F d carbideFinalizer)) (\<lambda>a. case a of
          Some err \<Rightarrow> Ret (Returned noRequeue (Some err))
        | None \<Rightarrow> Ret (Returned requeueNow None))
      else if status_phase (cd_status d) = [] then initStatusOnce L d
      else observeGeneration d (\<lambda>d1. withTLS L ns n d1 (\<lambda>d2. reconcileTiers r L d2 (finish L ns n))))"

definition Reconcile ::
    "reconciler \<Rightarrow> status_lib \<Rightarrow> finalizer_lib \<Rightarrow> string \<Rightarrow> string \<Rightarrow> outcome prog" where
  "Reconcile r L F ns n =
     tryThen (get_carbide ns n)
       (\<lambda>err. Ret (if IsNotFound err then Returned noRequeue None else Returned noRequeue (Some err)))
       (reconcileFetched r L F ns n)"

section \<open>What a pass rests on\<close>

text \<open>The resource was read with success.\<close>

definition fetched :: "string \<Rightarrow> string \<Rightarrow> carbide_deployment \<Rightarrow> event list \<Rightarrow> bool" where
  "fetched ns n d tr \<longleftrightarrow> EGet KCarbideDeployment ns n (Inr (CarbideDeploymentObj d)) \<in> set tr"

text \<open>The evidence of a tier, for the resource with some status: the tiers run on a resource whose status is in flux.\<close>

definition tier_ok :: "(carbide_deployment \<Rightarrow> event list \<Rightarrow> bool) \<Rightarrow> carbide_deployment \<Rightarrow> event list \<Rightarrow> bool" where
  "tier_ok evidence d tr \<longleftrightarrow> (\<exists>s. evidence (with_status s d) tr)"

definition infra_ok :: "(carbide_deployment \<Rightarrow> event list \<Rightarrow> bool) \<Rightarrow> carbide_deployment \<Rightarrow> event list \<Rightarrow> bool" where
  "infra_ok evidence d tr \<longleftrightarrow> spec_infrastructure (cd_spec d) = None \<or> tier_ok evidence d tr"

text \<open>The configured TLS backend was seen.\<close>

definition tls_seen :: "carbide_deployment \<Rightarrow> event list \<Rightarrow> bool" where
  "tls_seen d tr \<longleftrightarrow>
     (\<forall>t. spec_tls (cd_spec d) = Some t \<longrightarrow>
       (tls_mode t = TLSModeSpiffe \<and>
          observed (KUnstructured ''storage.k8s.io/v1'' ''CSIDriver'') as_unstructured [] ''csi.spiffe.io'' (\<lambda>_. True) tr) \<or>
       (tls_mode t = TLSModeCertManager \<and>
          observed (KUnstructured ''apiextensions.k8s.io/v1'' ''CustomResourceDefinition'') as_unstructured []
            ''certificates.cert-manager.io'' (\<lambda>_. True) tr))"

text \<open>An error reported by a Warning event, and an error that the API server answered with.\<close>

definition reported :: "goerror \<Rightarrow> event list \<Rightarrow> bool" where
  "reported e tr \<longleftrightarrow> (\<exists>reason what. ERecord ''Warning'' reason (what @ '': '' @ err_text e) \<in> set tr)"

definition answered :: "goerror \<Rightarrow> event list \<Rightarrow> bool" where
  "answered e tr \<longleftrightarrow> e = decodeErr \<or> (\<exists>ev\<in>set tr. event_error ev = Some e)"

text \<open>A resource that may be worked on: not being deleted, and holding the finalizer.\<close>

definition live :: "finalizer_lib \<Rightarrow> carbide_deployment \<Rightarrow> bool" where
  "live F d \<longleftrightarrow> timeIsZero (cd_deletion_timestamp d) \<and> ContainsFinalizer F d carbideFinalizer"

section \<open>Lemmas on the building blocks\<close>

definition same :: "carbide_deployment \<Rightarrow> carbide_deployment \<Rightarrow> bool" where
  "same d0 d \<longleftrightarrow> d = with_status (cd_status d) d0"

lemma with_status_sel [simp]:
  "cd_spec (with_status s d) = cd_spec d" "cd_status (with_status s d) = s" "with_status s (with_status s' d) = with_status s d"
  "cd_generation (with_status s d) = cd_generation d"
  by (simp_all add: with_status_def)

lemma same_refl [simp]: "same d d"
  by (simp add: same_def with_status_def)

lemma same_spec: "same d0 d \<Longrightarrow> cd_spec d = cd_spec d0"
  unfolding same_def by (metis with_status_sel(1))

lemma same_trans: "same d0 d \<Longrightarrow> same d d' \<Longrightarrow> same d0 d'"
  unfolding same_def by (metis with_status_sel(3))

lemma same_updates [simp]:
  "same d (with_phase p d)" "same d (with_infra st d)" "same d (with_core st d)" "same d (with_rest st d)"
  "same d (with_conds cs d)" "same d (with_status s d)"
  by (simp_all add: same_def with_status_def with_phase_def with_infra_def with_core_def with_rest_def with_conds_def)

lemma only_conds_same: "only_conds d d' \<Longrightarrow> same d d'"
  unfolding only_conds_def by (metis same_updates(5))

lemma store_sel [simp]:
  "status_infrastructure (cd_status (with_infra st d)) = st" "status_core (cd_status (with_infra st d)) = status_core (cd_status d)"
  "status_rest (cd_status (with_infra st d)) = status_rest (cd_status d)" "conds (with_infra st d) = conds d"
  "status_core (cd_status (with_core st d)) = st" "status_infrastructure (cd_status (with_core st d)) = status_infrastructure (cd_status d)"
  "status_rest (cd_status (with_core st d)) = status_rest (cd_status d)" "conds (with_core st d) = conds d"
  "status_rest (cd_status (with_rest st d)) = st" "status_infrastructure (cd_status (with_rest st d)) = status_infrastructure (cd_status d)"
  "status_core (cd_status (with_rest st d)) = status_core (cd_status d)" "conds (with_rest st d) = conds d"
  "cd_spec (with_infra st d) = cd_spec d" "cd_spec (with_core st d) = cd_spec d" "cd_spec (with_rest st d) = cd_spec d"
  by (simp_all add: with_infra_def with_core_def with_rest_def conds_def)

lemma keeps_fetched [simp]: "keeps (fetched ns n d)"
  by (auto simp: keeps_def fetched_def)

lemma keeps_tls_seen [simp]: "keeps (tls_seen d)"
proof -
  have disj: "keeps F \<Longrightarrow> keeps F' \<Longrightarrow> keeps (\<lambda>h. F h \<or> F' h)" for F F' unfolding keeps_def by blast
  show ?thesis unfolding tls_seen_def by (intro keeps_intros disj)
qed

lemma keeps_tier_ok: "(\<And>d. keeps (ev d)) \<Longrightarrow> keeps (tier_ok ev d)"
  unfolding tier_ok_def by (intro keeps_intros)

lemma same_tier_ok: "same d0 d \<Longrightarrow> ev d tr \<Longrightarrow> tier_ok ev d0 tr"
  unfolding same_def tier_ok_def by metis

lemma keeps_reports [simp]: "keeps (reported e)" "keeps (answered e)"
  by (auto simp: keeps_def reported_def answered_def)

lemma valid_get_carbide:
  assumes "\<And>h' e. about {} e \<Longrightarrow> G h' e"
    and "\<And>e h'. set h \<subseteq> set h' \<Longrightarrow> answered e h' \<Longrightarrow> valid G h' (onErr e) Q"
    and "\<And>d h'. set h \<subseteq> set h' \<Longrightarrow> fetched ns n d h' \<Longrightarrow> valid G h' (g d) Q"
  shows "valid G h (tryThen (get_carbide ns n) onErr g) Q"
  unfolding tryThen_def
proof (rule valid_andThen)
  show "valid G h (get_carbide ns n) (\<lambda>r h'. case r of Inl e \<Rightarrow> answered e h' | Inr d \<Rightarrow> fetched ns n d h')"
  proof -
    have "as_carbide x = Some d \<Longrightarrow> x = CarbideDeploymentObj d" for x d by (cases x) simp_all
    then show ?thesis
      using assms(1) unfolding valid_def get_carbide_def runs_get_object
      by (auto simp: split_sum_ex fetched_def answered_def split: option.splits)
  qed
qed (auto split: sum.splits intro: assms(2,3))

text \<open>Whether the TLS condition holds; the library laws are needed to know what a setter does to it.\<close>

definition tls_true :: "status_lib \<Rightarrow> carbide_deployment \<Rightarrow> bool" where
  "tls_true L d \<longleftrightarrow> condition_laws L \<longrightarrow> spec_tls (cd_spec d) \<noteq> None \<longrightarrow> IsConditionTrue L d ConditionTypeTLSReady"

lemma IsConditionTrue_view:
  "IsConditionTrue L d ty \<longleftrightarrow> (\<exists>r m g. cond_view L d ty = Some (ConditionTrue, r, m, g))"
  by (auto simp: IsConditionTrue_def cond_view_def entry_def split: option.splits)

lemma conds_view: "conds d = conds d' \<Longrightarrow> cond_view L d = cond_view L d'"
  by (simp add: cond_view_def)

lemma tierCondition_frame: "runs (tierCondition L ty nc d st) d' tr \<Longrightarrow> only_conds d d' \<and> tr = []"
  by (auto simp: tierCondition_def dest: SetCondition_frame split: option.splits if_splits)

lemma tierCondition_tls:
  assumes "runs (tierCondition L ty nc d st) d' tr" and "ty \<noteq> ConditionTypeTLSReady" and "tls_true L d"
  shows "tls_true L d'"
  unfolding tls_true_def
proof (intro impI)
  assume L: "condition_laws L" and tls: "spec_tls (cd_spec d') \<noteq> None"
  have "cd_spec d' = cd_spec d" using tierCondition_frame [OF assms(1)] by (simp add: only_conds_sel)
  moreover have "cond_view L d' ConditionTypeTLSReady = cond_view L d ConditionTypeTLSReady"
    using condition_laws.tierCondition_view [OF L assms(1)] assms(2) by simp
  ultimately show "IsConditionTrue L d' ConditionTypeTLSReady"
    using assms(3) L tls by (simp add: tls_true_def IsConditionTrue_view)
qed

lemma tls_true_conds: "conds d' = conds d \<Longrightarrow> cd_spec d' = cd_spec d \<Longrightarrow> tls_true L d' = tls_true L d"
  by (simp add: tls_true_def IsConditionTrue_view conds_view [of d' d])

lemma SetTLSCondition_frame: "runs (SetTLSCondition L d b m) d' tr \<Longrightarrow> only_conds d d' \<and> tr = []"
  by (auto simp: SetTLSCondition_def dest: SetCondition_frame split: if_splits)

lemma SetTLSCondition_true: "runs (SetTLSCondition L d True m) d' tr \<Longrightarrow> tls_true L d'"
  by (auto simp: SetTLSCondition_def tls_true_def IsConditionTrue_view dest: condition_laws.SetCondition_view)

definition tls_false :: "status_lib \<Rightarrow> carbide_deployment \<Rightarrow> bool" where
  "tls_false L d \<longleftrightarrow> condition_laws L \<longrightarrow> \<not> IsConditionTrue L d ConditionTypeTLSReady"

lemma SetTLSCondition_false: "runs (SetTLSCondition L d False m) d' tr \<Longrightarrow> tls_false L d'"
  by (auto simp: SetTLSCondition_def tls_false_def IsConditionTrue_view dest: condition_laws.SetCondition_view)

lemma backend_frame:
  "runs (SetSPIFFEAvailableCondition L d b) d' tr \<Longrightarrow> only_conds d d' \<and> tr = []"
  "runs (SetCertManagerAvailableCondition L d b) d' tr \<Longrightarrow> only_conds d d' \<and> tr = []"
  by (auto simp: SetSPIFFEAvailableCondition_def SetCertManagerAvailableCondition_def dest: SetCondition_frame split: if_splits)

text \<open>A silent program: no event, and its value is described by \<open>P\<close>.\<close>

lemma valid_silent:
  assumes "\<And>x tr. runs p x tr \<Longrightarrow> tr = [] \<and> P x" and "\<And>x. P x \<Longrightarrow> valid G h (g x) Q"
  shows "valid G h (andThen p g) Q"
  unfolding valid_def
proof (intro allI impI)
  fix r tr
  assume "runs (andThen p g) r tr"
  then obtain x t1 t2 where t: "tr = t1 @ t2" "runs p x t1" "runs (g x) r t2" by (rule runs_andThenE)
  with assms(1) [OF t(2)] have "tr = t2" "P x" by auto
  with assms(2) [of x] t(3) show "obeys G h tr \<and> Q r (h @ tr)" by (simp add: valid_def)
qed

definition tls_checked :: "status_lib \<Rightarrow> carbide_deployment \<Rightarrow> carbide_deployment \<times> bool \<times> goerror option \<Rightarrow> event list \<Rightarrow> bool" where
  "tls_checked L d r tr \<longleftrightarrow> (case r of (d', ok, err) \<Rightarrow> only_conds d d' \<and> (ok \<longrightarrow> tls_seen d tr \<and> tls_true L d') \<and> (\<not> ok \<longrightarrow> tls_false L d'))"

lemma detect_spec:
  "spec_of (about K) DetectSPIRE (\<lambda>r tr. r = Inr True \<longrightarrow>
     observed (KUnstructured ''storage.k8s.io/v1'' ''CSIDriver'') as_unstructured [] ''csi.spiffe.io'' (\<lambda>_. True) tr)"
  "spec_of (about K) DetectCertManager (\<lambda>r tr. r = Inr True \<longrightarrow>
     observed (KUnstructured ''apiextensions.k8s.io/v1'' ''CustomResourceDefinition'') as_unstructured []
       ''certificates.cert-manager.io'' (\<lambda>_. True) tr)"
  by (rule spire_check.check_spec cert_manager_check.check_spec, simp)+

text \<open>The common shape of the two modes: record whether the backend is there, then the TLS condition.\<close>

lemma valid_backend:
  assumes "\<And>b d' tr. runs (avail b) d' tr \<Longrightarrow> only_conds d d' \<and> tr = []"
    and "spec_of (about K) detect (\<lambda>r tr. r = Inr True \<longrightarrow> F tr)" and "\<And>h. F h \<Longrightarrow> tls_seen d h"
  shows "valid (\<lambda>_. about K) h
    (andThen detect (\<lambda>r. case r of
       Inl err \<Rightarrow> andThen (avail False) (\<lambda>d1. andThen (SetTLSCondition L d1 False m1) (\<lambda>d2. Ret (d2, False, Some err)))
     | Inr available \<Rightarrow>
         andThen (avail available) (\<lambda>d1.
           if \<not> available then andThen (SetTLSCondition L d1 False m2) (\<lambda>d2. Ret (d2, False, None))
           else andThen (SetTLSCondition L d1 True m3) (\<lambda>d2. Ret (d2, True, None)))))
    (tls_checked L d)"
proof (rule valid_andThen [OF valid_call [OF assms(2)]], assumption)
  fix r :: "goerror + bool" and h'
  assume F: "r = Inr True \<longrightarrow> F h'"
  have set_true: "valid (\<lambda>_. about K) h' (andThen (SetTLSCondition L d1 True m) (\<lambda>d2. Ret (d2, True, None))) (tls_checked L d)"
    if "only_conds d d1" "F h'" for d1 m
    by (rule valid_silent [where P = "\<lambda>d2. only_conds d d2 \<and> tls_true L d2"])
      (use that assms(3) in \<open>auto simp: tls_checked_def valid_def intro: only_conds_trans
        dest: SetTLSCondition_frame SetTLSCondition_true\<close>)
  have set_false: "valid (\<lambda>_. about K) h' (andThen (SetTLSCondition L d1 False m) (\<lambda>d2. Ret (d2, False, e))) (tls_checked L d)"
    if "only_conds d d1" for d1 m e
    by (rule valid_silent [where P = "\<lambda>d2. only_conds d d2 \<and> tls_false L d2"])
      (use that in \<open>auto simp: tls_checked_def valid_def intro: only_conds_trans
        dest: SetTLSCondition_frame SetTLSCondition_false\<close>)
  show "valid (\<lambda>_. about K) h' (case r of
       Inl err \<Rightarrow> andThen (avail False) (\<lambda>d1. andThen (SetTLSCondition L d1 False m1) (\<lambda>d2. Ret (d2, False, Some err)))
     | Inr available \<Rightarrow>
         andThen (avail available) (\<lambda>d1.
           if \<not> available then andThen (SetTLSCondition L d1 False m2) (\<lambda>d2. Ret (d2, False, None))
           else andThen (SetTLSCondition L d1 True m3) (\<lambda>d2. Ret (d2, True, None)))) (tls_checked L d)"
    by (cases r; simp; rule valid_silent [where P = "only_conds d"])
      (use assms(1) F in \<open>auto intro: set_false set_true\<close>)
qed

lemma tls_check_spec: "spec_of (about K) (checkTLSPrerequisites L d) (tls_checked L d)"
proof (rule spec_ofI)
  show "keeps (tls_checked L d r)" for r
    unfolding tls_checked_def by (cases r) (auto intro!: keeps_intros keeps_tls_seen)
  show "valid (\<lambda>_. about K) [] (checkTLSPrerequisites L d) (tls_checked L d)"
    unfolding checkTLSPrerequisites_def
  proof (rule valid_option)
    assume "spec_tls (cd_spec d) = None"
    then show "valid (\<lambda>_. about K) [] (Ret (d, True, None)) (tls_checked L d)"
      by (auto simp: valid_def tls_checked_def tls_seen_def tls_true_def)
  next
    fix t
    assume t: "spec_tls (cd_spec d) = Some t"
    show "valid (\<lambda>_. about K) [] (if tls_mode t = TLSModeSpiffe then
            andThen DetectSPIRE (\<lambda>r. case r of
              Inl err \<Rightarrow> andThen (SetSPIFFEAvailableCondition L d False) (\<lambda>d1.
                andThen (SetTLSCondition L d1 False m1) (\<lambda>d2. Ret (d2, False, Some err)))
            | Inr available \<Rightarrow> andThen (SetSPIFFEAvailableCondition L d available) (\<lambda>d1.
                if \<not> available then andThen (SetTLSCondition L d1 False m2) (\<lambda>d2. Ret (d2, False, None))
                else andThen (SetTLSCondition L d1 True m3) (\<lambda>d2. Ret (d2, True, None))))
          else if tls_mode t = TLSModeCertManager then
            andThen DetectCertManager (\<lambda>r. case r of
              Inl err \<Rightarrow> andThen (SetCertManagerAvailableCondition L d False) (\<lambda>d1.
                andThen (SetTLSCondition L d1 False m4) (\<lambda>d2. Ret (d2, False, Some err)))
            | Inr available \<Rightarrow> andThen (SetCertManagerAvailableCondition L d available) (\<lambda>d1.
                if \<not> available then andThen (SetTLSCondition L d1 False m5) (\<lambda>d2. Ret (d2, False, None))
                else andThen (SetTLSCondition L d1 True m6) (\<lambda>d2. Ret (d2, True, None))))
          else andThen (SetTLSCondition L d False m7) (\<lambda>d1. Ret (d1, False, Some e)))
        (tls_checked L d)" for m1 m2 m3 m4 m5 m6 m7 e
      apply (rule valid_if, rule valid_backend [OF backend_frame(1) detect_spec(1)], assumption, simp add: tls_seen_def t)
      apply (rule valid_if, rule valid_backend [OF backend_frame(2) detect_spec(2)], assumption, simp add: tls_seen_def t)
      by (rule valid_silent [where P = "\<lambda>d1. only_conds d d1 \<and> tls_false L d1"])
        (auto simp: tls_checked_def valid_def dest: SetTLSCondition_frame SetTLSCondition_false)
  qed
qed

section \<open>What a call of a tier does\<close>

definition tier_up :: "tier_status option \<Rightarrow> bool" where
  "tier_up st \<longleftrightarrow> (case st of None \<Rightarrow> False | Some t \<Rightarrow> tier_ready t)"

lemma ready_up:
  "infraReady d \<longleftrightarrow> spec_infrastructure (cd_spec d) = None \<or> tier_up (status_infrastructure (cd_status d))"
  "coreReady d \<longleftrightarrow> tier_up (status_core (cd_status d))"
  "restReady d \<longleftrightarrow> spec_rest (cd_spec d) = None \<or> tier_up (status_rest (cd_status d))"
  by (simp_all add: infraReady_def coreReady_def restReady_def tier_up_def)

text \<open>
  The value of a tier call: a panic only on an incomplete TLS section; else the stored status is
  ready only without an error and on the evidence, and the verdict is that readiness.
\<close>

definition called ::
    "status_lib \<Rightarrow> (tier_status option \<Rightarrow> carbide_deployment \<Rightarrow> carbide_deployment) \<Rightarrow> (event list \<Rightarrow> bool) \<Rightarrow> carbide_deployment \<Rightarrow>
     (carbide_deployment \<times> bool \<times> goerror option) option \<Rightarrow> event list \<Rightarrow> bool" where
  "called L store E d out tr \<longleftrightarrow>
     (case out of
        None \<Rightarrow> \<not> tls_complete d
      | Some (d', ready, err) \<Rightarrow>
          (\<exists>st. only_conds (store st d) d' \<and> (tier_up st \<longrightarrow> err = None \<and> E tr) \<and> (ready \<longleftrightarrow> err = None \<and> tier_up st)) \<and>
          (tls_true L d \<longrightarrow> tls_true L d'))"

context tier_reconciler
begin

lemma keys_same: "same d0 d \<Longrightarrow> keys d = keys d0"
  unfolding same_def with_status_def by (metis keys_status)

lemma call_spec:
  assumes ty: "ty \<noteq> ConditionTypeTLSReady"
    and store: "\<And>st. conds (store st d) = conds d" "\<And>st. cd_spec (store st d) = cd_spec d"
  shows "spec_of (about (keys d)) (reconcileTier (Some reconcile) u store (tierCondition L ty nc) d)
    (called L store (evidence d) d)"
proof (rule spec_ofI)
  show "keeps (called L store (evidence d) d out)" for out
    unfolding called_def
    by (cases out) (auto intro!: keeps_conj keeps_ex keeps_imp evidence_keeps split: prod.split)
  have "spec_of (about (keys d)) (reconcile d)
      (\<lambda>res tr. tier_post (components d) (evidence d) res tr \<and> (res = TierPanic \<longrightarrow> \<not> tls_complete d))"
    using reconcile_spec [of d] no_panic [of d] unfolding spec_of_def noPanic_def
    by (auto intro!: keeps_conj)
  then show "valid (\<lambda>_. about (keys d)) [] (reconcileTier (Some reconcile) u store (tierCondition L ty nc) d)
      (called L store (evidence d) d)"
    unfolding reconcileTier_def option.case
  proof (rule valid_andThen [OF valid_call], goal_cases)
    case (2 res h)
    show ?case
    proof (cases res)
      case TierPanic
      with 2 show ?thesis by (simp add: valid_def called_def)
    next
      case (Tier st err)
      have "valid (\<lambda>_. about (keys d)) h
          (andThen (tierCondition L ty nc (store st d) st) (\<lambda>d'. Ret (Some (d', err = None \<and> tier_up st, err))))
          (called L store (evidence d) d)"
      proof (rule valid_silent)
        fix d' tr
        assume r: "runs (tierCondition L ty nc (store st d) st) d' tr"
        have "tls_true L d \<longrightarrow> tls_true L d'"
          using tierCondition_tls [OF r ty] tls_true_conds [OF store, of L] by simp
        with tierCondition_frame [OF r] show "tr = [] \<and> (only_conds (store st d) d' \<and> (tls_true L d \<longrightarrow> tls_true L d'))" by simp
      next
        fix d'
        assume "only_conds (store st d) d' \<and> (tls_true L d \<longrightarrow> tls_true L d')"
        moreover have "tier_up st \<longrightarrow> err = None \<and> evidence d h"
          using 2(2) Tier by (cases st) (auto simp: tier_up_def)
        ultimately show "valid (\<lambda>_. about (keys d)) h (Ret (Some (d', err = None \<and> tier_up st, err)))
            (called L store (evidence d) d)"
          by (auto simp: valid_def called_def)
      qed
      with Tier show ?thesis by (simp add: tier_up_def)
    qed
  qed
qed

end

text \<open>The rule for a due or skipped tier.\<close>

lemma valid_runTier:
  assumes call: "due \<Longrightarrow> spec_of A (tier d) (called L store E d)"
    and G: "\<And>h' e. due \<Longrightarrow> set h \<subseteq> set h' \<Longrightarrow> A e \<Longrightarrow> G h' e" "\<And>h' t r m. G h' (ERecord t r m)"
    and panic: "\<And>h'. \<not> tls_complete d \<Longrightarrow> Q Panicked h'"
    and skip: "\<not> due \<Longrightarrow> valid G h (k d rq err) Q"
    and failed: "\<And>d' e h' st. due \<Longrightarrow> set h \<subseteq> set h' \<Longrightarrow> only_conds (store st d) d' \<Longrightarrow> \<not> tier_up st \<Longrightarrow>
      (tls_true L d \<longrightarrow> tls_true L d') \<Longrightarrow> reported e h' \<Longrightarrow> valid G h' (k (with_phase PhaseFailed d') rq (Some e)) Q"
    and ok: "\<And>d' h' st. due \<Longrightarrow> set h \<subseteq> set h' \<Longrightarrow> only_conds (store st d) d' \<Longrightarrow> (tier_up st \<longrightarrow> E h') \<Longrightarrow>
      (tls_true L d \<longrightarrow> tls_true L d') \<Longrightarrow> valid G h' (k d' (rq \<or> \<not> tier_up st) err) Q"
  shows "valid G h (runTier due tier reason what d rq err k) Q"
  unfolding runTier_def
proof (rule valid_if)
  assume "\<not> \<not> due"
  then have due by simp
  show "valid G h (andThen (tier d) (\<lambda>out. case out of
      None \<Rightarrow> Ret Panicked
    | Some (d', ready, tierErr) \<Rightarrow> (case tierErr of
        Some e \<Rightarrow> Recorder ''Warning'' reason (what @ '': '' @ err_text e) (k (with_phase PhaseFailed d') rq (Some e))
      | None \<Rightarrow> k d' (rq \<or> \<not> ready) err))) Q"
  proof (rule valid_andThen [OF valid_call [OF call [OF \<open>due\<close>] G(1) [OF \<open>due\<close>]]])
    fix out h'
    assume h': "set h \<subseteq> set h'" and c: "called L store E d out h'"
    have rec: "valid G h' (Recorder t r m p) Q" if "valid G (h' @ [ERecord t r m]) p Q" for t r m p
      using that G(2) by (auto simp: valid_def)
    show "valid G h' (case out of
        None \<Rightarrow> Ret Panicked
      | Some (d', ready, tierErr) \<Rightarrow> (case tierErr of
          Some e \<Rightarrow> Recorder ''Warning'' reason (what @ '': '' @ err_text e) (k (with_phase PhaseFailed d') rq (Some e))
        | None \<Rightarrow> k d' (rq \<or> \<not> ready) err)) Q"
    proof (cases out)
      case None
      with c panic show ?thesis by (simp add: valid_def called_def)
    next
      case (Some x)
      obtain d' ready tierErr where x: "x = (d', ready, tierErr)" by (cases x)
      with c Some obtain st where st: "only_conds (store st d) d'" "tier_up st \<longrightarrow> tierErr = None \<and> E h'"
        "ready \<longleftrightarrow> tierErr = None \<and> tier_up st" "tls_true L d \<longrightarrow> tls_true L d'" by (auto simp: called_def)
      show ?thesis
      proof (cases tierErr)
        case None
        with ok [OF \<open>due\<close> h' st(1)] st show ?thesis by (simp add: Some x)
      next
        case e: (Some e)
        with st have "valid G (h' @ [ERecord ''Warning'' reason (what @ '': '' @ err_text e)])
            (k (with_phase PhaseFailed d') rq (Some e)) Q"
          using h' by (intro failed [OF \<open>due\<close> _ st(1)]) (auto simp: reported_def)
        then show ?thesis by (simp add: Some x e rec)
      qed
    qed
  qed
qed (use skip in simp)

section \<open>The contract of a pass\<close>

text \<open>
  What a pass may write: infrastructure objects; core objects once the infrastructure tier was ready
  in this pass; REST objects once the core tier was ready, in this pass or by the stored status.
\<close>

definition pass_writes ::
    "(carbide_deployment \<Rightarrow> event list \<Rightarrow> bool) \<Rightarrow> (carbide_deployment \<Rightarrow> object_key set) \<Rightarrow>
     (carbide_deployment \<Rightarrow> event list \<Rightarrow> bool) \<Rightarrow> (carbide_deployment \<Rightarrow> object_key set) \<Rightarrow>
     (carbide_deployment \<Rightarrow> object_key set) \<Rightarrow> carbide_deployment \<Rightarrow> event list \<Rightarrow> object_key set" where
  "pass_writes iev ikeys cev ckeys rkeys d h =
     ikeys d \<union> (if infra_ok iev d h then ckeys d else {}) \<union>
     (if rest_on d \<and> (tier_ok cev d h \<or> coreReady d) then rkeys d else {})"

text \<open>A disabled REST section is settled when its stored status says ready.\<close>

definition rest_settled :: "carbide_deployment \<Rightarrow> bool" where
  "rest_settled d \<longleftrightarrow> rest_on d \<or> restReady d"

text \<open>What a Ready phase rests on.\<close>

definition justified ::
    "(carbide_deployment \<Rightarrow> event list \<Rightarrow> bool) \<Rightarrow> (carbide_deployment \<Rightarrow> event list \<Rightarrow> bool) \<Rightarrow>
     (carbide_deployment \<Rightarrow> event list \<Rightarrow> bool) \<Rightarrow> carbide_deployment \<Rightarrow> event list \<Rightarrow> bool" where
  "justified iev cev rsev d h \<longleftrightarrow>
     tls_seen d h \<and> infra_ok iev d h \<and> tier_ok cev d h \<and> (rest_on d \<longrightarrow> tier_ok rsev d h) \<and> rest_settled d"

fun pass_guarantee ::
    "(event list \<Rightarrow> object_key set) \<Rightarrow> (event list \<Rightarrow> bool) \<Rightarrow> string \<Rightarrow> string \<Rightarrow> event list \<Rightarrow> event \<Rightarrow> bool" where
  "pass_guarantee K J ns n h (ECreate x a) \<longleftrightarrow> obj_key x \<in> K h"
| "pass_guarantee K J ns n h (EUpdate x a) \<longleftrightarrow> obj_key x \<in> K h"
| "pass_guarantee K J ns n h (EStatusUpdate l a) \<longleftrightarrow>
     (\<exists>x. fetched ns n x h \<and> same x l) \<and> (status_phase (cd_status l) = PhaseReady \<longrightarrow> J h)"
| "pass_guarantee K J ns n h _ \<longleftrightarrow> True"

text \<open>
  What an outcome means: no requeue and no error only after a status update, to Ready if REST is
  settled; an error is an answer of the API server, or a reported error with a delayed requeue.
\<close>

fun pass_post :: "status_lib \<Rightarrow> carbide_deployment \<Rightarrow> outcome \<Rightarrow> event list \<Rightarrow> bool" where
  "pass_post L d Panicked h \<longleftrightarrow> \<not> tls_complete d"
| "pass_post L d (Returned res err) h \<longleftrightarrow>
     (res = noRequeue \<and> err = None \<longrightarrow>
        (\<exists>l. EStatusUpdate l None \<in> set h \<and>
           (condition_laws L \<and> rest_settled d \<longrightarrow> status_phase (cd_status l) = PhaseReady))) \<and>
     (\<forall>e. err = Some e \<longrightarrow> (res = noRequeue \<and> answered e h) \<or> (res = requeueLater \<and> reported e h))"

lemma SetReady_frame:
  "runs (SetReadyCondition L d) d1 tr \<Longrightarrow>
   tr = [] \<and> same d d1 \<and> (status_phase (cd_status d1) = PhaseReady \<longleftrightarrow> all_ready L d)"
proof -
  assume r: "runs (SetReadyCondition L d) d1 tr"
  obtain p st m g where v: "\<exists>x. ready_verdict L d = (p, st, m, g, x)" by (metis surj_pair)
  with r obtain d2 t where d2: "runs (SetCondition L d ConditionTypeReady st m g) d2 t" "d1 = with_phase p d2" "tr = t"
    by (auto simp: SetReadyCondition_eq runs_andThen)
  have "p = PhaseReady \<longleftrightarrow> all_ready L d" using v by (auto simp: ready_verdict_def all_ready_def split: if_splits)
  moreover have "same d d1"
    using SetCondition_frame [OF d2(1)] only_conds_same same_trans same_updates(1) unfolding d2(2) by blast
  ultimately show ?thesis using SetCondition_frame [OF d2(1)] d2 by simp
qed

lemma same_rest_on: "same d0 d \<Longrightarrow> rest_on d = rest_on d0"
  by (simp add: rest_on_def same_spec)

lemma all_ready_iff:
  "all_ready L d \<longleftrightarrow> (spec_tls (cd_spec d) \<noteq> None \<longrightarrow> IsConditionTrue L d ConditionTypeTLSReady) \<and> infraReady d \<and> coreReady d \<and> restReady d"
  by (simp add: all_ready_def)

text \<open>Any event sequence of \<open>get_carbide\<close> is within the guarantee.\<close>

lemma pass_reads: "about {} e \<Longrightarrow> pass_guarantee K J ns n h e"
  by (cases e) auto

lemma pass_about: "about K0 e \<Longrightarrow> K0 \<subseteq> K h \<Longrightarrow> pass_guarantee K J ns n h e"
  by (cases e) auto

lemma valid_Recorder: "G h (ERecord t r m) \<Longrightarrow> valid G (h @ [ERecord t r m]) p Q \<Longrightarrow> valid G h (Recorder t r m p) Q"
  by (auto simp: valid_def)

lemma valid_StatusUpdate:
  "(\<And>a. G h (EStatusUpdate l a)) \<Longrightarrow> (\<And>a. valid G (h @ [EStatusUpdate l a]) (f a) Q) \<Longrightarrow> valid G h (StatusUpdate l f) Q"
  by (auto simp: valid_def)

lemma update_valid:
  assumes J: "status_phase (cd_status d1) = PhaseReady \<Longrightarrow> keeps J \<and> J h"
    and ok: "\<And>l h'. set h \<subseteq> set h' \<Longrightarrow> EStatusUpdate l None \<in> set h' \<Longrightarrow> cd_status l = cd_status d1 \<Longrightarrow> Q (f None) h'"
    and bad: "\<And>e h'. answered e h' \<Longrightarrow> Q (f (Some e)) h'"
    and unread: "\<And>e h'. answered e h' \<Longrightarrow> Q (g e) h'"
  shows "valid (pass_guarantee K J ns n) h
    (tryThen (get_carbide ns n) (\<lambda>e. Ret (g e)) (\<lambda>latest.
       StatusUpdate (with_status (cd_status d1) latest) (\<lambda>a. Ret (f a)))) Q"
proof (rule valid_get_carbide)
  fix latest h'
  assume h': "set h \<subseteq> set h'" "fetched ns n latest h'"
  let ?l = "with_status (cd_status d1) latest"
  have "status_phase (cd_status d1) = PhaseReady \<Longrightarrow> J h'" using J h'(1) keepsD by blast
  then have "pass_guarantee K J ns n h' (EStatusUpdate ?l a)" for a using h'(2) by auto
  moreover have "Q (f a) (h' @ [EStatusUpdate ?l a])" for a
    using h'(1) by (cases a) (auto intro!: ok [of _ ?l] bad simp: answered_def)
  ultimately show "valid (pass_guarantee K J ns n) h' (StatusUpdate ?l (\<lambda>a. Ret (f a))) Q"
    by (intro valid_StatusUpdate valid_Ret)
qed (auto intro: pass_reads valid_Ret unread)

lemma finish_eq:
  "finish L ns n d rq err =
     andThen (SetReadyCondition L d) (\<lambda>d1.
       let update = tryThen (get_carbide ns n) (\<lambda>e. Ret (Returned noRequeue (Some e))) (\<lambda>latest.
             StatusUpdate (with_status (cd_status d1) latest) (\<lambda>a. Ret (case a of
               Some e \<Rightarrow> Returned noRequeue (Some e)
             | None \<Rightarrow> if err \<noteq> None then Returned requeueLater err
                       else if rq then Returned requeueLater None else Returned noRequeue None)))
       in if status_phase (cd_status d1) = PhaseReady \<and> status_phase (cd_status d) \<noteq> PhaseReady
          then Recorder ''Normal'' ''Ready'' ''All components are ready'' update else update)"
proof -
  have "case_option (Ret y) (\<lambda>e. Ret (x e)) = (\<lambda>a. Ret (case_option y x a))" for x :: "goerror \<Rightarrow> outcome" and y
    by (rule ext) (simp split: option.split)
  then show ?thesis by (simp only: finish_def Let_def)
qed

lemma results_differ: "requeueLater \<noteq> noRequeue" "requeueNow \<noteq> noRequeue"
  by (simp_all add: requeueLater_def requeueNow_def noRequeue_def requeueDelay_def)

lemma finish_valid:
  assumes ready: "all_ready L d \<Longrightarrow> keeps J \<and> J h"
    and settled: "err = None \<Longrightarrow> \<not> rq \<Longrightarrow> condition_laws L \<Longrightarrow> rest_settled d0 \<Longrightarrow> all_ready L d"
    and errs: "\<And>e. err = Some e \<Longrightarrow> reported e h"
  shows "valid (pass_guarantee K J ns n) h (finish L ns n d rq err) (pass_post L d0)"
  unfolding finish_eq
proof (rule valid_silent [OF SetReady_frame], assumption)
  fix d1
  assume d1: "same d d1 \<and> (status_phase (cd_status d1) = PhaseReady \<longleftrightarrow> all_ready L d)"
  have upd: "valid (pass_guarantee K J ns n) h'
      (tryThen (get_carbide ns n) (\<lambda>e. Ret (Returned noRequeue (Some e))) (\<lambda>latest.
        StatusUpdate (with_status (cd_status d1) latest) (\<lambda>a. Ret (case a of
          Some e \<Rightarrow> Returned noRequeue (Some e)
        | None \<Rightarrow> if err \<noteq> None then Returned requeueLater err
                  else if rq then Returned requeueLater None else Returned noRequeue None)))) (pass_post L d0)"
    if h': "set h \<subseteq> set h'" for h'
  proof (rule update_valid)
    fix l h''
    assume "set h' \<subseteq> set h''" "EStatusUpdate l None \<in> set h''" "cd_status l = cd_status d1"
    moreover from this(1) h' have "\<And>e. err = Some e \<Longrightarrow> reported e h''"
      by (intro keepsD [OF keeps_reports(1) errs]) auto
    ultimately show "pass_post L d0 (case None of
          Some e \<Rightarrow> Returned noRequeue (Some e)
        | None \<Rightarrow> if err \<noteq> None then Returned requeueLater err
                  else if rq then Returned requeueLater None else Returned noRequeue None) h''"
      using settled d1 by (cases "err = None \<and> \<not> rq") (auto simp: results_differ intro!: exI [of _ l])
  qed (use ready d1 h' keepsD in auto)
  show "valid (pass_guarantee K J ns n) h (let update = tryThen (get_carbide ns n) (\<lambda>e. Ret (Returned noRequeue (Some e))) (\<lambda>latest.
             StatusUpdate (with_status (cd_status d1) latest) (\<lambda>a. Ret (case a of
               Some e \<Rightarrow> Returned noRequeue (Some e)
             | None \<Rightarrow> if err \<noteq> None then Returned requeueLater err
                       else if rq then Returned requeueLater None else Returned noRequeue None)))
       in if status_phase (cd_status d1) = PhaseReady \<and> status_phase (cd_status d) \<noteq> PhaseReady
          then Recorder ''Normal'' ''Ready'' ''All components are ready'' update else update) (pass_post L d0)"
    unfolding Let_def
    by (rule valid_if, rule valid_Recorder, simp, rule upd, fastforce, rule upd, simp)
qed

lemma tlsFailed_valid:
  assumes "spec_tls (cd_spec d) \<noteq> None" and "tls_false L d"
  shows "valid (pass_guarantee K (\<lambda>h. condition_laws L \<longrightarrow> J h) ns n) h (tlsFailed L ns n d) (pass_post L d0)"
  unfolding tlsFailed_def
proof (rule valid_silent [OF SetReady_frame], assumption)
  fix d1
  assume "same (with_phase PhaseFailed d) d1 \<and> (status_phase (cd_status d1) = PhaseReady \<longleftrightarrow> all_ready L (with_phase PhaseFailed d))"
  moreover have "IsConditionTrue L (with_phase PhaseFailed d) ty = IsConditionTrue L d ty" for ty by (simp add: IsConditionTrue_view)
  ultimately have "status_phase (cd_status d1) = PhaseReady \<Longrightarrow> \<not> condition_laws L"
    using assms by (auto simp: all_ready_def tls_false_def)
  then have J: "status_phase (cd_status d1) = PhaseReady \<Longrightarrow>
      keeps (\<lambda>h. condition_laws L \<longrightarrow> J h) \<and> (condition_laws L \<longrightarrow> J h')" for h'
    by (auto simp: keeps_def)
  show "valid (pass_guarantee K (\<lambda>h. condition_laws L \<longrightarrow> J h) ns n) h (Recorder ''Warning'' ''TLSUnavailable'' m
       (tryThen (get_carbide ns n) (\<lambda>_. Ret (Returned requeueLater None)) (\<lambda>latest.
         StatusUpdate (with_status (cd_status d1) latest) (\<lambda>_. Ret (Returned requeueLater None))))) (pass_post L d0)" for m
    by (rule valid_Recorder, simp, rule update_valid [OF J]) (auto simp: results_differ)
qed

section \<open>The tiers in order\<close>

lemma flux_infra:
  assumes "only_conds (with_infra st d) d'"
  shows "same d d'" "status_infrastructure (cd_status d') = st" "status_core (cd_status d') = status_core (cd_status d)"
    "status_rest (cd_status d') = status_rest (cd_status d)"
  using only_conds_sel [OF assms] same_trans [OF same_updates(2) only_conds_same [OF assms]] by simp_all

lemma flux_core:
  assumes "only_conds (with_core st d) d'"
  shows "same d d'" "status_core (cd_status d') = st" "status_infrastructure (cd_status d') = status_infrastructure (cd_status d)"
    "status_rest (cd_status d') = status_rest (cd_status d)"
  using only_conds_sel [OF assms] same_trans [OF same_updates(3) only_conds_same [OF assms]] by simp_all

lemma flux_rest:
  assumes "only_conds (with_rest st d) d'"
  shows "same d d'" "status_rest (cd_status d') = st" "status_infrastructure (cd_status d') = status_infrastructure (cd_status d)"
    "status_core (cd_status d') = status_core (cd_status d)"
  using only_conds_sel [OF assms] same_trans [OF same_updates(4) only_conds_same [OF assms]] by simp_all

lemma tls_true_phase [simp]: "tls_true L (with_phase p d) = tls_true L d"
  by (rule tls_true_conds) simp_all

lemma same_tls_complete: "same d0 d \<Longrightarrow> tls_complete d = tls_complete d0"
  by (simp add: tls_complete_def IsCertManagerMode_def same_spec)

lemma initAll_frame: "runs (initAll L es d) d' tr \<Longrightarrow> only_conds d d' \<and> tr = []"
proof (induction es arbitrary: d tr)
  case (Cons e es)
  then obtain b ty m d1 t1 t2 where e: "e = (b, ty, m)" "runs (initCondition L b ty m d) d1 t1" "runs (initAll L es d1) d' t2"
    "tr = t1 @ t2" by (cases e) (auto simp: runs_andThen)
  have "only_conds d d1 \<and> t1 = []"
    using e(2) by (auto simp: initCondition_def dest: SetCondition_frame split: if_splits)
  with Cons.IH [OF e(3)] e(4) show ?case by (auto intro: only_conds_trans)
qed simp

lemma init_frame:
  "runs (InitializeConditions L d) d1 tr \<Longrightarrow> tr = [] \<and> same d d1 \<and> status_phase (cd_status d1) = PhasePending"
  unfolding InitializeConditions_initAll runs_andThen
  by (auto dest!: initAll_frame only_conds_same intro: same_trans)

lemma read_cases:
  assumes "runs (Reconcile r L F ns n) out tr"
  obtains (bad) a e where "tr = [EGet KCarbideDeployment ns n a]"
      "out = (if IsNotFound e then Returned noRequeue None else Returned noRequeue (Some e))" "a = Inl e \<or> e = decodeErr"
    | (got) d tr' where "tr = EGet KCarbideDeployment ns n (Inr (CarbideDeploymentObj d)) # tr'"
      "runs (reconcileFetched r L F ns n d) out tr'"
proof -
  have carbide: "as_carbide x = Some d \<Longrightarrow> x = CarbideDeploymentObj d" for x d by (cases x) simp_all
  from assms obtain a tr' where t: "tr = EGet KCarbideDeployment ns n a # tr'"
    "runs (case (case a of Inl e \<Rightarrow> Inl e | Inr x \<Rightarrow> (case as_carbide x of None \<Rightarrow> Inl decodeErr | Some y \<Rightarrow> Inr y)) of
       Inl err \<Rightarrow> Ret (if IsNotFound err then Returned noRequeue None else Returned noRequeue (Some err))
     | Inr d \<Rightarrow> reconcileFetched r L F ns n d) out tr'"
    by (auto simp: Reconcile_def tryThen_def get_carbide_def get_object_def)
  show thesis
  proof (cases a)
    case (Inl e)
    with t show ?thesis by (intro bad [of "Inl e" e]) auto
  next
    case (Inr x)
    show ?thesis
    proof (cases "as_carbide x")
      case None
      with t Inr show ?thesis by (intro bad [of "Inr x" decodeErr]) (auto simp: decodeErr_def)
    next
      case (Some d)
      with t Inr carbide show ?thesis by (intro got [of d tr']) auto
    qed
  qed
qed

locale controller =
  infra: tier_reconciler I icomp iev ikeys + core: tier_reconciler C ccomp cev ckeys +
  rest: tier_reconciler R rcomp rsev rkeys
  for I icomp iev ikeys C ccomp cev ckeys R rcomp rsev rkeys
begin

abbreviation ready_rests_on :: "status_lib \<Rightarrow> carbide_deployment \<Rightarrow> event list \<Rightarrow> bool" where
  "ready_rests_on L d0 \<equiv> \<lambda>h. condition_laws L \<longrightarrow> justified iev cev rsev d0 h"

abbreviation within :: "status_lib \<Rightarrow> carbide_deployment \<Rightarrow> string \<Rightarrow> string \<Rightarrow> event list \<Rightarrow> event \<Rightarrow> bool" where
  "within L d0 \<equiv> pass_guarantee (pass_writes iev ikeys cev ckeys rkeys d0) (ready_rests_on L d0)"

lemma keeps_ok: "keeps (tier_ok iev d0)" "keeps (tier_ok cev d0)" "keeps (tier_ok rsev d0)"
  by (rule keeps_tier_ok, rule infra.evidence_keeps core.evidence_keeps rest.evidence_keeps)+

lemma keeps_infra_ok: "keeps (infra_ok iev d0)"
  using keeps_ok(1) unfolding infra_ok_def keeps_def by blast

lemma keeps_justified: "keeps (justified iev cev rsev d0)"
  unfolding justified_def by (intro keeps_intros keeps_tls_seen keeps_infra_ok keeps_ok)

lemma keeps_ready: "keeps (ready_rests_on L d0)"
  by (intro keeps_intros keeps_justified)

text \<open>The state after the core tier.\<close>

definition after_core ::
    "status_lib \<Rightarrow> carbide_deployment \<Rightarrow> carbide_deployment \<Rightarrow> bool \<Rightarrow> goerror option \<Rightarrow> event list \<Rightarrow> bool" where
  "after_core L d0 d rq err h \<longleftrightarrow>
     same d0 d \<and> tls_true L d \<and> tls_seen d0 h \<and> (infraReady d \<longrightarrow> infra_ok iev d0 h) \<and>
     (coreReady d \<longrightarrow> tier_ok cev d0 h \<or> (coreReady d0 \<and> \<not> infraReady d)) \<and>
     (err = None \<and> \<not> rq \<longrightarrow> infraReady d \<and> coreReady d) \<and> (\<forall>e. err = Some e \<longrightarrow> reported e h) \<and>
     status_rest (cd_status d) = status_rest (cd_status d0)"

lemma after_core_grow: "set h \<subseteq> set h' \<Longrightarrow> after_core L d0 d rq err h \<Longrightarrow> after_core L d0 d rq err h'"
  unfolding after_core_def
  using keepsD [OF keeps_tls_seen] keepsD [OF keeps_infra_ok] keepsD [OF keeps_ok(2)] keepsD [OF keeps_reports(1)] by blast

text \<open>The step from the state after the REST tier to the end of the pass.\<close>

lemma finish_after:
  assumes core: "after_core L d0 d2 rq2 err2 h"
    and d3: "same d0 d3" "tls_true L d3" "infraReady d3 = infraReady d2" "coreReady d3 = coreReady d2"
    and rest: "rest_on d0 \<Longrightarrow> coreReady d2 \<Longrightarrow> restReady d3 \<Longrightarrow> tier_ok rsev d0 h"
    and errs: "\<And>e. err = Some e \<Longrightarrow> reported e h"
    and off: "\<not> rest_on d0 \<Longrightarrow> restReady d3 \<Longrightarrow> restReady d0"
    and quiet: "err = None \<Longrightarrow> \<not> rq \<Longrightarrow> err2 = None \<and> \<not> rq2 \<and> (rest_settled d0 \<longrightarrow> restReady d3)"
  shows "valid (within L d0 ns n) h (finish L ns n d3 rq err) (pass_post L d0)"
proof (rule finish_valid)
  assume "all_ready L d3"
  then have r: "infraReady d2" "coreReady d2" "restReady d3" using d3 by (auto simp: all_ready_def)
  with core have "tls_seen d0 h" "infra_ok iev d0 h" "tier_ok cev d0 h" by (auto simp: after_core_def)
  with r rest off have "justified iev cev rsev d0 h" by (auto simp: justified_def rest_settled_def)
  then show "keeps (ready_rests_on L d0) \<and> ready_rests_on L d0 h" using keeps_ready by simp
next
  assume "err = None" "\<not> rq" "condition_laws L" "rest_settled d0"
  with quiet core d3 show "all_ready L d3" by (auto simp: after_core_def all_ready_def tls_true_def)
qed (rule errs)

lemma rest_step:
  assumes core: "after_core L d0 d rq err h" and r: "RestReconciler r = Some R"
  shows "valid (within L d0 ns n) h
    (runTier (rest_on d \<and> coreReady d) (reconcileRest r L) reason what d rq err (finish L ns n)) (pass_post L d0)"
proof -
  have d: "same d0 d" "tls_true L d" "rest_on d = rest_on d0" "rkeys d = rkeys d0" "spec_rest (cd_spec d) = spec_rest (cd_spec d0)"
    using core same_rest_on same_spec rest.keys_same unfolding after_core_def by metis+
  have call: "spec_of (about (rkeys d)) (reconcileRest r L d) (called L with_rest (rsev d) d)"
    unfolding reconcileRest_def r SetRestCondition_def by (rule rest.call_spec) simp_all
  show ?thesis
  proof (rule valid_runTier [where tier = "reconcileRest r L" and d = d, OF call], goal_cases)
    case (1 h' e)
    have "after_core L d0 d rq err h'" using after_core_grow [OF 1(2) core] .
    with 1 d show ?case by (intro pass_about [OF 1(3)]) (auto simp: pass_writes_def after_core_def)
  next
    case 4
    then show ?case
      using core d by (intro finish_after [OF core]) (auto simp: after_core_def rest_settled_def ready_up)
  next
    case (5 d' e h' st)
    note f = flux_rest [OF 5(3)]
    from 5 d f show ?case
      by (intro finish_after [OF after_core_grow [OF 5(2) core]])
        (auto simp: ready_up same_spec [OF f(1)] rest_on_def intro: same_trans)
  next
    case (6 d' h' st)
    note f = flux_rest [OF 6(3)]
    from 6 d f after_core_grow [OF 6(2) core] show ?case
      by (intro finish_after [OF after_core_grow [OF 6(2) core]])
        (auto simp: ready_up same_spec [OF f(1)] rest_on_def after_core_def intro: same_trans same_tier_ok split: option.splits)
  qed (use d same_tls_complete in auto)
qed

text \<open>The state after the infrastructure tier.\<close>

definition after_infra ::
    "status_lib \<Rightarrow> carbide_deployment \<Rightarrow> carbide_deployment \<Rightarrow> bool \<Rightarrow> goerror option \<Rightarrow> event list \<Rightarrow> bool" where
  "after_infra L d0 d rq err h \<longleftrightarrow>
     same d0 d \<and> tls_true L d \<and> tls_seen d0 h \<and> (infraReady d \<longrightarrow> infra_ok iev d0 h) \<and>
     (err = None \<and> \<not> rq \<longrightarrow> infraReady d) \<and> (\<forall>e. err = Some e \<longrightarrow> reported e h) \<and>
     status_core (cd_status d) = status_core (cd_status d0) \<and> status_rest (cd_status d) = status_rest (cd_status d0)"

lemma after_infra_grow: "set h \<subseteq> set h' \<Longrightarrow> after_infra L d0 d rq err h \<Longrightarrow> after_infra L d0 d rq err h'"
  unfolding after_infra_def
  using keepsD [OF keeps_tls_seen] keepsD [OF keeps_infra_ok] keepsD [OF keeps_reports(1)] by blast

lemma core_step:
  assumes infra: "after_infra L d0 d rq err h" and r: "CoreReconciler r = Some C" "RestReconciler r = Some R"
  shows "valid (within L d0 ns n) h
    (runTier (infraReady d) (reconcileCore r L) reason what d rq err (\<lambda>d2 rq2 err2.
       runTier (rest_on d2 \<and> coreReady d2) (reconcileRest r L) reason2 what2 d2 rq2 err2 (finish L ns n))) (pass_post L d0)"
proof -
  have d: "same d0 d" "tls_true L d" "ckeys d = ckeys d0" "spec_infrastructure (cd_spec d) = spec_infrastructure (cd_spec d0)"
    using infra same_spec core.keys_same unfolding after_infra_def by metis+
  have call: "spec_of (about (ckeys d)) (reconcileCore r L d) (called L with_core (cev d) d)"
    unfolding reconcileCore_def r SetCoreCondition_def by (rule core.call_spec) simp_all
  show ?thesis
  proof (rule valid_runTier [where tier = "reconcileCore r L" and d = d, OF call], goal_cases)
    case (1 h' e)
    have "after_infra L d0 d rq err h'" using after_infra_grow [OF 1(2) infra] .
    with 1 d show ?case by (intro pass_about [OF 1(3)]) (auto simp: pass_writes_def after_infra_def)
  next
    case 4
    have "after_core L d0 d rq err h" using 4 infra by (auto simp: after_infra_def after_core_def ready_up)
    then show ?case by (rule rest_step [OF _ r(2)])
  next
    case (5 d' e h' st)
    note f = flux_core [OF 5(3)]
    have "after_core L d0 (with_phase PhaseFailed d') rq (Some e) h'"
      using after_infra_grow [OF 5(2) infra] 5 d f
      by (auto simp: after_infra_def after_core_def ready_up same_spec [OF f(1)] intro: same_trans)
    then show ?case by (rule rest_step [OF _ r(2)])
  next
    case (6 d' h' st)
    note f = flux_core [OF 6(3)]
    have "after_core L d0 d' (rq \<or> \<not> tier_up st) err h'"
      using after_infra_grow [OF 6(2) infra] 6 d f
      by (auto simp: after_infra_def after_core_def ready_up same_spec [OF f(1)] intro: same_trans same_tier_ok)
    then show ?case by (rule rest_step [OF _ r(2)])
  qed (use d same_tls_complete in auto)
qed

lemma tiers_valid:
  assumes d: "same d0 d" "tls_true L d" "tls_seen d0 h"
    and st: "status_core (cd_status d) = status_core (cd_status d0)" "status_rest (cd_status d) = status_rest (cd_status d0)"
    and r: "InfrastructureReconciler r = Some I" "CoreReconciler r = Some C" "RestReconciler r = Some R"
  shows "valid (within L d0 ns n) h (reconcileTiers r L d (finish L ns n)) (pass_post L d0)"
proof -
  have spec: "cd_spec d = cd_spec d0" "ikeys d = ikeys d0" using same_spec [OF d(1)] infra.keys_same [OF d(1)] by auto
  have call: "spec_of (about (ikeys d)) (reconcileInfrastructure r L d) (called L with_infra (iev d) d)"
    unfolding reconcileInfrastructure_def r SetInfrastructureCondition_def by (rule infra.call_spec) simp_all
  show ?thesis
    unfolding reconcileTiers_def
  proof (rule valid_runTier [where tier = "reconcileInfrastructure r L" and d = d, OF call], goal_cases)
    case (1 h' e)
    then show ?case using spec by (intro pass_about [OF 1(3)]) (auto simp: pass_writes_def)
  next
    case 4
    have "after_infra L d0 d False None h" using 4 d st spec by (auto simp: after_infra_def ready_up infra_ok_def)
    then show ?case by (rule core_step [OF _ r(2,3)])
  next
    case (5 d' e h' sta)
    note f = flux_infra [OF 5(3)]
    have "after_infra L d0 (with_phase PhaseFailed d') False (Some e) h'"
      using 5 d f st spec keepsD [OF keeps_tls_seen d(3) 5(2)]
      by (auto simp: after_infra_def ready_up same_spec [OF f(1)] intro: same_trans)
    then show ?case by (rule core_step [OF _ r(2,3)])
  next
    case (6 d' h' sta)
    note f = flux_infra [OF 6(3)]
    have "after_infra L d0 d' (False \<or> \<not> tier_up sta) None h'"
      using 6 d f st spec keepsD [OF keeps_tls_seen d(3) 6(2)]
      by (auto simp: after_infra_def ready_up infra_ok_def same_spec [OF f(1)] intro: same_trans same_tier_ok)
    then show ?case by (rule core_step [OF _ r(2,3)])
  qed (use d same_tls_complete in auto)
qed

lemma pass_valid:
  assumes "live F d0" and "status_phase (cd_status d0) \<noteq> []"
    and r: "InfrastructureReconciler r = Some I" "CoreReconciler r = Some C" "RestReconciler r = Some R"
  shows "valid (within L d0 ns n) h (reconcileFetched r L F ns n d0) (pass_post L d0)"
proof -
  have tiers: "valid (within L d0 ns n) h' (withTLS L ns n d1 (\<lambda>d2. reconcileTiers r L d2 (finish L ns n))) (pass_post L d0)"
    if d1: "same d0 d1" "status_core (cd_status d1) = status_core (cd_status d0)"
      "status_rest (cd_status d1) = status_rest (cd_status d0)" for d1 h'
    unfolding withTLS_def
  proof (rule valid_if)
    assume tls: "spec_tls (cd_spec d1) \<noteq> None"
    show "valid (within L d0 ns n) h' (andThen (checkTLSPrerequisites L d1) (\<lambda>(d2, ok, err).
        if \<not> ok then tlsFailed L ns n d2 else reconcileTiers r L d2 (finish L ns n))) (pass_post L d0)"
    proof (rule valid_andThen [OF valid_call [OF tls_check_spec [where K = "{}"]]], erule pass_reads)
      fix x h''
      assume x: "set h' \<subseteq> set h''" "tls_checked L d1 x h''"
      obtain d2 ok err where x': "x = (d2, ok, err)" by (cases x)
      with x(2) have c: "only_conds d1 d2" "ok \<longrightarrow> tls_seen d1 h'' \<and> tls_true L d2" "\<not> ok \<longrightarrow> tls_false L d2"
        by (simp_all add: tls_checked_def)
      have d2: "same d0 d2" "spec_tls (cd_spec d2) \<noteq> None" "tls_seen d0 h'' = tls_seen d1 h''"
        using only_conds_same [OF c(1)] same_trans d1(1) tls same_spec [OF d1(1)] only_conds_sel(1) [OF c(1)]
        by (auto simp: tls_seen_def)
      show "valid (within L d0 ns n) h'' (case x of (d2, ok, err) \<Rightarrow>
          if \<not> ok then tlsFailed L ns n d2 else reconcileTiers r L d2 (finish L ns n)) (pass_post L d0)"
        using c d2 d1 only_conds_sel [OF c(1)] tiers_valid [OF d2(1) _ _ _ _ r] tlsFailed_valid [OF d2(2)]
        by (simp add: x')
    qed
  next
    assume "\<not> spec_tls (cd_spec d1) \<noteq> None"
    then show "valid (within L d0 ns n) h' (reconcileTiers r L d1 (finish L ns n)) (pass_post L d0)"
      using d1 same_spec [OF d1(1)] by (intro tiers_valid r) (auto simp: tls_true_def tls_seen_def)
  qed
  show ?thesis
    using assms(1,2) unfolding reconcileFetched_def live_def observeGeneration_def Let_def
    by (auto intro!: valid_Recorder tiers simp: same_def with_status_def with_phase_def)
qed

lemma live_valid:
  assumes "live F d0" and "fetched ns n d0 h"
    and r: "InfrastructureReconciler r = Some I" "CoreReconciler r = Some C" "RestReconciler r = Some R"
  shows "valid (within L d0 ns n) h (reconcileFetched r L F ns n d0) (pass_post L d0)"
proof (cases "status_phase (cd_status d0) = []")
  case True
  have "valid (within L d0 ns n) h (initStatusOnce L d0) (pass_post L d0)"
    unfolding initStatusOnce_def
  proof (rule valid_silent [OF init_frame], assumption)
    fix d1
    assume d1: "same d0 d1 \<and> status_phase (cd_status d1) = PhasePending"
    show "valid (within L d0 ns n) h (StatusUpdate d1 (\<lambda>a. case a of
        Some _ \<Rightarrow> Ret (Returned requeueNow None)
      | None \<Rightarrow> Recorder ''Normal'' ''Initializing'' (''Starting '' @ spec_profile (cd_spec d1) @ '' deployment'')
                  (Ret (Returned requeueNow None)))) (pass_post L d0)"
      using d1 assms(2)
      by (intro valid_StatusUpdate) (auto simp: results_differ split: option.split intro!: valid_Recorder valid_Ret)
  qed
  with True assms(1) show ?thesis by (simp add: reconcileFetched_def live_def)
next
  case False
  show ?thesis by (rule pass_valid [OF assms(1) False r])
qed

text \<open>The whole of \<open>Reconcile\<close>, by what the first read returned.\<close>

lemma reconcile_cases:
  assumes run: "runs (Reconcile r L F ns n) out tr"
    and r: "InfrastructureReconciler r = Some I" "CoreReconciler r = Some C" "RestReconciler r = Some R"
  obtains (unread) a e where "tr = [EGet KCarbideDeployment ns n a]"
      "out = (if IsNotFound e then Returned noRequeue None else Returned noRequeue (Some e))"
      "a = Inl e \<or> e = decodeErr"
    | (idle) d tr' where "tr = EGet KCarbideDeployment ns n (Inr (CarbideDeploymentObj d)) # tr'"
      "\<not> live F d" "runs (reconcileFetched r L F ns n d) out tr'"
    | (live) d where "fetched ns n d tr" "live F d"
      "\<And>pre e post. tr = pre @ e # post \<Longrightarrow> is_read e \<or> fetched ns n d pre \<and> within L d ns n pre e" "pass_post L d out tr"
      "hd tr = EGet KCarbideDeployment ns n (Inr (CarbideDeploymentObj d))"
proof -
  from run show thesis
  proof (cases rule: read_cases)
    case bad
    then show ?thesis by (rule unread)
  next
    case (got d tr')
    show ?thesis
    proof (cases "live F d")
      case True
      let ?g = "EGet KCarbideDeployment ns n (Inr (CarbideDeploymentObj d))"
      have v: "valid (within L d ns n) [?g] (reconcileFetched r L F ns n d) (pass_post L d)"
        by (rule live_valid [OF True _ r]) (simp add: fetched_def)
      have g: "is_read e \<or> fetched ns n d pre \<and> within L d ns n pre e" if "tr = pre @ e # post" for pre e post
      proof (cases pre)
        case Nil
        with that got(1) show ?thesis by auto
      next
        case (Cons x pre')
        with that got(1) have "pre = ?g # pre'" "tr' = pre' @ e # post" by auto
        with valid_guarantee [OF v, of out pre' e post] got(2) show ?thesis by (simp add: fetched_def)
      qed
      have "pass_post L d out tr" using validD [OF v got(2)] got(1) by simp
      then show ?thesis by (intro live [OF _ True g]) (simp_all add: fetched_def got(1))
    qed (use got idle in blast)
  qed
qed

end

interpretation carbide: controller "infra_Reconcile qstr" "\<lambda>d. [''PostgreSQL'']" "infra_evidence qstr" infra_keys
    core_Reconcile core_components core_evidence core_keys
    "rest_Reconcile qstr" rest_components "rest_evidence qstr" rest_keys for qstr
  by (intro controller.intro infra_tier.tier_reconciler_axioms core_tier.tier_reconciler_axioms
      rest_tier.tier_reconciler_axioms)

lemma setup_tiers [simp]:
  "InfrastructureReconciler (SetupWithManager qstr) = Some (infra_Reconcile qstr)"
  "CoreReconciler (SetupWithManager qstr) = Some core_Reconcile"
  "RestReconciler (SetupWithManager qstr) = Some (rest_Reconcile qstr)"
  by (simp_all add: SetupWithManager_def)

lemmas pass_cases [consumes 1, case_names unread idle live] = carbide.reconcile_cases [OF _ setup_tiers]

text \<open>The passes over a resource that is deleted or has no finalizer yet, event for event.\<close>

lemma passive_runs:
  assumes "\<not> live F d"
  shows "runs (reconcileFetched r L F ns n d) out tr \<longleftrightarrow>
    (if timeIsZero (cd_deletion_timestamp d) then
       \<exists>a. tr = [EUpdate (CarbideDeploymentObj (AddFinalizer F d carbideFinalizer)) a] \<and>
           out = (case a of Some e \<Rightarrow> Returned noRequeue (Some e) | None \<Rightarrow> Returned requeueNow None)
     else if ContainsFinalizer F d carbideFinalizer then
       \<exists>a. tr = [ERecord ''Normal'' ''Deleting'' ''Cleaning up managed resources'',
                 EUpdate (CarbideDeploymentObj (RemoveFinalizer F d carbideFinalizer)) a] \<and> out = Returned noRequeue a
     else tr = [] \<and> out = Returned noRequeue None)"
  using assms by (auto simp: reconcileFetched_def reconcileDelete_def live_def split_option_ex)

lemma passive_events:
  assumes "\<not> live F d" and "runs (reconcileFetched r L F ns n d) out tr" and "e \<in> set tr"
  shows "(\<forall>l a. e \<noteq> EStatusUpdate l a) \<and> (\<forall>key. writes_key e = Some key \<longrightarrow> fst key = KCarbideDeployment)"
  using assms(2,3) unfolding passive_runs [OF assms(1)] by (auto simp: obj_key_def split: if_splits)

end
