(* ===== verification/Sample_Passes.thy ===== *)
theory Sample_Passes
  imports Controller Sample_Server
begin

text \<open>
  Concrete passes for the witnesses: three sites and what a pass over each of them returns on the
  server of \<open>Sample_Server\<close>, evaluated stage by stage.
\<close>

section \<open>Sites and passes\<close>

text \<open>A list-based instance of the finalizer helpers.\<close>

definition ref_finalizers :: finalizer_lib where
  "ref_finalizers =
     \<lparr>ContainsFinalizer = (\<lambda>d f. f \<in> set (cd_finalizers d)),
      AddFinalizer = (\<lambda>d f. if f \<in> set (cd_finalizers d) then d else d\<lparr>cd_finalizers := cd_finalizers d @ [f]\<rparr>),
      RemoveFinalizer = (\<lambda>d f. d\<lparr>cd_finalizers := removeAll f (cd_finalizers d)\<rparr>)\<rparr>"

interpretation ref_fin: finalizer_laws ref_finalizers
proof (unfold_locales, goal_cases)
  case (2 d f)
  show ?case by (auto simp: ref_finalizers_def intro: exI [of _ "cd_finalizers d"])
qed (auto simp: ref_finalizers_def)

text \<open>Three live sites: a plain one, one with a disabled REST section, and one without infrastructure.\<close>

definition live_with :: "carbide_spec \<Rightarrow> carbide_deployment" where
  "live_with s = (sample_resource ''boston'' s)
     \<lparr>cd_finalizers := [carbideFinalizer], cd_status := zero_status\<lparr>status_phase := ''Provisioning''\<rparr>\<rparr>"

definition live_site :: carbide_deployment where
  "live_site = live_with site_spec"

definition off_site :: carbide_deployment where
  "off_site = live_with (site_spec\<lparr>spec_rest := Some zero_rest\<rparr>)"

definition pass_on :: "carbide_deployment \<Rightarrow> outcome prog" where
  "pass_on d = Reconcile (SetupWithManager (\<lambda>_. [])) ref_lib ref_finalizers ''default'' ''boston''"

lemma up_sites:
  assumes "cd_spec d' = site_spec\<lparr>spec_rest := x\<rparr>"
  shows "\<exists>st. result_on d (infra_Reconcile qstr d') = Tier (Some st) None \<and> tier_ready st"
    "\<exists>st. result_on d (core_Reconcile d') = Tier (Some st) None \<and> tier_ready st"
proof -
  show "\<exists>st. result_on d (infra_Reconcile qstr d') = Tier (Some st) None \<and> tier_ready st"
    by (simp add: infra_Reconcile_def assms sample_defs reconcilePostgreSQL_def reconcileManagedPostgreSQL_def conclude_def Let_def)
  show "\<exists>st. result_on d (core_Reconcile d') = Tier (Some st) None \<and> tier_ready st"
    by (simp add: core_Reconcile_def assms sample_defs core_tls_def core_services_def core_extras_def
        IsSpiffeMode_def IsCertManagerMode_def reconcileConfig_def getInfrastructureConnections_def orReturn_def
        getPostgreSQLPassword_def reconcileMigration_def reconcileAPI_def stageIf_def conclude_def
        rla_is_on_def psm_is_on_def up_secret_def data_get_def Let_def)
qed

lemma up_tier:
  assumes "result_on d (reconcile d') = Tier (Some st) err"
  shows "\<exists>d''. result_on d (reconcileTier (Some reconcile) u store (tierCondition L ty nc) d') =
      Some (d'', err = None \<and> tier_ready st, err) \<and> only_conds (store (Some st) d') d''"
proof -
  let ?d = "result_on d (tierCondition L ty nc (store (Some st) d') (Some st))"
  have "only_conds (store (Some st) d') ?d" using tierCondition_frame [OF runs_on] by blast
  with assms show ?thesis by (auto simp: reconcileTier_def)
qed

lemma up_finish:
  "result_on d (finish L ns n d' rq err) = Returned (if err \<noteq> None \<or> rq then requeueLater else noRequeue) err"
  by (simp add: finish_eq get_carbide_def get_object_def up_get_def Let_def)

lemma live_pass_tls:
  fixes s :: carbide_spec
  defines "d \<equiv> live_with s"
  shows "result_on d (pass_on d) =
    result_on d (withTLS ref_lib ''default'' ''boston'' (d\<lparr>cd_status := (cd_status d)\<lparr>status_observed_generation := 1\<rparr>\<rparr>)
      (\<lambda>d2. reconcileTiers (SetupWithManager (\<lambda>_. [])) ref_lib d2 (finish ref_lib ''default'' ''boston'')))"
  by (simp add: pass_on_def Reconcile_def get_carbide_def get_object_def up_get_def reconcileFetched_def
      observeGeneration_def Let_def d_def)
    (simp add: live_with_def sample_resource_def zero_status_def timeIsZero_def ref_finalizers_def)

lemma live_pass:
  assumes "spec_tls s = None"
  defines "d \<equiv> live_with s"
  shows "result_on d (pass_on d) =
    result_on d (reconcileTiers (SetupWithManager (\<lambda>_. [])) ref_lib
      (d\<lparr>cd_status := (cd_status d)\<lparr>status_observed_generation := 1\<rparr>\<rparr>) (finish ref_lib ''default'' ''boston''))"
  unfolding d_def live_pass_tls by (simp add: withTLS_def live_with_def sample_resource_def assms(1))

lemma site_passes:
  assumes x: "case x of None \<Rightarrow> True | Some r \<Rightarrow> \<not> rest_enabled r"
  defines "d \<equiv> live_with (site_spec\<lparr>spec_rest := x\<rparr>)"
  shows "result_on d (pass_on d) = Returned noRequeue None"
proof -
  define d1 where "d1 = d\<lparr>cd_status := (cd_status d)\<lparr>status_observed_generation := 1\<rparr>\<rparr>"
  let ?r = "SetupWithManager (\<lambda>_. [])"
  have spec: "cd_spec d1 = site_spec\<lparr>spec_rest := x\<rparr>" by (simp add: d1_def d_def live_with_def sample_resource_def)
  obtain st where st: "result_on d (infra_Reconcile (\<lambda>_. []) d1) = Tier (Some st) None" "tier_ready st"
    using up_sites(1) [OF spec] by blast
  from up_tier [where reconcile = "infra_Reconcile (\<lambda>_. [])" and store = with_infra and L = ref_lib and
      ty = ConditionTypeInfrastructureReady and nc = "''Infrastructure tier not configured''" and
      u = "''infrastructure reconciler not initialized''", OF st(1)] st(2)
  obtain d2 where d2: "result_on d (reconcileInfrastructure ?r ref_lib d1) = Some (d2, True, None)"
    "only_conds (with_infra (Some st) d1) d2"
    unfolding reconcileInfrastructure_def SetInfrastructureCondition_def setup_tiers by auto
  have s2: "cd_spec d2 = site_spec\<lparr>spec_rest := x\<rparr>" "infraReady d2"
    using flux_infra [OF d2(2)] st(2) same_spec spec by (auto simp: ready_up tier_up_def)
  obtain st' where st': "result_on d (core_Reconcile d2) = Tier (Some st') None" "tier_ready st'"
    using up_sites(2) [OF s2(1)] by blast
  from up_tier [where reconcile = core_Reconcile and store = with_core and L = ref_lib and ty = ConditionTypeCoreReady and
      nc = "''Core tier not configured''" and u = "''core reconciler not initialized''", OF st'(1)] st'(2)
  obtain d3 where d3: "result_on d (reconcileCore ?r ref_lib d2) = Some (d3, True, None)" "only_conds (with_core (Some st') d2) d3"
    unfolding reconcileCore_def SetCoreCondition_def setup_tiers by auto
  have "cd_spec d3 = site_spec\<lparr>spec_rest := x\<rparr>" using flux_core(1) [OF d3(2)] same_spec s2 by simp
  then have "\<not> rest_on d3" using x by (simp add: rest_on_def split: option.splits)
  moreover have "spec_infrastructure (cd_spec d1) \<noteq> None" by (simp add: spec site_spec_def)
  ultimately have "result_on d (reconcileTiers ?r ref_lib d1 (finish ref_lib ''default'' ''boston'')) = Returned noRequeue None"
    by (simp add: reconcileTiers_def runTier_def d2 d3 s2 up_finish)
  moreover have "spec_tls (site_spec\<lparr>spec_rest := x\<rparr>) = None" by (simp add: site_spec_def)
  ultimately show ?thesis using live_pass [of "site_spec\<lparr>spec_rest := x\<rparr>", folded d_def, folded d1_def] by simp
qed

text \<open>The trace of a pass over a live site; the server always answers with the site itself.\<close>

lemma pass_runs: "runs (pass_on d) (result_on d (pass_on d)) (trace_on d (pass_on d))"
  by (rule runs_on)

lemma pass_fetched: "fetched ns n x (trace_on d p) \<Longrightarrow> x = d"
  unfolding fetched_def by (drule trace_on_get) (simp add: up_get_def)

lemma live_pass_live: "live ref_finalizers (live_with s)"
  by (simp add: live_def live_with_def sample_resource_def timeIsZero_def ref_finalizers_def)

lemma site_status:
  "\<exists>l. EStatusUpdate l None \<in> set (trace_on live_site (pass_on live_site)) \<and> status_phase (cd_status l) = PhaseReady"
proof -
  have res: "result_on live_site (pass_on live_site) = Returned noRequeue None"
    using site_passes [of None] by (simp add: live_site_def site_spec_def)
  have "runs (Reconcile (SetupWithManager (\<lambda>_. [])) ref_lib ref_finalizers ''default'' ''boston'') (Returned noRequeue None)
      (trace_on live_site (pass_on live_site))"
    using pass_runs [of live_site] unfolding res by (simp add: pass_on_def)
  then show ?thesis
  proof (cases rule: pass_cases)
    case (live d)
    have "d = live_site" using pass_fetched [OF live(1)] .
    then have "rest_settled d" by (simp add: rest_settled_def restReady_def live_site_def live_with_def sample_defs)
    with live(4) ref_conditions.condition_laws_axioms show ?thesis by auto
  next
    case (idle d tr')
    have "d = live_site" by (rule pass_fetched [of "''default''" "''boston''" d live_site "pass_on live_site"])
      (simp add: fetched_def idle(1))
    with idle(2) live_pass_live show ?thesis by (simp add: live_site_def)
  next
    case (unread a e)
    then have "a = up_get live_site KCarbideDeployment ''default'' ''boston''"
      using trace_on_get [of KCarbideDeployment "''default''" "''boston''" a live_site "pass_on live_site"] by simp
    with unread show ?thesis by (auto simp: up_get_def decodeErr_def split: if_splits)
  qed
qed

lemma site_runs: "runs (Reconcile (SetupWithManager (\<lambda>_. [])) ref_lib ref_finalizers ''default'' ''boston'')
    (result_on d (pass_on d)) (trace_on d (pass_on d))"
  using pass_runs [of d] by (simp add: pass_on_def)

lemma part_fetched: "trace_on d p = pre @ e # post \<Longrightarrow> fetched ns n x pre \<Longrightarrow> x = d"
  by (rule pass_fetched [of ns n x d p]) (auto simp: fetched_def)

lemma live_site_result: "result_on live_site (pass_on live_site) = Returned noRequeue None"
  using site_passes [of None] by (simp add: live_site_def site_spec_def)

lemma off_site_result: "result_on off_site (pass_on off_site) = Returned noRequeue None"
  using site_passes [of "Some zero_rest"] by (simp add: off_site_def zero_rest_def)

lemma site_justified: "tier_ok core_evidence live_site (trace_on live_site (pass_on live_site))"
proof -
  let ?tr = "trace_on live_site (pass_on live_site)"
  obtain l pre post where t: "?tr = pre @ EStatusUpdate l None # post" "status_phase (cd_status l) = PhaseReady"
    using site_status by (metis split_list)
  from site_runs [of live_site] have "tier_ok core_evidence live_site pre"
  proof (cases rule: pass_cases)
    case (live d)
    from live(3) [OF t(1)] t(2) have "fetched ''default'' ''boston'' d pre" "tier_ok core_evidence d pre"
      using ref_conditions.condition_laws_axioms by (auto simp: justified_def)
    then show ?thesis using part_fetched [OF t(1)] by blast
  next
    case (idle d tr')
    then have "EStatusUpdate l None \<in> set tr'" using t(1) by (cases pre) auto
    with passive_events [OF idle(2,3)] show ?thesis by blast
  qed (use t(1) in \<open>cases pre; simp\<close>)
  then show ?thesis by (rule keepsD [OF carbide.keeps_ok(2)]) (auto simp: t(1))
qed

text \<open>A pass begins with the read of the resource.\<close>

lemma site_first:
  "\<exists>tr. trace_on d (pass_on d) = EGet KCarbideDeployment ''default'' ''boston'' (Inr (CarbideDeploymentObj d)) # tr"
  by (auto simp: pass_on_def Reconcile_def tryThen_def get_carbide_def get_object_def trace_on_def up_server_def up_get_def
      emit_def split_beta)

section \<open>Passes that fail\<close>

text \<open>A site without infrastructure: the core tier fails, the error is reported and the pass repeated.\<close>

definition failing_site :: carbide_deployment where
  "failing_site = live_with (site_spec\<lparr>spec_infrastructure := None\<rparr>)"

lemma failing_core:
  assumes "cd_spec d' = site_spec\<lparr>spec_infrastructure := None\<rparr>"
  shows "\<exists>st. result_on d (core_Reconcile d') = Tier (Some st) (Some (Errorf ''infrastructure config is nil''))"
  by (simp add: core_Reconcile_def assms sample_defs core_tls_def core_services_def core_ns_def
      IsSpiffeMode_def IsCertManagerMode_def reconcileConfig_def getInfrastructureConnections_def stopWith_def Let_def)

lemma failing_site_result:
  "result_on failing_site (pass_on failing_site) = Returned requeueLater (Some (Errorf ''infrastructure config is nil''))"
proof -
  let ?s = "site_spec\<lparr>spec_infrastructure := None\<rparr>" and ?r = "SetupWithManager (\<lambda>_. [])"
  define d1 where "d1 = failing_site\<lparr>cd_status := (cd_status failing_site)\<lparr>status_observed_generation := 1\<rparr>\<rparr>"
  have spec: "cd_spec d1 = ?s" by (simp add: d1_def failing_site_def live_with_def sample_resource_def)
  then obtain st where st: "result_on failing_site (core_Reconcile d1) = Tier (Some st) (Some (Errorf ''infrastructure config is nil''))"
    using failing_core by blast
  from up_tier [where reconcile = core_Reconcile and store = with_core and L = ref_lib and ty = ConditionTypeCoreReady and
      nc = "''Core tier not configured''" and u = "''core reconciler not initialized''", OF st]
  obtain d2 where d2: "result_on failing_site (reconcileCore ?r ref_lib d1) = Some (d2, False, Some (Errorf ''infrastructure config is nil''))"
    "only_conds (with_core (Some st) d1) d2"
    unfolding reconcileCore_def SetCoreCondition_def setup_tiers by auto
  have "cd_spec d2 = ?s" using same_spec [OF flux_core(1) [OF d2(2)]] spec by simp
  then have "\<not> rest_on (with_phase p d2)" for p by (simp add: rest_on_def site_spec_def)
  moreover have "spec_tls ?s = None" "infraReady d1" "spec_infrastructure (cd_spec d1) = None"
    by (simp_all add: site_spec_def infraReady_def spec)
  ultimately show ?thesis
    using live_pass [of ?s, folded failing_site_def, folded d1_def]
    by (simp add: reconcileTiers_def runTier_def d2 up_finish)
qed

text \<open>A resource in cert-manager mode without its section, as it could be stored with the webhook off.\<close>

definition unadmitted :: carbide_deployment where
  "unadmitted = live_with (site_spec\<lparr>spec_infrastructure := None,
     spec_tls := Some \<lparr>tls_mode = TLSModeCertManager, tls_spiffe = None, tls_cert_manager = None\<rparr>\<rparr>)"

lemma unadmitted_core:
  assumes "spec_tls (cd_spec d') = Some \<lparr>tls_mode = TLSModeCertManager, tls_spiffe = None, tls_cert_manager = None\<rparr>"
    and "spec_profile (cd_spec d') \<noteq> ProfileManagement"
  shows "result_on d (core_Reconcile d') = TierPanic"
  using assms
  by (simp add: core_Reconcile_def core_tls_def IsSpiffeMode_def IsCertManagerMode_def TLSModeSpiffe_def TLSModeCertManager_def
      saNames_def core_certificate_def BuildCertificate_def Let_def)

lemma unadmitted_panics: "result_on unadmitted (pass_on unadmitted) = Panicked"
proof -
  define d1 where "d1 = unadmitted\<lparr>cd_status := (cd_status unadmitted)\<lparr>status_observed_generation := 1\<rparr>\<rparr>"
  let ?check = "checkTLSPrerequisites ref_lib d1"
  have spec: "spec_tls (cd_spec d1) = Some \<lparr>tls_mode = TLSModeCertManager, tls_spiffe = None, tls_cert_manager = None\<rparr>"
    "spec_profile (cd_spec d1) = ProfileSite" "spec_infrastructure (cd_spec d1) = None"
    by (simp_all add: d1_def unadmitted_def live_with_def sample_defs)
  have "snd (result_on unadmitted ?check) = (True, None)"
    by (simp add: checkTLSPrerequisites_def spec TLSModeSpiffe_def TLSModeCertManager_def DetectCertManager_def
        check_object_def get_object_def up_get_def)
  then obtain d2 where d2: "result_on unadmitted ?check = (d2, True, None)" by (metis prod.collapse)
  have "tls_checked ref_lib d1 (d2, True, None) (trace_on unadmitted ?check)"
    using tls_check_spec [of "{}" ref_lib d1] runs_on [of ?check unadmitted] unfolding d2 spec_of_def by blast
  then have "cd_spec d2 = cd_spec d1" by (simp add: tls_checked_def only_conds_sel)
  with spec have d2': "result_on unadmitted (core_Reconcile d2) = TierPanic" "infraReady d2" "spec_infrastructure (cd_spec d2) = None"
    by (auto simp: infraReady_def ProfileSite_def ProfileManagement_def intro!: unadmitted_core)
  show ?thesis
    unfolding unadmitted_def live_pass_tls unfolding unadmitted_def [symmetric] d1_def [symmetric]
    by (simp add: withTLS_def spec d2 reconcileTiers_def runTier_def reconcileCore_def reconcileTier_def d2')
qed

end
