(* ===== verification/Status_Updates.thy ===== *)
theory Status_Updates
  imports Sample_Passes
begin

text \<open>
  What the controller writes into the status.  A pass takes the resource as it read it, moves its
  status step by step (\<open>moves\<close>: phases, tier statuses, conditions) and sends the outcome of
  \<^verbatim>\<open>SetReadyCondition\<close>, or of \<^verbatim>\<open>InitializeConditions\<close> in the first pass.  What holds of everything that is
  sent (types, phases, generations, conditions that no pass touches) is proved by induction over \<open>moves\<close>.
\<close>

section \<open>More laws of the condition helpers\<close>

text \<open>
  The list that \<^verbatim>\<open>meta.SetStatusCondition\<close> leaves behind: the old conditions and the new one, with one
  condition per type if there was one per type.
\<close>

locale condition_store = condition_laws +
  assumes set_keeps: "x \<in> set (SetStatusCondition L t cs c) \<Longrightarrow> x \<in> set cs \<or> cond_type x = cond_type c \<and> entry x = entry c"
    and set_distinct: "distinct (map cond_type cs) \<Longrightarrow> distinct (map cond_type (SetStatusCondition L t cs c))"
    and find_none: "FindStatusCondition L [] ty = None"

interpretation ref_store: condition_store ref_lib
proof unfold_locales
  fix x c :: condition and t cs
  show "x \<in> set (SetStatusCondition ref_lib t cs c) \<Longrightarrow> x \<in> set cs \<or> cond_type x = cond_type c \<and> entry x = entry c"
    by (induction cs) (auto simp: ref_lib_def entry_def split: if_splits)
  have "cond_type ` set (ref_set t cs c) \<subseteq> insert (cond_type c) (cond_type ` set cs)" for cs
    by (induction cs) auto
  then show "distinct (map cond_type cs) \<Longrightarrow> distinct (map cond_type (SetStatusCondition ref_lib t cs c))"
    by (induction cs) (auto simp: ref_lib_def)
  show "FindStatusCondition ref_lib [] ty = None" for ty by (simp add: ref_lib_def ref_find_def)
qed

section \<open>Moves of the status within a pass\<close>

definition observed_now :: "carbide_deployment \<Rightarrow> carbide_deployment" where
  "observed_now d = d\<lparr>cd_status := (cd_status d)\<lparr>status_observed_generation := cd_generation d\<rparr>\<rparr>"

definition pass_types :: "string set" where
  "pass_types = {ConditionTypeInfrastructureReady, ConditionTypeCoreReady, ConditionTypeRestReady, ConditionTypeTLSReady,
     ConditionTypeSPIFFEAvailable, ConditionTypeCertManagerAvailable}"

inductive moves :: "status_lib \<Rightarrow> carbide_deployment \<Rightarrow> carbide_deployment \<Rightarrow> bool" for L d where
  start: "moves L d (observed_now d)"
| phase: "moves L d x \<Longrightarrow> moves L d (with_phase p x)"
| infra: "moves L d x \<Longrightarrow> moves L d (with_infra st x)"
| core: "moves L d x \<Longrightarrow> moves L d (with_core st x)"
| rest: "moves L d x \<Longrightarrow> moves L d (with_rest st x)"
| cond: "moves L d x \<Longrightarrow> ty \<in> pass_types \<Longrightarrow> st \<in> {ConditionTrue, ConditionFalse} \<Longrightarrow> reason \<noteq> [] \<Longrightarrow>
    runs (SetCondition L x ty st reason m) x' tr \<Longrightarrow> moves L d x'"

definition sent :: "status_lib \<Rightarrow> carbide_deployment \<Rightarrow> carbide_deployment \<Rightarrow> bool" where
  "sent L d l \<longleftrightarrow>
     (status_phase (cd_status d) = [] \<and> (\<exists>tr. runs (InitializeConditions L d) l tr)) \<or>
     (status_phase (cd_status d) \<noteq> [] \<and>
        (\<exists>x x' tr. moves L d x \<and> runs (SetReadyCondition L x) x' tr \<and> cd_status l = cd_status x'))"

section \<open>Every status update of a pass is sent in this way\<close>

definition quiet :: "event \<Rightarrow> bool" where
  "quiet e \<longleftrightarrow> (\<forall>l a. e \<noteq> EStatusUpdate l a)"

definition sends :: "status_lib \<Rightarrow> carbide_deployment \<Rightarrow> event \<Rightarrow> bool" where
  "sends L d e \<longleftrightarrow> (\<forall>l a. e = EStatusUpdate l a \<longrightarrow> sent L d l)"

lemma about_quiet: "about K e \<Longrightarrow> quiet e"
  by (cases e) (auto simp: quiet_def)

lemma all_quiet: "list_all (about K) tr \<Longrightarrow> list_all quiet tr"
  by (auto simp: list_all_iff about_quiet)

lemma quiet_sends: "list_all quiet tr \<Longrightarrow> list_all (sends L d) tr"
  by (auto simp: list_all_iff quiet_def sends_def)

text \<open>A program that sends at most one status update, and sends it in this way.\<close>

definition sender :: "status_lib \<Rightarrow> carbide_deployment \<Rightarrow> 'r prog \<Rightarrow> bool" where
  "sender L d p \<longleftrightarrow> (\<forall>r tr. runs p r tr \<longrightarrow> list_all (sends L d) tr \<and> length (filter (\<lambda>e. \<not> quiet e) tr) \<le> 1)"

lemma quiet_simps [simp]:
  "quiet (EGet k ns n y)" "quiet (ERecord t r m)" "quiet (EUpdate x a)" "\<not> quiet (EStatusUpdate l a)"
  by (simp_all add: quiet_def)

lemma sends_simps [simp]:
  "sends L d (EGet k ns n y)" "sends L d (ERecord t r m)" "sends L d (EUpdate x a)" "sends L d (EStatusUpdate l a) = sent L d l"
  by (auto simp: sends_def)

lemma no_loud: "list_all quiet tr \<Longrightarrow> filter (\<lambda>e. \<not> quiet e) tr = []"
  by (simp add: list_all_iff filter_empty_conv)

lemma sender_Ret: "sender L d (Ret x)"
  by (auto simp: sender_def)

lemma sender_if: "sender L d p \<Longrightarrow> sender L d q \<Longrightarrow> sender L d (if b then p else q)"
  by simp

lemma sender_Recorder: "sender L d p \<Longrightarrow> sender L d (Recorder t r m p)"
  by (auto simp: sender_def)

lemma sender_StatusUpdate:
  assumes "sent L d x" and "\<And>a. onlyDoes quiet (f a)"
  shows "sender L d (StatusUpdate x f)"
  using assms no_loud quiet_sends by (fastforce simp: sender_def onlyDoes_def)

text \<open>The rule for a call whose value is known to satisfy \<open>R\<close>.\<close>

lemma sender_call:
  assumes "\<And>x tr. runs p x tr \<Longrightarrow> list_all quiet tr \<and> R x" and "\<And>x. R x \<Longrightarrow> sender L d (g x)"
  shows "sender L d (andThen p g)"
  unfolding sender_def
proof (intro allI impI)
  fix r tr
  assume "runs (andThen p g) r tr"
  then obtain x t1 t2 where t: "tr = t1 @ t2" "runs p x t1" "runs (g x) r t2" by (auto simp: runs_andThen)
  with assms have "list_all quiet t1" "list_all (sends L d) t2 \<and> length (filter (\<lambda>e. \<not> quiet e) t2) \<le> 1"
    unfolding sender_def by blast+
  then show "list_all (sends L d) tr \<and> length (filter (\<lambda>e. \<not> quiet e) tr) \<le> 1" by (simp add: t(1) quiet_sends no_loud)
qed

lemmas moves_set = moves.cond [rotated 4]

lemma moves_tierCondition:
  assumes "runs (tierCondition L ty nc x st) x' tr" and "ty \<in> pass_types" and "moves L d x"
  shows "moves L d x'"
proof -
  obtain c r m where "c \<in> {ConditionTrue, ConditionFalse}" "r \<noteq> []" "runs (SetCondition L x ty c r m) x' tr"
    using assms(1) by (auto simp: tierCondition_def split: option.splits if_splits)
  then show ?thesis by (rule moves.cond [OF assms(3,2)])
qed

lemma moves_tls:
  "runs (SetTLSCondition L x b m) x' tr \<Longrightarrow> moves L d x \<Longrightarrow> moves L d x'"
  "runs (SetSPIFFEAvailableCondition L x b) x' tr \<Longrightarrow> moves L d x \<Longrightarrow> moves L d x'"
  "runs (SetCertManagerAvailableCondition L x b) x' tr \<Longrightarrow> moves L d x \<Longrightarrow> moves L d x'"
  unfolding SetTLSCondition_def SetSPIFFEAvailableCondition_def SetCertManagerAvailableCondition_def
  by (cases b; simp only: if_True if_False; erule moves_set; simp add: pass_types_def)+

lemma tier_call_moves:
  assumes R: "\<And>res tr. runs (R x) res tr \<Longrightarrow> list_all quiet tr" and "\<And>st. moves L d (store st x)" and "ty \<in> pass_types"
    and "runs (reconcileTier (Some R) u store (tierCondition L ty nc) x) out tr"
  shows "list_all quiet tr \<and> (\<forall>x' b e. out = Some (x', b, e) \<longrightarrow> moves L d x')"
proof -
  from assms(4) obtain res t1 t2 where t: "tr = t1 @ t2" "runs (R x) res t1"
    "runs (case res of TierPanic \<Rightarrow> Ret None
      | Tier st err \<Rightarrow> andThen (tierCondition L ty nc (store st x) st) (\<lambda>x'.
          Ret (Some (x', err = None \<and> (case st of None \<Rightarrow> False | Some s \<Rightarrow> tier_ready s), err)))) out t2"
    by (auto simp: reconcileTier_def runs_andThen)
  show ?thesis
  proof (cases res)
    case TierPanic
    with t R show ?thesis by simp
  next
    case (Tier st err)
    with t(3) obtain x' where "runs (tierCondition L ty nc (store st x) st) x' t2"
      "out = Some (x', err = None \<and> (case st of None \<Rightarrow> False | Some s \<Rightarrow> tier_ready s), err)"
      by (auto simp: runs_andThen)
    with moves_tierCondition [OF _ assms(3,2)] tierCondition_frame t(1) R [OF t(2)] show ?thesis by fastforce
  qed
qed

lemma runTier_sends:
  assumes call: "\<And>out tr. runs (tier x) out tr \<Longrightarrow> list_all quiet tr \<and> (\<forall>x' b e. out = Some (x', b, e) \<longrightarrow> moves L d x')"
    and x: "moves L d x" and k: "\<And>x' rq err. moves L d x' \<Longrightarrow> sender L d (k x' rq err)"
  shows "sender L d (runTier due tier reason what x rq err k)"
  unfolding runTier_def
  by (rule sender_if, rule k [OF x], rule sender_call [where R = "\<lambda>out. \<forall>x' b e. out = Some (x', b, e) \<longrightarrow> moves L d x'"])
    (use call in \<open>auto split: option.split intro!: sender_Recorder sender_Ret k moves.phase\<close>)

lemma tls_call_moves:
  assumes "runs (checkTLSPrerequisites L x) r tr" and "moves L d x"
  shows "list_all quiet tr \<and> moves L d (fst r)"
proof
  have "spec_of (about {}) (checkTLSPrerequisites L x) (tls_checked L x)" by (rule tls_check_spec)
  with assms(1) have "list_all (about {}) tr" unfolding spec_of_def onlyDoes_def by blast
  then show "list_all quiet tr" by (rule all_quiet)
  show "moves L d (fst r)"
    using assms unfolding checkTLSPrerequisites_def
    by (auto simp: runs_andThen split_sum_ex ex_bool_eq split: option.splits if_splits dest: moves_tls)
qed

text \<open>The two places that send: a moved resource, closed by \<^verbatim>\<open>SetReadyCondition\<close>, over the latest version.\<close>

lemma send_ready:
  assumes "moves L d x" and "status_phase (cd_status d) \<noteq> []"
    and "\<And>x'. (\<And>l. cd_status l = cd_status x' \<Longrightarrow> sent L d l) \<Longrightarrow> sender L d (g x')"
  shows "sender L d (andThen (SetReadyCondition L x) g)"
proof (rule sender_call [where R = "\<lambda>x'. \<exists>tr. runs (SetReadyCondition L x) x' tr"])
  show "runs (SetReadyCondition L x) x' tr \<Longrightarrow> list_all quiet tr \<and> (\<exists>tr. runs (SetReadyCondition L x) x' tr)" for x' tr
    using SetReady_frame by fastforce
  show "\<exists>tr. runs (SetReadyCondition L x) x' tr \<Longrightarrow> sender L d (g x')" for x'
    by (rule assms(3)) (use assms(1,2) in \<open>auto simp: sent_def\<close>)
qed

lemma send_update:
  assumes "\<And>l. cd_status l = s \<Longrightarrow> sent L d l"
  shows "sender L d (tryThen (get_carbide ns n) (\<lambda>e. Ret (f e)) (\<lambda>latest. StatusUpdate (with_status s latest) (\<lambda>a. Ret (g a))))"
  unfolding tryThen_def
  by (rule sender_call [where R = "\<lambda>_. True"])
    (auto simp: get_carbide_def get_object_def assms split: sum.split intro!: sender_Ret sender_StatusUpdate onlyDoes_Ret)

lemma finish_sends: "moves L d x \<Longrightarrow> status_phase (cd_status d) \<noteq> [] \<Longrightarrow> sender L d (finish L ns n x rq err)"
  unfolding finish_eq Let_def
  by (erule send_ready, assumption) (intro sender_if sender_Recorder send_update, simp_all)

lemma tlsFailed_sends: "moves L d x \<Longrightarrow> status_phase (cd_status d) \<noteq> [] \<Longrightarrow> sender L d (tlsFailed L ns n x)"
  unfolding tlsFailed_def
  by (rule send_ready [OF moves.phase]) (assumption+, intro sender_Recorder send_update, simp_all)

lemma init_sends: "status_phase (cd_status d) = [] \<Longrightarrow> sender L d (initStatusOnce L d)"
  unfolding initStatusOnce_def
  by (rule sender_call [where R = "\<lambda>x'. \<exists>tr. runs (InitializeConditions L d) x' tr"])
    (use init_frame in \<open>fastforce intro!: sender_StatusUpdate simp: sent_def onlyDoes_def split: option.splits\<close>)+

lemma tiers_sends:
  assumes "moves L d x" and "status_phase (cd_status d) \<noteq> []"
  shows "sender L d (reconcileTiers (SetupWithManager qstr) L x (finish L ns n))"
proof -
  have infra: "runs (reconcileInfrastructure (SetupWithManager qstr) L x) out tr \<Longrightarrow> moves L d x \<Longrightarrow>
      list_all quiet tr \<and> (\<forall>x' b e. out = Some (x', b, e) \<longrightarrow> moves L d x')" for x out tr
    unfolding reconcileInfrastructure_def SetInfrastructureCondition_def setup_tiers
    by (erule tier_call_moves [rotated 3], drule infra_tier.writes_own, erule all_quiet, erule moves.infra, simp add: pass_types_def)
  have core: "runs (reconcileCore (SetupWithManager qstr) L x) out tr \<Longrightarrow> moves L d x \<Longrightarrow>
      list_all quiet tr \<and> (\<forall>x' b e. out = Some (x', b, e) \<longrightarrow> moves L d x')" for x out tr
    unfolding reconcileCore_def SetCoreCondition_def setup_tiers
    by (erule tier_call_moves [rotated 3], drule core_tier.writes_own, erule all_quiet, erule moves.core, simp add: pass_types_def)
  have rest: "runs (reconcileRest (SetupWithManager qstr) L x) out tr \<Longrightarrow> moves L d x \<Longrightarrow>
      list_all quiet tr \<and> (\<forall>x' b e. out = Some (x', b, e) \<longrightarrow> moves L d x')" for x out tr
    unfolding reconcileRest_def SetRestCondition_def setup_tiers
    by (erule tier_call_moves [rotated 3], drule rest_tier.writes_own, erule all_quiet, erule moves.rest, simp add: pass_types_def)
  show ?thesis
    unfolding reconcileTiers_def
    by (rule runTier_sends [OF infra assms(1)], assumption, rule assms(1),
      rule runTier_sends [OF core], assumption+, rule runTier_sends [OF rest], assumption+, erule finish_sends, rule assms(2))
qed

lemma observe_phase:
  "(with_phase p d)\<lparr>cd_status := (cd_status (with_phase p d))\<lparr>status_observed_generation := cd_generation (with_phase p d)\<rparr>\<rparr> =
   with_phase p (observed_now d)"
  by (cases "cd_status d") (simp add: with_phase_def observed_now_def)

lemma pass_sends: "sender L d (reconcileFetched (SetupWithManager qstr) L F ns n d)"
proof (cases "live F d")
  case False
  then show ?thesis
    unfolding sender_def passive_runs [OF False] by auto
next
  case live: True
  show ?thesis
  proof (cases "status_phase (cd_status d) = []")
    case True
    with live show ?thesis by (simp add: reconcileFetched_def live_def init_sends)
  next
    case False
    have step: "sender L d (withTLS L ns n x (\<lambda>d2. reconcileTiers (SetupWithManager qstr) L d2 (finish L ns n)))"
      if x: "moves L d x" for x
      unfolding withTLS_def
      by (rule sender_if, rule sender_call [where R = "\<lambda>r. moves L d (fst r)"])
        (use x tls_call_moves False in \<open>auto intro: tlsFailed_sends tiers_sends\<close>)
    have obs: "moves L d (observed_now d)" "moves L d (with_phase p (observed_now d))" for p
      by (intro moves.start moves.phase)+
    have "sender L d (observeGeneration d (\<lambda>x. withTLS L ns n x (\<lambda>d2. reconcileTiers (SetupWithManager qstr) L d2 (finish L ns n))))"
      unfolding observeGeneration_def Let_def observe_phase unfolding observed_now_def [symmetric]
      by (intro sender_if sender_Recorder step obs)
    with live False show ?thesis by (simp add: reconcileFetched_def live_def)
  qed
qed

text \<open>Every status update of a pass, over the version that the pass read.\<close>

lemma reconcile_sends:
  assumes "runs (Reconcile (SetupWithManager qstr) L F ns n) out tr" and "EStatusUpdate l a \<in> set tr"
  obtains d where "hd tr = EGet KCarbideDeployment ns n (Inr (CarbideDeploymentObj d))" "sent L d l"
  using assms(1)
proof (cases rule: read_cases)
  case (got d tr')
  with assms(2) pass_sends [of L d qstr F ns n] have "sent L d l" by (auto simp: sender_def list_all_iff sends_def)
  with got that show thesis by simp
qed (use assms(2) in simp)

text \<open>A status update: over a version that was live, with what \<open>sent\<close> says and, if it is Ready, on evidence.\<close>

lemma pass_status:
  assumes "runs (Reconcile (SetupWithManager qstr) L F ns n) out (pre @ EStatusUpdate l a # post)"
  obtains d where "hd (pre @ EStatusUpdate l a # post) = EGet KCarbideDeployment ns n (Inr (CarbideDeploymentObj d))"
    "fetched ns n d pre" "live F d" "sent L d l" "\<exists>x. fetched ns n x pre \<and> same x l"
    "condition_laws L \<Longrightarrow> status_phase (cd_status l) = PhaseReady \<Longrightarrow>
       justified (infra_evidence qstr) core_evidence (rest_evidence qstr) d pre"
proof -
  obtain d0 where d0: "hd (pre @ EStatusUpdate l a # post) = EGet KCarbideDeployment ns n (Inr (CarbideDeploymentObj d0))" "sent L d0 l"
    using reconcile_sends [OF assms, of l a] by auto
  from assms show thesis
  proof (cases rule: pass_cases)
    case (live d)
    with d0(1) have "d0 = d" by simp
    with live(2,5) live(3) [OF refl] d0(2) show thesis by (intro that [of d]) auto
  next
    case (idle d tr')
    then have "EStatusUpdate l a \<in> set tr'" by (cases pre) auto
    with passive_events [OF idle(2,3)] show thesis by blast
  qed (cases pre; simp)
qed

section \<open>What holds of everything sent\<close>

text \<open>The schema of the status: the phase is one of the enumeration, the conditions are a list with one entry per type.\<close>

definition typed_conds :: "condition list \<Rightarrow> bool" where
  "typed_conds cs \<longleftrightarrow> distinct (map cond_type cs) \<and>
     list_all (\<lambda>c. cond_status c \<in> {ConditionTrue, ConditionFalse, ConditionUnknown} \<and> cond_reason c \<noteq> []) cs"

definition typed_status :: "carbide_status \<Rightarrow> bool" where
  "typed_status s \<longleftrightarrow>
     status_phase s \<in> {PhasePending, PhaseProvisioning, PhaseReady, PhaseFailed, PhaseUpdating} \<and> typed_conds (status_conditions s)"

lemma moves_frame:
  "moves L d x \<Longrightarrow> cd_spec x = cd_spec d \<and> cd_generation x = cd_generation d \<and>
     status_observed_generation (cd_status x) = cd_generation d"
proof (induction rule: moves.induct)
  case (cond x ty st reason m x' tr)
  with SetCondition_frame [OF cond.hyps(5)] have "only_conds x x'" by blast
  from only_conds_sel [OF this] cond.IH show ?case by simp
qed (simp_all add: observed_now_def with_phase_def with_infra_def with_core_def with_rest_def)

context condition_laws
begin

lemma moves_untouched: "moves L d x \<Longrightarrow> ty \<notin> pass_types \<Longrightarrow> cond_view L x ty = cond_view L d ty"
proof (induction rule: moves.induct)
  case (cond x ty' st reason m x' tr)
  then show ?case using SetCondition_view [OF cond.hyps(5)] by auto
qed (simp_all add: observed_now_def cond_view_def conds_def with_phase_def with_infra_def with_core_def with_rest_def)

text \<open>The phase, the Ready condition and the observed generation of everything sent.\<close>

lemma init_sent:
  assumes "runs (InitializeConditions L d) l tr"
  shows "status_phase (cd_status l) = PhasePending \<and> \<not> IsConditionTrue L l ConditionTypeReady \<and>
    status_observed_generation (cd_status l) = status_observed_generation (cd_status d)"
proof -
  have e: "(True, ConditionTypeReady, ''Starting deployment'') \<in> set (init_entries d)" by (simp add: init_entries_def)
  obtain x where "only_conds d x" "l = with_phase PhasePending x"
    using assms by (auto simp: InitializeConditions_initAll runs_andThen dest: initAll_frame)
  moreover have "cond_view L l ConditionTypeReady = Some (ConditionUnknown, ''Initializing'', ''Starting deployment'', cd_generation d)"
    using InitializeConditions_exact [OF condition_laws_axioms assms] e by fastforce
  ultimately show ?thesis by (simp add: IsConditionTrue_view only_conds_sel)
qed

lemma sent_phase:
  assumes "sent L d l"
  shows "if status_phase (cd_status d) = []
    then status_phase (cd_status l) = PhasePending \<and> \<not> IsConditionTrue L l ConditionTypeReady \<and>
      status_observed_generation (cd_status l) = status_observed_generation (cd_status d)
    else status_observed_generation (cd_status l) = cd_generation d \<and>
      (IsConditionTrue L l ConditionTypeReady \<longleftrightarrow> status_phase (cd_status l) = PhaseReady) \<and>
      status_phase (cd_status l) =
        (if spec_tls (cd_spec d) \<noteq> None \<and> \<not> IsConditionTrue L l ConditionTypeTLSReady then PhaseFailed
         else if IsConditionTrue L l ConditionTypeReady then PhaseReady else PhaseProvisioning)"
  using assms unfolding sent_def
proof (elim disjE conjE exE)
  fix x x' t
  assume new: "status_phase (cd_status d) \<noteq> []" and m: "moves L d x" and r: "runs (SetReadyCondition L x) x' t"
    and l: "cd_status l = cd_status x'"
  from SetReadyCondition_view [OF r] obtain x1
    where x1: "x' = with_phase (fst (ready_verdict L x)) x1" "only_conds x x1"
      "cond_view L x' = (cond_view L x)(ConditionTypeReady \<mapsto> snd (ready_verdict L x))" by blast
  have view: "cond_view L l = cond_view L x'" by (simp add: l conds_def cond_view_def)
  show ?thesis
    using new moves_frame [OF m] only_conds_sel [OF x1(2)] x1(1,3) l
    by (auto simp: IsConditionTrue_view view ready_verdict_def)
qed (use init_sent in simp)

end

context condition_laws
begin

text \<open>The conditions that no pass reports: of these, initialisation sets three to Unknown, and nothing else touches them.\<close>

lemma sent_untouched:
  assumes "sent L d l" and "ty \<notin> pass_types" "ty \<noteq> ConditionTypeReady"
  shows "cond_view L l ty = cond_view L d ty \<or>
    status_phase (cd_status d) = [] \<and> ty \<in> {ConditionTypeVaultReady, ConditionTypeRLAReady, ConditionTypePSMReady} \<and>
    (\<exists>r m g. cond_view L l ty = Some (ConditionUnknown, r, m, g))"
  using assms(1) unfolding sent_def
proof (elim disjE conjE exE)
  fix tr
  assume new: "status_phase (cd_status d) = []" and r: "runs (InitializeConditions L d) l tr"
  note init = InitializeConditions_exact [OF condition_laws_axioms r]
  show ?thesis
  proof (cases "ty \<in> (fst \<circ> snd) ` set (init_entries d)")
    case True
    then have "ty \<in> {ConditionTypeVaultReady, ConditionTypeRLAReady, ConditionTypePSMReady}"
      using assms(2,3) by (auto simp: init_entries_def pass_types_def)
    moreover obtain b m where "(b, ty, m) \<in> set (init_entries d)" using True by force
    with init have "cond_view L l ty = (if b then Some (ConditionUnknown, ''Initializing'', m, cd_generation d) else cond_view L d ty)"
      by blast
    ultimately show ?thesis using new by (cases b) auto
  qed (use init in blast)
next
  fix x x' tr
  assume m: "moves L d x" "runs (SetReadyCondition L x) x' tr" "cd_status l = cd_status x'"
  have "cond_view L l ty = cond_view L x' ty" using m(3) by (simp add: cond_view_def conds_def)
  also have "\<dots> = cond_view L x ty" using SetReadyCondition_view [OF m(2)] assms(3) by auto
  finally show ?thesis using moves_untouched [OF m(1) assms(2)] by simp
qed

end

context condition_store
begin

lemma SetCondition_typed:
  assumes "runs (SetCondition L x ty st reason m) x' tr" and "typed_conds (conds x)"
    and "st \<in> {ConditionTrue, ConditionFalse, ConditionUnknown}" and "reason \<noteq> []"
  shows "typed_conds (conds x')"
proof -
  from assms(1) obtain t c where x': "conds x' = SetStatusCondition L t (conds x) c" "entry c = (st, reason, m, cd_generation x)"
    by (auto simp: SetCondition_def entry_def)
  have "cond_status y \<in> {ConditionTrue, ConditionFalse, ConditionUnknown} \<and> cond_reason y \<noteq> []" if "y \<in> set (conds x')" for y
    using set_keeps [of y t "conds x" c] that assms(2-4) x' by (auto simp: typed_conds_def list_all_iff entry_def)
  with set_distinct [of "conds x" t c] assms(2) x' show ?thesis by (auto simp: typed_conds_def list_all_iff)
qed

lemma moves_typed: "moves L d x \<Longrightarrow> typed_conds (conds d) \<Longrightarrow> typed_conds (conds x)"
proof (induction rule: moves.induct)
  case (cond x ty st reason m x' tr)
  then show ?case using SetCondition_typed [OF cond.hyps(5)] by auto
qed (simp_all add: observed_now_def conds_def with_phase_def with_infra_def with_core_def with_rest_def)

lemma initAll_typed: "runs (initAll L es x) x' tr \<Longrightarrow> typed_conds (conds x) \<Longrightarrow> typed_conds (conds x')"
proof (induction es arbitrary: x tr)
  case (Cons e es)
  then obtain b ty m x1 t1 t2 where e: "runs (initCondition L b ty m x) x1 t1" "runs (initAll L es x1) x' t2"
    by (cases e) (auto simp: runs_andThen)
  have "typed_conds (conds x1)"
    using e(1) Cons.prems(2) SetCondition_typed by (auto simp: initCondition_def split: if_splits)
  with Cons.IH [OF e(2)] show ?case by blast
qed simp

lemma sent_typed:
  assumes "sent L d l" and "typed_conds (conds d)"
  shows "typed_status (cd_status l)"
  using assms(1) unfolding sent_def
proof (elim disjE conjE exE)
  fix tr
  assume "runs (InitializeConditions L d) l tr"
  then obtain x tr' where "runs (initAll L (init_entries d) d) x tr'" "l = with_phase PhasePending x"
    by (auto simp: InitializeConditions_initAll runs_andThen)
  with initAll_typed assms(2) show ?thesis by (auto simp: typed_status_def conds_def with_phase_def)
next
  fix x x' tr
  assume m: "moves L d x" and r: "runs (SetReadyCondition L x) x' tr" and l: "cd_status l = cd_status x'"
  obtain p st re me g where v: "ready_verdict L x = (p, st, re, me, g)" by (metis surj_pair)
  then have p: "p \<in> {PhaseFailed, PhaseReady, PhaseProvisioning}" "st \<in> {ConditionTrue, ConditionFalse}" "re \<noteq> []"
    by (auto simp: ready_verdict_def split: if_splits)
  from r v obtain x1 where x1: "runs (SetCondition L x ConditionTypeReady st re me) x1 tr" "x' = with_phase p x1"
    by (auto simp: SetReadyCondition_eq runs_andThen)
  have "typed_conds (conds x1)" using SetCondition_typed [OF x1(1) moves_typed [OF m assms(2)]] p by auto
  with p(1) x1(2) l show ?thesis by (auto simp: typed_status_def conds_def with_phase_def)
qed

end

section \<open>Properties\<close>



text \<open>
  After initialisation no pass ever changes the VaultReady, RLAReady and PSMReady conditions: they keep the
  value Unknown that \<open>InitializeConditions\<close> gave them, however ready the components are.
\<close>
theorem component_conditions_stuck:
  assumes "condition_laws L" and "status_phase (cd_status d) \<noteq> []"
    and "runs (Reconcile (SetupWithManager qstr) L F ns n) out (EGet KCarbideDeployment ns n (Inr (CarbideDeploymentObj d)) # tr)"
    and "EStatusUpdate l a \<in> set tr" and "ty \<in> {ConditionTypeVaultReady, ConditionTypeRLAReady, ConditionTypePSMReady}"
  shows "cond_view L l ty = cond_view L d ty"
proof -
  from reconcile_sends [OF assms(3), of l a] assms(4) have "sent L d l" by auto
  moreover have "ty \<notin> pass_types" "ty \<noteq> ConditionTypeReady" using assms(5) by (auto simp: pass_types_def)
  ultimately show ?thesis using condition_laws.sent_untouched [OF assms(1)] assms(2) by blast
qed

section \<open>Witnesses\<close>

lemma site_sends:
  obtains tr l where "runs (Reconcile (SetupWithManager (\<lambda>_. [])) ref_lib ref_finalizers ''default'' ''boston'') (Returned noRequeue None)
      (EGet KCarbideDeployment ''default'' ''boston'' (Inr (CarbideDeploymentObj live_site)) # tr)"
    "EStatusUpdate l None \<in> set tr" "status_phase (cd_status l) = PhaseReady"
    "EStatusUpdate l None \<in> set (trace_on live_site (pass_on live_site))"
proof -
  obtain tr where tr: "trace_on live_site (pass_on live_site) =
      EGet KCarbideDeployment ''default'' ''boston'' (Inr (CarbideDeploymentObj live_site)) # tr" using site_first by blast
  from site_status obtain l where "EStatusUpdate l None \<in> set (trace_on live_site (pass_on live_site))"
    "status_phase (cd_status l) = PhaseReady" by blast
  with tr site_runs [of live_site, unfolded live_site_result] show thesis by (intro that [of tr l]) auto
qed

lemma live_site_status:
  "status_phase (cd_status live_site) = ''Provisioning''" "cd_generation live_site = 1" "conds live_site = []"
  by (simp_all add: live_site_def live_with_def sample_defs conds_def)



theorem component_conditions_stuck_witness:
  "\<exists>l. EStatusUpdate l None \<in> set (trace_on live_site (pass_on live_site)) \<and> cond_view ref_lib l ''VaultReady'' = None"
proof (rule site_sends, intro exI conjI)
  have "status_phase (cd_status live_site) \<noteq> []" "cond_view ref_lib live_site ''VaultReady'' = None"
    unfolding live_site_status cond_view_def by (simp_all add: ref_lib_def ref_find_def)
  then show "cond_view ref_lib l ''VaultReady'' = None"
    if "runs (Reconcile (SetupWithManager (\<lambda>_. [])) ref_lib ref_finalizers ''default'' ''boston'') (Returned noRequeue None)
      (EGet KCarbideDeployment ''default'' ''boston'' (Inr (CarbideDeploymentObj live_site)) # tr)"
      "EStatusUpdate l None \<in> set tr" for tr l
    using component_conditions_stuck [OF ref_conditions.condition_laws_axioms _ that, of ConditionTypeVaultReady] by simp
qed

end
