(* ===== verification/Convergence.thy ===== *)
theory Convergence
  imports Controller Sample_Server
begin

text \<open>
  Convergence: repeated passes of the controller on a cluster that keeps the resource and in which
  every workload the operator waits for comes up.  The server of \<open>Sample_Server\<close> is made to store what
  the controller writes of the resource; the tiers do not write it, so each call of a tier behaves as
  on the server with a fixed resource, and a pass can be followed step by step.
\<close>

section \<open>Managed specs\<close>

text \<open>
  The specs that converge on such a cluster: PostgreSQL and Temporal managed, modes taken from the
  enumerations of the API, REST enabled where it is present.
\<close>

definition managed_modes :: "carbide_spec \<Rightarrow> bool" where
  "managed_modes s \<longleftrightarrow>
     (case spec_infrastructure s of None \<Rightarrow> False | Some i \<Rightarrow> pg_mode (infra_postgresql i) \<in> {[], ManagedMode}) \<and>
     (case spec_tls s of None \<Rightarrow> True | Some t \<Rightarrow> tls_mode t \<in> {TLSModeSpiffe, TLSModeCertManager}) \<and>
     (case core_vault (spec_core s) of None \<Rightarrow> True | Some v \<Rightarrow> vault_mode v \<in> {ManagedMode, ExternalMode}) \<and>
     (case spec_rest s of None \<Rightarrow> True
      | Some r \<Rightarrow> rest_enabled r \<and> temporal_mode (rest_temporal r) \<in> {[], ManagedMode} \<and>
          kc_mode (rest_keycloak r) \<in> {[], AuthModeManaged, AuthModeExternal, AuthModeDisabled})"

definition converges :: "carbide_spec \<Rightarrow> bool" where
  "converges s \<longleftrightarrow> valid_spec s \<and> managed_modes s"

section \<open>The tiers come up\<close>

lemma up_awaitSecrets [simp]: "result_on d (awaitSecrets ns st names k) = result_on d k"
  by (induction names) (simp_all add: Let_def)

lemma up_certificates:
  assumes "\<And>n. build n \<noteq> None" and "\<And>u. result_on d (put u) = None"
  shows "result_on d (certificatesOrFail put build names k) = result_on d k"
proof (induction names)
  case (Cons n names)
  obtain u where "build n = Some u" using assms(1) [of n] by blast
  with Cons assms(2) show ?case by simp
qed simp

lemma up_stageIf [simp]:
  "result_on d p = Inr True \<Longrightarrow> result_on d (stageIf b name what p st k) =
     result_on d (k True (if b then addComponent name (Inr True) 0 st else st))"
  by (simp add: stageIf_def)

definition comes_up :: "carbide_deployment \<Rightarrow> tier_result prog \<Rightarrow> bool" where
  "comes_up d p \<longleftrightarrow> (\<exists>st. result_on d p = Tier (Some st) None \<and> tier_ready st)"

lemma up_conclude [simp]: "comes_up d (conclude True m w st)"
  by (simp add: comes_up_def conclude_def)

lemma comes_up_eq: "result_on d p = result_on d q \<Longrightarrow> comes_up d p = comes_up d q"
  by (simp add: comes_up_def)

lemma infra_comes_up:
  assumes "converges (cd_spec x)"
  shows "comes_up d (infra_Reconcile qstr x)"
proof -
  obtain i where i: "spec_infrastructure (cd_spec x) = Some i" "pg_mode (infra_postgresql i) \<in> {[], ManagedMode}"
    using assms by (auto simp: converges_def managed_modes_def split: option.splits)
  have "result_on d (reconcilePostgreSQL qstr x i ns) = Inr True" for ns
    using i(2) by (auto simp: reconcilePostgreSQL_def reconcileManagedPostgreSQL_def Let_def)
  then show ?thesis by (simp add: comes_up_def infra_Reconcile_def i(1) conclude_def Let_def)
qed


text \<open>The core tier, stage by stage.\<close>

lemma core_stages_up:
  assumes "converges (cd_spec x)"
  shows "result_on d (reconcileConfig x ns) = Inr True" "result_on d (reconcileVault x ns) = Inr True"
proof -
  obtain i where i: "spec_infrastructure (cd_spec x) = Some i" "pg_mode (infra_postgresql i) \<in> {[], ManagedMode}"
    using assms by (auto simp: converges_def managed_modes_def split: option.splits)
  have "\<exists>y. getInfrastructureConnections x = Inr y" "\<exists>pw. result_on d (getPostgreSQLPassword x) = Inr pw"
    using i by (auto simp: getInfrastructureConnections_def getPostgreSQLPassword_def up_secret_def data_get_def Let_def)
  then show "result_on d (reconcileConfig x ns) = Inr True" by (auto simp: reconcileConfig_def)
  have "\<And>v. core_vault (spec_core (cd_spec x)) = Some v \<Longrightarrow> vault_mode v \<in> {ManagedMode, ExternalMode} \<and>
      (vault_mode v = ExternalMode \<longrightarrow> vault_address v \<noteq> [])"
    using assms by (auto simp: converges_def managed_modes_def valid_spec_def valid_vault_def)
  then show "result_on d (reconcileVault x ns) = Inr True"
    by (auto simp: reconcileVault_def split: option.split)
qed

lemma core_services_up [simp]:
  "result_on d (reconcileMigration x ns) = Inr True" "result_on d (reconcileAPI x ns) = Inr True"
  "result_on d (reconcileDHCP x ns) = Inr True" "result_on d (reconcilePXE x ns) = Inr True"
  "result_on d (reconcileDNS x ns) = Inr True" "result_on d (reconcileRLA x ns) = Inr True"
  "result_on d (reconcilePSM x ns) = Inr True"
  by (simp_all add: reconcileMigration_def reconcileAPI_def reconcileDHCP_def reconcilePXE_def reconcileDNS_def
      reconcileRLA_def reconcilePSM_def Let_def split: option.split)

lemma converges_tls: "converges (cd_spec x) \<Longrightarrow> tls_complete x"
  by (auto simp: converges_def valid_spec_def valid_tls_def tls_complete_def IsCertManagerMode_def split: option.splits)

lemma core_comes_up:
  assumes "converges (cd_spec x)"
  shows "comes_up d (core_Reconcile x)"
proof -
  have tls: "result_on d (core_tls x ns st k) = result_on d k" for ns st k
    using certificate_built [OF converges_tls [OF assms]]
    by (auto simp: core_tls_def core_certificate_def up_certificates)
  have "comes_up d (core_extras x ns True True True True True True st)" for ns st
    by (simp add: comes_up_def core_extras_def core_stages_up [OF assms] conclude_def)
  then have "comes_up d (core_services x ns st)" for ns st
    by (simp add: comes_up_def core_services_def core_stages_up [OF assms] Let_def)
  then show ?thesis
    by (simp add: comes_up_def core_Reconcile_def tls notRequired_def Let_def)
qed


text \<open>The REST tier, stage by stage.\<close>

lemma providers_up [simp]: "result_on d (checkProviderSecrets ns ps) = Inr True"
  by (induction ps) (simp_all split: option.split)

lemma rest_backends_up:
  assumes "converges (cd_spec x)" and "spec_rest (cd_spec x) = Some rest"
  shows "\<exists>pw. result_on d (getForgePassword x) = Inr pw" "result_on d (reconcileTemporal x rest ns) = Inr True"
    "result_on d (reconcileKeycloak qstr x rest ns) = Inr True"
proof -
  obtain i where i: "spec_infrastructure (cd_spec x) = Some i" "pg_mode (infra_postgresql i) \<in> {[], ManagedMode}"
    using assms by (auto simp: converges_def managed_modes_def split: option.splits)
  have "temporal_mode (rest_temporal rest) \<in> {[], ManagedMode}"
    "kc_mode (rest_keycloak rest) \<in> {[], AuthModeManaged, AuthModeExternal, AuthModeDisabled}"
    "kc_mode (rest_keycloak rest) = AuthModeExternal \<Longrightarrow> kc_auth_providers (rest_keycloak rest) \<noteq> []"
    using assms by (auto simp: converges_def managed_modes_def valid_spec_def valid_rest_def)
  then show "result_on d (reconcileKeycloak qstr x rest ns) = Inr True" "result_on d (reconcileTemporal x rest ns) = Inr True"
    using i by (auto simp: reconcileKeycloak_def reconcileManagedKeycloak_def reconcileExternalKeycloak_def
        reconcileTemporal_def reconcileManagedTemporal_def getPostgreSQLConnection_def Let_def)
  show "\<exists>pw. result_on d (getForgePassword x) = Inr pw"
    using i by (auto simp: getForgePassword_def Let_def)
qed

lemma rest_services_up [simp]:
  "result_on d (reconcileTemporalSetup x rest ns) = Inr True" "result_on d (reconcileRestAPI x rest ns) = Inr True"
  "result_on d (reconcileWorker x ns name) = Inr True" "result_on d (reconcileSiteManager x rest ns) = Inr True"
  "result_on d (reconcileSiteAgent x rest ns) = Inr True"
  by (simp_all add: reconcileTemporalSetup_def reconcileRestAPI_def reconcileWorker_def reconcileSiteManager_def
      reconcileSiteAgent_def Let_def)

lemma rest_comes_up:
  assumes "converges (cd_spec x)"
  shows "comes_up d (rest_Reconcile qstr x)"
proof (cases "spec_rest (cd_spec x)")
  case None
  then show ?thesis by (simp add: comes_up_def rest_Reconcile_def notRequired_def)
next
  case (Some rest)
  note up = rest_backends_up [OF assms Some, of d]
  have tls: "result_on d (rest_tls x rest ns k) = result_on d k" for ns k
    using certificate_built [OF converges_tls [OF assms]]
    by (auto simp: rest_tls_def rest_certificate_def up_certificates simp del: certificatesOrFail.simps)
  have "comes_up d (rest_workers x rest ns True True True True st)" for ns st
    by (simp add: comes_up_def rest_workers_def workerStage_def rest_final_def conclude_def)
  then have "comes_up d (rest_stages qstr x rest ns st)" for ns st
    by (simp add: comes_up_def rest_stages_def rest_api_def up)
  then show ?thesis
    using up(1) by (auto simp: comes_up_def rest_Reconcile_def Some tls notRequired_def Let_def)
qed


section \<open>A cluster that stores the resource\<close>

text \<open>
  As the API server does with the status subresource: an update of the resource keeps its stored
  status, a status update changes nothing else.
\<close>

fun stored :: "k8s_object \<Rightarrow> carbide_deployment \<Rightarrow> carbide_deployment" where
  "stored (CarbideDeploymentObj d) w = d\<lparr>cd_status := cd_status w\<rparr>" | "stored _ w = w"

definition cluster :: "carbide_deployment environment" where
  "cluster =
     \<lparr>srv_get = (\<lambda>k ns n w. (up_get w k ns n, w)), srv_list = (\<lambda>k ns ls w. (Inr [], w)),
      srv_create = (\<lambda>x w. (None, w)), srv_update = (\<lambda>x w. (None, stored x w)),
      srv_status_update = (\<lambda>l w. (None, w\<lparr>cd_status := cd_status l\<rparr>)), srv_now = (\<lambda>w. (0, w)), srv_range = (\<lambda>ks w. (ks, w)),
      srv_probe = (\<lambda>q w. (None, w)), srv_http = (\<lambda>u w. (Inr 200, w))\<rparr>"

text \<open>The value of a program and the stored resource after it.\<close>

definition outcome_in :: "carbide_deployment \<Rightarrow> 'r prog \<Rightarrow> 'r \<times> carbide_deployment" where
  "outcome_in w p = (case exec cluster p w of (r, tr, w') \<Rightarrow> (r, w'))"

lemma outcome_in_simps [simp]:
  "outcome_in w (Ret v) = (v, w)"
  "outcome_in w (Now f) = outcome_in w (f 0)"
  "outcome_in w (Get k ns n g) = outcome_in w (g (up_get w k ns n))"
  "outcome_in w (ListObjects k ns ls h) = outcome_in w (h (Inr []))"
  "outcome_in w (Create x e) = outcome_in w (e None)"
  "outcome_in w (Update x e) = outcome_in (stored x w) (e None)"
  "outcome_in w (StatusUpdate l e) = outcome_in (w\<lparr>cd_status := cd_status l\<rparr>) (e None)"
  "outcome_in w (Recorder t c m p) = outcome_in w p"
  "outcome_in w (RangeOrder ks r) = outcome_in w (r ks)"
  "outcome_in w (Probe q e) = outcome_in w (e None)"
  "outcome_in w (HttpDo u i) = outcome_in w (i (Inr 200))"
  by (simp_all add: outcome_in_def cluster_def emit_def split_beta)

lemma outcome_in_andThen: "outcome_in w (andThen p g) = (case outcome_in w p of (x, w') \<Rightarrow> outcome_in w' (g x))"
  by (simp add: outcome_in_def exec_andThen split: prod.split)

text \<open>A program that does not write the resource acts as on the server with the resource fixed.\<close>

definition leaves :: "event \<Rightarrow> bool" where
  "leaves e \<longleftrightarrow> (\<forall>l a. e \<noteq> EStatusUpdate l a) \<and> (\<forall>x a. e \<noteq> EUpdate (CarbideDeploymentObj x) a)"

lemma stored_other: "(\<forall>y. x \<noteq> CarbideDeploymentObj y) \<Longrightarrow> stored x w = w"
  by (cases x) simp_all

lemma outcome_in_leaves: "onlyDoes leaves p \<Longrightarrow> outcome_in w p = (result_on w p, w)"
proof -
  have "list_all leaves (trace_on w p) \<Longrightarrow> outcome_in w p = (result_on w p, w)"
    by (induction p) (auto simp: trace_on_def up_server_def emit_def split_beta leaves_def stored_other)
  then show "onlyDoes leaves p \<Longrightarrow> ?thesis" using runs_on [of p w] by (auto simp: onlyDoes_def)
qed


lemma about_leaves: "(\<And>ns n. (KCarbideDeployment, ns, n) \<notin> K) \<Longrightarrow> about K e \<Longrightarrow> leaves e"
  by (cases e) (auto simp: leaves_def obj_key_def)

lemma silent_leaves: "(\<And>x tr. runs p x tr \<Longrightarrow> tr = []) \<Longrightarrow> onlyDoes leaves p"
  unfolding onlyDoes_def by (metis list.pred_inject(1))

section \<open>A pass, step by step\<close>

lemma tls_passes:
  assumes "converges (cd_spec x)"
  shows "\<exists>x'. outcome_in w (withTLS L ns n x k) = outcome_in w (k x') \<and> only_conds x x' \<and> tls_true L x'"
proof (cases "spec_tls (cd_spec x)")
  case None
  then show ?thesis by (auto simp: withTLS_def tls_true_def intro: exI [of _ x])
next
  case (Some t)
  let ?check = "checkTLSPrerequisites L x"
  have "snd (result_on w ?check) = (True, None)"
    using assms Some by (auto simp: converges_def managed_modes_def checkTLSPrerequisites_def DetectSPIRE_def
        DetectCertManager_def check_object_def get_object_def up_get_def)
  then obtain x' where x': "result_on w ?check = (x', True, None)" by (metis prod.collapse)
  have spec: "onlyDoes (about {}) ?check" "tls_checked L x (x', True, None) (trace_on w ?check)"
    using tls_check_spec [of "{}" L x] runs_on [of ?check w] unfolding x' spec_of_def by blast+
  have "outcome_in w ?check = ((x', True, None), w)"
    unfolding x' [symmetric] by (rule outcome_in_leaves, rule onlyDoes_weaken [OF spec(1)], rule about_leaves) auto
  with Some have "outcome_in w (withTLS L ns n x k) = outcome_in w (k x')"
    by (simp add: withTLS_def outcome_in_andThen)
  with spec(2) show ?thesis by (auto simp: tls_checked_def)
qed

context tier_reconciler
begin

lemma tier_passes:
  assumes up: "comes_up w (reconcile x)" and ty: "ty \<noteq> ConditionTypeTLSReady"
    and store: "\<And>st. conds (store st x) = conds x" "\<And>st. cd_spec (store st x) = cd_spec x"
  shows "\<exists>x' st. outcome_in w (runTier True (reconcileTier (Some reconcile) u store (tierCondition L ty nc)) reason what x rq err k) =
      outcome_in w (k x' rq err) \<and> only_conds (store (Some st) x) x' \<and> tier_ready st \<and> (tls_true L x \<longrightarrow> tls_true L x')"
proof -
  let ?call = "reconcileTier (Some reconcile) u store (tierCondition L ty nc) x"
  obtain st where st: "result_on w (reconcile x) = Tier (Some st) None" "tier_ready st" using up by (auto simp: comes_up_def)
  let ?x = "result_on w (tierCondition L ty nc (store (Some st) x) (Some st))"
  have res: "result_on w ?call = Some (?x, True, None)" using st by (simp add: reconcileTier_def)
  have spec: "onlyDoes (about (keys x)) ?call" "called L store (evidence x) x (Some (?x, True, None)) (trace_on w ?call)"
    using call_spec [where store = store and d = x, OF ty store, of u L nc] runs_on [of ?call w] unfolding res spec_of_def by blast+
  have "outcome_in w ?call = (Some (?x, True, None), w)"
    unfolding res [symmetric] by (rule outcome_in_leaves, rule onlyDoes_weaken [OF spec(1)], rule about_leaves) (rule own_keys)
  then have "outcome_in w (runTier True (reconcileTier (Some reconcile) u store (tierCondition L ty nc)) reason what x rq err k) =
      outcome_in w (k ?x rq err)"
    by (simp add: runTier_def outcome_in_andThen)
  moreover have "only_conds (store (Some st) x) ?x" using tierCondition_frame [OF runs_on] by blast
  moreover have "tls_true L x \<longrightarrow> tls_true L ?x" using spec(2) by (simp add: called_def)
  ultimately show ?thesis using st(2) by blast
qed

end

lemma finish_stores:
  "\<exists>s. outcome_in w (finish L ns n x False None) = (Returned noRequeue None, with_status s w) \<and>
     (status_phase s = PhaseReady \<longleftrightarrow> all_ready L x)"
proof -
  let ?x = "result_on w (SetReadyCondition L x)"
  have f: "status_phase (cd_status ?x) = PhaseReady \<longleftrightarrow> all_ready L x" using SetReady_frame [OF runs_on] by blast
  have "outcome_in w (SetReadyCondition L x) = (?x, w)"
    by (rule outcome_in_leaves, rule silent_leaves) (use SetReady_frame in blast)
  then have "outcome_in w (finish L ns n x False None) = (Returned noRequeue None, with_status (cd_status ?x) w)"
    by (simp add: finish_def outcome_in_andThen Let_def tryThen_def get_carbide_def get_object_def up_get_def)
      (simp add: with_status_def)
  with f show ?thesis by blast
qed


text \<open>The three kinds of passes towards Ready.\<close>

definition pass_in :: "(quantity \<Rightarrow> string) \<Rightarrow> status_lib \<Rightarrow> finalizer_lib \<Rightarrow> carbide_deployment \<Rightarrow> carbide_deployment" where
  "pass_in qstr L F w = snd (outcome_in w (Reconcile (SetupWithManager qstr) L F (cd_namespace w) (cd_name w)))"

lemma reconcile_outcome:
  "outcome_in w (Reconcile r L F ns n) = outcome_in w (reconcileFetched r L F ns n w)"
  by (simp add: Reconcile_def get_carbide_def get_object_def tryThen_def up_get_def)

lemma pass_in_eq:
  "pass_in qstr L F w = snd (outcome_in w (reconcileFetched (SetupWithManager qstr) L F (cd_namespace w) (cd_name w) w))"
  by (simp add: pass_in_def reconcile_outcome)

lemma pass_adds_finalizer:
  assumes "finalizer_laws F" and "timeIsZero (cd_deletion_timestamp w)" and "carbideFinalizer \<notin> set (cd_finalizers w)"
  shows "\<exists>fs. pass_in qstr L F w = w\<lparr>cd_finalizers := fs\<rparr> \<and> set fs = insert carbideFinalizer (set (cd_finalizers w))"
proof -
  obtain fs where fs: "AddFinalizer F w carbideFinalizer = w\<lparr>cd_finalizers := fs\<rparr>"
    "set fs = insert carbideFinalizer (set (cd_finalizers w))"
    using finalizer_laws.add_only [OF assms(1)] by blast
  then show ?thesis
    using assms(2,3) finalizer_laws.contains_iff [OF assms(1)] by (auto simp: pass_in_eq reconcileFetched_def)
qed

lemma pass_initialises:
  assumes "live F w" and "status_phase (cd_status w) = []"
  shows "\<exists>s. pass_in qstr L F w = with_status s w \<and> status_phase s = PhasePending"
proof -
  let ?x = "result_on w (InitializeConditions L w)"
  have "outcome_in w (InitializeConditions L w) = (?x, w)"
    by (rule outcome_in_leaves, rule silent_leaves) (use init_frame in blast)
  moreover have "status_phase (cd_status ?x) = PhasePending" using init_frame [OF runs_on] by blast
  ultimately show ?thesis
    using assms by (auto simp: pass_in_eq reconcileFetched_def live_def initStatusOnce_def outcome_in_andThen with_status_def)
qed

lemma infra_passes:
  assumes "converges (cd_spec x)"
  shows "\<exists>x' st. outcome_in w (runTier True (reconcileInfrastructure (SetupWithManager qstr) L) reason what x rq err k) =
      outcome_in w (k x' rq err) \<and> only_conds (with_infra (Some st) x) x' \<and> tier_ready st \<and> (tls_true L x \<longrightarrow> tls_true L x')"
  unfolding reconcileInfrastructure_def SetInfrastructureCondition_def setup_tiers
  by (rule infra_tier.tier_passes [OF infra_comes_up [OF assms]]) simp_all

lemma core_passes:
  assumes "converges (cd_spec x)"
  shows "\<exists>x' st. outcome_in w (runTier True (reconcileCore (SetupWithManager qstr) L) reason what x rq err k) =
      outcome_in w (k x' rq err) \<and> only_conds (with_core (Some st) x) x' \<and> tier_ready st \<and> (tls_true L x \<longrightarrow> tls_true L x')"
  unfolding reconcileCore_def SetCoreCondition_def setup_tiers
  by (rule core_tier.tier_passes [OF core_comes_up [OF assms]]) simp_all

lemma rest_passes:
  assumes "converges (cd_spec x)"
  shows "\<exists>x' st. outcome_in w (runTier True (reconcileRest (SetupWithManager qstr) L) reason what x rq err k) =
      outcome_in w (k x' rq err) \<and> only_conds (with_rest (Some st) x) x' \<and> tier_ready st \<and> (tls_true L x \<longrightarrow> tls_true L x')"
  unfolding reconcileRest_def SetRestCondition_def setup_tiers
  by (rule rest_tier.tier_passes [OF rest_comes_up [OF assms]]) simp_all

lemma tiers_pass:
  assumes conv: "converges (cd_spec x)" and tls: "tls_true L x" and L: "condition_laws L"
  shows "\<exists>s. outcome_in w (reconcileTiers (SetupWithManager qstr) L x (finish L ns n)) = (Returned noRequeue None, with_status s w) \<and>
    status_phase s = PhaseReady"
proof -
  let ?r = "SetupWithManager qstr"
  have due: "spec_infrastructure (cd_spec x) \<noteq> None" "rest_on x \<longleftrightarrow> spec_rest (cd_spec x) \<noteq> None"
    using conv by (auto simp: converges_def managed_modes_def rest_on_def split: option.splits)
  let ?rest = "\<lambda>x2 rq2 err2. runTier (rest_on x2 \<and> coreReady x2) (reconcileRest ?r L) ''RestFailed'' ''REST tier failed'' x2 rq2 err2
    (finish L ns n)"
  let ?core = "\<lambda>x1 rq1 err1. runTier (infraReady x1) (reconcileCore ?r L) ''CoreFailed'' ''Core tier failed'' x1 rq1 err1 ?rest"
  have start: "reconcileTiers ?r L x (finish L ns n) =
      runTier True (reconcileInfrastructure ?r L) ''InfrastructureFailed'' ''Infrastructure tier failed'' x False None ?core"
    using due(1) by (simp add: reconcileTiers_def)
  obtain x1 st1 where 1: "outcome_in w (reconcileTiers ?r L x (finish L ns n)) = outcome_in w (?core x1 False None)"
    "only_conds (with_infra (Some st1) x) x1" "tier_ready st1" "tls_true L x1"
    using infra_passes [OF conv, where k = ?core] tls unfolding start by blast
  note f1 = flux_infra [OF 1(2)] same_spec [OF flux_infra(1) [OF 1(2)]]
  have ready1: "infraReady x1" using f1 1(3) by (simp add: ready_up tier_up_def)
  have "converges (cd_spec x1)" using conv f1(5) by simp
  then obtain x2 st2 where 2: "outcome_in w (reconcileTiers ?r L x (finish L ns n)) = outcome_in w (?rest x2 False None)"
    "only_conds (with_core (Some st2) x1) x2" "tier_ready st2" "tls_true L x2"
    using core_passes [where k = ?rest] 1(1,4) ready1 by (simp only: simp_thms) blast
  note f2 = flux_core [OF 2(2)] same_spec [OF flux_core(1) [OF 2(2)]]
  have ready2: "infraReady x2" "coreReady x2" "rest_on x2 = rest_on x"
    using f1 f2 1(3) 2(3) by (simp_all add: ready_up tier_up_def rest_on_def)
  obtain x3 where 3: "outcome_in w (reconcileTiers ?r L x (finish L ns n)) = outcome_in w (finish L ns n x3 False None)"
    "all_ready L x3"
  proof (cases "rest_on x")
    case True
    have "converges (cd_spec x2)" using conv f1(5) f2(5) by simp
    then obtain x3 st3 where 3: "outcome_in w (reconcileTiers ?r L x (finish L ns n)) = outcome_in w (finish L ns n x3 False None)"
      "only_conds (with_rest (Some st3) x2) x3" "tier_ready st3" "tls_true L x3"
      using rest_passes [where k = "finish L ns n"] 2(1,4) ready2 True by (simp only: simp_thms) blast
    note f3 = flux_rest [OF 3(2)] same_spec [OF flux_rest(1) [OF 3(2)]]
    have "all_ready L x3" using 3 f3 ready2 L by (auto simp: all_ready_iff ready_up tier_up_def tls_true_def)
    with 3(1) show ?thesis by (rule that)
  next
    case False
    with due f1 f2 have "all_ready L x2" using ready2 2(4) L by (auto simp: all_ready_iff ready_up tls_true_def)
    moreover have "outcome_in w (reconcileTiers ?r L x (finish L ns n)) = outcome_in w (finish L ns n x2 False None)"
      unfolding 2(1) using False ready2 by (simp add: runTier_def)
    ultimately show ?thesis using that by blast
  qed
  then show ?thesis using finish_stores [of w L ns n x3] by auto
qed

lemma pass_returns:
  assumes "live F w" and "status_phase (cd_status w) \<noteq> []" and "converges (cd_spec w)" and "condition_laws L"
  shows "\<exists>s. outcome_in w (Reconcile (SetupWithManager qstr) L F (cd_namespace w) (cd_name w)) =
      (Returned noRequeue None, with_status s w) \<and> status_phase s = PhaseReady"
proof -
  let ?ns = "cd_namespace w" and ?n = "cd_name w"
  let ?k = "\<lambda>x. withTLS L ?ns ?n x (\<lambda>x'. reconcileTiers (SetupWithManager qstr) L x' (finish L ?ns ?n))"
  have k: "\<exists>s. outcome_in w (?k x) = (Returned noRequeue None, with_status s w) \<and> status_phase s = PhaseReady"
    if "cd_spec x = cd_spec w" for x
  proof -
    have conv: "converges (cd_spec x)" using assms(3) that by simp
    obtain x' where x': "outcome_in w (?k x) = outcome_in w (reconcileTiers (SetupWithManager qstr) L x' (finish L ?ns ?n))"
      "only_conds x x'" "tls_true L x'"
      using tls_passes [OF conv, where k = "\<lambda>x'. reconcileTiers (SetupWithManager qstr) L x' (finish L ?ns ?n)"] by blast
    have "converges (cd_spec x')" using conv x'(2) by (simp add: only_conds_sel)
    from tiers_pass [OF this x'(3) assms(4)] show ?thesis unfolding x'(1) .
  qed
  have "\<exists>s. outcome_in w (observeGeneration w ?k) = (Returned noRequeue None, with_status s w) \<and> status_phase s = PhaseReady"
    unfolding observeGeneration_def Let_def
    by (split if_split, intro conjI impI, simp only: outcome_in_simps, rule k, simp, rule k, simp)
  then show ?thesis using assms(1,2) by (auto simp: reconcile_outcome reconcileFetched_def live_def)
qed

lemma pass_readies:
  assumes "live F w" and "status_phase (cd_status w) \<noteq> []" and "converges (cd_spec w)" and "condition_laws L"
  shows "\<exists>s. pass_in qstr L F w = with_status s w \<and> status_phase s = PhaseReady"
  using pass_returns [OF assms, of qstr] by (auto simp: pass_in_def)

section \<open>Repeated passes\<close>

text \<open>How many passes are left: one to add the finalizer, one to initialise the status, one to become ready.\<close>

definition passes_left :: "finalizer_lib \<Rightarrow> carbide_deployment \<Rightarrow> nat" where
  "passes_left F w =
     (if \<not> ContainsFinalizer F w carbideFinalizer then 3
      else if status_phase (cd_status w) = [] then 2
      else if status_phase (cd_status w) \<noteq> PhaseReady then 1 else 0)"

lemma with_status_meta [simp]:
  "cd_finalizers (with_status s w) = cd_finalizers w" "cd_deletion_timestamp (with_status s w) = cd_deletion_timestamp w"
  by (simp_all add: with_status_def)

lemma pass_progress:
  assumes laws: "condition_laws L" "finalizer_laws F"
    and w: "timeIsZero (cd_deletion_timestamp w)" "converges (cd_spec w)"
  shows "passes_left F (pass_in qstr L F w) \<le> passes_left F w - 1 \<and> cd_spec (pass_in qstr L F w) = cd_spec w \<and>
    cd_deletion_timestamp (pass_in qstr L F w) = cd_deletion_timestamp w"
proof -
  note has = finalizer_laws.contains_iff [OF laws(2)]
  consider (new) "carbideFinalizer \<notin> set (cd_finalizers w)"
    | (blank) "live F w" "status_phase (cd_status w) = []"
    | (old) "live F w" "status_phase (cd_status w) \<noteq> []"
    using w(1) by (auto simp: live_def has)
  then show ?thesis
  proof cases
    case new
    then show ?thesis
      using pass_adds_finalizer [OF laws(2) w(1), of qstr L] by (auto simp: passes_left_def has)
  next
    case blank
    then show ?thesis
      using pass_initialises [OF blank, of qstr L] by (auto simp: passes_left_def has live_def)
  next
    case old
    then show ?thesis
      using pass_readies [OF old w(2) laws(1), of qstr] by (auto simp: passes_left_def has live_def)
  qed
qed

lemma passes_progress:
  assumes laws: "condition_laws L" "finalizer_laws F"
    and w: "timeIsZero (cd_deletion_timestamp w)" "converges (cd_spec w)"
  shows "passes_left F ((pass_in qstr L F ^^ n) w) \<le> passes_left F w - n \<and> cd_spec ((pass_in qstr L F ^^ n) w) = cd_spec w \<and>
    cd_deletion_timestamp ((pass_in qstr L F ^^ n) w) = cd_deletion_timestamp w"
proof (induction n)
  case (Suc n)
  let ?w = "(pass_in qstr L F ^^ n) w"
  from pass_progress [OF laws, of ?w qstr] Suc w show ?case by fastforce
qed simp

lemma none_left: "passes_left F w = 0 \<longleftrightarrow> ContainsFinalizer F w carbideFinalizer \<and> status_phase (cd_status w) = PhaseReady"
  by (simp add: passes_left_def)

lemma passes_left_bound: "passes_left F w \<le> 3"
  by (simp add: passes_left_def)

end
