(* ===== verification/Lifecycle.thy ===== *)
theory Lifecycle
  imports Status_Updates Convergence
begin

text \<open>
  The life of a resource on the API server: the user creates, edits and deletes it through the webhook, and
  passes of the controller, on whatever versions of it their reads returned, write its status and its
  finalizer.  The server keeps the versions in order and accepts a write of the controller only if it carries the
  resource version of the current one.  The steps are a relation, and what holds of every version that can be reached
  is proved by induction over it.
\<close>

section \<open>Versions and steps\<close>

definition deleted :: "carbide_deployment \<Rightarrow> bool" where
  "deleted d \<longleftrightarrow> \<not> timeIsZero (cd_deletion_timestamp d)"

definition held :: "carbide_deployment \<Rightarrow> bool" where
  "held d \<longleftrightarrow> carbideFinalizer \<in> set (cd_finalizers d)"

text \<open>An object under deletion is removed with its last finalizer.\<close>

definition gone :: "carbide_deployment \<Rightarrow> bool" where
  "gone d \<longleftrightarrow> deleted d \<and> cd_finalizers d = []"

text \<open>
  What the server stores for a request: the defaulted object, without its status (a subresource) and with the
  metadata the server owns; the generation grows with every change of the spec.
\<close>

definition stored_new :: "string \<Rightarrow> carbide_deployment \<Rightarrow> carbide_deployment" where
  "stored_new rv req = (applyDefaults req)
     \<lparr>cd_status := zero_status, cd_generation := 1, cd_deletion_timestamp := None, cd_resource_version := rv\<rparr>"

definition stored_over :: "string \<Rightarrow> carbide_deployment \<Rightarrow> carbide_deployment \<Rightarrow> carbide_deployment" where
  "stored_over rv cur req =
     (let new = applyDefaults req in new
       \<lparr>cd_status := cd_status cur, cd_deletion_timestamp := cd_deletion_timestamp cur, cd_resource_version := rv,
        cd_generation := (if cd_spec new = cd_spec cur then cd_generation cur else cd_generation cur + 1)\<rparr>)"

text \<open>Everything a pass has read of the resource is one of the versions, current or not.\<close>

definition reads_from :: "string \<Rightarrow> string \<Rightarrow> carbide_deployment list \<Rightarrow> event list \<Rightarrow> bool" where
  "reads_from ns n vs tr \<longleftrightarrow> (\<forall>d. fetched ns n d tr \<longrightarrow> d \<in> set vs)"

datatype actor = User | Operator

text \<open>
  The steps from the versions so far, the current one first, to the next.  Nobody but the operator takes its
  finalizer off a resource that is not being deleted.
\<close>

inductive step :: "(quantity \<Rightarrow> string) \<Rightarrow> status_lib \<Rightarrow> finalizer_lib \<Rightarrow> string \<Rightarrow> string \<Rightarrow>
    carbide_deployment list \<Rightarrow> actor \<Rightarrow> carbide_deployment \<Rightarrow> bool" for qstr L F ns n where
  edit: "cd_namespace req = cd_namespace cur \<Longrightarrow> cd_name req = cd_name cur \<Longrightarrow> held cur \<and> \<not> deleted cur \<longrightarrow> held req \<Longrightarrow>
    admit cur (applyDefaults req) \<Longrightarrow> step qstr L F ns n (cur # vs) User (stored_over rv cur req)"
| delete: "\<not> deleted cur \<Longrightarrow> cd_finalizers cur \<noteq> [] \<Longrightarrow> t \<noteq> 0 \<Longrightarrow> cd_generation cur \<le> g \<Longrightarrow>
    step qstr L F ns n (cur # vs) User
      (cur\<lparr>cd_deletion_timestamp := Some t, cd_generation := g, cd_resource_version := rv\<rparr>)"
| status: "runs (Reconcile (SetupWithManager qstr) L F ns n) out (pre @ EStatusUpdate l None # post) \<Longrightarrow>
    reads_from ns n (cur # vs) pre \<Longrightarrow> cd_resource_version l = cd_resource_version cur \<Longrightarrow>
    step qstr L F ns n (cur # vs) Operator (cur\<lparr>cd_status := cd_status l, cd_resource_version := rv\<rparr>)"
| update: "runs (Reconcile (SetupWithManager qstr) L F ns n) out (pre @ EUpdate (CarbideDeploymentObj x) None # post) \<Longrightarrow>
    reads_from ns n (cur # vs) pre \<Longrightarrow> cd_resource_version x = cd_resource_version cur \<Longrightarrow>
    admit cur (applyDefaults x) \<Longrightarrow>
    step qstr L F ns n (cur # vs) Operator (stored_over rv cur x)"

inductive_cases stepE: "step qstr L F ns n vs a v"

inductive history :: "(quantity \<Rightarrow> string) \<Rightarrow> status_lib \<Rightarrow> finalizer_lib \<Rightarrow> string \<Rightarrow> string \<Rightarrow> carbide_deployment list \<Rightarrow> bool"
    for qstr L F ns n where
  create: "cd_namespace req = ns \<Longrightarrow> cd_name req = n \<Longrightarrow> snd (ValidateCreate (CarbideObject (applyDefaults req))) = None \<Longrightarrow>
    history qstr L F ns n [stored_new rv req]"
| grow: "history qstr L F ns n vs \<Longrightarrow> \<not> gone (hd vs) \<Longrightarrow> step qstr L F ns n vs a v \<Longrightarrow>
    cd_resource_version v \<notin> cd_resource_version ` set vs \<Longrightarrow> history qstr L F ns n (v # vs)"

section \<open>What a pass may write of the resource\<close>

text \<open>A pass over a live version never updates the resource itself, and updates its status once.\<close>

lemma live_no_update:
  assumes "runs (Reconcile (SetupWithManager qstr) L F ns n) out tr" and "live F d"
    and "hd tr = EGet KCarbideDeployment ns n (Inr (CarbideDeploymentObj d))"
  shows "EUpdate (CarbideDeploymentObj x) a \<notin> set tr"
proof
  assume "EUpdate (CarbideDeploymentObj x) a \<in> set tr"
  then obtain pre post where t: "tr = pre @ EUpdate (CarbideDeploymentObj x) a # post" by (meson split_list)
  from assms(1) show False
  proof (cases rule: pass_cases)
    case (live d')
    have "obj_key (CarbideDeploymentObj x) \<in> pass_writes (infra_evidence qstr) infra_keys core_evidence core_keys rest_keys d' pre"
      using live(3) [OF t] by simp
    then show False
      using infra_tier.own_keys [of _ _ d'] core_tier.own_keys [of _ _ d'] rest_tier.own_keys [of _ _ d']
      by (auto simp: pass_writes_def obj_key_def split: if_splits)
  qed (use assms(2,3) t in \<open>auto simp: append_eq_Cons_conv\<close>)
qed

lemma status_once:
  assumes "runs (Reconcile (SetupWithManager qstr) L F ns n) out (pre @ EStatusUpdate l a # post)"
  shows "list_all quiet pre \<and> list_all quiet post"
  using assms
proof (cases rule: read_cases)
  case (got d tr')
  from got(2) pass_sends [of L d qstr F ns n] have "length (filter (\<lambda>e. \<not> quiet e) tr') \<le> 1" unfolding sender_def by blast
  then have "length (filter (\<lambda>e. \<not> quiet e) (pre @ EStatusUpdate l a # post)) \<le> 1" unfolding got(1) by simp
  then show ?thesis by (auto simp: filter_empty_conv list_all_iff)
qed (simp add: append_eq_Cons_conv)

text \<open>An update of the resource itself: its finalizer, added before the work starts or removed after a deletion.\<close>

lemma pass_update:
  assumes "runs (Reconcile (SetupWithManager qstr) L F ns n) out (pre @ EUpdate (CarbideDeploymentObj x) a # post)"
  obtains d where "fetched ns n d pre" "\<not> deleted d" "x = AddFinalizer F d carbideFinalizer"
    | d where "fetched ns n d pre" "deleted d" "x = RemoveFinalizer F d carbideFinalizer"
  using assms
proof (cases rule: pass_cases)
  case (live d)
  have "EUpdate (CarbideDeploymentObj x) a \<notin> set (pre @ EUpdate (CarbideDeploymentObj x) a # post)"
    by (rule live_no_update [OF assms live(2,5)])
  then show thesis by simp
next
  case (idle d tr')
  from idle(1) obtain pre' where pre: "pre = EGet KCarbideDeployment ns n (Inr (CarbideDeploymentObj d)) # pre'"
    "tr' = pre' @ EUpdate (CarbideDeploymentObj x) a # post" by (cases pre) auto
  then have "EUpdate (CarbideDeploymentObj x) a \<in> set tr'" "fetched ns n d pre" by (auto simp: fetched_def)
  with idle(3) that show thesis
    unfolding passive_runs [OF idle(2)] by (auto simp: deleted_def split: if_splits)
qed (cases pre; simp)

section \<open>Invariant\<close>

text \<open>What holds of a single version.\<close>

definition sound :: "status_lib \<Rightarrow> string \<Rightarrow> string \<Rightarrow> carbide_deployment \<Rightarrow> bool" where
  "sound L ns n v \<longleftrightarrow> cd_namespace v = ns \<and> cd_name v = n \<and> valid_spec (cd_spec v) \<and> complete_spec (cd_name v) (cd_spec v) \<and>
     typed_conds (conds v) \<and> (status_phase (cd_status v) = [] \<or> typed_status (cd_status v)) \<and>
     status_observed_generation (cd_status v) \<le> cd_generation v \<and>
     (status_phase (cd_status v) \<noteq> [] \<longrightarrow> held v \<or> deleted v) \<and>
     (IsConditionTrue L v ConditionTypeReady \<longleftrightarrow> status_phase (cd_status v) = PhaseReady)"

text \<open>What holds of a version and an earlier one.\<close>

definition follows :: "carbide_deployment \<Rightarrow> carbide_deployment \<Rightarrow> bool" where
  "follows v u \<longleftrightarrow> spec_profile (cd_spec v) = spec_profile (cd_spec u) \<and>
     cd_generation u \<le> cd_generation v \<and> (cd_generation v = cd_generation u \<longrightarrow> cd_spec v = cd_spec u) \<and>
     (held u \<longrightarrow> held v \<or> deleted v) \<and> (deleted u \<longrightarrow> deleted v)"

text \<open>A Ready version rests on a pass over the version whose generation it calls observed.\<close>

definition rests_on :: "(quantity \<Rightarrow> string) \<Rightarrow> status_lib \<Rightarrow> finalizer_lib \<Rightarrow> string \<Rightarrow> string \<Rightarrow>
    carbide_deployment list \<Rightarrow> carbide_deployment \<Rightarrow> bool" where
  "rests_on qstr L F ns n vs v \<longleftrightarrow>
     (\<exists>d\<in>set vs. cd_generation d = status_observed_generation (cd_status v) \<and>
       (\<exists>out tr. runs (Reconcile (SetupWithManager qstr) L F ns n) out tr \<and> fetched ns n d tr \<and>
          justified (infra_evidence qstr) core_evidence (rest_evidence qstr) d tr))"

lemma with_status_version: "cd_resource_version (with_status s d) = cd_resource_version d"
  by (simp add: with_status_def)

lemma same_version: "same d x \<Longrightarrow> cd_resource_version x = cd_resource_version d"
  unfolding same_def by (metis with_status_version)

lemma follows_refl [simp]: "follows v v"
  by (simp add: follows_def)

lemma follows_trans: "follows w v \<Longrightarrow> follows v u \<Longrightarrow> follows w u"
  by (auto simp: follows_def)

lemma stored_sel [simp]:
  "cd_spec (stored_over rv cur req) = cd_spec (applyDefaults req)" "cd_status (stored_over rv cur req) = cd_status cur"
  "cd_namespace (stored_over rv cur req) = cd_namespace req" "cd_name (stored_over rv cur req) = cd_name req"
  "cd_finalizers (stored_over rv cur req) = cd_finalizers req"
  "deleted (stored_over rv cur req) = deleted cur" "held (stored_over rv cur req) = held req"
  "cd_generation (stored_over rv cur req) =
     (if cd_spec (applyDefaults req) = cd_spec cur then cd_generation cur else cd_generation cur + 1)"
  by (simp_all add: stored_over_def deleted_def held_def Let_def applyDefaults_def)

lemma same_status: "cd_status v = cd_status u \<Longrightarrow> conds v = conds u \<and> IsConditionTrue L v ty = IsConditionTrue L u ty"
  by (simp add: conds_def IsConditionTrue_view cond_view_def)

lemma sorted_related: "sorted_wrt follows vs \<Longrightarrow> u \<in> set vs \<Longrightarrow> v \<in> set vs \<Longrightarrow> follows v u \<or> follows u v"
  by (induction vs) auto

text \<open>A version stored over a sound one, for a request that keeps the name and the finalizer.\<close>

lemma stored_follows:
  assumes "admit cur (applyDefaults req)" and "held cur \<Longrightarrow> \<not> deleted cur \<Longrightarrow> held req"
  shows "follows (stored_over rv cur req) cur"
  using assms by (auto simp: follows_def dest: admit_profile)

lemma stored_sound:
  assumes "sound L ns n cur" and "admit cur (applyDefaults req)" and "cd_namespace req = cd_namespace cur"
    and "cd_name req = cd_name cur" and "held cur \<Longrightarrow> \<not> deleted cur \<Longrightarrow> held req"
  shows "sound L ns n (stored_over rv cur req)"
proof -
  have "cd_name (applyDefaults req) = cd_name req" by (simp add: applyDefaults_def)
  with admit_valid [OF assms(2)] assms(1,3-5) same_status [of "stored_over rv cur req" cur L ConditionTypeReady]
  show ?thesis by (auto simp: sound_def)
qed

text \<open>The operator's own requests change nothing but the finalizer: the version they carry is the current one.\<close>

definition only_finalizer :: "carbide_deployment \<Rightarrow> carbide_deployment \<Rightarrow> bool" where
  "only_finalizer cur x \<longleftrightarrow> (\<exists>fs. x = cur\<lparr>cd_finalizers := fs\<rparr> \<and>
     set fs = (if deleted cur then set (cd_finalizers cur) - {carbideFinalizer} else insert carbideFinalizer (set (cd_finalizers cur))))"

lemma update_is_finalizer:
  assumes F: "finalizer_laws F" and "distinct (map cd_resource_version vs)" and "cur \<in> set vs"
    and "runs (Reconcile (SetupWithManager qstr) L F ns n) out (pre @ EUpdate (CarbideDeploymentObj x) a # post)"
    and "reads_from ns n vs pre" and "cd_resource_version x = cd_resource_version cur"
  shows "only_finalizer cur x"
proof -
  have current: "d = cur" if "fetched ns n d pre" "cd_resource_version d = cd_resource_version x" for d
    using that assms(2,3,5,6) by (auto simp: reads_from_def distinct_map dest: inj_onD)
  from assms(4) show ?thesis
  proof (cases rule: pass_update)
    case (1 d)
    obtain fs where fs: "x = d\<lparr>cd_finalizers := fs\<rparr>" "set fs = insert carbideFinalizer (set (cd_finalizers d))"
      using finalizer_laws.add_only [OF F, of d carbideFinalizer] 1(3) by auto
    with current [OF 1(1)] 1(2) show ?thesis by (auto simp: only_finalizer_def)
  next
    case (2 d)
    obtain fs where fs: "x = d\<lparr>cd_finalizers := fs\<rparr>" "set fs = set (cd_finalizers d) - {carbideFinalizer}"
      using finalizer_laws.remove_only [OF F, of d carbideFinalizer] 2(3) by auto
    with current [OF 2(1)] 2(2) show ?thesis by (auto simp: only_finalizer_def)
  qed
qed

lemma finalizer_stored:
  assumes "only_finalizer cur x" and "sound L ns n cur"
  shows "cd_namespace x = cd_namespace cur" "cd_name x = cd_name cur" "held cur \<Longrightarrow> \<not> deleted cur \<Longrightarrow> held x" "cd_spec (applyDefaults x) = cd_spec cur"
proof -
  have "cd_spec (applyDefaults cur) = cd_spec cur" using assms(2) applyDefaults_fixpoint_iff [of cur] by (auto simp: sound_def)
  then have spec: "default_spec (cd_name cur) (cd_spec cur) = cd_spec cur" by (simp add: applyDefaults_def)
  obtain fs where x: "x = cur\<lparr>cd_finalizers := fs\<rparr>" and fs: "\<not> deleted cur \<Longrightarrow> set fs = insert carbideFinalizer (set (cd_finalizers cur))"
    using assms(1) by (auto simp: only_finalizer_def)
  show "cd_namespace x = cd_namespace cur" "cd_name x = cd_name cur" "cd_spec (applyDefaults x) = cd_spec cur" by (simp_all add: x applyDefaults_def spec)
  show "held cur \<Longrightarrow> \<not> deleted cur \<Longrightarrow> held x" using fs by (simp add: x held_def)
qed

definition lifecycle_inv :: "(quantity \<Rightarrow> string) \<Rightarrow> status_lib \<Rightarrow> finalizer_lib \<Rightarrow> string \<Rightarrow> string \<Rightarrow> carbide_deployment list \<Rightarrow> bool" where
  "lifecycle_inv qstr L F ns n vs \<longleftrightarrow> vs \<noteq> [] \<and> distinct (map cd_resource_version vs) \<and> list_all (sound L ns n) vs \<and>
     sorted_wrt follows vs \<and> list_all (\<lambda>v. status_phase (cd_status v) = PhaseReady \<longrightarrow> rests_on qstr L F ns n vs v) vs"

lemma inv_follows: "lifecycle_inv qstr L F ns n (cur # vs) \<Longrightarrow> d \<in> set (cur # vs) \<Longrightarrow> follows cur d"
  by (auto simp: lifecycle_inv_def)

lemma inv_sound: "lifecycle_inv qstr L F ns n vs \<Longrightarrow> d \<in> set vs \<Longrightarrow> sound L ns n d"
  by (auto simp: lifecycle_inv_def list_all_iff)

lemma rests_onI:
  assumes "d \<in> set vs" and "cd_generation d = status_observed_generation (cd_status v)"
    and "runs (Reconcile (SetupWithManager qstr) L F ns n) out tr" and "fetched ns n d tr"
    and "justified (infra_evidence qstr) core_evidence (rest_evidence qstr) d tr"
  shows "rests_on qstr L F ns n vs v"
  unfolding rests_on_def using assms(3-5) by (intro bexI [OF _ assms(1)] conjI assms(2) exI)

lemma rests_on_mono: "rests_on qstr L F ns n vs v \<Longrightarrow> set vs \<subseteq> set vs' \<Longrightarrow> rests_on qstr L F ns n vs' v"
  unfolding rests_on_def by blast

lemma rests_on_status: "cd_status v = cd_status u \<Longrightarrow> rests_on qstr L F ns n vs v = rests_on qstr L F ns n vs u"
  by (simp add: rests_on_def)

text \<open>A status stored by the operator.\<close>

lemma status_step:
  fixes rv :: string
  assumes L: "condition_store L" and F: "finalizer_laws F" and inv: "lifecycle_inv qstr L F ns n (cur # vs)"
    and r: "runs (Reconcile (SetupWithManager qstr) L F ns n) out (pre @ EStatusUpdate l None # post)"
    and reads: "reads_from ns n (cur # vs) pre"
  defines "v \<equiv> cur\<lparr>cd_status := cd_status l, cd_resource_version := rv\<rparr>"
  shows "sound L ns n v" "follows v cur" "status_phase (cd_status v) = PhaseReady \<Longrightarrow> rests_on qstr L F ns n (cur # vs) v"
proof -
  have laws: "condition_laws L" using L by (rule condition_store.axioms)
  from r obtain d where d: "fetched ns n d pre" "live F d" "sent L d l"
    "status_phase (cd_status l) = PhaseReady \<Longrightarrow> justified (infra_evidence qstr) core_evidence (rest_evidence qstr) d pre"
    using laws by (auto elim: pass_status)
  with reads have mem: "d \<in> set (cur # vs)" by (auto simp: reads_from_def)
  note old = inv_sound [OF inv mem] and cur = inv_sound [OF inv, of cur] and fol = inv_follows [OF inv mem]
  note p = condition_laws.sent_phase [OF laws d(3)] and typed = condition_store.sent_typed [OF L d(3)]
  have "held d" using d(2) by (simp add: live_def held_def finalizer_laws.contains_iff [OF F])
  with fol have "held cur \<or> deleted cur" by (auto simp: follows_def)
  moreover have "status_observed_generation (cd_status l) \<le> cd_generation cur"
    using p fol old by (auto simp: follows_def sound_def split: if_splits)
  moreover have "IsConditionTrue L l ConditionTypeReady \<longleftrightarrow> status_phase (cd_status l) = PhaseReady"
    using p by (auto split: if_splits)
  moreover have "typed_status (cd_status l)" using typed old by (simp add: sound_def)
  moreover have "conds v = conds l \<and> IsConditionTrue L v ConditionTypeReady = IsConditionTrue L l ConditionTypeReady"
    by (rule same_status) (simp add: v_def)
  ultimately show "sound L ns n v"
    using cur by (auto simp: sound_def v_def held_def deleted_def typed_status_def conds_def)
  show "follows v cur" by (simp add: follows_def v_def held_def deleted_def)
  assume ready: "status_phase (cd_status v) = PhaseReady"
  then have eq: "cd_generation d = status_observed_generation (cd_status v)" using p by (simp add: v_def split: if_splits)
  have got: "fetched ns n d (pre @ EStatusUpdate l None # post)" using d(1) by (simp add: fetched_def)
  have seen: "justified (infra_evidence qstr) core_evidence (rest_evidence qstr) d (pre @ EStatusUpdate l None # post)"
    by (rule keepsD [OF carbide.keeps_justified d(4)]) (use ready in \<open>simp_all add: v_def subset_iff\<close>)
  show "rests_on qstr L F ns n (cur # vs) v" by (rule rests_onI [OF mem eq r got seen])
qed

lemma step_keeps:
  assumes L: "condition_store L" and F: "finalizer_laws F" and inv: "lifecycle_inv qstr L F ns n vs" and "step qstr L F ns n vs a v"
  shows "sound L ns n v \<and> follows v (hd vs) \<and> (status_phase (cd_status v) = PhaseReady \<longrightarrow> rests_on qstr L F ns n vs v)"
  using assms(4)
proof (cases rule: step.cases)
  case (edit req cur vs' rv)
  have cur: "sound L ns n cur" "status_phase (cd_status cur) = PhaseReady \<Longrightarrow> rests_on qstr L F ns n vs cur"
    using inv by (auto simp: lifecycle_inv_def edit(1))
  have "rests_on qstr L F ns n vs v = rests_on qstr L F ns n vs cur" by (rule rests_on_status) (simp add: edit(3))
  with stored_sound [OF cur(1) edit(7,4,5)] stored_follows [OF edit(7)] edit cur(2) show ?thesis by simp
next
  case (delete cur t g vs' rv)
  have cur: "sound L ns n cur" "status_phase (cd_status cur) = PhaseReady \<Longrightarrow> rests_on qstr L F ns n vs cur"
    using inv by (auto simp: lifecycle_inv_def delete(1))
  have "rests_on qstr L F ns n vs v = rests_on qstr L F ns n vs cur" by (rule rests_on_status) (simp add: delete(3))
  moreover have "sound L ns n v"
    using cur(1) delete(4-7) same_status [of v cur L ConditionTypeReady] unfolding delete(3)
    by (auto simp: sound_def deleted_def timeIsZero_def held_def)
  moreover have "follows v cur"
    using delete(4-7) unfolding delete(3) by (auto simp: follows_def deleted_def timeIsZero_def held_def)
  ultimately show ?thesis using cur(2) by (simp add: delete(1,3))
next
  case (status out pre l post cur vs' rv)
  from status_step [OF L F inv [unfolded status(1)] status(4,5), of rv] show ?thesis by (simp add: status(1,3))
next
  case (update out pre x post cur vs' rv)
  have cur: "sound L ns n cur" "status_phase (cd_status cur) = PhaseReady \<Longrightarrow> rests_on qstr L F ns n vs cur"
    "distinct (map cd_resource_version vs)" "cur \<in> set vs"
    using inv by (auto simp: lifecycle_inv_def update(1))
  have only: "only_finalizer cur x"
    by (rule update_is_finalizer [OF F cur(3,4) update(4) update(5) [folded update(1)] update(6)])
  note x = finalizer_stored [OF only cur(1)]
  have "rests_on qstr L F ns n vs v = rests_on qstr L F ns n vs cur" by (rule rests_on_status) (simp add: update(3))
  with stored_sound [OF cur(1) update(7) x(1,2)] stored_follows [OF update(7)] x(3) cur(2) show ?thesis
    by (simp add: update(1,3))
qed

lemma created_sound:
  assumes "condition_store L" and "snd (ValidateCreate (CarbideObject (applyDefaults req))) = None"
  shows "sound L (cd_namespace req) (cd_name req) (stored_new rv req)"
proof -
  have "valid_spec (cd_spec (applyDefaults req))"
    using assms(2) by (simp add: ValidateCreate_def validateCarbideDeployment_def validate_spec_ok)
  moreover have "complete_spec (cd_name req) (cd_spec (applyDefaults req))"
    using resource_fill.completes [of req] by (simp add: applyDefaults_def)
  ultimately show ?thesis
    using condition_store.find_none [OF assms(1)]
    by (simp add: sound_def stored_new_def zero_status_def typed_conds_def conds_def IsConditionTrue_view cond_view_def)
      (simp add: applyDefaults_def)
qed

lemma history_inv:
  assumes "condition_store L" and "finalizer_laws F" and "history qstr L F ns n vs"
  shows "lifecycle_inv qstr L F ns n vs"
  using assms(3)
proof (induction rule: history.induct)
  case (create req rv)
  then have "sound L ns n (stored_new rv req)" using created_sound [OF assms(1)] by blast
  then show ?case by (simp add: lifecycle_inv_def stored_new_def zero_status_def)
next
  case (grow vs a v)
  note new = step_keeps [OF assms(1,2) grow.IH grow.hyps(3)]
  obtain cur vs' where vs: "vs = cur # vs'" using grow.IH by (cases vs) (auto simp: lifecycle_inv_def)
  have "follows v u" if "u \<in> set vs" for u
    using follows_trans [OF _ inv_follows [OF grow.IH [unfolded vs]]] new that by (simp add: vs)
  moreover have "rests_on qstr L F ns n (v # vs) u" if "rests_on qstr L F ns n vs u" for u
    using that by (rule rests_on_mono) auto
  ultimately show ?case using grow.IH grow.hyps(4) new by (auto simp: lifecycle_inv_def list_all_iff)
qed

text \<open>The condition types that nothing reports.\<close>

definition unreported_types :: "string list" where
  "unreported_types =
     [ConditionTypePostgreSQLReady, ConditionTypeAPIReady, ConditionTypeMigrationComplete, ConditionTypeDHCPReady,
      ConditionTypePXEReady, ConditionTypeDNSReady, ConditionTypeTemporalReady, ConditionTypeKeycloakReady,
      ConditionTypeRestAPIReady, ConditionTypeSiteAgentReady, ConditionTypeSiteManagerReady, ConditionTypeCloudWorkerReady,
      ConditionTypeSiteWorkerReady]"

definition unreported :: "status_lib \<Rightarrow> carbide_deployment \<Rightarrow> bool" where
  "unreported L v \<longleftrightarrow> list_all (\<lambda>ty. cond_view L v ty = None) unreported_types \<and>
     list_all (\<lambda>ty. \<forall>st r m g. cond_view L v ty = Some (st, r, m, g) \<longrightarrow> st = ConditionUnknown)
       [ConditionTypeVaultReady, ConditionTypeRLAReady, ConditionTypePSMReady]"

lemma unreported_status: "cd_status v = cd_status u \<Longrightarrow> unreported L v = unreported L u"
  by (simp add: unreported_def cond_view_def conds_def)

lemma unreported_other:
  "list_all (\<lambda>ty. ty \<notin> pass_types \<and> ty \<noteq> ConditionTypeReady \<and>
     ty \<notin> {ConditionTypeVaultReady, ConditionTypeRLAReady, ConditionTypePSMReady}) unreported_types"
  by (simp add: unreported_types_def pass_types_def)

lemma components_other:
  "ty \<in> {ConditionTypeVaultReady, ConditionTypeRLAReady, ConditionTypePSMReady} \<Longrightarrow> ty \<notin> pass_types \<and> ty \<noteq> ConditionTypeReady"
  by (auto simp: pass_types_def)

lemma unreported_sent:
  assumes "condition_laws L" and "sent L d l" and "unreported L d"
  shows "unreported L l"
proof -
  note kept = condition_laws.sent_untouched [OF assms(1,2)]
  have "cond_view L l ty = None" if "ty \<in> set unreported_types" for ty
  proof -
    have "ty \<notin> pass_types" "ty \<noteq> ConditionTypeReady" "ty \<notin> {ConditionTypeVaultReady, ConditionTypeRLAReady, ConditionTypePSMReady}"
      "cond_view L d ty = None"
      using that unreported_other assms(3) unfolding unreported_def list_all_iff by blast+
    with kept [of ty] show ?thesis by metis
  qed
  moreover have "st = ConditionUnknown"
    if ty: "ty \<in> {ConditionTypeVaultReady, ConditionTypeRLAReady, ConditionTypePSMReady}" "cond_view L l ty = Some (st, r, m, g)" for ty st r m g
  proof -
    have "cond_view L l ty = cond_view L d ty \<or> (\<exists>r m g. cond_view L l ty = Some (ConditionUnknown, r, m, g))"
      using kept [of ty] components_other [OF ty(1)] by blast
    then show ?thesis
    proof
      assume "cond_view L l ty = cond_view L d ty"
      with ty assms(3) show ?thesis unfolding unreported_def list_all_iff by simp blast
    qed (use ty(2) in simp)
  qed
  ultimately show ?thesis unfolding unreported_def list_all_iff by simp
qed

lemma history_unreported:
  assumes "condition_store L" and "history qstr L F ns n vs"
  shows "list_all (unreported L) vs"
  using assms(2)
proof (induction rule: history.induct)
  case (create req rv)
  then show ?case
    using condition_store.find_none [OF assms(1)]
    by (simp add: unreported_def unreported_types_def stored_new_def zero_status_def cond_view_def conds_def)
next
  case (grow vs a v)
  from grow.hyps(3) have "unreported L v"
  proof (cases rule: step.cases)
    case (status out pre l post cur vs' rv)
    obtain d where d: "fetched ns n d pre" "sent L d l" by (rule pass_status [OF status(4)])
    have "d \<in> set vs" using d(1) status(1,5) by (simp add: reads_from_def)
    then have "unreported L d" using grow.IH by (simp add: list_all_iff)
    then have "unreported L l" by (rule unreported_sent [OF condition_store.axioms(1) [OF assms(1)] d(2)])
    moreover have "cd_status v = cd_status l" by (simp add: status(3))
    ultimately show ?thesis using unreported_status by blast
  next
    case (edit req cur vs' rv)
    then have "cd_status v = cd_status cur" "unreported L cur" using grow.IH by simp_all
    then show ?thesis using unreported_status by blast
  next
    case (delete cur t g vs' rv)
    then have "cd_status v = cd_status cur" "unreported L cur" using grow.IH by simp_all
    then show ?thesis using unreported_status by blast
  next
    case (update out pre x post cur vs' rv)
    then have "cd_status v = cd_status cur" "unreported L cur" using grow.IH by simp_all
    then show ?thesis using unreported_status by blast
  qed
  with grow.IH show ?case by simp
qed

lemma panic_invalid:
  assumes "runs (Reconcile (SetupWithManager qstr) L F ns n) Panicked tr"
  shows "\<exists>d. fetched ns n d tr \<and> \<not> valid_spec (cd_spec d)"
  using assms
proof (cases rule: pass_cases)
  case (live d)
  then have "\<not> tls_complete d" by simp
  then have "\<not> valid_spec (cd_spec d)"
    by (auto simp: tls_complete_def valid_spec_def valid_tls_def IsCertManagerMode_def split: option.splits)
  with live(1) show ?thesis by blast
next
  case (idle d tr')
  from idle(3) show ?thesis unfolding passive_runs [OF idle(2)] by (auto split: if_splits option.splits)
qed (simp split: if_splits)

section \<open>Passes on a healthy cluster are steps\<close>

text \<open>A run on the cluster of \<open>Convergence\<close> that writes the resource once, and that write is a status update.\<close>

lemma emit_eq: "emit e res = (r, tr, w) \<longleftrightarrow> (\<exists>tr'. tr = e # tr' \<and> res = (r, tr', w))"
  by (auto simp: emit_def split: prod.split)

lemma cluster_sel:
  "srv_get cluster k ns n w = (up_get w k ns n, w)" "srv_list cluster k ns ls w = (Inr [], w)" "srv_create cluster x w = (None, w)"
  "srv_update cluster x w = (None, stored x w)" "srv_status_update cluster d w = (None, w\<lparr>cd_status := cd_status d\<rparr>)"
  "srv_now cluster w = (0, w)" "srv_range cluster ks w = (ks, w)" "srv_probe cluster q w = (None, w)"
  "srv_http cluster u w = (Inr 200, w)"
  by (simp_all add: cluster_def)

lemmas exec_cluster = cluster_sel emit_eq leaves_def stored_other

lemma cluster_leaves:
  "exec cluster p w = (r, tr, w') \<Longrightarrow> list_all leaves tr \<Longrightarrow> w' = w \<and> (\<forall>k ns n a. EGet k ns n a \<in> set tr \<longrightarrow> a = up_get w k ns n)"
  by (induction p arbitrary: tr) (fastforce simp: exec_cluster)+

lemma cluster_status:
  assumes "exec cluster p w = (r, pre @ EStatusUpdate l a # post, w')" and "list_all leaves pre" and "list_all leaves post"
  shows "a = None \<and> w' = w\<lparr>cd_status := cd_status l\<rparr> \<and> (\<forall>k ns n a. EGet k ns n a \<in> set pre \<longrightarrow> a = up_get w k ns n)"
  using assms(1,2)
proof (induction p arbitrary: pre)
  case (StatusUpdate x f)
  then show ?case
    using cluster_leaves [of "f None" "w\<lparr>cd_status := cd_status x\<rparr>" r post w'] assms(3)
    by (cases pre) (auto simp: exec_cluster)
qed (fastforce simp: exec_cluster append_eq_Cons_conv)+

lemma cluster_pass:
  assumes "exec cluster (Reconcile r L F ns n) w = (out, tr, w')"
  shows "runs (Reconcile r L F ns n) out tr" "hd tr = EGet KCarbideDeployment ns n (Inr (CarbideDeploymentObj w))"
proof -
  show "runs (Reconcile r L F ns n) out tr" by (rule exec_runs [OF _ assms]) (simp add: cluster_sel)
  show "hd tr = EGet KCarbideDeployment ns n (Inr (CarbideDeploymentObj w))"
    using assms by (auto simp: Reconcile_def tryThen_def get_carbide_def get_object_def exec_cluster up_get_def)
qed

text \<open>The three steps to Ready: the finalizer, the first status, and a pass over all tiers.\<close>

lemma finalizer_step:
  assumes F: "finalizer_laws F" and cur: "sound L ns n cur" "\<not> deleted cur" "\<not> held cur"
  shows "\<exists>v. step qstr L F ns n (cur # vs) Operator (v\<lparr>cd_resource_version := rv\<rparr>) \<and> cd_spec v = cd_spec cur \<and>
    cd_generation v = cd_generation cur \<and> cd_status v = cd_status cur \<and> \<not> deleted v \<and> held v"
proof -
  obtain fs where fs: "AddFinalizer F cur carbideFinalizer = cur\<lparr>cd_finalizers := fs\<rparr>"
    "set fs = insert carbideFinalizer (set (cd_finalizers cur))"
    using finalizer_laws.add_only [OF F, of cur carbideFinalizer] by blast
  let ?x = "cur\<lparr>cd_finalizers := fs\<rparr>" and ?g = "EGet KCarbideDeployment ns n (Inr (CarbideDeploymentObj cur))"
  have only: "only_finalizer cur ?x" using fs(2) cur(2) by (auto simp: only_finalizer_def)
  have "\<not> live F cur" using cur(3) by (simp add: live_def held_def finalizer_laws.contains_iff [OF F])
  then have "runs (reconcileFetched (SetupWithManager qstr) L F ns n cur) (Returned requeueNow None) [EUpdate (CarbideDeploymentObj ?x) None]"
    using cur(2) by (simp add: passive_runs deleted_def fs(1))
  then have r: "runs (Reconcile (SetupWithManager qstr) L F ns n) (Returned requeueNow None) ([?g] @ EUpdate (CarbideDeploymentObj ?x) None # [])"
    by (simp add: Reconcile_def tryThen_def get_carbide_def get_object_def)
  have spec: "cd_spec (applyDefaults ?x) = cd_spec cur" by (rule finalizer_stored(4) [OF only cur(1)])
  then have adm: "admit cur (applyDefaults ?x)"
    using cur(1) by (auto simp: admit_iff sound_def check_immutable_def split: option.split)
  have "step qstr L F ns n (cur # vs) Operator (stored_over rv cur ?x)"
    by (rule step.update [OF r _ _ adm]) (simp_all add: reads_from_def fetched_def)
  moreover have "stored_over rv cur ?x = ?x\<lparr>cd_resource_version := rv\<rparr>"
    using spec by (simp add: stored_over_def applyDefaults_def Let_def)
  ultimately show ?thesis using fs(2) cur(2) by (intro exI [of _ ?x]) (simp add: deleted_def held_def)
qed

lemma init_step:
  assumes "live F cur" and "status_phase (cd_status cur) = []"
  shows "\<exists>s. step qstr L F ns n (cur # vs) Operator (cur\<lparr>cd_status := s, cd_resource_version := rv\<rparr>) \<and> status_phase s = PhasePending"
proof -
  obtain x t where x: "runs (InitializeConditions L cur) x t" using runs_exists [of "InitializeConditions L cur"] by blast
  from init_frame [OF this] have f: "t = []" "same cur x" "status_phase (cd_status x) = PhasePending" by auto
  let ?g = "EGet KCarbideDeployment ns n (Inr (CarbideDeploymentObj cur))"
  let ?e = "ERecord ''Normal'' ''Initializing'' (''Starting '' @ spec_profile (cd_spec x) @ '' deployment'')"
  have "runs (initStatusOnce L cur) (Returned requeueNow None) (t @ [EStatusUpdate x None, ?e])"
    unfolding initStatusOnce_def runs_andThen by (intro exI conjI, rule refl, rule x) simp
  then have r: "runs (Reconcile (SetupWithManager qstr) L F ns n) (Returned requeueNow None) ([?g] @ EStatusUpdate x None # [?e])"
    using assms by (simp add: Reconcile_def tryThen_def get_carbide_def get_object_def reconcileFetched_def live_def f(1))
  have "cd_resource_version x = cd_resource_version cur" using f(2) by (rule same_version)
  then have "step qstr L F ns n (cur # vs) Operator (cur\<lparr>cd_status := cd_status x, cd_resource_version := rv\<rparr>)"
    by (intro step.status [OF r]) (simp_all add: reads_from_def fetched_def)
  with f(3) show ?thesis by blast
qed

lemma ready_step:
  assumes L: "condition_laws L" and cur: "live F cur" "status_phase (cd_status cur) \<noteq> []" "converges (cd_spec cur)"
    and n: "cd_namespace cur = ns" "cd_name cur = n"
  shows "\<exists>s. step qstr L F ns n (cur # vs) Operator (cur\<lparr>cd_status := s, cd_resource_version := rv\<rparr>) \<and>
    status_phase s = PhaseReady \<and> status_observed_generation s = cd_generation cur"
proof -
  obtain out tr w' where e: "exec cluster (Reconcile (SetupWithManager qstr) L F ns n) cur = (out, tr, w')" by (metis prod_cases3)
  from pass_returns [OF cur L, of qstr] obtain s where out: "out = Returned noRequeue None" "w' = with_status s cur" "status_phase s = PhaseReady"
    using e n by (auto simp: outcome_in_def)
  note run = cluster_pass [OF e]
  have "\<exists>l. EStatusUpdate l None \<in> set tr"
    using run(1)
  proof (cases rule: pass_cases)
    case (live d)
    then show ?thesis by (auto simp: out(1))
  qed (use run(2) out(1) cur(1) in \<open>auto simp: decodeErr_def split: if_splits\<close>)
  then obtain l pre post where t: "tr = pre @ EStatusUpdate l None # post" by (meson split_list)
  have quiet: "list_all leaves pre" "list_all leaves post"
    using status_once [OF run(1) [unfolded t]] live_no_update [OF run(1) cur(1) run(2)] t
    by (auto simp: leaves_def list_all_iff quiet_def)
  note sending = cluster_status [OF e [unfolded t] quiet]
  then have w: "w' = cur\<lparr>cd_status := cd_status l\<rparr>" by blast
  have reads: "d = cur" if "fetched ns n d pre" for d
  proof -
    have "Inr (CarbideDeploymentObj d) = up_get cur KCarbideDeployment ns n" using sending that unfolding fetched_def by blast
    then show ?thesis by (simp add: up_get_def)
  qed
  have l: "cd_status l = s" using w out(2) by (metis with_status_sel(2) with_status_def)
  obtain d where d: "fetched ns n d pre" "sent L d l" "\<exists>x. fetched ns n x pre \<and> same x l"
    by (rule pass_status [OF run(1) [unfolded t]])
  then have "sent L cur l" "same cur l" using reads by auto
  then have obs: "status_observed_generation s = cd_generation cur" and rv: "cd_resource_version l = cd_resource_version cur"
    using condition_laws.sent_phase [OF L, of cur l] cur(2) same_version by (simp_all add: l)
  have "step qstr L F ns n (cur # vs) Operator (cur\<lparr>cd_status := cd_status l, cd_resource_version := rv\<rparr>)"
    by (rule step.status [OF run(1) [unfolded t] _ rv]) (use reads in \<open>auto simp: reads_from_def\<close>)
  with obs out(3) show ?thesis unfolding l by blast
qed

text \<open>Versions that the operator alone adds, the latest first.\<close>

fun operator_run :: "(quantity \<Rightarrow> string) \<Rightarrow> status_lib \<Rightarrow> finalizer_lib \<Rightarrow> string \<Rightarrow> string \<Rightarrow>
    carbide_deployment list \<Rightarrow> carbide_deployment list \<Rightarrow> bool" where
  "operator_run qstr L F ns n vs [] \<longleftrightarrow> True"
| "operator_run qstr L F ns n vs (v # ws) \<longleftrightarrow> operator_run qstr L F ns n vs ws \<and> \<not> gone (hd (ws @ vs)) \<and>
     step qstr L F ns n (ws @ vs) Operator v \<and> cd_resource_version v \<notin> cd_resource_version ` set (ws @ vs)"

lemma operator_run_history: "history qstr L F ns n vs \<Longrightarrow> operator_run qstr L F ns n vs ws \<Longrightarrow> history qstr L F ns n (ws @ vs)"
  by (induction ws) (auto intro: history.grow)

lemma operator_run_append:
  "operator_run qstr L F ns n vs ws \<Longrightarrow> operator_run qstr L F ns n (ws @ vs) us \<Longrightarrow> operator_run qstr L F ns n vs (us @ ws)"
  by (induction us) auto

lemma fresh_version: "\<exists>rv. rv \<notin> cd_resource_version ` set vs"
  by (rule ex_new_if_finite) (simp_all add: infinite_UNIV_listI)

text \<open>Settled: Ready, for the generation it shows.\<close>

definition settled :: "carbide_deployment \<Rightarrow> bool" where
  "settled v \<longleftrightarrow> status_phase (cd_status v) = PhaseReady \<and> status_observed_generation (cd_status v) = cd_generation v"

lemma run_to_ready:
  assumes L: "condition_store L" and F: "finalizer_laws F" and h: "history qstr L F ns n (cur # vs)"
    and cur: "\<not> deleted cur" "managed_modes (cd_spec cur)"
  shows "held cur \<Longrightarrow> status_phase (cd_status cur) \<noteq> [] \<Longrightarrow> \<exists>v. operator_run qstr L F ns n (cur # vs) [v] \<and> settled v \<and> cd_spec v = cd_spec cur"
    and "held cur \<Longrightarrow> status_phase (cd_status cur) = [] \<Longrightarrow> \<exists>v. operator_run qstr L F ns n (cur # vs) [v] \<and> \<not> deleted v \<and> held v \<and>
      status_phase (cd_status v) \<noteq> [] \<and> cd_spec v = cd_spec cur"
    and "\<not> held cur \<Longrightarrow> \<exists>v. operator_run qstr L F ns n (cur # vs) [v] \<and> \<not> deleted v \<and> held v \<and> cd_spec v = cd_spec cur"
proof -
  have sound: "sound L ns n cur" using inv_sound [OF history_inv [OF L F h]] by simp
  obtain rv where rv: "rv \<notin> cd_resource_version ` set (cur # vs)" using fresh_version by blast
  have live: "live F cur" if "held cur" using that cur(1) by (simp add: live_def held_def deleted_def finalizer_laws.contains_iff [OF F])
  have open': "\<not> gone cur" using cur(1) by (simp add: gone_def)
  show "\<exists>v. operator_run qstr L F ns n (cur # vs) [v] \<and> settled v \<and> cd_spec v = cd_spec cur"
    if old: "held cur" "status_phase (cd_status cur) \<noteq> []"
  proof -
    have "condition_laws L" using L by (rule condition_store.axioms)
    moreover have "converges (cd_spec cur)" "cd_namespace cur = ns" "cd_name cur = n"
      using sound cur(2) by (auto simp: converges_def sound_def)
    ultimately obtain s where "step qstr L F ns n (cur # vs) Operator (cur\<lparr>cd_status := s, cd_resource_version := rv\<rparr>)"
      "status_phase s = PhaseReady" "status_observed_generation s = cd_generation cur"
      using ready_step [OF _ live [OF old(1)] old(2)] by blast
    with rv open' show ?thesis
      by (intro exI [of _ "cur\<lparr>cd_status := s, cd_resource_version := rv\<rparr>"]) (simp add: settled_def)
  qed
  show "\<exists>v. operator_run qstr L F ns n (cur # vs) [v] \<and> \<not> deleted v \<and> held v \<and> status_phase (cd_status v) \<noteq> [] \<and> cd_spec v = cd_spec cur"
    if new: "held cur" "status_phase (cd_status cur) = []"
  proof -
    obtain s where "step qstr L F ns n (cur # vs) Operator (cur\<lparr>cd_status := s, cd_resource_version := rv\<rparr>)" "status_phase s = PhasePending"
      using init_step [OF live [OF new(1)] new(2)] by blast
    with rv open' cur(1) new(1) show ?thesis
      by (intro exI [of _ "cur\<lparr>cd_status := s, cd_resource_version := rv\<rparr>"]) (simp add: deleted_def held_def)
  qed
  show "\<exists>v. operator_run qstr L F ns n (cur # vs) [v] \<and> \<not> deleted v \<and> held v \<and> cd_spec v = cd_spec cur" if bare: "\<not> held cur"
  proof -
    obtain v where "step qstr L F ns n (cur # vs) Operator (v\<lparr>cd_resource_version := rv\<rparr>)" "cd_spec v = cd_spec cur" "\<not> deleted v" "held v"
      using finalizer_step [OF F sound cur(1) bare] by blast
    with rv open' show ?thesis by (intro exI [of _ "v\<lparr>cd_resource_version := rv\<rparr>"]) (simp add: deleted_def held_def)
  qed
qed

text \<open>Settled after at most \<open>k\<close> more steps of the operator.\<close>

definition settles :: "(quantity \<Rightarrow> string) \<Rightarrow> status_lib \<Rightarrow> finalizer_lib \<Rightarrow> string \<Rightarrow> string \<Rightarrow>
    carbide_deployment \<Rightarrow> carbide_deployment list \<Rightarrow> nat \<Rightarrow> bool" where
  "settles qstr L F ns n c us k \<longleftrightarrow> (\<exists>v ws. operator_run qstr L F ns n (c # us) (v # ws) \<and> length (v # ws) \<le> k \<and>
     settled v \<and> cd_spec v = cd_spec c)"

lemma settles_mono: "settles qstr L F ns n c us j \<Longrightarrow> j \<le> k \<Longrightarrow> settles qstr L F ns n c us k"
  unfolding settles_def using le_trans by blast

lemma settles_step:
  assumes "operator_run qstr L F ns n (c # us) [u]" and "cd_spec u = cd_spec c" and "settles qstr L F ns n u (c # us) k"
  shows "settles qstr L F ns n c us (Suc k)"
proof -
  from assms(3) obtain v ws where v: "operator_run qstr L F ns n ([u] @ c # us) (v # ws)" "length (v # ws) \<le> k" "settled v"
    "cd_spec v = cd_spec u" by (auto simp: settles_def)
  from operator_run_append [OF assms(1) v(1)] v(2-4) assms(2) show ?thesis
    unfolding settles_def by (intro exI [of _ v] exI [of _ "ws @ [u]"]) simp
qed

lemma settles_initialised:
  assumes "condition_store L" and "finalizer_laws F" and "history qstr L F ns n (c # us)"
    and "\<not> deleted c" "managed_modes (cd_spec c)" "held c" "status_phase (cd_status c) \<noteq> []"
  shows "settles qstr L F ns n c us 1"
proof -
  from run_to_ready(1) [OF assms] obtain v where "operator_run qstr L F ns n (c # us) [v]" "settled v" "cd_spec v = cd_spec c" by blast
  then show ?thesis unfolding settles_def by (intro exI [of _ v] exI [of _ "[]"]) simp
qed

lemma settles_held:
  assumes L: "condition_store L" and F: "finalizer_laws F" and c: "history qstr L F ns n (c # us)"
    "\<not> deleted c" "managed_modes (cd_spec c)" "held c"
  shows "settles qstr L F ns n c us 2"
proof (cases "status_phase (cd_status c) = []")
  case True
  from run_to_ready(2) [OF L F c True] obtain u where u: "operator_run qstr L F ns n (c # us) [u]" "\<not> deleted u" "held u"
    "status_phase (cd_status u) \<noteq> []" "cd_spec u = cd_spec c" by blast
  have "history qstr L F ns n (u # c # us)" using operator_run_history [OF c(1) u(1)] by simp
  then have "settles qstr L F ns n u (c # us) 1" by (rule settles_initialised [OF L F]) (use u c(3) in simp_all)
  from settles_step [OF u(1,5) this] show ?thesis by (simp add: numeral_2_eq_2)
next
  case False
  from settles_initialised [OF L F c False] show ?thesis by (rule settles_mono) simp
qed

lemma settles_any:
  assumes L: "condition_store L" and F: "finalizer_laws F" and c: "history qstr L F ns n (c # us)"
    "\<not> deleted c" "managed_modes (cd_spec c)"
  shows "settles qstr L F ns n c us 3"
proof (cases "held c")
  case True
  from settles_held [OF L F c True] show ?thesis by (rule settles_mono) simp
next
  case False
  from run_to_ready(3) [OF L F c False] obtain u where u: "operator_run qstr L F ns n (c # us) [u]" "\<not> deleted u" "held u"
    "cd_spec u = cd_spec c" by blast
  have "history qstr L F ns n (u # c # us)" using operator_run_history [OF c(1) u(1)] by simp
  then have "settles qstr L F ns n u (c # us) 2" by (rule settles_held [OF L F]) (use u c(3) in simp_all)
  from settles_step [OF u(1,4) this] show ?thesis by (simp add: eval_nat_numeral)
qed

section \<open>Properties\<close>

text \<open>
  C3: every reachable version of a resource is sound, however users, the webhook and passes over current or stale
  versions are interleaved: its spec is valid and fully defaulted, its status well typed, the observed generation
  is not ahead of the generation, a status exists only where the finalizer was set, and the phase says Ready exactly
  when the Ready condition does.  Later versions follow earlier ones: the profile is kept, the generation grows
  with the spec, deletion is final, the finalizer is given up only in deletion.  No pass that reads these versions panics.
\<close>
theorem reachable_versions:
  assumes "condition_store L" and "finalizer_laws F" and "history qstr L F ns n vs"
  shows "list_all (sound L ns n) vs \<and> sorted_wrt follows vs \<and>
    (\<forall>tr. reads_from ns n vs tr \<longrightarrow> \<not> runs (Reconcile (SetupWithManager qstr) L F ns n) Panicked tr)"
proof -
  have inv: "lifecycle_inv qstr L F ns n vs" by (rule history_inv [OF assms])
  have "\<not> runs (Reconcile (SetupWithManager qstr) L F ns n) Panicked tr" if "reads_from ns n vs tr" for tr
    using panic_invalid [of qstr L F ns n tr] that inv_sound [OF inv] by (auto simp: reads_from_def sound_def)
  with inv show ?thesis by (simp add: lifecycle_inv_def)
qed

text \<open>
  C5: the operator never undoes an edit.  Whatever a pass read, and however stale, a write of the resource that the
  server accepts leaves spec, generation and deletion as they are in the current version, and of the finalizers it
  changes its own only: it adds it to a resource that is not being deleted and removes it from one that is.
\<close>
theorem operator_keeps_edits:
  assumes "condition_store L" and "finalizer_laws F" and "history qstr L F ns n (cur # vs)"
    and "step qstr L F ns n (cur # vs) Operator v"
  shows "cd_spec v = cd_spec cur \<and> cd_generation v = cd_generation cur \<and>
    cd_deletion_timestamp v = cd_deletion_timestamp cur \<and>
    set (cd_finalizers v) - {carbideFinalizer} = set (cd_finalizers cur) - {carbideFinalizer} \<and>
    (held v \<noteq> held cur \<longrightarrow> held v = (\<not> deleted cur))"
  using assms(4)
proof (cases rule: step.cases)
  case (update out pre x post rv)
  have inv: "lifecycle_inv qstr L F ns n (cur # vs)" by (rule history_inv [OF assms(1-3)])
  then have cur: "sound L ns n cur" "distinct (map cd_resource_version (cur # vs))" "cur \<in> set (cur # vs)"
    by (auto simp: lifecycle_inv_def)
  have only: "only_finalizer cur x" by (rule update_is_finalizer [OF assms(2) cur(2,3) update(2-4)])
  have frame: "cd_deletion_timestamp v = cd_deletion_timestamp cur" "cd_spec v = cd_spec cur" "cd_generation v = cd_generation cur"
    using finalizer_stored(4) [OF only cur(1)] by (simp_all add: update(1)) (simp add: stored_over_def Let_def)
  obtain fs where "x = cur\<lparr>cd_finalizers := fs\<rparr>" "set fs = (if deleted cur then set (cd_finalizers cur) - {carbideFinalizer}
      else insert carbideFinalizer (set (cd_finalizers cur)))"
    using only unfolding only_finalizer_def by blast
  then have "set (cd_finalizers v) = (if deleted cur then set (cd_finalizers cur) - {carbideFinalizer}
      else insert carbideFinalizer (set (cd_finalizers cur)))" by (simp add: update(1))
  then show ?thesis unfolding frame held_def by (simp split: if_splits)
qed (auto simp: held_def)


text \<open>
  C38: thirteen of the declared condition types appear in no version of any resource, and those of Vault, RLA and PSM
  only as Unknown: a client that waits for one of them to become True waits forever.
\<close>
theorem unreported_conditions:
  assumes "condition_store L" and "history qstr L F ns n vs" and "v \<in> set vs"
  shows "(ty \<in> set unreported_types \<longrightarrow> cond_view L v ty = None) \<and>
    (ty \<in> {ConditionTypeVaultReady, ConditionTypeRLAReady, ConditionTypePSMReady} \<longrightarrow> \<not> IsConditionTrue L v ty)"
proof -
  have u: "unreported L v" using history_unreported [OF assms(1,2)] assms(3) by (simp add: list_all_iff)
  have "cond_view L v ty = None" if "ty \<in> set unreported_types" using u that by (simp add: unreported_def list_all_iff)
  moreover have "\<not> IsConditionTrue L v ty" if "ty \<in> {ConditionTypeVaultReady, ConditionTypeRLAReady, ConditionTypePSMReady}"
    using u that by (fastforce simp: unreported_def IsConditionTrue_view)
  ultimately show ?thesis by blast
qed


section \<open>Witnesses\<close>

definition first_version :: carbide_deployment where
  "first_version = stored_new ''1'' sample_site"

lemma first_history: "history (\<lambda>_. []) ref_lib ref_finalizers ''default'' ''boston'' [first_version]"
proof -
  have "snd (ValidateCreate (CarbideObject (applyDefaults sample_site))) = None"
    by (simp add: ValidateCreate_def validateCarbideDeployment_def validate_spec_ok applyDefaults_def valid_spec_def valid_default_simps)
      (simp add: valid_network_def valid_tls_def valid_postgresql_def valid_vault_def valid_rest_def sample_defs
        is_management_profile_def)
  then show ?thesis unfolding first_version_def by (intro history.create) (simp_all add: sample_defs)
qed

lemma first_version_facts: "\<not> deleted first_version" "\<not> held first_version" "managed_modes (cd_spec first_version)"
  by code_simp+

lemmas ref_laws = ref_store.condition_store_axioms ref_fin.finalizer_laws_axioms

theorem reachable_versions_witness: "sound ref_lib ''default'' ''boston'' first_version"
  using reachable_versions [OF ref_laws first_history] by simp

theorem operator_keeps_edits_witness:
  "\<exists>v. step (\<lambda>_. []) ref_lib ref_finalizers ''default'' ''boston'' [first_version] Operator v \<and>
     cd_spec v = cd_spec first_version \<and> held v"
proof -
  obtain v where v: "step (\<lambda>_. []) ref_lib ref_finalizers ''default'' ''boston'' [first_version] Operator v" "held v"
    using run_to_ready(3) [OF ref_laws first_history first_version_facts(1,3,2)] by auto
  from operator_keeps_edits [OF ref_laws first_history v(1)] v show ?thesis by blast
qed



theorem unreported_conditions_witness:
  "cond_view ref_lib first_version ''APIReady'' = None \<and> \<not> IsConditionTrue ref_lib first_version ''VaultReady''"
  using unreported_conditions [OF ref_laws(1) first_history, of first_version ConditionTypeAPIReady]
    unreported_conditions [OF ref_laws(1) first_history, of first_version ConditionTypeVaultReady]
  by (simp add: unreported_types_def)

end
