(* ===== verification/Keycloak_Admin.thy ===== *)
theory Keycloak_Admin
  imports Rest_Resources Samples
begin

text \<open>
  The generated password of the Keycloak administrator (\<^verbatim>\<open>BuildKeycloakAdminSecret\<close> and
  \<^verbatim>\<open>generateRandomPassword\<close> of \<^verbatim>\<open>internal/resources/rest/keycloak.go\<close>).  What \<^verbatim>\<open>rand.Read\<close> did is a
  parameter: an error, or the bytes it filled the buffer with.  A panic is \<open>None\<close>.
\<close>

section \<open>Base 64\<close>

text \<open>\<^verbatim>\<open>base64.RawURLEncoding.EncodeToString\<close>: the URL alphabet, without padding.\<close>

definition urlAlphabet :: string where
  "urlAlphabet = ''ABCDEFGHIJKLMNOPQRSTUVWXYZabcdefghijklmnopqrstuvwxyz0123456789-_''"

definition sextet :: "nat \<Rightarrow> nat \<Rightarrow> char" where
  "sextet val k = urlAlphabet ! (val div 2 ^ k mod 64)"

definition triple :: "8 word \<Rightarrow> 8 word \<Rightarrow> 8 word \<Rightarrow> nat" where
  "triple a b c = unat a * 65536 + unat b * 256 + unat c"

fun EncodeToString :: "8 word list \<Rightarrow> string" where
  "EncodeToString [] = []"
| "EncodeToString [a] = (let val = triple a 0 0 in [sextet val 18, sextet val 12])"
| "EncodeToString [a, b] = (let val = triple a b 0 in [sextet val 18, sextet val 12, sextet val 6])"
| "EncodeToString (a # b # c # rs) =
     (let val = triple a b c in [sextet val 18, sextet val 12, sextet val 6, sextet val 0] @ EncodeToString rs)"

section \<open>The secret\<close>

definition generateRandomPassword :: "nat \<Rightarrow> goerror + 8 word list \<Rightarrow> string option" where
  "generateRandomPassword n read =
     (case read of
        Inl err \<Rightarrow> Some ''change-me-immediately''
      | Inr b \<Rightarrow> (let s = EncodeToString b in if n \<le> length s then Some (take n s) else None))"

definition user_manages_password :: "rest_config \<Rightarrow> bool" where
  "user_manages_password rest \<longleftrightarrow>
     (case kc_admin_password_secret_ref (rest_keycloak rest) of None \<Rightarrow> False | Some ref \<Rightarrow> sr_name ref \<noteq> [])"

text \<open>The inner \<open>None\<close> is the nil that is returned when the user names a secret.\<close>

definition BuildKeycloakAdminSecret ::
    "carbide_deployment \<Rightarrow> rest_config \<Rightarrow> string \<Rightarrow> goerror + 8 word list \<Rightarrow> secret option option" where
  "BuildKeycloakAdminSecret d rest ns read =
     (if user_manages_password rest then Some None
      else
        (case generateRandomPassword 24 read of
           None \<Rightarrow> None
         | Some password \<Rightarrow>
             Some (Some \<lparr>secret_meta = mk_meta (KeycloakName @ ''-admin-password'') ns (DefaultLabels ''keycloak-admin'' d)
                    [controllerRef d],
                  secret_type = ''Opaque'', secret_data = Map.empty, secret_string_data = [''password'' \<mapsto> password]\<rparr>)))"

section \<open>Lemmas\<close>

lemma alphabet_size: "length urlAlphabet = 64"
  by (simp add: urlAlphabet_def)

lemma alphabet_distinct: "distinct urlAlphabet"
  by (simp add: urlAlphabet_def)

lemma sextet_in [simp]: "sextet val k \<in> set urlAlphabet"
  by (simp add: sextet_def alphabet_size)

lemma sextet_eq: "sextet u k = sextet v k \<longleftrightarrow> u div 2 ^ k mod 64 = v div 2 ^ k mod 64"
  unfolding sextet_def by (rule nth_eq_iff_index_eq [OF alphabet_distinct]) (simp_all add: alphabet_size)

lemma byte_less: "unat (a :: 8 word) < 256"
  using unsigned_less [of a] by simp

lemma triple_less: "triple a b c < 2 ^ 24"
  using byte_less [of a] byte_less [of b] byte_less [of c] by (simp add: triple_def)

lemma base256_inject:
  fixes x :: nat
  assumes "x * 256 + y = x' * 256 + y'" "y < 256" "y' < 256"
  shows "x = x' \<and> y = y'"
proof -
  have "x = (x * 256 + y) div 256" "y = (x * 256 + y) mod 256"
    "x' = (x' * 256 + y') div 256" "y' = (x' * 256 + y') mod 256" using assms(2,3) by simp_all
  then show ?thesis using assms(1) by simp
qed

lemma triple_inject: "triple a b c = triple a' b' c' \<longleftrightarrow> a = a' \<and> b = b' \<and> c = c'"
proof
  assume "triple a b c = triple a' b' c'"
  then have "(unat a * 256 + unat b) * 256 + unat c = (unat a' * 256 + unat b') * 256 + unat c'"
    by (simp add: triple_def)
  from base256_inject [OF this byte_less byte_less] have "unat c = unat c'" "unat a * 256 + unat b = unat a' * 256 + unat b'"
    by simp_all
  with base256_inject [OF this(2) byte_less byte_less] show "a = a' \<and> b = b' \<and> c = c'" by (simp add: word_unat_eq_iff)
qed simp

text \<open>Four sextets determine 24 bits, from the highest down.\<close>

lemma sextet_peel:
  assumes "u div 2 ^ (k + 6) = v div 2 ^ (k + 6)" and "sextet u k = sextet v k"
  shows "u div 2 ^ k = v div 2 ^ k"
proof -
  have "w div 2 ^ (k + 6) = w div 2 ^ k div 64" for w :: nat by (simp add: power_add div_mult2_eq)
  with assms have "u div 2 ^ k div 64 = v div 2 ^ k div 64" "u div 2 ^ k mod 64 = v div 2 ^ k mod 64"
    by (simp_all add: sextet_eq)
  then show ?thesis by (metis div_mult_mod_eq)
qed

lemma sextets_inject:
  assumes "u < 2 ^ 24" "v < 2 ^ 24"
    and "sextet u 18 = sextet v 18" "sextet u 12 = sextet v 12" "sextet u 6 = sextet v 6" "sextet u 0 = sextet v 0"
  shows "u = v"
proof -
  have "u div 2 ^ 24 = v div 2 ^ 24" using assms(1,2) by simp
  then have "u div 2 ^ 18 = v div 2 ^ 18" using sextet_peel [of u 18 v] assms(3) by simp
  then have "u div 2 ^ 12 = v div 2 ^ 12" using sextet_peel [of u 12 v] assms(4) by simp
  then have "u div 2 ^ 6 = v div 2 ^ 6" using sextet_peel [of u 6 v] assms(5) by simp
  then have "u div 2 ^ 0 = v div 2 ^ 0" using sextet_peel [of u 0 v] assms(6) by simp
  then show ?thesis by simp
qed

lemma encode_length: "length b \<le> length (EncodeToString b)"
  by (induction b rule: EncodeToString.induct) (simp_all add: Let_def)

lemma encode_alphabet: "set (EncodeToString b) \<subseteq> set urlAlphabet"
  by (induction b rule: EncodeToString.induct) (simp_all add: Let_def)

lemma encode_take: "3 * k \<le> length b \<Longrightarrow> take (4 * k) (EncodeToString b) = EncodeToString (take (3 * k) b)"
proof (induction k arbitrary: b)
  case (Suc k)
  then obtain x y z rs where b: "b = x # y # z # rs" by (cases b rule: EncodeToString.cases) auto
  have k: "4 * Suc k = Suc (Suc (Suc (Suc (4 * k))))" "3 * Suc k = Suc (Suc (Suc (3 * k)))" by simp_all
  from Suc.IH [of rs] Suc.prems show ?case unfolding k by (simp add: b Let_def)
qed simp

lemma encode_inject:
  "length b = 3 * k \<Longrightarrow> length b' = 3 * k \<Longrightarrow> EncodeToString b = EncodeToString b' \<Longrightarrow> b = b'"
proof (induction k arbitrary: b b')
  case (Suc k)
  from Suc.prems obtain x y z rs where b: "b = x # y # z # rs" by (cases b rule: EncodeToString.cases) auto
  from Suc.prems obtain x' y' z' rs' where b': "b' = x' # y' # z' # rs'" by (cases b' rule: EncodeToString.cases) auto
  have "triple x y z = triple x' y' z'"
    using Suc.prems(3) by (intro sextets_inject triple_less) (simp_all add: b b' Let_def)
  moreover have "rs = rs'" using Suc.prems by (intro Suc.IH) (simp_all add: b b' Let_def)
  ultimately show ?case by (simp add: b b' triple_inject)
qed simp

lemma single_map_eq: "[k \<mapsto> x] = [k \<mapsto> y] \<longleftrightarrow> x = y"
  by (auto dest: fun_cong [of _ _ k])

lemma password_of:
  assumes "length b = 24"
  shows "generateRandomPassword 24 (Inr b) = Some (EncodeToString (take 18 b))"
  using encode_take [of 6 b] encode_length [of b] assms by (simp add: generateRandomPassword_def Let_def)

section \<open>Properties\<close>

text \<open>
  C36: the generated admin password.  With a filled buffer of 24 bytes the secret is built without a
  panic; its password has 24 characters, all safe in a URL; and it depends on the first 18 bytes,
  every bit of them: two passwords are equal exactly when these bytes are (144 random bits).
\<close>
theorem admin_password:
  assumes "\<not> user_manages_password rest" and "length b = 24" and "length b' = 24"
  shows "(\<exists>s pw. BuildKeycloakAdminSecret d rest ns (Inr b) = Some (Some s) \<and> secret_string_data s = [''password'' \<mapsto> pw] \<and>
      length pw = 24 \<and> set pw \<subseteq> set urlAlphabet) \<and>
    (BuildKeycloakAdminSecret d rest ns (Inr b) = BuildKeycloakAdminSecret d rest ns (Inr b') \<longleftrightarrow> take 18 b = take 18 b')"
proof
  have "length (EncodeToString (take 18 b)) = 24"
    using arg_cong [OF encode_take [of 6 b], of length] encode_length [of b] assms(2) by simp
  then show "\<exists>s pw. BuildKeycloakAdminSecret d rest ns (Inr b) = Some (Some s) \<and> secret_string_data s = [''password'' \<mapsto> pw] \<and>
      length pw = 24 \<and> set pw \<subseteq> set urlAlphabet"
    using assms(1) encode_alphabet by (auto simp: BuildKeycloakAdminSecret_def password_of [OF assms(2)])
  have "EncodeToString (take 18 b) = EncodeToString (take 18 b') \<longleftrightarrow> take 18 b = take 18 b'"
    using encode_inject [of "take 18 b" 6 "take 18 b'"] assms(2,3) by auto
  then show "BuildKeycloakAdminSecret d rest ns (Inr b) = BuildKeycloakAdminSecret d rest ns (Inr b') \<longleftrightarrow> take 18 b = take 18 b'"
    using assms(1) by (simp add: BuildKeycloakAdminSecret_def password_of [OF assms(2)] password_of [OF assms(3)] single_map_eq)
qed

theorem admin_password_witness:
  "(\<exists>s pw. BuildKeycloakAdminSecret sample_management zero_rest ''mgmt'' (Inr (replicate 24 0)) = Some (Some s) \<and>
     secret_string_data s = [''password'' \<mapsto> pw] \<and> length pw = 24 \<and> set pw \<subseteq> set urlAlphabet) \<and>
   BuildKeycloakAdminSecret sample_management zero_rest ''mgmt'' (Inr (replicate 24 0)) \<noteq>
     BuildKeycloakAdminSecret sample_management zero_rest ''mgmt'' (Inr (replicate 24 1))"
proof -
  have "\<not> user_manages_password zero_rest" by (simp add: user_manages_password_def sample_defs)
  moreover have "take 18 (replicate 24 (0 :: 8 word)) \<noteq> take 18 (replicate 24 1)" by (simp add: replicate_eq_replicate)
  ultimately show ?thesis
    using admin_password [of zero_rest "replicate 24 0" "replicate 24 1" sample_management "''mgmt''"] by simp
qed

end
