(* ===== verification/Startup.thy ===== *)
theory Startup
  imports Controller
begin

text \<open>
  The start of the operator (\<^verbatim>\<open>cmd/main.go\<close>): the scheme filled by \<^verbatim>\<open>init\<close>, the flags and their
  defaults, the options of the webhook and metrics servers and of the manager computed from them, and the calls
  that \<^verbatim>\<open>main\<close> makes, each of which ends the process with exit code 1 when it fails.  What
  \<^verbatim>\<open>flag.Parse\<close> returns is the record \<open>flags\<close>; the manager and its servers are code of
  controller-runtime, of which only the answers of the calls appear.
\<close>

section \<open>The scheme\<close>

text \<open>
  A scheme is the list of API groups whose types it knows.  Which groups \<^verbatim>\<open>clientgoscheme.AddToScheme\<close>
  registers is a parameter.
\<close>

type_synonym scheme = "string list"

definition GroupVersion :: "string \<times> string" where
  "GroupVersion = (''carbide.nvidia.com'', ''v1alpha1'')"

definition AddToScheme :: "scheme \<Rightarrow> scheme" where
  "AddToScheme s = s @ [fst GroupVersion]"

definition init_scheme :: "(scheme \<Rightarrow> scheme) \<Rightarrow> scheme" where
  "init_scheme clientgo = AddToScheme (clientgo [])"

section \<open>Flags\<close>

record flags =
  metricsAddr :: string
  probeAddr :: string
  enableLeaderElection :: bool
  secureMetrics :: bool
  webhookCertPath :: string
  webhookCertName :: string
  webhookCertKey :: string
  metricsCertPath :: string
  metricsCertName :: string
  metricsCertKey :: string
  enableHTTP2 :: bool

definition default_flags :: flags where
  "default_flags =
     \<lparr>metricsAddr = ''0'', probeAddr = '':8081'', enableLeaderElection = False, secureMetrics = True,
      webhookCertPath = [], webhookCertName = ''tls.crt'', webhookCertKey = ''tls.key'',
      metricsCertPath = [], metricsCertName = ''tls.crt'', metricsCertKey = ''tls.key'', enableHTTP2 = False\<rparr>"

section \<open>Options\<close>

text \<open>Of \<^verbatim>\<open>tls.Config\<close>, the protocols offered; a server applies its options to its base configuration in order.\<close>

record tls_config =
  next_protos :: "string list"

definition disableHTTP2 :: "tls_config \<Rightarrow> tls_config" where
  "disableHTTP2 c = c\<lparr>next_protos := [''http/1.1'']\<rparr>"

definition tlsOpts :: "flags \<Rightarrow> (tls_config \<Rightarrow> tls_config) list" where
  "tlsOpts f = (if \<not> enableHTTP2 f then [disableHTTP2] else [])"

definition configured :: "(tls_config \<Rightarrow> tls_config) list \<Rightarrow> tls_config \<Rightarrow> tls_config" where
  "configured opts c = foldl (\<lambda>x g. g x) c opts"

record server_certs =
  cert_dir :: string
  cert_name :: string
  key_name :: string

definition no_certs :: server_certs where
  "no_certs = \<lparr>cert_dir = [], cert_name = [], key_name = []\<rparr>"

definition certs_from :: "string \<Rightarrow> string \<Rightarrow> string \<Rightarrow> server_certs" where
  "certs_from path name key = (if path \<noteq> [] then \<lparr>cert_dir = path, cert_name = name, key_name = key\<rparr> else no_certs)"

record webhook_options =
  wh_port :: int
  wh_certs :: server_certs
  wh_tls_opts :: "(tls_config \<Rightarrow> tls_config) list"

text \<open>The literal sets the port alone; the certificates are added when their directory is given.\<close>

definition webhookServerOptions :: "flags \<Rightarrow> webhook_options" where
  "webhookServerOptions f =
     \<lparr>wh_port = 9443, wh_certs = certs_from (webhookCertPath f) (webhookCertName f) (webhookCertKey f), wh_tls_opts = []\<rparr>"

datatype filter_provider = NoFilter | WithAuthenticationAndAuthorization

record metrics_options =
  bind_address :: string
  secure_serving :: bool
  metrics_tls_opts :: "(tls_config \<Rightarrow> tls_config) list"
  FilterProvider :: filter_provider
  metrics_certs :: server_certs

definition metricsServerOptions :: "flags \<Rightarrow> metrics_options" where
  "metricsServerOptions f =
     \<lparr>bind_address = metricsAddr f, secure_serving = secureMetrics f, metrics_tls_opts = tlsOpts f,
      FilterProvider = (if secureMetrics f then WithAuthenticationAndAuthorization else NoFilter),
      metrics_certs = certs_from (metricsCertPath f) (metricsCertName f) (metricsCertKey f)\<rparr>"

record manager_options =
  mgr_scheme :: scheme
  mgr_metrics :: metrics_options
  mgr_webhook :: webhook_options
  mgr_probe_address :: string
  mgr_leader_election :: bool
  mgr_leader_election_id :: string

definition managerOptions :: "(scheme \<Rightarrow> scheme) \<Rightarrow> flags \<Rightarrow> manager_options" where
  "managerOptions clientgo f =
     \<lparr>mgr_scheme = init_scheme clientgo, mgr_metrics = metricsServerOptions f, mgr_webhook = webhookServerOptions f,
      mgr_probe_address = probeAddr f, mgr_leader_election = enableLeaderElection f,
      mgr_leader_election_id = ''1c48428d.nvidia.com''\<rparr>"

section \<open>What is registered with the manager\<close>

text \<open>The kinds the controller is registered for: the resource itself, and the kinds whose owner it may be.\<close>

definition watches_for :: kind where
  "watches_for = KCarbideDeployment"

definition watches_owned :: "kind list" where
  "watches_owned =
     [KConfigMap, KSecret, KService, KServiceAccount, KPVC, KDeployment, KDaemonSet, KStatefulSet, KJob]"

datatype setup_call =
    GetConfigOrDie
  | NewManager manager_options
  | SetupController kind "kind list"
  | SetupWebhookWithManager kind
  | AddHealthzCheck string
  | AddReadyzCheck string
  | Start

text \<open>The calls of \<^verbatim>\<open>main\<close>, in order.\<close>

definition main_calls :: "(scheme \<Rightarrow> scheme) \<Rightarrow> flags \<Rightarrow> setup_call list" where
  "main_calls clientgo f =
     [GetConfigOrDie, NewManager (managerOptions clientgo f), SetupController watches_for watches_owned,
      SetupWebhookWithManager KCarbideDeployment, AddHealthzCheck ''healthz'', AddReadyzCheck ''readyz'', Start]"

text \<open>
  Each call is followed by \<^verbatim>\<open>if err != nil { ...; os.Exit(1) }\<close>.  The result: the calls made and the exit code;
  \<open>Start\<close> returns without an error when the process is told to stop.
\<close>

fun run_calls :: "(setup_call \<Rightarrow> goerror option) \<Rightarrow> setup_call list \<Rightarrow> setup_call list \<times> int" where
  "run_calls answer [] = ([], 0)"
| "run_calls answer (c # cs) =
     (case answer c of
        Some err \<Rightarrow> ([c], 1)
      | None \<Rightarrow> (case run_calls answer cs of (made, code) \<Rightarrow> (c # made, code)))"

definition main :: "(scheme \<Rightarrow> scheme) \<Rightarrow> flags \<Rightarrow> (setup_call \<Rightarrow> goerror option) \<Rightarrow> setup_call list \<times> int" where
  "main clientgo f answer = run_calls answer (main_calls clientgo f)"

section \<open>Lemmas\<close>

text \<open>The calls made are a prefix, of which all but the last succeeded; the exit code tells how the last one ended.\<close>

lemma run_calls_prefix:
  assumes "run_calls answer cs = (made, code)"
  shows "\<exists>rest. cs = made @ rest \<and> (\<forall>c\<in>set (butlast made). answer c = None) \<and>
    (code = 0 \<and> rest = [] \<and> (\<forall>c\<in>set made. answer c = None) \<or>
     code = 1 \<and> made \<noteq> [] \<and> answer (last made) \<noteq> None)"
  using assms
proof (induction cs arbitrary: made code)
  case (Cons c cs)
  show ?case
  proof (cases "answer c")
    case None
    obtain m k where m: "run_calls answer cs = (m, k)" by fastforce
    with Cons.prems None have eq: "made = c # m" "code = k" by auto
    from Cons.IH [OF m] obtain rest where r: "cs = m @ rest" "\<forall>c\<in>set (butlast m). answer c = None"
      "k = 0 \<and> rest = [] \<and> (\<forall>c\<in>set m. answer c = None) \<or> k = 1 \<and> m \<noteq> [] \<and> answer (last m) \<noteq> None" by blast
    then show ?thesis using None by (auto simp: eq)
  qed (use Cons.prems in auto)
qed auto

lemma run_calls_reach:
  assumes "run_calls answer (cs @ [c]) = (made, code)" and "c \<notin> set cs"
  shows "c \<in> set made \<longleftrightarrow> (\<forall>x\<in>set cs. answer x = None)"
  using assms
  by (induction cs arbitrary: made code) (auto split: option.splits prod.splits)

section \<open>Properties\<close>


text \<open>
  HTTP/2 and the metrics endpoint.  Without \<^verbatim>\<open>--enable-http2\<close> the metrics server offers HTTP/1.1 only, whatever
  its base configuration, and served over HTTPS it is always protected by authentication and authorization; but the
  options computed from the flag never reach the webhook server, which keeps the protocols of its base
  configuration, with the flag and without it.
\<close>
theorem http2_options:
  "(\<not> enableHTTP2 f \<longrightarrow> next_protos (configured (metrics_tls_opts (metricsServerOptions f)) c) = [''http/1.1'']) \<and>
   (enableHTTP2 f \<longrightarrow> configured (metrics_tls_opts (metricsServerOptions f)) c = c) \<and>
   (FilterProvider (metricsServerOptions f) = WithAuthenticationAndAuthorization \<longleftrightarrow> secure_serving (metricsServerOptions f)) \<and>
   configured (wh_tls_opts (mgr_webhook (managerOptions clientgo f))) c = c"
  by (simp add: metricsServerOptions_def managerOptions_def webhookServerOptions_def configured_def tlsOpts_def disableHTTP2_def)

section \<open>Witnesses\<close>


theorem http2_options_witness:
  "next_protos (configured (metrics_tls_opts (metricsServerOptions default_flags)) \<lparr>next_protos = [''h2'', ''http/1.1'']\<rparr>) = [''http/1.1''] \<and>
   next_protos (configured (wh_tls_opts (mgr_webhook (managerOptions (\<lambda>s. s) default_flags))) \<lparr>next_protos = [''h2'', ''http/1.1'']\<rparr>) =
     [''h2'', ''http/1.1'']"
  using http2_options [of default_flags "\<lparr>next_protos = [''h2'', ''http/1.1'']\<rparr>" "\<lambda>s. s"]
  by (simp add: default_flags_def)

end
