(* ===== verification/Budget.thy ===== *)
theory Budget
  imports Sample_Passes
begin

text \<open>
  What a pass may ask of the API server, and how often.  \<open>fits n p\<close> bounds the calls of a program from above, over
  all answers, and says of which kinds the objects are that it reads and writes.  The rules follow the
  program constructs; one lemma per function of the operator leads to the bound of \<open>Reconcile\<close>.
\<close>

section \<open>The kinds the operator knows\<close>

definition write_kinds :: "kind set" where
  "write_kinds =
     {KCarbideDeployment, KNamespace, KConfigMap, KSecret, KService, KServiceAccount, KDeployment, KDaemonSet, KJob, KPVC,
      KRole, KRoleBinding, KClusterRoleBinding, PostgresClusterKind, KeycloakKind, realm_kind, sid_kind, cert_kind}"

definition read_kinds :: "kind set" where
  "read_kinds = write_kinds \<union>
     {KStorageClass, KCRD, KUnstructured ''storage.k8s.io/v1'' ''CSIDriver'',
      KUnstructured ''apiextensions.k8s.io/v1'' ''CustomResourceDefinition''}"

lemma kinds_mem [simp]:
  "KCarbideDeployment \<in> write_kinds" "KNamespace \<in> write_kinds" "KConfigMap \<in> write_kinds" "KSecret \<in> write_kinds"
  "KService \<in> write_kinds" "KServiceAccount \<in> write_kinds" "KDeployment \<in> write_kinds" "KDaemonSet \<in> write_kinds"
  "KJob \<in> write_kinds" "KPVC \<in> write_kinds" "KRole \<in> write_kinds" "KRoleBinding \<in> write_kinds"
  "KClusterRoleBinding \<in> write_kinds" "PostgresClusterKind \<in> write_kinds" "KeycloakKind \<in> write_kinds"
  "realm_kind \<in> write_kinds" "sid_kind \<in> write_kinds" "cert_kind \<in> write_kinds"
  "KStorageClass \<in> read_kinds" "KCRD \<in> read_kinds" "KUnstructured ''storage.k8s.io/v1'' ''CSIDriver'' \<in> read_kinds"
  "KUnstructured ''apiextensions.k8s.io/v1'' ''CustomResourceDefinition'' \<in> read_kinds"
  "KUnstructured ''spire.spiffe.io/v1alpha1'' ''ClusterSPIFFEID'' \<in> write_kinds"
  by (simp_all add: write_kinds_def read_kinds_def sid_kind_def)

lemma write_read_kinds [simp]: "k \<in> write_kinds \<Longrightarrow> k \<in> read_kinds"
  by (simp add: read_kinds_def)

fun known :: "event \<Rightarrow> bool" where
  "known (EGet k ns n a) \<longleftrightarrow> k \<in> read_kinds"
| "known (EList k ns ls a) \<longleftrightarrow> k \<in> read_kinds"
| "known (ECreate x a) \<longleftrightarrow> obj_kind x \<in> write_kinds"
| "known (EUpdate x a) \<longleftrightarrow> obj_kind x \<in> write_kinds"
| "known e \<longleftrightarrow> True"

section \<open>Budgets\<close>

definition fits :: "nat \<Rightarrow> 'r prog \<Rightarrow> bool" where
  "fits n p \<longleftrightarrow> (\<forall>r tr. runs p r tr \<longrightarrow> list_all known tr \<and> length tr \<le> n)"

lemma fitsD: "fits n p \<Longrightarrow> runs p r tr \<Longrightarrow> list_all known tr \<and> length tr \<le> n"
  by (simp add: fits_def)

lemma fits_mono: "fits m p \<Longrightarrow> m \<le> n \<Longrightarrow> fits n p"
  by (fastforce simp: fits_def)

lemma fits_Ret: "fits 0 (Ret x)"
  by (simp add: fits_def)

lemma fits_Get: "k \<in> read_kinds \<Longrightarrow> (\<And>a. fits n (f a)) \<Longrightarrow> fits (Suc n) (Get k ns nm f)"
  by (auto simp: fits_def)

lemma fits_Update: "obj_kind x \<in> write_kinds \<Longrightarrow> (\<And>a. fits n (f a)) \<Longrightarrow> fits (Suc n) (Update x f)"
  by (auto simp: fits_def)

lemma fits_StatusUpdate: "(\<And>a. fits n (f a)) \<Longrightarrow> fits (Suc n) (StatusUpdate x f)"
  by (auto simp: fits_def)

lemma fits_Recorder: "fits n p \<Longrightarrow> fits (Suc n) (Recorder t r m p)"
  by (auto simp: fits_def)

lemma fits_Now: "(\<And>t. fits n (f t)) \<Longrightarrow> fits n (Now f)"
  by (auto simp: fits_def)

lemma fits_RangeOrder: "(\<And>ks'. length ks' = length ks \<Longrightarrow> fits n (f ks')) \<Longrightarrow> fits n (RangeOrder ks f)"
  unfolding fits_def by (auto dest: mset_eq_length)

lemma fits_Probe: "(\<And>a. fits n (f a)) \<Longrightarrow> fits (Suc n) (Probe q f)"
  by (auto simp: fits_def)

text \<open>Sequencing, with what is known of the value in between.\<close>

lemma fits_call:
  assumes "\<And>x tr. runs p x tr \<Longrightarrow> R x" and "fits m p" and "\<And>x. R x \<Longrightarrow> fits n (g x)"
  shows "fits (m + n) (andThen p g)"
  unfolding fits_def
proof (intro allI impI)
  fix r tr
  assume "runs (andThen p g) r tr"
  then obtain x t1 t2 where t: "tr = t1 @ t2" "runs p x t1" "runs (g x) r t2" by (rule runs_andThenE)
  with fitsD [OF assms(2) t(2)] fitsD [OF assms(3) [OF assms(1) [OF t(2)]] t(3)]
  show "list_all known tr \<and> length tr \<le> m + n" by simp
qed

lemma fits_andThen: "fits m p \<Longrightarrow> (\<And>x. fits n (g x)) \<Longrightarrow> fits (m + n) (andThen p g)"
  by (rule fits_call [where R = "\<lambda>_. True"]) simp_all

lemma fits_max: "fits m p \<Longrightarrow> fits (max m n) p" "fits n p \<Longrightarrow> fits (max m n) p"
  by (auto elim: fits_mono)

lemma fits_if: "fits m p \<Longrightarrow> fits n q \<Longrightarrow> fits (max m n) (if b then p else q)"
  by (simp add: fits_max)

lemma fits_option: "fits m p \<Longrightarrow> (\<And>y. fits n (q y)) \<Longrightarrow> fits (max m n) (case_option p q x)"
  by (cases x) (simp_all add: fits_max)

lemma fits_sum: "(\<And>e. fits m (p e)) \<Longrightarrow> (\<And>y. fits n (q y)) \<Longrightarrow> fits (max m n) (case_sum p q x)"
  by (cases x) (simp_all add: fits_max)

lemma fits_prod: "(\<And>a b. fits n (f a b)) \<Longrightarrow> fits n (case_prod f x)"
  by (cases x) auto

lemma fits_tryThen: "fits m p \<Longrightarrow> (\<And>e. fits n (h e)) \<Longrightarrow> (\<And>x. fits k (g x)) \<Longrightarrow> fits (m + max n k) (tryThen p h g)"
  unfolding tryThen_def by (intro fits_andThen fits_sum)

lemma fits_checkThen: "fits m p \<Longrightarrow> (\<And>e. fits n (h e)) \<Longrightarrow> fits k g \<Longrightarrow> fits (m + max k n) (checkThen p h g)"
  unfolding checkThen_def by (intro fits_andThen fits_option)

lemma fits_forEach: "(\<And>x. fits m (body x)) \<Longrightarrow> fits (length xs * m) (forEach xs body)"
proof (induction xs)
  case (Cons x xs)
  have "fits (m + max (length xs * m) 0) (checkThen (body x) (\<lambda>e. Ret (Some (x, e))) (forEach xs body))"
    by (intro fits_checkThen Cons fits_Ret)
  then show ?case by simp
qed (simp add: fits_Ret)

subsection \<open>The constructs of a tier\<close>

lemma fits_leaf:
  "fits 0 (failWith m e)" "fits 0 (stopWith st what e)" "fits 0 (waitWith st m)" "fits 0 (notRequired m)" "fits 0 (conclude b m w st)"
  by (auto simp: fits_def failWith_def failedStatus_def stopWith_def waitWith_def notRequired_def conclude_def)

lemma fits_orReturn: "fits m p \<Longrightarrow> fits n k \<Longrightarrow> fits (m + n) (orReturn p k)"
  unfolding orReturn_def by (rule fits_mono, rule fits_checkThen, assumption, rule fits_Ret, assumption) simp

lemma fits_orWrap: "fits m p \<Longrightarrow> fits n k \<Longrightarrow> fits (m + n) (orWrap what p k)"
  unfolding orWrap_def by (rule fits_mono, rule fits_checkThen, assumption, rule fits_Ret, assumption) simp

lemma fits_stage: "fits m p \<Longrightarrow> (\<And>b st'. fits n (k b st')) \<Longrightarrow> fits (m + n) (stage name what p st k)"
  unfolding stage_def Let_def
  by (rule fits_mono, rule fits_andThen, assumption, rule fits_Now, rule fits_sum, rule fits_leaf) auto

lemma fits_stageIf: "fits m p \<Longrightarrow> (\<And>b st'. fits n (k b st')) \<Longrightarrow> fits (m + n) (stageIf b name what p st k)"
  unfolding stageIf_def by (rule fits_mono, rule fits_if, rule fits_stage) auto

lemma fits_eachOrFail: "(\<And>x. fits m (body x)) \<Longrightarrow> fits n k \<Longrightarrow> fits (length xs * m + n) (eachOrFail xs body message k)"
  unfolding eachOrFail_def
  by (rule fits_mono, rule fits_andThen, rule fits_forEach, assumption, rule fits_option, assumption, rule fits_prod, rule fits_leaf) simp

lemma fits_certificatesOrFail:
  "(\<And>n u. build n = Some u \<Longrightarrow> fits m (put u)) \<Longrightarrow> fits n k \<Longrightarrow> fits (length xs * m + n) (certificatesOrFail put build xs k)"
proof (induction xs)
  case (Cons x xs)
  show ?case
  proof (cases "build x")
    case None
    then show ?thesis using fits_mono [OF fits_Ret] by simp
  next
    case (Some u)
    have "fits (m + max (length xs * m + n) 0) (checkThen (put u) (\<lambda>e. failWith (''Failed to create '' @ x @ '' Certificate'') e)
        (certificatesOrFail put build xs k))"
      by (intro fits_checkThen Cons fits_leaf) (rule Some)
    with Some show ?thesis by (simp add: algebra_simps)
  qed
qed simp

lemmas fits_rules = fits_Ret fits_if fits_option fits_sum fits_prod fits_orReturn fits_orWrap fits_stage fits_stageIf
  fits_tryThen fits_checkThen fits_eachOrFail fits_Now fits_leaf

section \<open>Reads and writes\<close>

text \<open>Inside the known kinds, a write of one object stays within the bound of its writer.\<close>

context writer
begin

lemma fits_put:
  assumes "fst (obj_key (as_object x)) \<in> write_kinds"
  shows "fits calls (put x)"
proof -
  have "touches (obj_key (as_object x)) e \<Longrightarrow> known e" for e using assms by (cases e) (auto simp: obj_key_def)
  with write_touches [of x] write_bound [of x] show ?thesis by (auto simp: fits_def list_all_iff)
qed

end

lemma typed_kinds:
  "fst (obj_key (ConfigMapObj a)) = KConfigMap" "fst (obj_key (SecretObj b)) = KSecret" "fst (obj_key (ServiceObj c)) = KService"
  "fst (obj_key (ServiceAccountObj e)) = KServiceAccount" "fst (obj_key (DeploymentObj f)) = KDeployment"
  "fst (obj_key (DaemonSetObj g)) = KDaemonSet" "fst (obj_key (JobObj h)) = KJob" "fst (obj_key (PVCObj i)) = KPVC"
  "fst (obj_key (RoleObj j)) = KRole" "fst (obj_key (RoleBindingObj k)) = KRoleBinding"
  "fst (obj_key (ClusterRoleBindingObj k)) = KClusterRoleBinding"
  by (simp_all add: obj_key_def)

lemmas fits_puts = infra_write.fits_put [unfolded id_apply] infra_write_u.fits_put core_write.fits_put [unfolded id_apply]
  core_write_u.fits_put rest_write.fits_put [unfolded id_apply] rest_write_u.fits_put

lemma fits_namespace: "fits 2 (infra_ensureNamespace ns)" "fits 2 (core_ensureNamespace ns)"
  by (auto simp: fits_def infra_ensureNamespace_def core_ensureNamespace_def split_sum_ex split: if_splits)

lemma fits_get: "k \<in> read_kinds \<Longrightarrow> fits 1 (get_object k dec ns n)"
  by (auto simp: fits_def runs_get_object)

lemma fits_check: "k \<in> read_kinds \<Longrightarrow> fits 1 (check_object k dec ns n v)"
  by (auto simp: fits_def runs_check_object)

lemma fits_checks:
  "fits 1 (IsDeploymentReady ns n)" "fits 1 (IsDaemonSetReady ns n)" "fits 1 (IsJobComplete ns n)"
  "fits 1 (IsSecretAvailable ns n)" "fits 1 (IsPVCBound ns n)" "fits 1 (IsPostgreSQLReady ns n)" "fits 1 (IsTemporalHelmReady ns)"
  "fits 1 (IsKeycloakReady ns)" "fits 1 DetectSPIRE" "fits 1 DetectCertManager" "fits 1 (get_secret ns n)"
  unfolding IsDeploymentReady_def IsDaemonSetReady_def IsJobComplete_def IsSecretAvailable_def IsPVCBound_def IsPostgreSQLReady_def
    IsTemporalHelmReady_def IsKeycloakReady_def DetectSPIRE_def DetectCertManager_def get_secret_def
  by (rule fits_check fits_get, simp)+

lemma fits_validate: "fits 1 (ValidateOperatorInstalled n)" "fits 1 (ValidateStorageClass n)"
  unfolding ValidateOperatorInstalled_def ValidateStorageClass_def
  by ((rule fits_mono, (rule fits_Ret fits_if fits_tryThen fits_get | simp)+) [1])+

lemma fits_operators: "fits 1 ValidatePostgresOperator" "fits 2 ValidateKeycloakOperator"
  unfolding ValidatePostgresOperator_def ValidateKeycloakOperator_def
  by (rule fits_mono, (rule fits_checkThen fits_validate fits_Ret)+, simp)+

subsection \<open>External services\<close>

lemma fits_userSecret: "fits 1 (checkUserSecret ns us u)"
  unfolding checkUserSecret_def Let_def
  by (rule fits_mono, (rule fits_rules fits_checks)+, simp)

lemma fits_ping: "fits 2 (pingWith config port sslMode ref s)"
  unfolding pingWith_def Let_def
  by (rule fits_mono, (rule fits_Probe fits_rules)+, simp)

lemma fits_testFirst: "fits (length us + 2) (testFirst ns config port sslMode us)"
proof (induction us)
  case (Cons u us)
  have "fits (max (length us + 2) (1 + max (length us + 2) (2 + 0))) (testFirst ns config port sslMode (u # us))"
    unfolding testFirst.simps by (intro fits_option fits_tryThen fits_andThen fits_checks fits_ping fits_Ret Cons)
  then show ?case by (rule fits_mono) simp
qed (simp add: fits_mono [OF fits_Ret])

lemma fits_dial: "fits 1 (dialPostgreSQL config port)"
  unfolding dialPostgreSQL_def by (rule fits_mono, rule fits_Probe, rule fits_Ret, simp)

lemma fits_external_pg:
  "fits (2 * length (remdups (map fst (pgc_user_secrets c))) + 3) (ValidateExternalPostgreSQL ns (Some c))"
  unfolding ValidateExternalPostgreSQL_def Let_def option.case
  apply (rule fits_mono)
   apply (rule fits_if)
    apply (rule fits_RangeOrder, rule fits_andThen, erule subst, rule fits_forEach, rule fits_userSecret)
    apply (rule fits_option, rule fits_RangeOrder, rule fits_andThen, erule subst, rule fits_testFirst)
     apply (rule fits_option, rule fits_dial, rule fits_Ret)
    apply (rule fits_prod, rule fits_Ret)
   apply (rule fits_dial)
  apply simp
  done

lemma fits_external_temporal: "fits 1 (ValidateExternalTemporal ep)"
  unfolding ValidateExternalTemporal_def by (rule fits_mono, (rule fits_Probe fits_rules)+, simp)

section \<open>The tiers\<close>

text \<open>What the bounds depend on: the users of an external PostgreSQL and the auth providers.\<close>

definition external_users :: "carbide_spec \<Rightarrow> nat" where
  "external_users s =
     (case spec_infrastructure s of
        None \<Rightarrow> 0
      | Some i \<Rightarrow> (case pg_connection (infra_postgresql i) of None \<Rightarrow> 0 | Some c \<Rightarrow> length (remdups (map fst (pgc_user_secrets c)))))"

definition providers :: "carbide_spec \<Rightarrow> nat" where
  "providers s = (case spec_rest s of None \<Rightarrow> 0 | Some r \<Rightarrow> length (kc_auth_providers (rest_keycloak r)))"

subsection \<open>Infrastructure\<close>

lemma fits_managed_pg: "fits 4 (reconcileManagedPostgreSQL qstr d infra ns)"
  unfolding reconcileManagedPostgreSQL_def
  by (rule fits_mono, (rule fits_operators fits_RangeOrder fits_puts fits_checks fits_rules | simp add: cluster_key_def)+)

lemma fits_external_pg_stage:
  "fits ((case pg_connection config of None \<Rightarrow> 0 | Some c \<Rightarrow> 2 * length (remdups (map fst (pgc_user_secrets c)))) + 3)
     (reconcileExternalPostgreSQL ns config)"
proof (cases "pg_connection config")
  case None
  then show ?thesis by (simp add: reconcileExternalPostgreSQL_def fits_mono [OF fits_Ret])
next
  case (Some c)
  have "fits (2 * length (remdups (map fst (pgc_user_secrets c))) + 3 + max 0 0) (reconcileExternalPostgreSQL ns config)"
    unfolding reconcileExternalPostgreSQL_def Some by (simp only: option.simps if_False) (intro fits_checkThen fits_external_pg fits_Ret)
  with Some show ?thesis by simp
qed

lemma fits_pg:
  "fits ((case pg_connection (infra_postgresql infra) of None \<Rightarrow> 0 | Some c \<Rightarrow> 2 * length (remdups (map fst (pgc_user_secrets c)))) + 4)
     (reconcilePostgreSQL qstr d infra ns)"
  unfolding reconcilePostgreSQL_def Let_def
  by (rule fits_mono, rule fits_if, rule fits_managed_pg, rule fits_if, rule fits_external_pg_stage, rule fits_Ret) (simp split: option.split)

lemma fits_infra: "fits (9 + 2 * external_users (cd_spec d)) (infra_Reconcile qstr d)"
proof (cases "spec_infrastructure (cd_spec d)")
  case None
  then show ?thesis by (simp add: infra_Reconcile_def fits_mono [OF fits_Ret])
next
  case (Some i)
  show ?thesis
    unfolding infra_Reconcile_def Let_def Some option.case
    by (rule fits_mono, (rule fits_namespace fits_puts fits_validate fits_pg fits_rules | simp)+)
      (simp add: external_users_def Some split: option.split)
qed

subsection \<open>Core\<close>

lemma fits_password: "fits 1 (getPostgreSQLPassword d)" "fits 1 (getForgePassword d)"
  unfolding getPostgreSQLPassword_def getForgePassword_def Let_def
  by (rule fits_mono, (rule fits_checks fits_rules)+, simp)+

lemma fits_core_stages:
  "fits 17 (reconcileConfig d ns)" "fits 0 (reconcileMigration d ns)" "fits 9 (reconcileAPI d ns)" "fits 5 (reconcileDHCP d ns)"
  "fits 10 (reconcilePXE d ns)" "fits 5 (reconcileDNS d ns)" "fits 22 (reconcileVault d ns)"
  "fits 9 (reconcileRLA d ns)" "fits 9 (reconcilePSM d ns)"
  unfolding reconcileConfig_def reconcileMigration_def reconcileAPI_def reconcileDHCP_def reconcilePXE_def reconcileDNS_def
    reconcileVault_def reconcileRLA_def reconcilePSM_def Let_def
  by ((rule fits_mono, (rule fits_password fits_puts fits_checks fits_rules | simp add: typed_kinds)+) [1])+

lemma fits_awaitSecrets: "fits n k \<Longrightarrow> fits (length xs + n) (awaitSecrets ns st xs k)"
proof (induction xs)
  case (Cons x xs)
  have "fits (1 + max 0 (max 0 (length xs + n))) (awaitSecrets ns st (x # xs) k)"
    unfolding awaitSecrets.simps Let_def by (intro fits_tryThen fits_checks fits_leaf fits_if Cons)
  then show ?case by simp
qed simp

lemma names_length: "length (saNames d) \<le> 6" "length (spiffeNames d) \<le> 5"
  by (simp_all add: saNames_def spiffeNames_def)

lemma fits_core_tls: "fits n k \<Longrightarrow> fits (30 + n) (core_tls d ns st k)"
  unfolding core_tls_def
  apply (rule fits_mono)
   apply (rule fits_if)
    apply (rule fits_checkThen, rule fits_puts, simp, rule fits_leaf)
    apply (rule fits_checkThen, rule fits_puts, simp, rule fits_leaf)
    apply (rule fits_eachOrFail, rule fits_puts, simp, assumption)
   apply (rule fits_if)
    apply (rule fits_certificatesOrFail, rule fits_puts)
     apply (auto simp: core_certificate_def cert_kind_def [symmetric] dest!: certificate_key) []
    apply (erule fits_awaitSecrets)
   apply assumption
  using names_length [of d] by auto

lemma fits_core_extras: "fits 40 (core_extras d ns b1 b2 b3 b4 b5 b6 st)"
  unfolding core_extras_def by (rule fits_mono, (rule fits_core_stages fits_rules)+, simp)

lemma fits_core_services: "fits 86 (core_services d ns st)"
  unfolding core_services_def Let_def
  by (rule fits_mono, (rule fits_core_stages fits_core_extras fits_rules)+, simp)

lemma fits_core: "fits 142 (core_Reconcile d)"
  unfolding core_Reconcile_def Let_def
  by (rule fits_mono, (rule fits_namespace fits_core_tls fits_core_services fits_puts fits_rules | simp)+)
    (use names_length [of d] in auto)

subsection \<open>REST\<close>

lemma fits_providers: "fits (length ps) (checkProviderSecrets ns ps)"
proof (induction ps)
  case (Cons p ps)
  have "fits (max (length ps) (1 + max 0 (max 0 (length ps)))) (checkProviderSecrets ns (p # ps))"
    unfolding checkProviderSecrets.simps by (intro fits_option fits_tryThen fits_checks fits_if fits_Ret Cons)
  then show ?case by (rule fits_mono) simp
qed (simp add: fits_Ret)

lemma fits_rest_stages:
  "fits 10 (reconcileTemporal d rest ns)" "fits 5 (reconcileTemporalSetup d rest ns)" "fits 13 (reconcileRestAPI d rest ns)"
  "fits 5 (reconcileWorker d ns name)" "fits 21 (reconcileSiteManager d rest ns)" "fits 9 (reconcileSiteAgent d rest ns)"
  "fits 11 (reconcileManagedKeycloak qstr d rest ns)"
  unfolding reconcileTemporal_def reconcileManagedTemporal_def reconcileExternalTemporal_def reconcileTemporalSetup_def
    reconcileRestAPI_def reconcileWorker_def reconcileSiteManager_def reconcileSiteAgent_def reconcileManagedKeycloak_def Let_def
  by ((rule fits_mono, (rule fits_operators fits_external_temporal fits_puts fits_checks fits_rules | simp add: typed_kinds)+) [1])+

lemma fits_keycloak: "fits (11 + length (kc_auth_providers (rest_keycloak rest))) (reconcileKeycloak qstr d rest ns)"
  unfolding reconcileKeycloak_def reconcileExternalKeycloak_def Let_def
  by (rule fits_mono, (rule fits_rest_stages fits_providers fits_rules)+, simp)

lemma fits_rest_final: "fits 30 (rest_final d rest ns b1 b2 b3 b4 b5 b6 st)"
  unfolding rest_final_def by (rule fits_mono, (rule fits_rest_stages fits_rules)+, simp)

lemma fits_workers: "fits 40 (rest_workers d rest ns b1 b2 b3 b4 st)"
  unfolding rest_workers_def workerStage_def
  by (rule fits_mono, (rule fits_rest_stages fits_rest_final fits_rules)+, simp)

lemma fits_rest_api: "fits 53 (rest_api d rest ns b1 b2 b3 st)"
  unfolding rest_api_def by (rule fits_mono, (rule fits_rest_stages fits_workers fits_rules)+, simp)

lemma fits_stages: "fits (79 + length (kc_auth_providers (rest_keycloak rest))) (rest_stages qstr d rest ns st)"
  unfolding rest_stages_def
  by (rule fits_mono, (rule fits_rest_stages fits_keycloak fits_rest_api fits_rules)+, simp)

lemma fits_rest_tls: "fits n k \<Longrightarrow> fits (24 + n) (rest_tls d rest ns k)"
  unfolding rest_tls_def
  apply (rule fits_mono)
   apply (rule fits_if)
    apply (rule fits_checkThen, rule fits_puts, simp, rule fits_leaf)+
    apply (rule fits_eachOrFail, rule fits_puts, simp)
    apply (rule fits_checkThen, rule fits_puts, simp, rule fits_leaf)+
    apply assumption
   apply (rule fits_if)
    apply (rule fits_certificatesOrFail, rule fits_puts)
     apply (auto simp: rest_certificate_def cert_kind_def [symmetric] dest!: certificate_key) []
    apply assumption
   apply assumption
  by simp

lemma fits_rest: "fits (124 + providers (cd_spec d)) (rest_Reconcile qstr d)"
proof (cases "spec_rest (cd_spec d)")
  case None
  then show ?thesis by (simp add: rest_Reconcile_def fits_mono [OF fits_leaf(4)])
next
  case (Some rest)
  show ?thesis
    unfolding rest_Reconcile_def Let_def Some option.case
    by (rule fits_mono, (rule fits_rest_tls fits_stages fits_puts fits_password fits_rules | simp add: typed_kinds)+)
      (simp add: providers_def Some)
qed

section \<open>A pass\<close>

definition pass_budget :: "carbide_deployment \<Rightarrow> nat" where
  "pass_budget d = 284 + 2 * external_users (cd_spec d) + providers (cd_spec d)"

lemma fits_conditions:
  "fits 0 (SetCondition L d ty st r m)" "fits 0 (tierCondition L ty nc d ts)" "fits 0 (SetTLSCondition L d b m)"
  "fits 0 (SetSPIFFEAvailableCondition L d b)" "fits 0 (SetCertManagerAvailableCondition L d b)" "fits 0 (SetReadyCondition L d)"
  "fits 0 (InitializeConditions L d)"
  unfolding fits_def
  using SetCondition_frame tierCondition_frame SetTLSCondition_frame backend_frame SetReady_frame init_frame by fastforce+

lemma fits_tls_check: "fits 1 (checkTLSPrerequisites L d)"
  unfolding checkTLSPrerequisites_def
  by (rule fits_mono, (rule fits_andThen fits_checks fits_conditions fits_rules)+, simp)

lemma fits_get_carbide: "fits 1 (get_carbide ns n)"
  unfolding get_carbide_def by (rule fits_get) simp

lemma fits_finish: "fits 3 (finish L ns n d rq err)" "fits 3 (tlsFailed L ns n d)"
  unfolding finish_eq tlsFailed_def Let_def
  by (rule fits_mono, (rule fits_andThen fits_conditions fits_Recorder fits_StatusUpdate fits_get_carbide fits_rules)+, simp)+

text \<open>A call of a tier keeps the spec, on which the bounds of the tiers depend.\<close>

definition keeps_spec :: "carbide_deployment \<Rightarrow> (carbide_deployment \<times> bool \<times> goerror option) option \<Rightarrow> bool" where
  "keeps_spec x out \<longleftrightarrow> (\<forall>x' b e. out = Some (x', b, e) \<longrightarrow> cd_spec x' = cd_spec x)"

lemma tier_call_spec:
  assumes "runs (reconcileTier (Some R) u store (tierCondition L ty nc) x) out tr" and "\<And>st. cd_spec (store st x) = cd_spec x"
  shows "keeps_spec x out"
proof -
  from assms(1) obtain res t1 t2 where t: "runs (R x) res t1"
    "runs (case res of TierPanic \<Rightarrow> Ret None
      | Tier st err \<Rightarrow> andThen (tierCondition L ty nc (store st x) st) (\<lambda>x'.
          Ret (Some (x', err = None \<and> (case st of None \<Rightarrow> False | Some s \<Rightarrow> tier_ready s), err)))) out t2"
    by (auto simp: reconcileTier_def runs_andThen)
  show ?thesis
  proof (cases res)
    case (Tier st err)
    with t(2) obtain x' where "runs (tierCondition L ty nc (store st x) st) x' t2"
      "out = Some (x', err = None \<and> (case st of None \<Rightarrow> False | Some s \<Rightarrow> tier_ready s), err)"
      by (auto simp: runs_andThen)
    then show ?thesis using assms(2) by (auto simp: keeps_spec_def only_conds_sel dest!: tierCondition_frame)
  qed (use t in \<open>simp add: keeps_spec_def\<close>)
qed

lemma fits_runTier:
  assumes "fits m (tier x)" and "\<And>out tr. runs (tier x) out tr \<Longrightarrow> keeps_spec x out"
    and k: "\<And>x' rq err. cd_spec x' = cd_spec x \<Longrightarrow> fits n (k x' rq err)"
  shows "fits (m + Suc n) (runTier due tier reason what x rq err k)"
proof -
  have "fits (m + Suc n) (andThen (tier x) (\<lambda>out. case out of
      None \<Rightarrow> Ret Panicked
    | Some (d', ready, tierErr) \<Rightarrow> (case tierErr of
        Some e \<Rightarrow> Recorder ''Warning'' reason (what @ '': '' @ err_text e) (k (with_phase PhaseFailed d') rq (Some e))
      | None \<Rightarrow> k d' (rq \<or> \<not> ready) err)))"
  proof (rule fits_call [OF assms(2,1)])
    fix out :: "(carbide_deployment \<times> bool \<times> goerror option) option"
    assume out: "keeps_spec x out"
    show "fits (Suc n) (case out of
        None \<Rightarrow> Ret Panicked
      | Some (d', ready, tierErr) \<Rightarrow> (case tierErr of
          Some e \<Rightarrow> Recorder ''Warning'' reason (what @ '': '' @ err_text e) (k (with_phase PhaseFailed d') rq (Some e))
        | None \<Rightarrow> k d' (rq \<or> \<not> ready) err))"
      using out by (auto simp: keeps_spec_def intro!: fits_Recorder k split: option.split intro: fits_mono [OF fits_Ret] fits_mono [OF k])
  qed
  moreover have "fits (m + Suc n) (k x rq err)" by (rule fits_mono [OF k]) simp_all
  ultimately show ?thesis by (simp add: runTier_def)
qed

lemma fits_after_condition: "fits 0 (andThen (tierCondition L ty nc y st) (\<lambda>y'. Ret (h y')))"
  using fits_andThen [OF fits_conditions(2) fits_Ret, of L ty nc y st h] by simp

lemma fits_reconcileTier:
  assumes "fits m (R x)"
  shows "fits m (reconcileTier (Some R) u store (tierCondition L ty nc) x)"
proof -
  have "fits (m + 0) (reconcileTier (Some R) u store (tierCondition L ty nc) x)"
    unfolding reconcileTier_def option.case
    by (intro fits_andThen assms) (simp add: fits_Ret fits_after_condition split: tier_result.split)
  then show ?thesis by simp
qed

lemma fits_tiers:
  "fits (281 + 2 * external_users (cd_spec d) + providers (cd_spec d)) (reconcileTiers (SetupWithManager qstr) L d (finish L ns n))"
proof -
  let ?r = "SetupWithManager qstr"
  have infra: "fits (9 + 2 * external_users (cd_spec x)) (reconcileInfrastructure ?r L x)"
    and core: "fits 142 (reconcileCore ?r L x)" and rest: "fits (124 + providers (cd_spec x)) (reconcileRest ?r L x)" for x
    unfolding reconcileInfrastructure_def reconcileCore_def reconcileRest_def SetInfrastructureCondition_def SetCoreCondition_def
      SetRestCondition_def setup_tiers
    by (intro fits_reconcileTier fits_infra fits_core fits_rest)+
  have kept: "runs (reconcileInfrastructure ?r L x) out tr \<Longrightarrow> keeps_spec x out"
    "runs (reconcileCore ?r L x) out tr \<Longrightarrow> keeps_spec x out" "runs (reconcileRest ?r L x) out tr \<Longrightarrow> keeps_spec x out" for x out tr
    unfolding reconcileInfrastructure_def reconcileCore_def reconcileRest_def SetInfrastructureCondition_def SetCoreCondition_def
      SetRestCondition_def setup_tiers
    by (erule tier_call_spec, simp)+
  have 3: "fits (124 + providers (cd_spec x) + Suc 3) (runTier due (reconcileRest ?r L) reason what x rq err (finish L ns n))"
    for due reason what x rq err
    by (rule fits_runTier [OF rest]) (erule kept, rule fits_finish)
  have 2: "fits (142 + Suc (124 + providers (cd_spec x) + Suc 3)) (runTier due (reconcileCore ?r L) reason what x rq err (\<lambda>d2 rq2 err2.
      runTier (rest_on d2 \<and> coreReady d2) (reconcileRest ?r L) reason2 what2 d2 rq2 err2 (finish L ns n)))"
    for due reason what x rq err reason2 what2
  proof (rule fits_runTier [OF core])
    show "runs (reconcileCore ?r L x) out tr \<Longrightarrow> keeps_spec x out" for out tr by (rule kept)
    show "cd_spec x' = cd_spec x \<Longrightarrow> fits (124 + providers (cd_spec x) + Suc 3)
        (runTier (rest_on x' \<and> coreReady x') (reconcileRest ?r L) reason2 what2 x' rq' err' (finish L ns n))" for x' rq' err'
      using 3 [where x = x'] by simp
  qed
  show ?thesis
    unfolding reconcileTiers_def
  proof (rule fits_mono, rule fits_runTier [OF infra])
    show "runs (reconcileInfrastructure ?r L d) out tr \<Longrightarrow> keeps_spec d out" for out tr by (rule kept)
    show "cd_spec x' = cd_spec d \<Longrightarrow> fits (142 + Suc (124 + providers (cd_spec d) + Suc 3))
        (runTier (infraReady x') (reconcileCore ?r L) ''CoreFailed'' ''Core tier failed'' x' rq err (\<lambda>d2 rq2 err2.
          runTier (rest_on d2 \<and> coreReady d2) (reconcileRest ?r L) ''RestFailed'' ''REST tier failed'' d2 rq2 err2 (finish L ns n)))"
      for x' rq err
      using 2 [where x = x'] by simp
  qed simp
qed

lemma fits_withTLS:
  "fits (282 + 2 * external_users (cd_spec d) + providers (cd_spec d))
     (withTLS L ns n d (\<lambda>x. reconcileTiers (SetupWithManager qstr) L x (finish L ns n)))"
proof -
  have kept: "runs (checkTLSPrerequisites L d) x tr \<Longrightarrow> cd_spec (fst x) = cd_spec d" for x tr
  proof -
    assume "runs (checkTLSPrerequisites L d) x tr"
    moreover have "spec_of (about {}) (checkTLSPrerequisites L d) (tls_checked L d)" by (rule tls_check_spec)
    ultimately have "tls_checked L d x tr" unfolding spec_of_def by blast
    then show ?thesis by (auto simp: tls_checked_def only_conds_sel split: prod.splits)
  qed
  show ?thesis
    unfolding withTLS_def
  proof (rule fits_mono, rule fits_if, rule fits_call [OF kept fits_tls_check])
    show "cd_spec (fst x) = cd_spec d \<Longrightarrow> fits (281 + 2 * external_users (cd_spec d) + providers (cd_spec d)) (case x of (d1, ok, err) \<Rightarrow>
        if \<not> ok then tlsFailed L ns n d1 else reconcileTiers (SetupWithManager qstr) L d1 (finish L ns n))" for x
      using fits_tiers [of "fst x"] fits_mono [OF fits_finish(2)] by (cases x) auto
  qed (assumption, rule fits_tiers, simp)
qed

lemma fits_pass: "fits (pass_budget d - 1) (reconcileFetched (SetupWithManager qstr) L F ns n d)"
proof -
  have delete: "fits 2 (reconcileDelete F d)"
    unfolding reconcileDelete_def by (rule fits_mono, (rule fits_Recorder fits_Update fits_rules | simp)+)
  have init: "fits 2 (initStatusOnce L d)"
    unfolding initStatusOnce_def
    by (rule fits_mono, (rule fits_andThen fits_conditions fits_StatusUpdate fits_Recorder fits_rules)+, simp)
  have add: "fits 1 (Update (CarbideDeploymentObj x) (\<lambda>a. case a of
      Some err \<Rightarrow> Ret (Returned noRequeue (Some err)) | None \<Rightarrow> Ret (Returned requeueNow None)))" for x
    by (rule fits_mono, (rule fits_Update fits_rules | simp)+)
  have observe: "fits (pass_budget d - 1) (observeGeneration d (\<lambda>d1. withTLS L ns n d1 (\<lambda>d2.
      reconcileTiers (SetupWithManager qstr) L d2 (finish L ns n))))"
  proof -
    have k: "fits (282 + 2 * external_users (cd_spec d) + providers (cd_spec d))
        (withTLS L ns n x (\<lambda>d2. reconcileTiers (SetupWithManager qstr) L d2 (finish L ns n)))" if "cd_spec x = cd_spec d" for x
      using fits_withTLS [of x] that by simp
    show ?thesis
      unfolding observeGeneration_def Let_def
      by (rule fits_mono, rule fits_if, rule fits_Recorder, rule k, simp, rule k, simp) (simp add: pass_budget_def)
  qed
  show ?thesis
    unfolding reconcileFetched_def
    by (rule fits_mono, rule fits_if, rule delete, rule fits_if, rule add, rule fits_if, rule init, rule observe) (simp add: pass_budget_def)
qed

section \<open>Property\<close>

text \<open>
  C8: a pass ends.  In every environment, whatever it answers, \<open>Reconcile\<close> returns after at most 284 calls of the API
  server, the recorder and the network, two more per user of an external PostgreSQL and one more per auth
  provider of the version it read; without a readable resource after one call.
\<close>
theorem pass_terminates:
  assumes "\<forall>ks w. mset (fst (srv_range env ks w)) = mset ks"
  shows "\<exists>out e tr w'. exec env (Reconcile (SetupWithManager qstr) L F ns n) w = (out, e # tr, w') \<and>
    length (e # tr) \<le> (case e of EGet k ns n (Inr (CarbideDeploymentObj d)) \<Rightarrow> pass_budget d | _ \<Rightarrow> 1)"
proof -
  obtain out tr w' where x: "exec env (Reconcile (SetupWithManager qstr) L F ns n) w = (out, tr, w')" by (metis surj_pair)
  then have "runs (Reconcile (SetupWithManager qstr) L F ns n) out tr" by (rule exec_runs [rotated]) (simp add: assms)
  then show ?thesis
  proof (cases rule: read_cases)
    case (bad a e)
    then show ?thesis using x by (auto simp: pass_budget_def split: sum.split k8s_object.split)
  next
    case (got d tr')
    from fitsD [OF fits_pass got(2)] have "length tr' \<le> pass_budget d - 1" by blast
    then show ?thesis using x got(1) by (auto simp: pass_budget_def)
  qed
qed

section \<open>Witness\<close>

theorem pass_terminates_witness: "length (trace_on live_site (pass_on live_site)) \<le> 284"
proof -
  have "\<forall>ks w. mset (fst (srv_range (up_server live_site) ks w)) = mset ks" by (simp add: up_server_def)
  from pass_terminates [OF this, of "\<lambda>_. []" ref_lib ref_finalizers "''default''" "''boston''" "()"]
  obtain out e tr where x: "exec (up_server live_site) (pass_on live_site) () = (out, e # tr, ())"
    "length (e # tr) \<le> (case e of EGet k ns n (Inr (CarbideDeploymentObj d)) \<Rightarrow> pass_budget d | _ \<Rightarrow> 1)"
    by (auto simp: pass_on_def)
  have tr: "trace_on live_site (pass_on live_site) = e # tr" by (simp add: trace_on_def x(1))
  have "e = EGet KCarbideDeployment ''default'' ''boston'' (Inr (CarbideDeploymentObj live_site))"
    using site_first [of live_site] tr by auto
  moreover have "pass_budget live_site = 284"
    by (simp add: pass_budget_def external_users_def providers_def live_site_def live_with_def sample_defs)
  ultimately show ?thesis using x(2) tr by simp
qed

end
