(* ===== verification/Access.thy ===== *)
theory Access
  imports Startup Budget Status_Updates
begin

text \<open>
  The operator and its permissions.  The markers of \<^verbatim>\<open>carbidedeployment_controller.go\<close> from which its ClusterRole is
  generated, the requests that a pass and the informers of the manager make, and what follows for a pass from
  three documented behaviours of its environment: the client fails for types that the scheme does not know, and
  the API server refuses roles and bindings that grant more than the creator has.
\<close>

section \<open>The role of the operator\<close>

definition rule :: "string \<Rightarrow> string list \<Rightarrow> string list \<Rightarrow> policy_rule" where
  "rule g resources verbs = \<lparr>rule_api_groups = [g], rule_resources = resources, rule_verbs = verbs\<rparr>"

definition manage :: "string list" where
  "manage = [''get'', ''list'', ''watch'', ''create'', ''update'', ''patch'', ''delete'']"

definition observe :: "string list" where
  "observe = [''get'', ''list'', ''watch'']"

definition govern :: "string list" where
  "govern = [''get'', ''list'', ''create'', ''update'', ''delete'']"

text \<open>The rbac markers, one rule per line.\<close>

definition manager_rules :: "policy_rule list" where
  "manager_rules =
     [rule ''carbide.nvidia.com'' [''carbidedeployments''] manage,
      rule ''carbide.nvidia.com'' [''carbidedeployments/status''] [''get'', ''update'', ''patch''],
      rule ''carbide.nvidia.com'' [''carbidedeployments/finalizers''] [''update''],
      rule [] [''namespaces''] [''get'', ''list'', ''watch'', ''create'', ''update'', ''patch''],
      rule [] [''configmaps''] manage,
      rule [] [''secrets''] manage,
      rule [] [''services''] manage,
      rule [] [''serviceaccounts''] manage,
      rule [] [''persistentvolumeclaims''] manage,
      rule [] [''pods''] observe,
      rule ''apps'' [''deployments''] manage,
      rule ''apps'' [''daemonsets''] manage,
      rule ''apps'' [''statefulsets''] manage,
      rule ''batch'' [''jobs''] manage,
      rule ''storage.k8s.io'' [''storageclasses''] observe,
      rule ''storage.k8s.io'' [''csidrivers''] [''get'', ''list''],
      rule [] [''events''] [''create'', ''patch''],
      rule ''postgres-operator.crunchydata.com'' [''postgresclusters''] manage,
      rule ''k8s.keycloak.org'' [''keycloaks'', ''keycloakrealmimports''] manage,
      rule ''apiextensions.k8s.io'' [''customresourcedefinitions''] observe,
      rule ''spire.spiffe.io'' [''clusterspiffeids''] manage,
      rule ''cert-manager.io'' [''certificates''] manage,
      rule ''cert-manager.io'' [''issuers''] observe,
      rule ''cert-manager.io'' [''clusterissuers''] observe,
      rule ''rbac.authorization.k8s.io'' [''clusterroles''] govern,
      rule ''rbac.authorization.k8s.io'' [''clusterrolebindings''] govern,
      rule ''rbac.authorization.k8s.io'' [''roles''] govern,
      rule ''rbac.authorization.k8s.io'' [''rolebindings''] govern]"

text \<open>How the API server reads a role; a star stands for everything.\<close>

definition has :: "string \<Rightarrow> string list \<Rightarrow> bool" where
  "has x xs \<longleftrightarrow> x \<in> set xs \<or> ''*'' \<in> set xs"

definition allows :: "policy_rule list \<Rightarrow> string \<Rightarrow> string \<times> string \<Rightarrow> bool" where
  "allows rules verb res \<longleftrightarrow>
     list_ex (\<lambda>r. has (fst res) (rule_api_groups r) \<and> has (snd res) (rule_resources r) \<and> has verb (rule_verbs r)) rules"

definition covers :: "policy_rule list \<Rightarrow> policy_rule \<Rightarrow> bool" where
  "covers rules r \<longleftrightarrow>
     list_all (\<lambda>g. list_all (\<lambda>res. list_all (\<lambda>v. allows rules v (g, res)) (rule_verbs r)) (rule_resources r)) (rule_api_groups r)"

section \<open>Requests\<close>

text \<open>The group and resource under which the API server serves a kind.\<close>

fun custom_resource :: "string \<Rightarrow> string \<Rightarrow> string \<times> string" where
  "custom_resource api k =
     (takeWhile (\<lambda>c. c \<noteq> CHR ''/'') api,
      if k = ''PostgresCluster'' then ''postgresclusters'' else if k = ''Keycloak'' then ''keycloaks''
      else if k = ''KeycloakRealmImport'' then ''keycloakrealmimports'' else if k = ''ClusterSPIFFEID'' then ''clusterspiffeids''
      else if k = ''Certificate'' then ''certificates'' else if k = ''CSIDriver'' then ''csidrivers''
      else if k = ''CustomResourceDefinition'' then ''customresourcedefinitions'' else k)"

primrec api_resource :: "kind \<Rightarrow> string \<times> string" where
  "api_resource KNamespace = ([], ''namespaces'')"
| "api_resource KConfigMap = ([], ''configmaps'')"
| "api_resource KSecret = ([], ''secrets'')"
| "api_resource KService = ([], ''services'')"
| "api_resource KServiceAccount = ([], ''serviceaccounts'')"
| "api_resource KDeployment = (''apps'', ''deployments'')"
| "api_resource KDaemonSet = (''apps'', ''daemonsets'')"
| "api_resource KStatefulSet = (''apps'', ''statefulsets'')"
| "api_resource KJob = (''batch'', ''jobs'')"
| "api_resource KPod = ([], ''pods'')"
| "api_resource KPVC = ([], ''persistentvolumeclaims'')"
| "api_resource KRole = (''rbac.authorization.k8s.io'', ''roles'')"
| "api_resource KRoleBinding = (''rbac.authorization.k8s.io'', ''rolebindings'')"
| "api_resource KClusterRoleBinding = (''rbac.authorization.k8s.io'', ''clusterrolebindings'')"
| "api_resource KStorageClass = (''storage.k8s.io'', ''storageclasses'')"
| "api_resource KCRD = (''apiextensions.k8s.io'', ''customresourcedefinitions'')"
| "api_resource KCarbideDeployment = (''carbide.nvidia.com'', ''carbidedeployments'')"
| "api_resource (KUnstructured api k) = custom_resource api k"

text \<open>What an event of a pass asks of the API server.\<close>

fun requests :: "event \<Rightarrow> (string \<times> string \<times> string) list" where
  "requests (EGet k ns n a) = [(''get'', api_resource k)]"
| "requests (EList k ns ls a) = [(''list'', api_resource k)]"
| "requests (ECreate x a) = [(''create'', api_resource (obj_kind x))]"
| "requests (EUpdate x a) = [(''update'', api_resource (obj_kind x))]"
| "requests (EStatusUpdate l a) = [(''update'', ''carbide.nvidia.com'', ''carbidedeployments/status'')]"
| "requests (ERecord t r m) = [(''create'', [], ''events'')]"
| "requests e = []"

text \<open>
  The client of the manager answers reads of typed objects from a cache, which is filled by listing and watching
  the kind; reads of unstructured objects go to the API server.
\<close>

primrec cached :: "kind \<Rightarrow> bool" where
  "cached KNamespace = True" | "cached KConfigMap = True" | "cached KSecret = True" | "cached KService = True"
| "cached KServiceAccount = True" | "cached KDeployment = True" | "cached KDaemonSet = True" | "cached KStatefulSet = True"
| "cached KJob = True" | "cached KPod = True" | "cached KPVC = True" | "cached KRole = True" | "cached KRoleBinding = True"
| "cached KClusterRoleBinding = True" | "cached KStorageClass = True" | "cached KCRD = True" | "cached KCarbideDeployment = True"
| "cached (KUnstructured api k) = False"

definition informer_allowed :: "policy_rule list \<Rightarrow> kind \<Rightarrow> bool" where
  "informer_allowed rules k \<longleftrightarrow> allows rules ''list'' (api_resource k) \<and> allows rules ''watch'' (api_resource k)"

section \<open>Lemmas\<close>

lemmas rule_defs = manager_rules_def rule_def manage_def observe_def govern_def allows_def has_def

lemmas custom_kinds = PostgresClusterKind_def KeycloakKind_def realm_kind_def sid_kind_def cert_kind_def

text \<open>The kinds as lists, so that the role can be evaluated on all of them.\<close>

definition written_list :: "kind list" where
  "written_list =
     [KCarbideDeployment, KNamespace, KConfigMap, KSecret, KService, KServiceAccount, KDeployment, KDaemonSet, KJob, KPVC,
      KRole, KRoleBinding, KClusterRoleBinding, PostgresClusterKind, KeycloakKind, realm_kind, sid_kind, cert_kind]"

definition read_list :: "kind list" where
  "read_list = written_list @
     [KStorageClass, KCRD, KUnstructured ''storage.k8s.io/v1'' ''CSIDriver'',
      KUnstructured ''apiextensions.k8s.io/v1'' ''CustomResourceDefinition'']"

lemma kind_lists: "write_kinds = set written_list" "read_kinds = set read_list"
  by (auto simp: write_kinds_def read_kinds_def written_list_def read_list_def)

lemma lists_allowed:
  "list_all (\<lambda>k. allows manager_rules ''get'' (api_resource k) \<and> allows manager_rules ''list'' (api_resource k)) read_list"
  "list_all (\<lambda>k. allows manager_rules ''create'' (api_resource k) \<and> allows manager_rules ''update'' (api_resource k)) written_list"
  by code_simp+

lemma lists_watched:
  "list_all (\<lambda>k. cached k \<longrightarrow> (informer_allowed manager_rules k \<longleftrightarrow> k \<notin> set [KRole, KRoleBinding, KClusterRoleBinding])) read_list"
  by code_simp

lemma kinds_allowed:
  "k \<in> read_kinds \<Longrightarrow> allows manager_rules ''get'' (api_resource k) \<and> allows manager_rules ''list'' (api_resource k)"
  "k \<in> write_kinds \<Longrightarrow> allows manager_rules ''create'' (api_resource k) \<and> allows manager_rules ''update'' (api_resource k)"
  using lists_allowed by (auto simp: kind_lists list_all_iff)

lemma known_allowed: "known e \<Longrightarrow> (verb, res) \<in> set (requests e) \<Longrightarrow> allows manager_rules verb res"
  using kinds_allowed by (cases e) (auto simp: rule_defs)

lemma pass_known: "runs (Reconcile (SetupWithManager qstr) L F ns n) out tr \<Longrightarrow> list_all known tr"
  by (erule read_cases) (auto dest: fitsD [OF fits_pass])

lemma watched_allowed:
  "k \<in> read_kinds \<Longrightarrow> cached k \<Longrightarrow> informer_allowed manager_rules k \<longleftrightarrow> k \<notin> {KRole, KRoleBinding, KClusterRoleBinding}"
  using lists_watched by (simp add: kind_lists list_all_iff)

section \<open>What the environment of the deployed operator does\<close>

fun event_kind :: "event \<Rightarrow> kind option" where
  "event_kind (EGet k ns n a) = Some k"
| "event_kind (EList k ns ls a) = Some k"
| "event_kind (ECreate x a) = Some (obj_kind x)"
| "event_kind (EUpdate x a) = Some (obj_kind x)"
| "event_kind (EStatusUpdate l a) = Some KCarbideDeployment"
| "event_kind e = None"

text \<open>A client answers every call for a typed object of a group its scheme does not know with an error.\<close>

definition honours_scheme :: "scheme \<Rightarrow> event list \<Rightarrow> bool" where
  "honours_scheme s tr \<longleftrightarrow>
     (\<forall>e\<in>set tr. \<forall>k. event_kind e = Some k \<and> cached k \<and> fst (api_resource k) \<notin> set s \<longrightarrow> event_error e \<noteq> None)"

text \<open>The permissions that a role or a binding to \<^verbatim>\<open>cluster-admin\<close> hands out, and the verb that would lift the check.\<close>

fun grants :: "k8s_object \<Rightarrow> (policy_rule list \<times> string \<times> string) option" where
  "grants (RoleObj r) = Some (role_rules r, ''escalate'', ''roles'')"
| "grants (ClusterRoleBindingObj b) =
     (if ref_kind (rb_ref b) = ''ClusterRole'' \<and> ref_name (rb_ref b) = ''cluster-admin''
      then Some ([rule ''*'' [''*''] [''*'']], ''bind'', ''clusterroles'') else None)"
| "grants x = None"

definition exceeds :: "policy_rule list \<Rightarrow> k8s_object \<Rightarrow> bool" where
  "exceeds rules x \<longleftrightarrow>
     (case grants x of
        None \<Rightarrow> False
      | Some (rs, verb, res) \<Rightarrow> \<not> list_all (covers rules) rs \<and> \<not> allows rules verb (''rbac.authorization.k8s.io'', res))"

definition refuses_escalation :: "policy_rule list \<Rightarrow> event list \<Rightarrow> bool" where
  "refuses_escalation rules tr \<longleftrightarrow>
     (\<forall>x a. ECreate x a \<in> set tr \<or> EUpdate x a \<in> set tr \<longrightarrow> exceeds rules x \<longrightarrow> a \<noteq> None)"

lemma grants_version [simp]: "grants (SetResourceVersion v x) = grants x"
  by (cases x) (simp_all add: set_rv_def)

lemma exceeds_version [simp]: "exceeds rules (SetResourceVersion v x) = exceeds rules x"
  by (simp add: exceeds_def)

lemma refused: "refuses_escalation rules tr \<Longrightarrow> exceeds rules x \<Longrightarrow> \<not> written x tr"
  unfolding refuses_escalation_def written_def by (metis exceeds_version)

lemma site_manager_exceeds: "exceeds manager_rules (RoleObj (BuildSiteManagerRole d ns))"
  by (simp add: exceeds_def BuildSiteManagerRole_def covers_def) (simp add: rule_defs)

lemma vault_exceeds: "exceeds manager_rules (ClusterRoleBindingObj (vaultRB ns))"
  by (simp add: exceeds_def vaultRB_def covers_def rule_def) (simp add: rule_defs)

lemma crd_unseen:
  assumes "honours_scheme s tr" and "''apiextensions.k8s.io'' \<notin> set s"
  shows "\<not> pg_operator_seen tr"
  using assms by (fastforce simp: honours_scheme_def pg_operator_seen_def observed_def)

text \<open>A ready status, and the version of the resource whose evidence it rests on.\<close>

lemma ready_evidence_of:
  assumes "condition_laws L"
    and "runs (Reconcile (SetupWithManager qstr) L F ns n) out (EGet KCarbideDeployment ns n (Inr (CarbideDeploymentObj d)) # tr)"
    and "EStatusUpdate l a \<in> set tr" and "status_phase (cd_status l) = PhaseReady"
  shows "justified (infra_evidence qstr) core_evidence (rest_evidence qstr) d
    (EGet KCarbideDeployment ns n (Inr (CarbideDeploymentObj d)) # tr)"
proof -
  let ?tr = "EGet KCarbideDeployment ns n (Inr (CarbideDeploymentObj d)) # tr"
  obtain pre post where t: "?tr = pre @ EStatusUpdate l a # post"
    using split_list [of "EStatusUpdate l a" ?tr] assms(3) by auto
  obtain d' where d': "hd ?tr = EGet KCarbideDeployment ns n (Inr (CarbideDeploymentObj d'))"
    "justified (infra_evidence qstr) core_evidence (rest_evidence qstr) d' pre"
    using assms(1,4) unfolding t by (blast intro: pass_status [OF assms(2) [unfolded t]])
  then have "justified (infra_evidence qstr) core_evidence (rest_evidence qstr) d pre" by simp
  then show ?thesis by (rule keepsD [OF carbide.keeps_justified]) (auto simp: t)
qed

section \<open>Properties\<close>

text \<open>
  C12: the generated role is enough for every request of a pass: whatever the API server answers, each read, list, create,
  update, status update and event of \<open>Reconcile\<close> has a verb on a resource that the markers grant.
\<close>
theorem pass_authorized:
  assumes "runs (Reconcile (SetupWithManager qstr) L F ns n) out tr" and "e \<in> set tr"
    and "(verb, res) \<in> set (requests e)"
  shows "allows manager_rules verb res"
proof -
  have "known e" using pass_known [OF assms(1)] assms(2) by (simp add: list_all_iff)
  then show ?thesis using assms(3) by (rule known_allowed)
qed

text \<open>
  C40: the informers behind the cached reads.  Every kind the controller is registered to watch may be listed and
  watched; of the typed kinds that a pass reads, all but roles, role bindings and cluster role bindings may be
  too: for these the markers grant no watch.
\<close>
theorem informers_authorized:
  "list_all (informer_allowed manager_rules) (watches_for # watches_owned) \<and>
   (runs (Reconcile (SetupWithManager qstr) L F ns n) out tr \<and> EGet k ns' n' a \<in> set tr \<and> cached k \<longrightarrow>
     (informer_allowed manager_rules k \<longleftrightarrow> k \<notin> {KRole, KRoleBinding, KClusterRoleBinding}))"
proof (intro conjI impI)
  show "list_all (informer_allowed manager_rules) (watches_for # watches_owned)" by code_simp
  assume a: "runs (Reconcile (SetupWithManager qstr) L F ns n) out tr \<and> EGet k ns' n' a \<in> set tr \<and> cached k"
  then have "k \<in> read_kinds" using pass_known by (fastforce simp: list_all_iff)
  with a show "informer_allowed manager_rules k \<longleftrightarrow> k \<notin> {KRole, KRoleBinding, KClusterRoleBinding}"
    by (intro watched_allowed) simp_all
qed

text \<open>
  C10: with the scheme that \<^verbatim>\<open>main.go\<close> builds, a resource with managed PostgreSQL never becomes ready.  The check for the
  operator reads a typed CustomResourceDefinition, whose group is registered neither by client-go nor by the operator,
  so that the client fails before it asks the API server.
\<close>
theorem managed_postgresql_unregistered:
  assumes "condition_laws L" and "''apiextensions.k8s.io'' \<notin> set (clientgo [])"
    and "runs (Reconcile (SetupWithManager qstr) L F ns n) out (EGet KCarbideDeployment ns n (Inr (CarbideDeploymentObj d)) # tr)"
    and "honours_scheme (mgr_scheme (managerOptions clientgo f)) (EGet KCarbideDeployment ns n (Inr (CarbideDeploymentObj d)) # tr)"
    and "spec_infrastructure (cd_spec d) = Some infra" and "pg_mode (infra_postgresql infra) \<noteq> ExternalMode"
    and "EStatusUpdate l a \<in> set tr"
  shows "status_phase (cd_status l) \<noteq> PhaseReady"
proof
  assume "status_phase (cd_status l) = PhaseReady"
  from ready_evidence_of [OF assms(1,3,7) this] assms(5,6)
  have "pg_operator_seen (EGet KCarbideDeployment ns n (Inr (CarbideDeploymentObj d)) # tr)"
    by (auto simp: justified_def infra_ok_def tier_ok_def infra_evidence_def)
  moreover have "''apiextensions.k8s.io'' \<notin> set (mgr_scheme (managerOptions clientgo f))"
    using assms(2) by (simp add: managerOptions_def init_scheme_def AddToScheme_def GroupVersion_def)
  ultimately show False using crd_unseen [OF assms(4)] by blast
qed

text \<open>
  C13: the operator creates a Role for the site manager and, for a managed Vault, a binding to \<^verbatim>\<open>cluster-admin\<close>; both grant
  more than its own role has.  On an API server that refuses such grants a resource with one of the two
  never becomes ready.
\<close>
theorem escalation_refused:
  assumes "condition_laws L"
    and "runs (Reconcile (SetupWithManager qstr) L F ns n) out (EGet KCarbideDeployment ns n (Inr (CarbideDeploymentObj d)) # tr)"
    and "refuses_escalation manager_rules (EGet KCarbideDeployment ns n (Inr (CarbideDeploymentObj d)) # tr)"
    and "rest_on d \<and> has_site_manager d \<or>
      spec_profile (cd_spec d) \<noteq> ProfileManagement \<and> core_vault (spec_core (cd_spec d)) = Some v \<and> vault_mode v = ManagedMode"
    and "EStatusUpdate l a \<in> set tr"
  shows "status_phase (cd_status l) \<noteq> PhaseReady"
proof
  let ?tr = "EGet KCarbideDeployment ns n (Inr (CarbideDeploymentObj d)) # tr"
  assume "status_phase (cd_status l) = PhaseReady"
  from ready_evidence_of [OF assms(1,2,5) this] obtain s1
    where core: "core_evidence (with_status s1 d) ?tr" and rest: "rest_on d \<Longrightarrow> \<exists>s2. rest_evidence qstr (with_status s2 d) ?tr"
    by (auto simp: justified_def tier_ok_def)
  note refused = refused [OF assms(3)]
  from assms(4) show False
  proof
    assume a: "rest_on d \<and> has_site_manager d"
    with rest obtain s2 rest where "rest_evidence qstr (with_status s2 d) ?tr" "spec_rest (cd_spec d) = Some rest" "rest_enabled rest"
      by (auto simp: rest_on_def split: option.splits)
    moreover have "has_site_manager (with_status s2 d)" using a by (simp add: has_site_manager_def)
    ultimately have "written (RoleObj (BuildSiteManagerRole (with_status s2 d) (rest_ns (with_status s2 d)))) ?tr"
      by (simp add: rest_evidence_def site_manager_evidence_def Let_def)
    with refused [OF site_manager_exceeds] show False by blast
  next
    assume "spec_profile (cd_spec d) \<noteq> ProfileManagement \<and> core_vault (spec_core (cd_spec d)) = Some v \<and> vault_mode v = ManagedMode"
    with core have "written (ClusterRoleBindingObj (vaultRB (core_ns (with_status s1 d)))) ?tr"
      by (simp add: core_evidence_def vault_up_def Let_def)
    with refused [OF vault_exceeds] show False by blast
  qed
qed

section \<open>Witnesses\<close>

text \<open>
  The cluster of \<open>Sample_Server\<close> behind a client with the scheme \<open>s\<close> and an API server that holds the operator to
  \<open>rules\<close>.
\<close>

definition unregistered :: "scheme \<Rightarrow> kind \<Rightarrow> bool" where
  "unregistered s k \<longleftrightarrow> cached k \<and> fst (api_resource k) \<notin> set s"

definition write_answer :: "scheme \<Rightarrow> policy_rule list \<Rightarrow> k8s_object \<Rightarrow> goerror option" where
  "write_answer s rules x =
     (if unregistered s (obj_kind x) \<or> exceeds rules x then Some (OtherErr ''not registered or forbidden'') else None)"

definition deployed :: "scheme \<Rightarrow> policy_rule list \<Rightarrow> carbide_deployment \<Rightarrow> unit environment" where
  "deployed s rules d =
     \<lparr>srv_get = (\<lambda>k ns n w. (if unregistered s k then Inl (OtherErr ''no kind is registered'') else up_get d k ns n, w)),
      srv_list = (\<lambda>k ns ls w. (if unregistered s k then Inl (OtherErr ''no kind is registered'') else Inr [], w)),
      srv_create = (\<lambda>x w. (write_answer s rules x, w)), srv_update = (\<lambda>x w. (write_answer s rules x, w)),
      srv_status_update = (\<lambda>x w. (if unregistered s KCarbideDeployment then Some (OtherErr ''no kind is registered'') else None, w)),
      srv_now = (\<lambda>w. (0, w)), srv_range = (\<lambda>ks w. (ks, w)),
      srv_probe = (\<lambda>q w. (None, w)), srv_http = (\<lambda>u w. (Inr 200, w))\<rparr>"

definition deployed_trace :: "scheme \<Rightarrow> carbide_deployment \<Rightarrow> 'r prog \<Rightarrow> event list" where
  "deployed_trace s d p = fst (snd (exec (deployed s manager_rules d) p ()))"

lemma deployed_runs: "\<exists>r. runs p r (deployed_trace s d p)"
proof -
  obtain r tr where x: "exec (deployed s manager_rules d) p () = (r, tr, ())" by (metis surj_pair unit.exhaust)
  have "runs p r tr" by (rule exec_runs [OF _ x]) (simp add: deployed_def)
  then show ?thesis by (auto simp: deployed_trace_def x)
qed

fun by_deployed :: "scheme \<Rightarrow> carbide_deployment \<Rightarrow> event \<Rightarrow> bool" where
  "by_deployed s d (EGet k ns n a) \<longleftrightarrow>
     a = (if unregistered s k then Inl (OtherErr ''no kind is registered'') else up_get d k ns n)"
| "by_deployed s d (EList k ns ls a) \<longleftrightarrow> (unregistered s k \<longrightarrow> event_error (EList k ns ls a) \<noteq> None)"
| "by_deployed s d (ECreate x a) \<longleftrightarrow> a = write_answer s manager_rules x"
| "by_deployed s d (EUpdate x a) \<longleftrightarrow> a = write_answer s manager_rules x"
| "by_deployed s d (EStatusUpdate l a) \<longleftrightarrow>
     (unregistered s KCarbideDeployment \<longrightarrow> event_error (EStatusUpdate l a) \<noteq> None)"
| "by_deployed s d e \<longleftrightarrow> True"

lemma deployed_answers: "list_all (by_deployed s d) (deployed_trace s d p)"
  unfolding deployed_trace_def by (induction p) (auto simp: deployed_def emit_def split_beta)

lemma by_deployed_honours:
  "by_deployed s d e \<Longrightarrow> event_kind e = Some k \<Longrightarrow> unregistered s k \<Longrightarrow> event_error e \<noteq> None"
  by (cases e) (auto simp: write_answer_def)

lemma deployed_honours: "honours_scheme s (deployed_trace s d p)"
  using deployed_answers [of s d p] by_deployed_honours [of s d]
  by (auto simp: honours_scheme_def list_all_iff unregistered_def simp del: not_None_eq)

lemma deployed_refuses: "refuses_escalation manager_rules (deployed_trace s d p)"
  using deployed_answers [of s d p] by (fastforce simp: refuses_escalation_def list_all_iff write_answer_def)

text \<open>A pass over a live resource without TLS reaches its status update.\<close>

lemma runTier_tail:
  assumes "runs (runTier due tier reason what x rq err k) out tr" and "out \<noteq> Panicked"
  shows "\<exists>x' rq' err' t1 t2. tr = t1 @ t2 \<and> runs (k x' rq' err') out t2"
proof (cases due)
  case False
  with assms(1) have "tr = [] @ tr \<and> runs (k x rq err) out tr" by (simp add: runTier_def)
  then show ?thesis by blast
next
  case True
  have "runs (andThen (tier x) (\<lambda>o1. case o1 of
        None \<Rightarrow> Ret Panicked
      | Some (d', ready, tierErr) \<Rightarrow> (case tierErr of
          Some e \<Rightarrow> Recorder ''Warning'' reason (what @ '': '' @ err_text e) (k (with_phase PhaseFailed d') rq (Some e))
        | None \<Rightarrow> k d' (rq \<or> \<not> ready) err))) out tr"
    using assms(1) True unfolding runTier_def by (simp only: not_True_eq_False if_False)
  then obtain o1 t1 t2 where t: "tr = t1 @ t2" "runs (case o1 of
        None \<Rightarrow> Ret Panicked
      | Some (d', ready, tierErr) \<Rightarrow> (case tierErr of
          Some e \<Rightarrow> Recorder ''Warning'' reason (what @ '': '' @ err_text e) (k (with_phase PhaseFailed d') rq (Some e))
        | None \<Rightarrow> k d' (rq \<or> \<not> ready) err)) out t2"
    by (rule runs_andThenE)
  show ?thesis
  proof (cases o1)
    case None
    with t assms(2) show ?thesis by simp
  next
    case (Some y)
    then obtain d' ready tierErr where y: "o1 = Some (d', ready, tierErr)" by (metis surj_pair)
    show ?thesis
    proof (cases tierErr)
      case None
      with t(2) y have "runs (k d' (rq \<or> \<not> ready) err) out t2" by simp
      with t(1) show ?thesis by blast
    next
      case (Some e)
      with t(2) y obtain t3 where t3: "t2 = [ERecord ''Warning'' reason (what @ '': '' @ err_text e)] @ t3"
        "runs (k (with_phase PhaseFailed d') rq (Some e)) out t3" by auto
      have "tr = (t1 @ [ERecord ''Warning'' reason (what @ '': '' @ err_text e)]) @ t3" using t(1) t3(1) by simp
      with t3(2) show ?thesis by blast
    qed
  qed
qed

lemma tiers_tail:
  assumes "runs (reconcileTiers r L x (finish L ns n)) out tr" and "out \<noteq> Panicked"
  shows "\<exists>x' rq err t1 t2. tr = t1 @ t2 \<and> runs (finish L ns n x' rq err) out t2"
proof -
  from runTier_tail [OF assms(1) [unfolded reconcileTiers_def] assms(2)] obtain x1 rq1 err1 t1 u1 where 1: "tr = t1 @ u1"
    "runs (runTier (infraReady x1) (reconcileCore r L) ''CoreFailed'' ''Core tier failed'' x1 rq1 err1 (\<lambda>d2 rq2 err2.
       runTier (rest_on d2 \<and> coreReady d2) (reconcileRest r L) ''RestFailed'' ''REST tier failed'' d2 rq2 err2 (finish L ns n))) out u1"
    by blast
  from runTier_tail [OF 1(2) assms(2)] obtain x2 rq2 err2 t2 u2 where 2: "u1 = t2 @ u2"
    "runs (runTier (rest_on x2 \<and> coreReady x2) (reconcileRest r L) ''RestFailed'' ''REST tier failed'' x2 rq2 err2 (finish L ns n)) out u2"
    by blast
  from runTier_tail [OF 2(2) assms(2)] obtain x3 rq3 err3 t3 u3 where 3: "u2 = t3 @ u3" "runs (finish L ns n x3 rq3 err3) out u3"
    by blast
  with 1(1) 2(1) have "tr = (t1 @ t2 @ t3) @ u3" by simp
  with 3(2) show ?thesis by blast
qed

lemma update_sent:
  assumes "runs (tryThen (get_carbide ns n) (\<lambda>e. Ret (f e)) (\<lambda>latest. StatusUpdate (g latest) (\<lambda>a. Ret (h a)))) out tr"
    and "\<And>a. EGet KCarbideDeployment ns n a \<in> set tr \<Longrightarrow> a = Inr (CarbideDeploymentObj d)"
  shows "\<exists>l a. EStatusUpdate l a \<in> set tr"
proof -
  from assms(1) obtain a tr' where t: "tr = EGet KCarbideDeployment ns n a # tr'"
    "runs (case (case a of Inl e \<Rightarrow> Inl e | Inr x \<Rightarrow> (case as_carbide x of None \<Rightarrow> Inl decodeErr | Some y \<Rightarrow> Inr y)) of
       Inl e \<Rightarrow> Ret (f e) | Inr latest \<Rightarrow> StatusUpdate (g latest) (\<lambda>a. Ret (h a))) out tr'"
    by (auto simp: tryThen_def get_carbide_def get_object_def)
  with assms(2) [of a] have "a = Inr (CarbideDeploymentObj d)" by simp
  with t show ?thesis by auto
qed

lemma finish_sends_update:
  assumes "runs (finish L ns n x rq err) out tr"
    and "\<And>a. EGet KCarbideDeployment ns n a \<in> set tr \<Longrightarrow> a = Inr (CarbideDeploymentObj d)"
  shows "\<exists>l a. EStatusUpdate l a \<in> set tr"
proof (rule runs_andThenE [OF assms(1) [unfolded finish_eq Let_def]])
  fix x1 t1 t2
  let ?update = "tryThen (get_carbide ns n) (\<lambda>e. Ret (Returned noRequeue (Some e))) (\<lambda>latest.
     StatusUpdate (with_status (cd_status x1) latest) (\<lambda>a. Ret (case a of
       Some e \<Rightarrow> Returned noRequeue (Some e)
     | None \<Rightarrow> if err \<noteq> None then Returned requeueLater err
               else if rq then Returned requeueLater None else Returned noRequeue None)))"
  assume t: "tr = t1 @ t2" "runs (if status_phase (cd_status x1) = PhaseReady \<and> status_phase (cd_status x) \<noteq> PhaseReady
    then Recorder ''Normal'' ''Ready'' ''All components are ready'' ?update else ?update) out t2"
  then obtain t3 where t3: "set t3 \<subseteq> set tr" "runs ?update out t3" by (fastforce split: if_splits)
  then have "\<exists>l a. EStatusUpdate l a \<in> set t3" using assms(2) by (intro update_sent [OF t3(2)]) auto
  with t3(1) show ?thesis by blast
qed

lemma live_with_sends:
  assumes "runs (Reconcile (SetupWithManager qstr) ref_lib ref_finalizers ns n) out
      (EGet KCarbideDeployment ns n (Inr (CarbideDeploymentObj (live_with spec))) # tr)" and "spec_tls spec = None"
    and "\<And>a. EGet KCarbideDeployment ns n a \<in> set tr \<Longrightarrow> a = Inr (CarbideDeploymentObj d)"
  shows "\<exists>l a. EStatusUpdate l a \<in> set tr"
proof -
  let ?d = "live_with spec"
  have d: "timeIsZero (cd_deletion_timestamp ?d)" "ContainsFinalizer ref_finalizers ?d carbideFinalizer"
    "status_phase (cd_status ?d) \<noteq> []" "status_observed_generation (cd_status ?d) = 0" "spec_tls (cd_spec ?d) = None"
    using assms(2) by (simp_all add: live_with_def sample_resource_def zero_status_def timeIsZero_def ref_finalizers_def)
  have no_panic: "out \<noteq> Panicked"
    using assms(1)
  proof (cases rule: pass_cases)
    case (live d')
    then have "d' = ?d" by simp
    with live(4) d(5) show ?thesis by (auto simp: tls_complete_def IsCertManagerMode_def)
  next
    case (idle d' tr')
    with d(1,2) show ?thesis by (simp add: live_def)
  qed (simp split: if_splits)
  have "runs (reconcileFetched (SetupWithManager qstr) ref_lib ref_finalizers ns n ?d) out tr"
    using assms(1) by (simp add: Reconcile_def tryThen_def get_carbide_def get_object_def)
  then have "runs (reconcileTiers (SetupWithManager qstr) ref_lib
      (?d\<lparr>cd_status := (cd_status ?d)\<lparr>status_observed_generation := cd_generation ?d\<rparr>\<rparr>) (finish ref_lib ns n)) out tr"
    by (simp add: reconcileFetched_def observeGeneration_def withTLS_def Let_def d)
  from tiers_tail [OF this no_panic] obtain x rq err t1 t2
    where "tr = t1 @ t2" "runs (finish ref_lib ns n x rq err) out t2" by blast
  with finish_sends_update [of ref_lib ns n x rq err out t2 d] assms(3) show ?thesis by auto
qed

lemma deployed_updates:
  assumes "''carbide.nvidia.com'' \<in> set s" and "spec_tls spec = None"
  obtains out tr l a where "runs (Reconcile (SetupWithManager (\<lambda>_. [])) ref_lib ref_finalizers ''default'' ''boston'') out
      (EGet KCarbideDeployment ''default'' ''boston'' (Inr (CarbideDeploymentObj (live_with spec))) # tr)"
    "deployed_trace s (live_with spec) (pass_on (live_with spec)) =
      EGet KCarbideDeployment ''default'' ''boston'' (Inr (CarbideDeploymentObj (live_with spec))) # tr"
    "EStatusUpdate l a \<in> set tr"
proof -
  let ?d = "live_with spec"
  have reg: "\<not> unregistered s KCarbideDeployment" using assms(1) by (simp add: unregistered_def)
  then obtain tr where tr: "deployed_trace s ?d (pass_on ?d) =
      EGet KCarbideDeployment ''default'' ''boston'' (Inr (CarbideDeploymentObj ?d)) # tr"
    by (auto simp: deployed_trace_def deployed_def pass_on_def Reconcile_def tryThen_def get_carbide_def get_object_def up_get_def
        emit_def split_beta)
  obtain out where r: "runs (Reconcile (SetupWithManager (\<lambda>_. [])) ref_lib ref_finalizers ''default'' ''boston'') out
      (EGet KCarbideDeployment ''default'' ''boston'' (Inr (CarbideDeploymentObj ?d)) # tr)"
    using deployed_runs [of "pass_on ?d" s ?d] unfolding tr by (auto simp: pass_on_def)
  have "EGet KCarbideDeployment ns n a \<in> set tr \<Longrightarrow> a = Inr (CarbideDeploymentObj ?d)" for ns n a
    using deployed_answers [of s ?d "pass_on ?d"] reg unfolding tr by (fastforce simp: list_all_iff up_get_def)
  with live_with_sends [OF r assms(2)] obtain l a where "EStatusUpdate l a \<in> set tr" by blast
  with r tr that show thesis by blast
qed

text \<open>The groups that client-go registers and the operator reads or writes.\<close>

definition clientgo_groups :: "scheme \<Rightarrow> scheme" where
  "clientgo_groups s = s @ [[], ''apps'', ''batch'', ''rbac.authorization.k8s.io'', ''storage.k8s.io'']"

theorem pass_authorized_witness:
  "\<exists>l a tr. trace_on live_site (pass_on live_site) = tr \<and> EStatusUpdate l a \<in> set tr \<and>
     allows manager_rules ''update'' (''carbide.nvidia.com'', ''carbidedeployments/status'')"
proof -
  obtain l where "EStatusUpdate l None \<in> set (trace_on live_site (pass_on live_site))" using site_status by blast
  with pass_authorized [OF site_runs this, of "''update''" "(''carbide.nvidia.com'', ''carbidedeployments/status'')"]
  show ?thesis by auto
qed

theorem informers_authorized_witness: "informer_allowed manager_rules KCarbideDeployment \<and> informer_allowed manager_rules KConfigMap"
proof -
  obtain tr where tr: "trace_on live_site (pass_on live_site) =
      EGet KCarbideDeployment ''default'' ''boston'' (Inr (CarbideDeploymentObj live_site)) # tr" using site_first by blast
  from informers_authorized [of "\<lambda>_. []" ref_lib ref_finalizers "''default''" "''boston''"
      "result_on live_site (pass_on live_site)" "trace_on live_site (pass_on live_site)" KCarbideDeployment "''default''" "''boston''"]
    site_runs [of live_site]
  show ?thesis by (auto simp: tr watches_owned_def)
qed

theorem managed_postgresql_unregistered_witness:
  "\<exists>l a. EStatusUpdate l a \<in> set (deployed_trace (init_scheme clientgo_groups) live_site (pass_on live_site)) \<and>
     status_phase (cd_status l) \<noteq> PhaseReady"
proof -
  let ?s = "mgr_scheme (managerOptions clientgo_groups default_flags)"
  have s: "?s = init_scheme clientgo_groups" by (simp add: managerOptions_def)
  have "''carbide.nvidia.com'' \<in> set ?s" "spec_tls site_spec = None"
    by (simp_all add: s init_scheme_def AddToScheme_def GroupVersion_def site_spec_def)
  then show ?thesis
  proof (rule deployed_updates [of ?s site_spec, folded live_site_def])
    fix out tr l a
    assume r: "runs (Reconcile (SetupWithManager (\<lambda>_. [])) ref_lib ref_finalizers ''default'' ''boston'') out
        (EGet KCarbideDeployment ''default'' ''boston'' (Inr (CarbideDeploymentObj live_site)) # tr)"
      and tr: "deployed_trace ?s live_site (pass_on live_site) =
        EGet KCarbideDeployment ''default'' ''boston'' (Inr (CarbideDeploymentObj live_site)) # tr"
      and l: "EStatusUpdate l a \<in> set tr"
    have spec: "spec_infrastructure (cd_spec live_site) = Some zero_infra" "pg_mode (infra_postgresql zero_infra) \<noteq> ExternalMode"
      by (simp_all add: live_site_def live_with_def sample_defs)
    have "''apiextensions.k8s.io'' \<notin> set (clientgo_groups [])" by (simp add: clientgo_groups_def)
    from managed_postgresql_unregistered [OF ref_conditions.condition_laws_axioms this r
        deployed_honours [of ?s live_site "pass_on live_site", unfolded tr] spec l] l tr
    show ?thesis unfolding s by auto
  qed
qed

definition vault_site :: carbide_deployment where
  "vault_site = live_with (site_spec\<lparr>spec_core := zero_core\<lparr>core_vault := Some
     \<lparr>vault_mode = ''managed'', vault_version = [], vault_storage = None, vault_address = [], vault_token_secret_ref = None,
      vault_kv_mount_path = []\<rparr>\<rparr>\<rparr>)"

theorem escalation_refused_witness:
  "\<exists>l a. EStatusUpdate l a \<in> set (deployed_trace (init_scheme clientgo_groups) vault_site (pass_on vault_site)) \<and>
     status_phase (cd_status l) \<noteq> PhaseReady"
proof -
  let ?s = "init_scheme clientgo_groups"
  have "''carbide.nvidia.com'' \<in> set ?s" "spec_tls (site_spec\<lparr>spec_core := c\<rparr>) = None" for c
    by (simp_all add: init_scheme_def AddToScheme_def GroupVersion_def site_spec_def)
  then show ?thesis
  proof (rule deployed_updates [of ?s "site_spec\<lparr>spec_core := zero_core\<lparr>core_vault := Some
     \<lparr>vault_mode = ''managed'', vault_version = [], vault_storage = None, vault_address = [], vault_token_secret_ref = None,
      vault_kv_mount_path = []\<rparr>\<rparr>\<rparr>", folded vault_site_def])
    fix out tr l a
    assume r: "runs (Reconcile (SetupWithManager (\<lambda>_. [])) ref_lib ref_finalizers ''default'' ''boston'') out
        (EGet KCarbideDeployment ''default'' ''boston'' (Inr (CarbideDeploymentObj vault_site)) # tr)"
      and tr: "deployed_trace ?s vault_site (pass_on vault_site) =
        EGet KCarbideDeployment ''default'' ''boston'' (Inr (CarbideDeploymentObj vault_site)) # tr"
      and l: "EStatusUpdate l a \<in> set tr"
    have "\<exists>v. spec_profile (cd_spec vault_site) \<noteq> ProfileManagement \<and>
        core_vault (spec_core (cd_spec vault_site)) = Some v \<and> vault_mode v = ManagedMode"
      by (simp add: vault_site_def live_with_def sample_defs)
    then obtain v where "rest_on vault_site \<and> has_site_manager vault_site \<or> spec_profile (cd_spec vault_site) \<noteq> ProfileManagement \<and>
        core_vault (spec_core (cd_spec vault_site)) = Some v \<and> vault_mode v = ManagedMode" by blast
    from escalation_refused [OF ref_conditions.condition_laws_axioms r
        deployed_refuses [of ?s vault_site "pass_on vault_site", unfolded tr] this l] l tr
    show ?thesis by auto
  qed
qed

end
