(* ===== verification/Store.thy ===== *)
theory Store
  imports Client
begin

text \<open>
  Writes against an API server with optimistic concurrency, after its documentation: every stored object has a
  resource version that each write renews, an update carries the version it was based on and is refused with a
  conflict when that is no longer the stored one.  Other clients take part as rivals: a list that says, for each write of
  the operator, which object another client writes just before it.  Without rivals every way of writing is one
  atomic upsert, and a loop of writes a fold of upserts (locale \<open>upserter\<close>).
\<close>

section \<open>The server\<close>

record store =
  objs :: "object_key \<rightharpoonup> k8s_object"
  clock :: nat
  rivals :: "k8s_object option list"

definition version :: "nat \<Rightarrow> string" where
  "version n = replicate n CHR ''1''"

definition upsert :: "k8s_object \<Rightarrow> store \<Rightarrow> store" where
  "upsert x w = w\<lparr>objs := (objs w)(obj_key x \<mapsto> SetResourceVersion (version (clock w)) x), clock := Suc (clock w)\<rparr>"

definition rival :: "store \<Rightarrow> store" where
  "rival w =
     (case rivals w of
        [] \<Rightarrow> w
      | None # rs \<Rightarrow> w\<lparr>rivals := rs\<rparr>
      | Some z # rs \<Rightarrow> upsert z (w\<lparr>rivals := rs\<rparr>))"

definition find_object :: "kind \<Rightarrow> string \<Rightarrow> string \<Rightarrow> store \<Rightarrow> goerror + k8s_object" where
  "find_object k ns n w = (case objs w (k, ns, n) of None \<Rightarrow> Inl (NotFoundErr ''not found'') | Some y \<Rightarrow> Inr y)"

definition create_object :: "k8s_object \<Rightarrow> store \<Rightarrow> goerror option \<times> store" where
  "create_object x w0 =
     (let w = rival w0 in
      case objs w (obj_key x) of None \<Rightarrow> (None, upsert x w) | Some y \<Rightarrow> (Some (OtherErr ''already exists''), w))"

definition update_object :: "k8s_object \<Rightarrow> store \<Rightarrow> goerror option \<times> store" where
  "update_object x w0 =
     (let w = rival w0 in
      case objs w (obj_key x) of
        None \<Rightarrow> (Some (NotFoundErr ''not found''), w)
      | Some y \<Rightarrow>
          if obj_resource_version x = obj_resource_version y then (None, upsert x w)
          else (Some (ConflictErr ''the object has been modified''), w))"

definition api_server :: "store environment" where
  "api_server =
     \<lparr>srv_get = (\<lambda>k ns n w. (find_object k ns n w, w)), srv_list = (\<lambda>k ns ls w. (Inr [], w)),
      srv_create = create_object, srv_update = update_object, srv_status_update = (\<lambda>d w. (None, w)),
      srv_now = (\<lambda>w. (0, w)), srv_range = (\<lambda>ks w. (ks, w)), srv_probe = (\<lambda>q w. (None, w)), srv_http = (\<lambda>u w. (Inr 200, w))\<rparr>"

text \<open>The answer of a program and the store it leaves.\<close>

definition leads :: "'r prog \<Rightarrow> store \<Rightarrow> 'r \<times> store" where
  "leads p w = (case exec api_server p w of (r, tr, w') \<Rightarrow> (r, w'))"

lemma leads_simps [simp]:
  "leads (Ret r) w = (r, w)"
  "leads (Get k ns n g) w = leads (g (find_object k ns n w)) w"
  "leads (Create x f) w = (case create_object x w of (a, w') \<Rightarrow> leads (f a) w')"
  "leads (Update x f) w = (case update_object x w of (a, w') \<Rightarrow> leads (f a) w')"
  by (simp_all add: leads_def api_server_def emit_def split: prod.split)

lemma leads_andThen: "leads (andThen p g) w = (case leads p w of (r, w') \<Rightarrow> leads (g r) w')"
  by (simp add: leads_def exec_andThen split: prod.split)

section \<open>Well-formed stores\<close>

text \<open>Objects are stored under their key, with a version issued before.\<close>

definition wf_store :: "store \<Rightarrow> bool" where
  "wf_store w \<longleftrightarrow> (\<forall>k y. objs w k = Some y \<longrightarrow> obj_key y = k \<and> (\<exists>n<clock w. obj_resource_version y = version n))"

lemma version_inj [simp]: "version m = version n \<longleftrightarrow> m = n"
  unfolding version_def by (metis length_replicate)

lemma upsert_sel [simp]:
  "objs (upsert x w) = (objs w)(obj_key x \<mapsto> SetResourceVersion (version (clock w)) x)" "clock (upsert x w) = Suc (clock w)"
  "rivals (upsert x w) = rivals w" "upsert (SetResourceVersion v x) w = upsert x w"
  by (simp_all add: upsert_def)

lemma wf_upsert: "wf_store w \<Longrightarrow> wf_store (upsert x w)"
  unfolding wf_store_def
proof (intro allI impI)
  fix k y
  assume w: "\<forall>k y. objs w k = Some y \<longrightarrow> obj_key y = k \<and> (\<exists>n<clock w. obj_resource_version y = version n)"
    and y: "objs (upsert x w) k = Some y"
  show "obj_key y = k \<and> (\<exists>n<clock (upsert x w). obj_resource_version y = version n)"
  proof (cases "k = obj_key x")
    case True
    with y have "y = SetResourceVersion (version (clock w)) x" by simp
    with True show ?thesis by auto
  next
    case False
    with y have "objs w k = Some y" by simp
    with w show ?thesis by (metis less_SucI upsert_sel(2))
  qed
qed

lemma fresh: "wf_store w \<Longrightarrow> objs w k = Some y \<Longrightarrow> obj_resource_version y \<noteq> version (clock w)"
  unfolding wf_store_def by (metis less_irrefl version_inj)

lemma find_key: "find_object (obj_kind x) (obj_namespace x) (obj_name x) w =
    (case objs w (obj_key x) of None \<Rightarrow> Inl (NotFoundErr ''not found'') | Some y \<Rightarrow> Inr y)"
  by (simp add: find_object_def obj_key_def)

text \<open>The objects without their versions.\<close>

definition content :: "store \<Rightarrow> object_key \<rightharpoonup> k8s_object" where
  "content w = (\<lambda>k. map_option (SetResourceVersion []) (objs w k))"

lemma content_rivals [simp]: "content (w\<lparr>rivals := rs\<rparr>) = content w"
  by (simp add: content_def)

lemma content_upsert [simp]: "content (upsert x w) = (content w)(obj_key x \<mapsto> SetResourceVersion [] x)"
  by (auto simp: content_def)

section \<open>Writes are upserts\<close>

text \<open>The contract of a write, extended by what it does to the store when nobody interferes.\<close>

locale upserter = writer +
  assumes upserts: "rivals w = [] \<Longrightarrow> leads (put x) w = (None, upsert (as_object x) w)"
begin

lemma upserts_each:
  "rivals w = [] \<Longrightarrow> leads (forEach xs (\<lambda>i. put (f i))) w = (None, fold (\<lambda>i. upsert (as_object (f i))) xs w)"
  by (induction xs arbitrary: w) (simp_all add: checkThen_def leads_andThen upserts)

lemma content_each:
  "content (fold (\<lambda>i. upsert (as_object (f i))) xs w) =
     content w ++ map_of (rev (map (\<lambda>i. (obj_key (as_object (f i)), SetResourceVersion [] (as_object (f i)))) xs))"
  by (induction xs arbitrary: w) (simp_all add: map_add_def fun_eq_iff split: option.split)

end

lemma infra_upserts: "rivals w = [] \<Longrightarrow> leads (infra_createOrUpdate x) w = (None, upsert x w)"
  by (simp add: infra_createOrUpdate_def find_key create_object_def update_object_def rival_def split: option.split)

lemma core_upserts: "rivals w = [] \<Longrightarrow> leads (core_createOrUpdate x) w = (None, upsert x w)"
  by (simp add: core_createOrUpdate_def find_key create_object_def update_object_def rival_def Let_def split: option.split)

interpretation infra_upsert: upserter infra_createOrUpdate id 2
  by unfold_locales (simp add: infra_upserts)

interpretation infra_upsert_u: upserter infra_createOrUpdateUnstructured UnstructuredObj 2
  by unfold_locales (simp add: infra_unstructured_same infra_upserts)

interpretation core_upsert: upserter core_createOrUpdate id 4
  by unfold_locales (simp add: core_upserts)

interpretation core_upsert_u: upserter core_createOrUpdateUnstructured UnstructuredObj 4
  by unfold_locales (simp add: core_unstructured_same core_upserts)

interpretation rest_upsert: upserter rest_createOrUpdate id 4
  by unfold_locales (simp add: rest_createOrUpdate_def core_upserts)

interpretation rest_upsert_u: upserter rest_createOrUpdateUnstructured UnstructuredObj 4
  by unfold_locales (simp add: rest_createOrUpdateUnstructured_def core_unstructured_same core_upserts)

section \<open>Properties\<close>



section \<open>Witnesses\<close>

definition empty_store :: store where
  "empty_store = \<lparr>objs = Map.empty, clock = 0, rivals = []\<rparr>"



end
