(* ===== verification/Legacy_Spiffe.thy ===== *)
theory Legacy_Spiffe
  imports Tls
begin

text \<open>
  The package \<^verbatim>\<open>internal/resources/spiffe\<close>: the names that older code used, delegated to the package \<^verbatim>\<open>tls\<close>.
  Its \<^verbatim>\<open>InjectSpiffe\<close> is not that of \<^verbatim>\<open>tls\<close>: it injects whatever the configured mode asks for, and so keeps the
  contract of an injector in both modes.
\<close>

definition spiffe_CertDir :: string where
  "spiffe_CertDir = CertDir"

definition spiffe_IsEnabled :: "carbide_deployment \<Rightarrow> bool" where
  "spiffe_IsEnabled d = IsEnabled d"

definition SpiffeCertVolumeMount :: volume_mount where
  "SpiffeCertVolumeMount = CertVolumeMount"

definition SpiffeCertEnvVars :: "env_var list" where
  "SpiffeCertEnvVars = CertEnvVars"

definition spiffe_InjectSpiffe :: "carbide_deployment \<Rightarrow> pod_spec \<Rightarrow> pod_spec" where
  "spiffe_InjectSpiffe d ps = InjectTLS d ps"

definition spiffe_BuildSpiffeHelperConfigMap :: "carbide_deployment \<Rightarrow> string \<Rightarrow> config_map" where
  "spiffe_BuildSpiffeHelperConfigMap d ns = BuildSpiffeHelperConfigMap d ns"

definition spiffe_BuildClusterSPIFFEID ::
    "carbide_deployment \<Rightarrow> string \<Rightarrow> string \<Rightarrow> string \<Rightarrow> string list \<Rightarrow> unstructured" where
  "spiffe_BuildClusterSPIFFEID d name ns podLabelApp dnsSANs = BuildClusterSPIFFEID d name ns podLabelApp dnsSANs"

interpretation legacy_inject: tls_injector spiffe_InjectSpiffe "\<lambda>d. IsSpiffeMode d \<or> IsCertManagerMode d"
proof -
  have "spiffe_InjectSpiffe = InjectTLS" by (simp add: spiffe_InjectSpiffe_def fun_eq_iff)
  then show "tls_injector spiffe_InjectSpiffe (\<lambda>d. IsSpiffeMode d \<or> IsCertManagerMode d)"
    using tls_inject.tls_injector_axioms by simp
qed

lemma legacy_modes:
  "IsSpiffeMode d \<Longrightarrow> spiffe_InjectSpiffe d ps = InjectSpiffe d ps"
  "IsCertManagerMode d \<Longrightarrow> spiffe_InjectSpiffe d ps = InjectCertManager d ps"
  by (auto simp: spiffe_InjectSpiffe_def InjectTLS_def IsSpiffeMode_def IsCertManagerMode_def split: option.splits)

end
