(* ===== verification/Go_Memory.thy ===== *)
theory Go_Memory
  imports Prelude "HOL-Library.Multiset"
begin

text \<open>
  Memory of a Go program, as far as copying needs it: values that hold references, cells that hold values, and the types
  that say how to follow the references.  A value of a type is read back from memory as a tree; a copier is a deep
  copier of a type if its result reads back as the same tree from the cells allocated by the copy alone.
\<close>

section \<open>Values, cells and types\<close>

type_synonym address = nat

datatype scalar = StrVal string | IntVal int | BoolVal bool

text \<open>A slice is a window (offset and length) of an array; pointers and maps are references to a cell; all may be nil.\<close>

datatype val = Scalar scalar | Struct "(string \<times> val) list" | NilRef | Ref address | Slice address nat nat

datatype cell = Obj val | Elems "val list" | Entries "(string \<times> val) list"

type_synonym memory = "address \<rightharpoonup> cell"

record heap =
  cells :: memory
  frontier :: address

datatype ty = TScalar | TStruct "(string \<times> ty) list" | TPtr ty | TSlice ty | TMap ty

datatype tree = Leaf scalar | Rec "(string \<times> tree) list" | Null | To tree | ListOf "tree list" | DictOf "string \<rightharpoonup> tree"

text \<open>Reading a value: \<open>None\<close> if it is not of the type, or a reference dangles.\<close>

fun deref :: "ty \<Rightarrow> memory \<Rightarrow> val \<Rightarrow> tree option"
  and deref_fields :: "(string \<times> ty) list \<Rightarrow> memory \<Rightarrow> (string \<times> val) list \<Rightarrow> (string \<times> tree) list option" where
  "deref TScalar m v = (case v of Scalar s \<Rightarrow> Some (Leaf s) | _ \<Rightarrow> None)"
| "deref (TStruct fs) m v = (case v of Struct vs \<Rightarrow> map_option Rec (deref_fields fs m vs) | _ \<Rightarrow> None)"
| "deref (TPtr T) m v =
     (case v of NilRef \<Rightarrow> Some Null
      | Ref a \<Rightarrow> (case m a of Some (Obj x) \<Rightarrow> map_option To (deref T m x) | _ \<Rightarrow> None)
      | _ \<Rightarrow> None)"
| "deref (TSlice T) m v =
     (case v of NilRef \<Rightarrow> Some Null
      | Slice a k n \<Rightarrow> (case m a of
          Some (Elems xs) \<Rightarrow>
            if k + n \<le> length xs then map_option ListOf (those (map (deref T m) (take n (drop k xs)))) else None
        | _ \<Rightarrow> None)
      | _ \<Rightarrow> None)"
| "deref (TMap T) m v =
     (case v of NilRef \<Rightarrow> Some Null
      | Ref a \<Rightarrow> (case m a of
          Some (Entries es) \<Rightarrow>
            if distinct (map fst es)
            then map_option (\<lambda>ts. DictOf (map_of (zip (map fst es) ts))) (those (map (\<lambda>e. deref T m (snd e)) es)) else None
        | _ \<Rightarrow> None)
      | _ \<Rightarrow> None)"
| "deref_fields [] m vs = (if vs = [] then Some [] else None)"
| "deref_fields (f # fs) m vs =
     (case vs of [] \<Rightarrow> None
      | v # vs' \<Rightarrow>
          if fst v = fst f then
            (case deref (snd f) m (snd v) of None \<Rightarrow> None
             | Some t \<Rightarrow> map_option (Cons (fst f, t)) (deref_fields fs m vs'))
          else None)"

text \<open>The types without references: \<^verbatim>\<open>*out = *in\<close> copies their values.\<close>

fun refless :: "ty \<Rightarrow> bool" and refless_fields :: "(string \<times> ty) list \<Rightarrow> bool" where
  "refless TScalar \<longleftrightarrow> True"
| "refless (TStruct fs) \<longleftrightarrow> refless_fields fs"
| "refless (TPtr T) \<longleftrightarrow> False"
| "refless (TSlice T) \<longleftrightarrow> False"
| "refless (TMap T) \<longleftrightarrow> False"
| "refless_fields [] \<longleftrightarrow> True"
| "refless_fields (f # fs) \<longleftrightarrow> refless (snd f) \<and> refless_fields fs"

section \<open>Allocation and copiers\<close>

definition alloc :: "cell \<Rightarrow> heap \<Rightarrow> address \<times> heap" where
  "alloc c h = (frontier h, \<lparr>cells = (cells h)(frontier h \<mapsto> c), frontier = Suc (frontier h)\<rparr>)"

definition put :: "address \<Rightarrow> cell \<Rightarrow> heap \<Rightarrow> heap" where
  "put a c h = h\<lparr>cells := (cells h)(a \<mapsto> c)\<rparr>"

text \<open>
  A copier takes the value of \<^verbatim>\<open>*in\<close> and returns the value of \<^verbatim>\<open>*out\<close>.  Go has no dangling references, so that the
  cases in which a copier finds no cell do not arise.
\<close>

type_synonym copier = "val \<Rightarrow> heap \<Rightarrow> val \<times> heap"

text \<open>\<^verbatim>\<open>out.F = in.F\<close>, and the effect of \<^verbatim>\<open>*out = *in\<close> on every field that has no statement of its own.\<close>

definition assign :: copier where
  "assign v h = (v, h)"

text \<open>\<^verbatim>\<open>if in.F != nil { *out = new(T); (*in).DeepCopyInto(*out) }\<close>\<close>

definition newInto :: "copier \<Rightarrow> copier" where
  "newInto c v h =
     (case v of
        Ref a \<Rightarrow> (case cells h a of
          Some (Obj x) \<Rightarrow>
            (let (b, h1) = alloc (Obj NilRef) h; (y, h2) = c x h1 in (Ref b, put b (Obj y) h2))
        | _ \<Rightarrow> (v, h))
      | _ \<Rightarrow> (v, h))"

fun copyElems :: "copier \<Rightarrow> val list \<Rightarrow> heap \<Rightarrow> val list \<times> heap" where
  "copyElems c [] h = ([], h)"
| "copyElems c (x # xs) h = (let (y, h1) = c x h; (ys, h2) = copyElems c xs h1 in (y # ys, h2))"

text \<open>\<^verbatim>\<open>*out = make([]T, len(*in)); for i := range *in { (*in)[i].DeepCopyInto(&(*out)[i]) }\<close>\<close>

definition makeEach :: "copier \<Rightarrow> copier" where
  "makeEach c v h =
     (case v of
        Slice a k n \<Rightarrow> (case cells h a of
          Some (Elems xs) \<Rightarrow>
            (let (b, h1) = alloc (Elems (replicate n NilRef)) h; (ys, h2) = copyElems c (take n (drop k xs)) h1
             in (Slice b 0 n, put b (Elems ys) h2))
        | _ \<Rightarrow> (v, h))
      | _ \<Rightarrow> (v, h))"

text \<open>\<^verbatim>\<open>(*out)[key] = val\<close>, and \<^verbatim>\<open>*out = make(map[string]T, len(*in)); for key, val := range *in { ... }\<close>.  A map
  is its list of entries; the order in which Go ranges over it is a parameter.\<close>

fun setEntry :: "string \<Rightarrow> val \<Rightarrow> (string \<times> val) list \<Rightarrow> (string \<times> val) list" where
  "setEntry k v [] = [(k, v)]"
| "setEntry k v (e # es) = (if fst e = k then (k, v) # es else e # setEntry k v es)"

definition makeMap :: "((string \<times> val) list \<Rightarrow> (string \<times> val) list) \<Rightarrow> copier" where
  "makeMap rangeOrder v h =
     (case v of
        Ref a \<Rightarrow> (case cells h a of
          Some (Entries es) \<Rightarrow>
            (let (b, h1) = alloc (Entries []) h
             in (Ref b, put b (Entries (foldl (\<lambda>m e. setEntry (fst e) (snd e) m) [] (rangeOrder es))) h1))
        | _ \<Rightarrow> (v, h))
      | _ \<Rightarrow> (v, h))"

text \<open>
  \<^verbatim>\<open>DeepCopyInto\<close> of a struct: after \<^verbatim>\<open>*out = *in\<close>, the statements for the fields, which the generator
  writes in the order of the fields.
\<close>

type_synonym statements = "(string \<times> copier) list"

definition statement_for :: "statements \<Rightarrow> string \<Rightarrow> copier" where
  "statement_for ss n = (case map_of ss n of None \<Rightarrow> assign | Some c \<Rightarrow> c)"

fun copyFields :: "statements \<Rightarrow> (string \<times> val) list \<Rightarrow> heap \<Rightarrow> (string \<times> val) list \<times> heap" where
  "copyFields ss [] h = ([], h)"
| "copyFields ss (f # fs) h =
     (let (y, h1) = statement_for ss (fst f) (snd f) h; (ys, h2) = copyFields ss fs h1 in ((fst f, y) # ys, h2))"

definition into :: "statements \<Rightarrow> copier" where
  "into ss v h = (case v of Struct fs \<Rightarrow> (let (gs, h') = copyFields ss fs h in (Struct gs, h')) | _ \<Rightarrow> (v, h))"

text \<open>\<^verbatim>\<open>DeepCopy\<close> and \<^verbatim>\<open>DeepCopyObject\<close>, the same for every type.\<close>

definition DeepCopy :: "copier \<Rightarrow> copier" where
  "DeepCopy deepCopyInto in' h = (if in' = NilRef then (NilRef, h) else newInto deepCopyInto in' h)"

definition DeepCopyObject :: "copier \<Rightarrow> copier" where
  "DeepCopyObject deepCopy in' h = (let (c, h') = deepCopy in' h in if c \<noteq> NilRef then (c, h') else (NilRef, h'))"

section \<open>Deep copies\<close>

definition wf_heap :: "heap \<Rightarrow> bool" where
  "wf_heap h \<longleftrightarrow> dom (cells h) \<subseteq> {..<frontier h}"

definition extends :: "heap \<Rightarrow> heap \<Rightarrow> bool" where
  "extends h h' \<longleftrightarrow> frontier h \<le> frontier h' \<and> cells h \<subseteq>\<^sub>m cells h' \<and> wf_heap h'"

text \<open>What was allocated between two heaps.\<close>

definition region :: "heap \<Rightarrow> heap \<Rightarrow> memory" where
  "region h h' = cells h' |` {frontier h..<frontier h'}"

definition copies :: "ty \<Rightarrow> copier \<Rightarrow> bool" where
  "copies T c \<longleftrightarrow> (\<forall>h v t. wf_heap h \<longrightarrow> deref T (cells h) v = Some t \<longrightarrow>
     extends h (snd (c v h)) \<and> deref T (region h (snd (c v h))) (fst (c v h)) = Some t)"

lemma copiesI:
  assumes "\<And>h v t v' h'. wf_heap h \<Longrightarrow> deref T (cells h) v = Some t \<Longrightarrow> c v h = (v', h') \<Longrightarrow>
    extends h h' \<and> deref T (region h h') v' = Some t"
  shows "copies T c"
  using assms unfolding copies_def by (metis prod.collapse)

lemma copiesD:
  assumes "copies T c" and "wf_heap h" and "deref T (cells h) v = Some t" and "c v h = (v', h')"
  shows "extends h h' \<and> deref T (region h h') v' = Some t"
  using assms unfolding copies_def by (metis fst_conv snd_conv)

subsection \<open>Reading depends on the cells reached only\<close>

lemma those_mono: "those (map f xs) = Some ys \<Longrightarrow> (\<And>x y. x \<in> set xs \<Longrightarrow> f x = Some y \<Longrightarrow> g x = Some y) \<Longrightarrow> those (map g xs) = Some ys"
proof (induction xs arbitrary: ys)
  case (Cons x xs)
  then obtain y zs where "f x = Some y" "those (map f xs) = Some zs" "ys = y # zs" by (auto split: option.splits)
  with Cons show ?case by simp
qed simp

lemma deref_mono:
  "deref T m v = Some t \<Longrightarrow> m \<subseteq>\<^sub>m g \<Longrightarrow> deref T g v = Some t"
  "deref_fields fs m vs = Some ts \<Longrightarrow> m \<subseteq>\<^sub>m g \<Longrightarrow> deref_fields fs g vs = Some ts"
proof (induction T m v and fs m vs arbitrary: t and ts rule: deref_deref_fields.induct)
  case (3 T m v)
  then show ?case by (force simp: map_le_def dom_def split: val.splits option.splits cell.splits)
next
  case (4 T m v)
  show ?case
  proof (cases v)
    case (Slice a k n)
    with 4(2) obtain xs ts where m: "m a = Some (Elems xs)" "k + n \<le> length xs"
      "those (map (deref T m) (take n (drop k xs))) = Some ts" "t = ListOf ts"
      by (auto split: option.splits cell.splits if_splits)
    have "those (map (deref T g) (take n (drop k xs))) = Some ts"
      using m(3) by (rule those_mono) (use 4(1) Slice m 4(3) in auto)
    moreover have "g a = Some (Elems xs)" using m(1) 4(3) by (auto simp: map_le_def dom_def)
    ultimately show ?thesis using Slice m by simp
  qed (use 4(2) in auto)
next
  case (5 T m v)
  show ?case
  proof (cases v)
    case (Ref a)
    with 5(2) obtain es ts where m: "m a = Some (Entries es)" "distinct (map fst es)"
      "those (map (\<lambda>e. deref T m (snd e)) es) = Some ts" "t = DictOf (map_of (zip (map fst es) ts))"
      by (auto split: option.splits cell.splits if_splits)
    have "those (map (\<lambda>e. deref T g (snd e)) es) = Some ts"
      using m(3) by (rule those_mono) (use 5(1) Ref m 5(3) in auto)
    moreover have "g a = Some (Entries es)" using m(1) 5(3) by (auto simp: map_le_def dom_def)
    ultimately show ?thesis using Ref m by simp
  qed (use 5(2) in auto)
qed (auto split: val.splits list.splits option.splits if_splits)

lemma refless_deref:
  "refless T \<Longrightarrow> deref T m v = deref T g v"
  "refless_fields fs \<Longrightarrow> deref_fields fs m vs = deref_fields fs g vs"
  by (induction T m v and fs m vs rule: deref_deref_fields.induct) (auto split: val.split list.split option.split)

subsection \<open>Heaps that grow\<close>

lemma extends_refl: "wf_heap h \<Longrightarrow> extends h h"
  by (simp add: extends_def)

lemma extends_trans: "extends h h1 \<Longrightarrow> extends h1 h2 \<Longrightarrow> extends h h2"
  by (auto simp: extends_def intro: map_le_trans)

lemma extends_wf: "extends h h' \<Longrightarrow> wf_heap h'"
  by (simp add: extends_def)

lemma region_start: "extends h h1 \<Longrightarrow> extends h1 h2 \<Longrightarrow> region h h1 \<subseteq>\<^sub>m region h h2"
  by (auto simp: extends_def region_def map_le_def restrict_map_def dom_def)

lemma region_end: "extends h h1 \<Longrightarrow> region h1 h2 \<subseteq>\<^sub>m region h h2"
  by (auto simp: extends_def region_def map_le_def restrict_map_def)

lemma deref_old: "deref T (cells h) v = Some t \<Longrightarrow> extends h h' \<Longrightarrow> deref T (cells h') v = Some t"
  by (erule deref_mono) (simp add: extends_def)

lemma region_cells: "region h h' \<subseteq>\<^sub>m cells h'"
  by (auto simp: region_def map_le_def restrict_map_def)

text \<open>Copying one value after another.\<close>

lemma copy_then:
  assumes "copies T c" and "wf_heap h" and "deref T (cells h) v = Some t" and "c v h = (v', h1)" and "extends h1 h2"
  shows "extends h h2" "deref T (region h h2) v' = Some t"
proof -
  from copiesD [OF assms(1-4)] have "extends h h1" "deref T (region h h1) v' = Some t" by auto
  then show "extends h h2" "deref T (region h h2) v' = Some t"
    using assms(5) extends_trans deref_mono(1) region_start by blast+
qed

lemma alloc_extends: "wf_heap h \<Longrightarrow> alloc c h = (b, h1) \<Longrightarrow> extends h h1 \<and> b = frontier h \<and> frontier h1 = Suc b"
  by (force simp: alloc_def extends_def wf_heap_def map_le_def dom_def split: if_splits)

text \<open>The new cell is filled in the end, over what was allocated in between.\<close>

lemma put_new:
  assumes "wf_heap h" and "alloc c h = (b, h1)" and "extends h1 h2"
  shows "extends h (put b d h2)" "region h (put b d h2) b = Some d" "region h1 h2 \<subseteq>\<^sub>m region h (put b d h2)"
  using assms alloc_extends [OF assms(1,2)]
  by (auto simp: alloc_def extends_def wf_heap_def put_def region_def map_le_def restrict_map_def dom_def)

subsection \<open>The copiers are deep\<close>

lemma copies_assign: "refless T \<Longrightarrow> copies T assign"
  unfolding copies_def assign_def using refless_deref(1) [of T] by (simp add: extends_refl) metis

lemma copies_newInto:
  assumes "copies T c"
  shows "copies (TPtr T) (newInto c)"
proof (rule copiesI)
  fix h v t v' h'
  assume h: "wf_heap h" "deref (TPtr T) (cells h) v = Some t" "newInto c v h = (v', h')"
  show "extends h h' \<and> deref (TPtr T) (region h h') v' = Some t"
  proof (cases v)
    case (Ref a)
    with h(2) obtain x s where x: "cells h a = Some (Obj x)" "deref T (cells h) x = Some s" "t = To s"
      by (auto split: option.splits cell.splits)
    obtain b h1 y h2 where b: "alloc (Obj NilRef) h = (b, h1)" "c x h1 = (y, h2)" by fastforce
    note e = alloc_extends [OF h(1) b(1)]
    have y: "extends h1 h2" "deref T (region h1 h2) y = Some s"
      using copiesD [OF assms extends_wf deref_old [OF x(2)] b(2)] e by blast+
    have "v' = Ref b" "h' = put b (Obj y) h2" using h(3) Ref x(1) b by (simp_all add: newInto_def)
    with put_new [OF h(1) b(1) y(1), of "Obj y"] deref_mono(1) [OF y(2)] x(3) show ?thesis by simp
  qed (use h in \<open>auto simp: newInto_def extends_refl\<close>)
qed

lemma copyElems_deep:
  assumes "copies T c" and "wf_heap h" and "those (map (deref T (cells h)) xs) = Some ts" and "copyElems c xs h = (ys, h')"
  shows "extends h h' \<and> those (map (deref T (region h h')) ys) = Some ts"
  using assms(2-4)
proof (induction xs arbitrary: h ts ys)
  case Nil
  then show ?case by (simp add: extends_refl)
next
  case (Cons x xs)
  from Cons.prems(2) obtain t ts' where t: "deref T (cells h) x = Some t" "those (map (deref T (cells h)) xs) = Some ts'" "ts = t # ts'"
    by (auto split: option.splits)
  from Cons.prems(3) obtain y h1 ys' where y: "c x h = (y, h1)" "copyElems c xs h1 = (ys', h')" "ys = y # ys'"
    by (auto split: prod.splits)
  have e1: "extends h h1" using copiesD [OF assms(1) Cons.prems(1) t(1) y(1)] by simp
  have "those (map (deref T (cells h1)) xs) = Some ts'" using t(2) by (rule those_mono) (rule deref_old [OF _ e1])
  from Cons.IH [OF extends_wf [OF e1] this y(2)] have e2: "extends h1 h'" "those (map (deref T (region h1 h')) ys') = Some ts'" by auto
  have "those (map (deref T (region h h')) ys') = Some ts'"
    using e2(2) by (rule those_mono) (rule deref_mono(1) [OF _ region_end [OF e1]])
  with copy_then [OF assms(1) Cons.prems(1) t(1) y(1) e2(1)] show ?case by (simp add: y(3) t(3))
qed

lemma copyElems_length: "copyElems c xs h = (ys, h') \<Longrightarrow> length ys = length xs"
  by (induction xs arbitrary: h ys) (auto split: prod.splits)

lemma copies_makeEach:
  assumes "copies T c"
  shows "copies (TSlice T) (makeEach c)"
proof (rule copiesI)
  fix h v t v' h'
  assume h: "wf_heap h" "deref (TSlice T) (cells h) v = Some t" "makeEach c v h = (v', h')"
  show "extends h h' \<and> deref (TSlice T) (region h h') v' = Some t"
  proof (cases v)
    case (Slice a k n)
    with h(2) obtain xs ts where x: "cells h a = Some (Elems xs)" "k + n \<le> length xs"
      "those (map (deref T (cells h)) (take n (drop k xs))) = Some ts" "t = ListOf ts"
      by (auto split: option.splits cell.splits if_splits)
    obtain b h1 ys h2 where b: "alloc (Elems (replicate n NilRef)) h = (b, h1)" "copyElems c (take n (drop k xs)) h1 = (ys, h2)"
      by fastforce
    note e = alloc_extends [OF h(1) b(1)]
    have "those (map (deref T (cells h1)) (take n (drop k xs))) = Some ts"
      using x(3) by (rule those_mono) (use e in \<open>blast intro: deref_old\<close>)
    with copyElems_deep [OF assms extends_wf _ b(2)] e
    have y: "extends h1 h2" "those (map (deref T (region h1 h2)) ys) = Some ts" by blast+
    have eq: "v' = Slice b 0 n" "h' = put b (Elems ys) h2" using h(3) Slice x(1) b by (simp_all add: makeEach_def)
    note new = put_new [OF h(1) b(1) y(1), of "Elems ys", folded eq(2)]
    have "those (map (deref T (region h h')) ys) = Some ts"
      using y(2) by (rule those_mono) (rule deref_mono(1) [OF _ new(3)])
    moreover have "length ys = n" using copyElems_length [OF b(2)] x(2) by simp
    ultimately show ?thesis using new x(4) by (simp add: eq(1))
  qed (use h in \<open>auto simp: makeEach_def extends_refl\<close>)
qed

lemma setEntry_new: "k \<notin> fst ` set es \<Longrightarrow> setEntry k v es = es @ [(k, v)]"
  by (induction es) auto

lemma setEntries: "distinct (map fst (ds @ es)) \<Longrightarrow> foldl (\<lambda>m e. setEntry (fst e) (snd e) m) ds es = ds @ es"
  by (induction es arbitrary: ds) (auto simp: setEntry_new)

lemma those_some: "those (map f xs) = Some ys \<longleftrightarrow> (\<forall>x\<in>set xs. f x \<noteq> None) \<and> ys = map (\<lambda>x. the (f x)) xs"
  by (induction xs arbitrary: ys) (auto split: option.splits)

lemma entries_reordered:
  assumes "mset fs = mset es" and "distinct (map fst es)" and "those (map g es) = Some ts"
  shows "\<exists>us. those (map g fs) = Some us \<and> distinct (map fst fs) \<and> map_of (zip (map fst fs) us) = map_of (zip (map fst es) ts)"
proof -
  have s: "set fs = set es" using assms(1) by (rule mset_eq_setD)
  have d: "distinct (map fst fs)" using assms(1,2) by (metis mset_map distinct_count_atmost_1 set_mset_mset)
  let ?f = "\<lambda>e. (fst e, the (g e))"
  have z: "zip (map fst xs) (map (\<lambda>e. the (g e)) xs) = map ?f xs" for xs by (induction xs) auto
  have k: "map fst (map ?f xs) = map fst xs" for xs by simp
  have "map_of (map ?f fs) = map_of (map ?f es)"
    by (rule map_of_inject_set [THEN iffD2]) (simp_all only: k d assms(2) set_map s)
  with assms(3) s d show ?thesis by (auto simp: those_some z)
qed

lemma copies_makeMap:
  assumes "refless T" and "\<And>es. mset (rangeOrder es) = mset es"
  shows "copies (TMap T) (makeMap rangeOrder)"
proof (rule copiesI)
  fix h v t v' h'
  assume h: "wf_heap h" "deref (TMap T) (cells h) v = Some t" "makeMap rangeOrder v h = (v', h')"
  show "extends h h' \<and> deref (TMap T) (region h h') v' = Some t"
  proof (cases v)
    case (Ref a)
    with h(2) obtain es ts where x: "cells h a = Some (Entries es)" "distinct (map fst es)"
      "those (map (\<lambda>e. deref T (cells h) (snd e)) es) = Some ts" "t = DictOf (map_of (zip (map fst es) ts))"
      by (auto split: option.splits cell.splits if_splits)
    obtain us where us: "those (map (\<lambda>e. deref T (cells h) (snd e)) (rangeOrder es)) = Some us" "distinct (map fst (rangeOrder es))"
      "map_of (zip (map fst (rangeOrder es)) us) = map_of (zip (map fst es) ts)"
      using entries_reordered [OF assms(2) x(2,3)] by blast
    obtain b h1 where b: "alloc (Entries []) h = (b, h1)" by fastforce
    have eq: "v' = Ref b" "h' = put b (Entries (rangeOrder es)) h1"
      using h(3) Ref x b setEntries [of "[]" "rangeOrder es"] us(2) by (simp_all add: makeMap_def)
    have e: "extends h1 h1" using alloc_extends [OF h(1) b] by (blast intro: extends_refl extends_wf)
    note new = put_new [OF h(1) b e, of "Entries (rangeOrder es)", folded eq(2)]
    have "those (map (\<lambda>e. deref T (region h h') (snd e)) (rangeOrder es)) = Some us"
      using us(1) refless_deref(1) [OF assms(1), of "cells h" _ "region h h'"] by simp
    with us(2,3) x(4) new show ?thesis by (simp add: eq(1))
  qed (use h in \<open>auto simp: makeMap_def extends_refl\<close>)
qed

lemma copyFields_deep:
  assumes "list_all (\<lambda>f. copies (snd f) (statement_for ss (fst f))) fs"
    and "wf_heap h" and "deref_fields fs (cells h) vs = Some ts" and "copyFields ss vs h = (ws, h')"
  shows "extends h h' \<and> deref_fields fs (region h h') ws = Some ts"
  using assms
proof (induction fs arbitrary: vs h ts ws)
  case Nil
  then show ?case by (auto simp: extends_refl split: if_splits)
next
  case (Cons f fs)
  from Cons.prems(3) obtain v vs' t ts' where v: "vs = v # vs'" "fst v = fst f" "deref (snd f) (cells h) (snd v) = Some t"
    "deref_fields fs (cells h) vs' = Some ts'" "ts = (fst f, t) # ts'"
    by (auto split: list.splits if_splits option.splits)
  from Cons.prems(4) obtain y h1 ys where y: "statement_for ss (fst f) (snd v) h = (y, h1)" "copyFields ss vs' h1 = (ys, h')"
    "ws = (fst f, y) # ys" by (auto simp: v(1,2) split: prod.splits)
  have c: "copies (snd f) (statement_for ss (fst f))" using Cons.prems(1) by simp
  have e1: "extends h h1" using copiesD [OF c Cons.prems(2) v(3) y(1)] by simp
  have "deref_fields fs (cells h1) vs' = Some ts'" using v(4) by (rule deref_mono(2)) (use e1 in \<open>simp add: extends_def\<close>)
  with Cons.IH [OF _ extends_wf [OF e1] _ y(2)] Cons.prems(1)
  have e2: "extends h1 h'" "deref_fields fs (region h1 h') ys = Some ts'" by simp_all
  from copy_then [OF c Cons.prems(2) v(3) y(1) e2(1)] deref_mono(2) [OF e2(2) region_end [OF e1]]
  show ?case by (simp add: y(3) v(5))
qed

text \<open>A struct is copied deeply if every field is: a field without a statement must be free of references.\<close>

lemma copies_into:
  assumes "list_all (\<lambda>f. copies (snd f) (statement_for ss (fst f))) fs"
  shows "copies (TStruct fs) (into ss)"
proof (rule copiesI)
  fix h v t v' h'
  assume h: "wf_heap h" "deref (TStruct fs) (cells h) v = Some t" "into ss v h = (v', h')"
  then obtain vs ts where v: "v = Struct vs" "deref_fields fs (cells h) vs = Some ts" "t = Rec ts" by (auto split: val.splits)
  obtain ws g where w: "copyFields ss vs h = (ws, g)" by fastforce
  from copyFields_deep [OF assms h(1) v(2) w] h(3) show "extends h h' \<and> deref (TStruct fs) (region h h') v' = Some t"
    by (auto simp: into_def v w)
qed

lemma copies_DeepCopy: "copies T c \<Longrightarrow> copies (TPtr T) (DeepCopy c)"
  using copies_newInto [of T c] by (auto simp: copies_def DeepCopy_def extends_refl)

lemma DeepCopyObject_eq: "DeepCopyObject c = c"
  by (auto simp: DeepCopyObject_def fun_eq_iff split_beta prod_eq_iff)

text \<open>
  What a deep copy is good for: the copy reads as the original, and stays so whatever is written to the cells that
  existed before; the original stays what it was whatever is written to any other cell.
\<close>

lemma copies_independent:
  assumes "copies T c" and "wf_heap h" and "deref T (cells h) v = Some t" and "c v h = (v', h')"
  shows "deref T (cells h') v' = Some t" "deref T (cells h') v = Some t"
    "(\<And>a. a \<notin> dom (cells h) \<Longrightarrow> m a = cells h' a) \<Longrightarrow> deref T m v' = Some t"
    "(\<And>a. a \<in> dom (cells h) \<Longrightarrow> m a = cells h' a) \<Longrightarrow> deref T m v = Some t"
proof -
  from copiesD [OF assms] have e: "extends h h'" and r: "deref T (region h h') v' = Some t" by auto
  show "deref T (cells h') v' = Some t" using r region_cells by (rule deref_mono(1))
  show "deref T (cells h') v = Some t" by (rule deref_old [OF assms(3) e])
  show "deref T m v' = Some t" if "\<And>a. a \<notin> dom (cells h) \<Longrightarrow> m a = cells h' a"
  proof (rule deref_mono(1) [OF r])
    have "a \<notin> dom (cells h)" if "frontier h \<le> a" for a using that assms(2) by (force simp: wf_heap_def)
    with that show "region h h' \<subseteq>\<^sub>m m" by (auto simp: region_def map_le_def restrict_map_def)
  qed
  show "deref T m v = Some t" if "\<And>a. a \<in> dom (cells h) \<Longrightarrow> m a = cells h' a"
    using assms(3) by (rule deref_mono(1)) (use that e in \<open>auto simp: map_le_def extends_def\<close>)
qed

end
