(* ===== verification/Deep_Copy.thy ===== *)
theory Deep_Copy
  imports Go_Memory
begin

text \<open>
  The generated copy functions (\<^verbatim>\<open>api/v1alpha1/zz_generated.deepcopy.go\<close>), over the layout of the structs of
  \<^verbatim>\<open>carbidedeployment_types.go\<close> in memory.  The client library copies every object that leaves its cache with them: it is
  because of them that a pass may change the resource it read without changing the cache, and that the rest of this
  development may treat resources as values.
\<close>

section \<open>Types and copy functions of the libraries\<close>

text \<open>
  The structs of Kubernetes that the API types contain, and their copy functions: parameters.  \<^verbatim>\<open>DeepCopy\<close> of
  \<^verbatim>\<open>metav1.Time\<close> takes and returns a pointer, \<^verbatim>\<open>DeepCopy\<close> of \<^verbatim>\<open>resource.Quantity\<close> a value.
\<close>

record go_lib =
  requirements_ty :: ty
  requirements_copy :: copier
  objectMeta_ty :: ty
  objectMeta_copy :: copier
  listMeta_ty :: ty
  listMeta_copy :: copier
  condition_ty :: ty
  condition_copy :: copier
  time_ty :: ty
  time_copy :: copier
  quantity_ty :: ty
  quantity_copy :: copier
  typeMeta_ty :: ty
  localRef_ty :: ty
  rangeOrder :: "(string \<times> val) list \<Rightarrow> (string \<times> val) list"

text \<open>Their copy functions are deep, and the two structs that are copied by assignment hold strings only;
  ranging over a map meets every entry once.\<close>

locale library_copies =
  fixes L :: go_lib
  assumes lib_copies: "copies (requirements_ty L) (requirements_copy L)" "copies (objectMeta_ty L) (objectMeta_copy L)"
      "copies (listMeta_ty L) (listMeta_copy L)" "copies (condition_ty L) (condition_copy L)"
      "copies (TPtr (time_ty L)) (time_copy L)" "copies (quantity_ty L) (quantity_copy L)"
    and lib_refless: "refless (typeMeta_ty L)" "refless (localRef_ty L)"
    and range_all: "mset (rangeOrder L es) = mset es"

section \<open>The structs\<close>

definition NetworkConfig_ty :: "go_lib \<Rightarrow> ty" where
  "NetworkConfig_ty L = TStruct
     [(''Interface'', TScalar), (''IP'', TScalar), (''AdminNetworkCIDR'', TScalar), (''Domain'', TScalar)]"

definition StorageSpec_ty :: "go_lib \<Rightarrow> ty" where
  "StorageSpec_ty L = TStruct
     [(''Size'', quantity_ty L), (''StorageClass'', TScalar), (''AccessMode'', TScalar)]"

definition SecretRef_ty :: "go_lib \<Rightarrow> ty" where
  "SecretRef_ty L = TStruct
     [(''Name'', TScalar), (''Key'', TScalar), (''UsernameKey'', TScalar), (''PasswordKey'', TScalar)]"

definition ExternalPGConnection_ty :: "go_lib \<Rightarrow> ty" where
  "ExternalPGConnection_ty L = TStruct
     [(''Host'', TScalar), (''Port'', TScalar), (''SSLMode'', TScalar), (''UserSecrets'', TMap (SecretRef_ty L))]"

definition PostgreSQLConfig_ty :: "go_lib \<Rightarrow> ty" where
  "PostgreSQLConfig_ty L = TStruct
     [(''Mode'', TScalar), (''Databases'', TSlice TScalar), (''Version'', TScalar),
      (''Storage'', TPtr (StorageSpec_ty L)), (''Replicas'', TScalar), (''Resources'', TPtr (requirements_ty L)),
      (''Connection'', TPtr (ExternalPGConnection_ty L))]"

definition InfrastructureConfig_ty :: "go_lib \<Rightarrow> ty" where
  "InfrastructureConfig_ty L = TStruct
     [(''StorageClass'', TScalar), (''PostgreSQL'', PostgreSQLConfig_ty L), (''Namespace'', TScalar)]"

definition APIConfig_ty :: "go_lib \<Rightarrow> ty" where
  "APIConfig_ty L = TStruct
     [(''Port'', TScalar), (''Replicas'', TScalar), (''Resources'', TPtr (requirements_ty L))]"

definition DHCPConfig_ty :: "go_lib \<Rightarrow> ty" where
  "DHCPConfig_ty L = TStruct
     [(''Enabled'', TScalar), (''Resources'', TPtr (requirements_ty L))]"

definition PXEConfig_ty :: "go_lib \<Rightarrow> ty" where
  "PXEConfig_ty L = TStruct
     [(''Enabled'', TScalar), (''Storage'', TPtr (StorageSpec_ty L)), (''Resources'', TPtr (requirements_ty L)),
      (''TFTPPort'', TScalar), (''HTTPPort'', TScalar)]"

definition DNSConfig_ty :: "go_lib \<Rightarrow> ty" where
  "DNSConfig_ty L = TStruct
     [(''Enabled'', TScalar), (''Resources'', TPtr (requirements_ty L)), (''Port'', TScalar)]"

definition SecurityConfig_ty :: "go_lib \<Rightarrow> ty" where
  "SecurityConfig_ty L = TStruct
     [(''TLSEnabled'', TScalar), (''RBACBypass'', TScalar)]"

definition VaultConfig_ty :: "go_lib \<Rightarrow> ty" where
  "VaultConfig_ty L = TStruct
     [(''Mode'', TScalar), (''Version'', TScalar), (''Storage'', TPtr (StorageSpec_ty L)), (''Address'', TScalar),
      (''TokenSecretRef'', TPtr (SecretRef_ty L)), (''KVMountPath'', TScalar)]"

definition RLAConfig_ty :: "go_lib \<Rightarrow> ty" where
  "RLAConfig_ty L = TStruct
     [(''Enabled'', TScalar), (''Port'', TScalar), (''Replicas'', TScalar), (''Resources'', TPtr (requirements_ty L))]"

definition PSMConfig_ty :: "go_lib \<Rightarrow> ty" where
  "PSMConfig_ty L = TStruct
     [(''Enabled'', TScalar), (''Port'', TScalar), (''Replicas'', TScalar), (''Resources'', TPtr (requirements_ty L))]"

definition CoreConfig_ty :: "go_lib \<Rightarrow> ty" where
  "CoreConfig_ty L = TStruct
     [(''Namespace'', TScalar), (''API'', APIConfig_ty L), (''DHCP'', DHCPConfig_ty L), (''PXE'', PXEConfig_ty L),
      (''DNS'', DNSConfig_ty L), (''Security'', TPtr (SecurityConfig_ty L)), (''Vault'', TPtr (VaultConfig_ty L)),
      (''RLA'', TPtr (RLAConfig_ty L)), (''PSM'', TPtr (PSMConfig_ty L))]"

definition TemporalConfig_ty :: "go_lib \<Rightarrow> ty" where
  "TemporalConfig_ty L = TStruct
     [(''Mode'', TScalar), (''Version'', TScalar), (''ChartVersion'', TScalar), (''Namespace'', TScalar),
      (''Replicas'', TScalar), (''Resources'', TPtr (requirements_ty L)), (''Endpoint'', TScalar),
      (''TLSSecretRef'', TPtr (SecretRef_ty L))]"

definition AuthProviderConfig_ty :: "go_lib \<Rightarrow> ty" where
  "AuthProviderConfig_ty L = TStruct
     [(''Name'', TScalar), (''IssuerURL'', TScalar), (''JWKSURL'', TScalar), (''ClientID'', TScalar),
      (''ClientSecretRef'', TPtr (SecretRef_ty L))]"

definition KeycloakConfig_ty :: "go_lib \<Rightarrow> ty" where
  "KeycloakConfig_ty L = TStruct
     [(''Mode'', TScalar), (''Realm'', TScalar), (''AdminPasswordSecretRef'', TPtr (SecretRef_ty L)),
      (''Resources'', TPtr (requirements_ty L)), (''AuthProviders'', TSlice (AuthProviderConfig_ty L))]"

definition RestAPIConfig_ty :: "go_lib \<Rightarrow> ty" where
  "RestAPIConfig_ty L = TStruct
     [(''Port'', TScalar), (''NodePort'', TScalar), (''Replicas'', TScalar), (''Resources'', TPtr (requirements_ty L))]"

definition SiteAgentConfig_ty :: "go_lib \<Rightarrow> ty" where
  "SiteAgentConfig_ty L = TStruct
     [(''Enabled'', TScalar), (''HubTemporalEndpoint'', TScalar), (''Resources'', TPtr (requirements_ty L))]"

definition RestConfig_ty :: "go_lib \<Rightarrow> ty" where
  "RestConfig_ty L = TStruct
     [(''Namespace'', TScalar), (''Enabled'', TScalar), (''Temporal'', TemporalConfig_ty L),
      (''Keycloak'', KeycloakConfig_ty L), (''RestAPI'', RestAPIConfig_ty L),
      (''SiteAgent'', TPtr (SiteAgentConfig_ty L))]"

definition ImageConfig_ty :: "go_lib \<Rightarrow> ty" where
  "ImageConfig_ty L = TStruct
     [(''Registry'', TScalar), (''BMMCore'', TScalar), (''RestAPI'', TScalar), (''SiteAgent'', TScalar),
      (''SiteManager'', TScalar), (''Workflow'', TScalar), (''RestDB'', TScalar), (''RLA'', TScalar),
      (''PSM'', TScalar), (''DHCP'', TScalar), (''DNS'', TScalar), (''PXE'', TScalar), (''PullPolicy'', TScalar),
      (''PullSecrets'', TSlice (localRef_ty L))]"

definition SPIFFEConfig_ty :: "go_lib \<Rightarrow> ty" where
  "SPIFFEConfig_ty L = TStruct
     [(''TrustDomain'', TScalar), (''HelperImage'', TScalar), (''ClassName'', TScalar)]"

definition CertManagerIssuerRef_ty :: "go_lib \<Rightarrow> ty" where
  "CertManagerIssuerRef_ty L = TStruct
     [(''Name'', TScalar), (''Kind'', TScalar), (''Group'', TScalar)]"

definition CertManagerConfig_ty :: "go_lib \<Rightarrow> ty" where
  "CertManagerConfig_ty L = TStruct
     [(''IssuerRef'', CertManagerIssuerRef_ty L)]"

definition TLSConfig_ty :: "go_lib \<Rightarrow> ty" where
  "TLSConfig_ty L = TStruct
     [(''Mode'', TScalar), (''SPIFFE'', TPtr (SPIFFEConfig_ty L)), (''CertManager'', TPtr (CertManagerConfig_ty L))]"

definition SiteRef_ty :: "go_lib \<Rightarrow> ty" where
  "SiteRef_ty L = TStruct
     [(''Cluster'', TScalar), (''Namespace'', TScalar), (''Name'', TScalar), (''UUID'', TScalar)]"

definition CarbideDeploymentSpec_ty :: "go_lib \<Rightarrow> ty" where
  "CarbideDeploymentSpec_ty L = TStruct
     [(''Profile'', TScalar), (''Version'', TScalar), (''Network'', NetworkConfig_ty L),
      (''Infrastructure'', TPtr (InfrastructureConfig_ty L)), (''Core'', CoreConfig_ty L),
      (''Rest'', TPtr (RestConfig_ty L)), (''Images'', TPtr (ImageConfig_ty L)), (''TLS'', TPtr (TLSConfig_ty L)),
      (''SiteRef'', TPtr (SiteRef_ty L))]"

definition ComponentStatus_ty :: "go_lib \<Rightarrow> ty" where
  "ComponentStatus_ty L = TStruct
     [(''Name'', TScalar), (''Ready'', TScalar), (''Message'', TScalar), (''LastTransitionTime'', TPtr (time_ty L))]"

definition TierStatus_ty :: "go_lib \<Rightarrow> ty" where
  "TierStatus_ty L = TStruct
     [(''Ready'', TScalar), (''Message'', TScalar), (''Components'', TSlice (ComponentStatus_ty L)),
      (''LastTransitionTime'', TPtr (time_ty L))]"

definition CarbideDeploymentStatus_ty :: "go_lib \<Rightarrow> ty" where
  "CarbideDeploymentStatus_ty L = TStruct
     [(''Phase'', TScalar), (''Infrastructure'', TPtr (TierStatus_ty L)), (''Core'', TPtr (TierStatus_ty L)),
      (''Rest'', TPtr (TierStatus_ty L)), (''ObservedGeneration'', TScalar), (''Conditions'', TSlice (condition_ty L))]"

definition CarbideDeployment_ty :: "go_lib \<Rightarrow> ty" where
  "CarbideDeployment_ty L = TStruct
     [(''TypeMeta'', typeMeta_ty L), (''ObjectMeta'', objectMeta_ty L), (''Spec'', CarbideDeploymentSpec_ty L),
      (''Status'', CarbideDeploymentStatus_ty L)]"

definition CarbideDeploymentList_ty :: "go_lib \<Rightarrow> ty" where
  "CarbideDeploymentList_ty L = TStruct
     [(''TypeMeta'', typeMeta_ty L), (''ListMeta'', listMeta_ty L), (''Items'', TSlice (CarbideDeployment_ty L))]"

lemmas struct_defs =
  NetworkConfig_ty_def StorageSpec_ty_def SecretRef_ty_def ExternalPGConnection_ty_def PostgreSQLConfig_ty_def
  InfrastructureConfig_ty_def APIConfig_ty_def DHCPConfig_ty_def PXEConfig_ty_def DNSConfig_ty_def
  SecurityConfig_ty_def VaultConfig_ty_def RLAConfig_ty_def PSMConfig_ty_def CoreConfig_ty_def TemporalConfig_ty_def
  AuthProviderConfig_ty_def KeycloakConfig_ty_def RestAPIConfig_ty_def SiteAgentConfig_ty_def RestConfig_ty_def
  ImageConfig_ty_def SPIFFEConfig_ty_def CertManagerIssuerRef_ty_def CertManagerConfig_ty_def TLSConfig_ty_def
  SiteRef_ty_def CarbideDeploymentSpec_ty_def ComponentStatus_ty_def TierStatus_ty_def CarbideDeploymentStatus_ty_def
  CarbideDeployment_ty_def CarbideDeploymentList_ty_def

section \<open>The copy functions\<close>

definition NetworkConfig_DeepCopyInto :: "go_lib \<Rightarrow> copier" where
  "NetworkConfig_DeepCopyInto L = into []"

definition NetworkConfig_DeepCopy :: "go_lib \<Rightarrow> copier" where
  "NetworkConfig_DeepCopy L = DeepCopy (NetworkConfig_DeepCopyInto L)"

definition StorageSpec_DeepCopyInto :: "go_lib \<Rightarrow> copier" where
  "StorageSpec_DeepCopyInto L = into
     [(''Size'', quantity_copy L)]"

definition StorageSpec_DeepCopy :: "go_lib \<Rightarrow> copier" where
  "StorageSpec_DeepCopy L = DeepCopy (StorageSpec_DeepCopyInto L)"

definition SecretRef_DeepCopyInto :: "go_lib \<Rightarrow> copier" where
  "SecretRef_DeepCopyInto L = into []"

definition SecretRef_DeepCopy :: "go_lib \<Rightarrow> copier" where
  "SecretRef_DeepCopy L = DeepCopy (SecretRef_DeepCopyInto L)"

definition ExternalPGConnection_DeepCopyInto :: "go_lib \<Rightarrow> copier" where
  "ExternalPGConnection_DeepCopyInto L = into
     [(''UserSecrets'', makeMap (rangeOrder L))]"

definition ExternalPGConnection_DeepCopy :: "go_lib \<Rightarrow> copier" where
  "ExternalPGConnection_DeepCopy L = DeepCopy (ExternalPGConnection_DeepCopyInto L)"

definition PostgreSQLConfig_DeepCopyInto :: "go_lib \<Rightarrow> copier" where
  "PostgreSQLConfig_DeepCopyInto L = into
     [(''Databases'', makeEach assign), (''Storage'', newInto (StorageSpec_DeepCopyInto L)),
      (''Resources'', newInto (requirements_copy L)), (''Connection'', newInto (ExternalPGConnection_DeepCopyInto L))]"

definition PostgreSQLConfig_DeepCopy :: "go_lib \<Rightarrow> copier" where
  "PostgreSQLConfig_DeepCopy L = DeepCopy (PostgreSQLConfig_DeepCopyInto L)"

definition InfrastructureConfig_DeepCopyInto :: "go_lib \<Rightarrow> copier" where
  "InfrastructureConfig_DeepCopyInto L = into
     [(''PostgreSQL'', PostgreSQLConfig_DeepCopyInto L)]"

definition InfrastructureConfig_DeepCopy :: "go_lib \<Rightarrow> copier" where
  "InfrastructureConfig_DeepCopy L = DeepCopy (InfrastructureConfig_DeepCopyInto L)"

definition APIConfig_DeepCopyInto :: "go_lib \<Rightarrow> copier" where
  "APIConfig_DeepCopyInto L = into
     [(''Resources'', newInto (requirements_copy L))]"

definition APIConfig_DeepCopy :: "go_lib \<Rightarrow> copier" where
  "APIConfig_DeepCopy L = DeepCopy (APIConfig_DeepCopyInto L)"

definition DHCPConfig_DeepCopyInto :: "go_lib \<Rightarrow> copier" where
  "DHCPConfig_DeepCopyInto L = into
     [(''Resources'', newInto (requirements_copy L))]"

definition DHCPConfig_DeepCopy :: "go_lib \<Rightarrow> copier" where
  "DHCPConfig_DeepCopy L = DeepCopy (DHCPConfig_DeepCopyInto L)"

definition PXEConfig_DeepCopyInto :: "go_lib \<Rightarrow> copier" where
  "PXEConfig_DeepCopyInto L = into
     [(''Storage'', newInto (StorageSpec_DeepCopyInto L)), (''Resources'', newInto (requirements_copy L))]"

definition PXEConfig_DeepCopy :: "go_lib \<Rightarrow> copier" where
  "PXEConfig_DeepCopy L = DeepCopy (PXEConfig_DeepCopyInto L)"

definition DNSConfig_DeepCopyInto :: "go_lib \<Rightarrow> copier" where
  "DNSConfig_DeepCopyInto L = into
     [(''Resources'', newInto (requirements_copy L))]"

definition DNSConfig_DeepCopy :: "go_lib \<Rightarrow> copier" where
  "DNSConfig_DeepCopy L = DeepCopy (DNSConfig_DeepCopyInto L)"

definition SecurityConfig_DeepCopyInto :: "go_lib \<Rightarrow> copier" where
  "SecurityConfig_DeepCopyInto L = into []"

definition SecurityConfig_DeepCopy :: "go_lib \<Rightarrow> copier" where
  "SecurityConfig_DeepCopy L = DeepCopy (SecurityConfig_DeepCopyInto L)"

definition VaultConfig_DeepCopyInto :: "go_lib \<Rightarrow> copier" where
  "VaultConfig_DeepCopyInto L = into
     [(''Storage'', newInto (StorageSpec_DeepCopyInto L)), (''TokenSecretRef'', newInto assign)]"

definition VaultConfig_DeepCopy :: "go_lib \<Rightarrow> copier" where
  "VaultConfig_DeepCopy L = DeepCopy (VaultConfig_DeepCopyInto L)"

definition RLAConfig_DeepCopyInto :: "go_lib \<Rightarrow> copier" where
  "RLAConfig_DeepCopyInto L = into
     [(''Resources'', newInto (requirements_copy L))]"

definition RLAConfig_DeepCopy :: "go_lib \<Rightarrow> copier" where
  "RLAConfig_DeepCopy L = DeepCopy (RLAConfig_DeepCopyInto L)"

definition PSMConfig_DeepCopyInto :: "go_lib \<Rightarrow> copier" where
  "PSMConfig_DeepCopyInto L = into
     [(''Resources'', newInto (requirements_copy L))]"

definition PSMConfig_DeepCopy :: "go_lib \<Rightarrow> copier" where
  "PSMConfig_DeepCopy L = DeepCopy (PSMConfig_DeepCopyInto L)"

definition CoreConfig_DeepCopyInto :: "go_lib \<Rightarrow> copier" where
  "CoreConfig_DeepCopyInto L = into
     [(''API'', APIConfig_DeepCopyInto L), (''DHCP'', DHCPConfig_DeepCopyInto L),
      (''PXE'', PXEConfig_DeepCopyInto L), (''DNS'', DNSConfig_DeepCopyInto L), (''Security'', newInto assign),
      (''Vault'', newInto (VaultConfig_DeepCopyInto L)), (''RLA'', newInto (RLAConfig_DeepCopyInto L)),
      (''PSM'', newInto (PSMConfig_DeepCopyInto L))]"

definition CoreConfig_DeepCopy :: "go_lib \<Rightarrow> copier" where
  "CoreConfig_DeepCopy L = DeepCopy (CoreConfig_DeepCopyInto L)"

definition TemporalConfig_DeepCopyInto :: "go_lib \<Rightarrow> copier" where
  "TemporalConfig_DeepCopyInto L = into
     [(''Resources'', newInto (requirements_copy L)), (''TLSSecretRef'', newInto assign)]"

definition TemporalConfig_DeepCopy :: "go_lib \<Rightarrow> copier" where
  "TemporalConfig_DeepCopy L = DeepCopy (TemporalConfig_DeepCopyInto L)"

definition AuthProviderConfig_DeepCopyInto :: "go_lib \<Rightarrow> copier" where
  "AuthProviderConfig_DeepCopyInto L = into
     [(''ClientSecretRef'', newInto assign)]"

definition AuthProviderConfig_DeepCopy :: "go_lib \<Rightarrow> copier" where
  "AuthProviderConfig_DeepCopy L = DeepCopy (AuthProviderConfig_DeepCopyInto L)"

definition KeycloakConfig_DeepCopyInto :: "go_lib \<Rightarrow> copier" where
  "KeycloakConfig_DeepCopyInto L = into
     [(''AdminPasswordSecretRef'', newInto assign), (''Resources'', newInto (requirements_copy L)),
      (''AuthProviders'', makeEach (AuthProviderConfig_DeepCopyInto L))]"

definition KeycloakConfig_DeepCopy :: "go_lib \<Rightarrow> copier" where
  "KeycloakConfig_DeepCopy L = DeepCopy (KeycloakConfig_DeepCopyInto L)"

definition RestAPIConfig_DeepCopyInto :: "go_lib \<Rightarrow> copier" where
  "RestAPIConfig_DeepCopyInto L = into
     [(''Resources'', newInto (requirements_copy L))]"

definition RestAPIConfig_DeepCopy :: "go_lib \<Rightarrow> copier" where
  "RestAPIConfig_DeepCopy L = DeepCopy (RestAPIConfig_DeepCopyInto L)"

definition SiteAgentConfig_DeepCopyInto :: "go_lib \<Rightarrow> copier" where
  "SiteAgentConfig_DeepCopyInto L = into
     [(''Resources'', newInto (requirements_copy L))]"

definition SiteAgentConfig_DeepCopy :: "go_lib \<Rightarrow> copier" where
  "SiteAgentConfig_DeepCopy L = DeepCopy (SiteAgentConfig_DeepCopyInto L)"

definition RestConfig_DeepCopyInto :: "go_lib \<Rightarrow> copier" where
  "RestConfig_DeepCopyInto L = into
     [(''Temporal'', TemporalConfig_DeepCopyInto L), (''Keycloak'', KeycloakConfig_DeepCopyInto L),
      (''RestAPI'', RestAPIConfig_DeepCopyInto L), (''SiteAgent'', newInto (SiteAgentConfig_DeepCopyInto L))]"

definition RestConfig_DeepCopy :: "go_lib \<Rightarrow> copier" where
  "RestConfig_DeepCopy L = DeepCopy (RestConfig_DeepCopyInto L)"

definition ImageConfig_DeepCopyInto :: "go_lib \<Rightarrow> copier" where
  "ImageConfig_DeepCopyInto L = into
     [(''PullSecrets'', makeEach assign)]"

definition ImageConfig_DeepCopy :: "go_lib \<Rightarrow> copier" where
  "ImageConfig_DeepCopy L = DeepCopy (ImageConfig_DeepCopyInto L)"

definition SPIFFEConfig_DeepCopyInto :: "go_lib \<Rightarrow> copier" where
  "SPIFFEConfig_DeepCopyInto L = into []"

definition SPIFFEConfig_DeepCopy :: "go_lib \<Rightarrow> copier" where
  "SPIFFEConfig_DeepCopy L = DeepCopy (SPIFFEConfig_DeepCopyInto L)"

definition CertManagerIssuerRef_DeepCopyInto :: "go_lib \<Rightarrow> copier" where
  "CertManagerIssuerRef_DeepCopyInto L = into []"

definition CertManagerIssuerRef_DeepCopy :: "go_lib \<Rightarrow> copier" where
  "CertManagerIssuerRef_DeepCopy L = DeepCopy (CertManagerIssuerRef_DeepCopyInto L)"

definition CertManagerConfig_DeepCopyInto :: "go_lib \<Rightarrow> copier" where
  "CertManagerConfig_DeepCopyInto L = into
     [(''IssuerRef'', assign)]"

definition CertManagerConfig_DeepCopy :: "go_lib \<Rightarrow> copier" where
  "CertManagerConfig_DeepCopy L = DeepCopy (CertManagerConfig_DeepCopyInto L)"

definition TLSConfig_DeepCopyInto :: "go_lib \<Rightarrow> copier" where
  "TLSConfig_DeepCopyInto L = into
     [(''SPIFFE'', newInto assign), (''CertManager'', newInto assign)]"

definition TLSConfig_DeepCopy :: "go_lib \<Rightarrow> copier" where
  "TLSConfig_DeepCopy L = DeepCopy (TLSConfig_DeepCopyInto L)"

definition SiteRef_DeepCopyInto :: "go_lib \<Rightarrow> copier" where
  "SiteRef_DeepCopyInto L = into []"

definition SiteRef_DeepCopy :: "go_lib \<Rightarrow> copier" where
  "SiteRef_DeepCopy L = DeepCopy (SiteRef_DeepCopyInto L)"

definition CarbideDeploymentSpec_DeepCopyInto :: "go_lib \<Rightarrow> copier" where
  "CarbideDeploymentSpec_DeepCopyInto L = into
     [(''Network'', assign), (''Infrastructure'', newInto (InfrastructureConfig_DeepCopyInto L)),
      (''Core'', CoreConfig_DeepCopyInto L), (''Rest'', newInto (RestConfig_DeepCopyInto L)),
      (''Images'', newInto (ImageConfig_DeepCopyInto L)), (''TLS'', newInto (TLSConfig_DeepCopyInto L)),
      (''SiteRef'', newInto assign)]"

definition CarbideDeploymentSpec_DeepCopy :: "go_lib \<Rightarrow> copier" where
  "CarbideDeploymentSpec_DeepCopy L = DeepCopy (CarbideDeploymentSpec_DeepCopyInto L)"

definition ComponentStatus_DeepCopyInto :: "go_lib \<Rightarrow> copier" where
  "ComponentStatus_DeepCopyInto L = into
     [(''LastTransitionTime'', time_copy L)]"

definition ComponentStatus_DeepCopy :: "go_lib \<Rightarrow> copier" where
  "ComponentStatus_DeepCopy L = DeepCopy (ComponentStatus_DeepCopyInto L)"

definition TierStatus_DeepCopyInto :: "go_lib \<Rightarrow> copier" where
  "TierStatus_DeepCopyInto L = into
     [(''Components'', makeEach (ComponentStatus_DeepCopyInto L)), (''LastTransitionTime'', time_copy L)]"

definition TierStatus_DeepCopy :: "go_lib \<Rightarrow> copier" where
  "TierStatus_DeepCopy L = DeepCopy (TierStatus_DeepCopyInto L)"

definition CarbideDeploymentStatus_DeepCopyInto :: "go_lib \<Rightarrow> copier" where
  "CarbideDeploymentStatus_DeepCopyInto L = into
     [(''Infrastructure'', newInto (TierStatus_DeepCopyInto L)), (''Core'', newInto (TierStatus_DeepCopyInto L)),
      (''Rest'', newInto (TierStatus_DeepCopyInto L)), (''Conditions'', makeEach (condition_copy L))]"

definition CarbideDeploymentStatus_DeepCopy :: "go_lib \<Rightarrow> copier" where
  "CarbideDeploymentStatus_DeepCopy L = DeepCopy (CarbideDeploymentStatus_DeepCopyInto L)"

definition CarbideDeployment_DeepCopyInto :: "go_lib \<Rightarrow> copier" where
  "CarbideDeployment_DeepCopyInto L = into
     [(''TypeMeta'', assign), (''ObjectMeta'', objectMeta_copy L), (''Spec'', CarbideDeploymentSpec_DeepCopyInto L),
      (''Status'', CarbideDeploymentStatus_DeepCopyInto L)]"

definition CarbideDeployment_DeepCopy :: "go_lib \<Rightarrow> copier" where
  "CarbideDeployment_DeepCopy L = DeepCopy (CarbideDeployment_DeepCopyInto L)"

definition CarbideDeployment_DeepCopyObject :: "go_lib \<Rightarrow> copier" where
  "CarbideDeployment_DeepCopyObject L = DeepCopyObject (CarbideDeployment_DeepCopy L)"

definition CarbideDeploymentList_DeepCopyInto :: "go_lib \<Rightarrow> copier" where
  "CarbideDeploymentList_DeepCopyInto L = into
     [(''TypeMeta'', assign), (''ListMeta'', listMeta_copy L),
      (''Items'', makeEach (CarbideDeployment_DeepCopyInto L))]"

definition CarbideDeploymentList_DeepCopy :: "go_lib \<Rightarrow> copier" where
  "CarbideDeploymentList_DeepCopy L = DeepCopy (CarbideDeploymentList_DeepCopyInto L)"

definition CarbideDeploymentList_DeepCopyObject :: "go_lib \<Rightarrow> copier" where
  "CarbideDeploymentList_DeepCopyObject L = DeepCopyObject (CarbideDeploymentList_DeepCopy L)"

lemmas copy_defs =
  NetworkConfig_DeepCopyInto_def StorageSpec_DeepCopyInto_def SecretRef_DeepCopyInto_def
  ExternalPGConnection_DeepCopyInto_def PostgreSQLConfig_DeepCopyInto_def InfrastructureConfig_DeepCopyInto_def
  APIConfig_DeepCopyInto_def DHCPConfig_DeepCopyInto_def PXEConfig_DeepCopyInto_def DNSConfig_DeepCopyInto_def
  SecurityConfig_DeepCopyInto_def VaultConfig_DeepCopyInto_def RLAConfig_DeepCopyInto_def PSMConfig_DeepCopyInto_def
  CoreConfig_DeepCopyInto_def TemporalConfig_DeepCopyInto_def AuthProviderConfig_DeepCopyInto_def
  KeycloakConfig_DeepCopyInto_def RestAPIConfig_DeepCopyInto_def SiteAgentConfig_DeepCopyInto_def
  RestConfig_DeepCopyInto_def ImageConfig_DeepCopyInto_def SPIFFEConfig_DeepCopyInto_def
  CertManagerIssuerRef_DeepCopyInto_def CertManagerConfig_DeepCopyInto_def TLSConfig_DeepCopyInto_def
  SiteRef_DeepCopyInto_def CarbideDeploymentSpec_DeepCopyInto_def ComponentStatus_DeepCopyInto_def
  TierStatus_DeepCopyInto_def CarbideDeploymentStatus_DeepCopyInto_def CarbideDeployment_DeepCopyInto_def
  CarbideDeploymentList_DeepCopyInto_def

lemmas DeepCopy_defs =
  NetworkConfig_DeepCopy_def StorageSpec_DeepCopy_def SecretRef_DeepCopy_def ExternalPGConnection_DeepCopy_def
  PostgreSQLConfig_DeepCopy_def InfrastructureConfig_DeepCopy_def APIConfig_DeepCopy_def DHCPConfig_DeepCopy_def
  PXEConfig_DeepCopy_def DNSConfig_DeepCopy_def SecurityConfig_DeepCopy_def VaultConfig_DeepCopy_def
  RLAConfig_DeepCopy_def PSMConfig_DeepCopy_def CoreConfig_DeepCopy_def TemporalConfig_DeepCopy_def
  AuthProviderConfig_DeepCopy_def KeycloakConfig_DeepCopy_def RestAPIConfig_DeepCopy_def SiteAgentConfig_DeepCopy_def
  RestConfig_DeepCopy_def ImageConfig_DeepCopy_def SPIFFEConfig_DeepCopy_def CertManagerIssuerRef_DeepCopy_def
  CertManagerConfig_DeepCopy_def TLSConfig_DeepCopy_def SiteRef_DeepCopy_def CarbideDeploymentSpec_DeepCopy_def
  ComponentStatus_DeepCopy_def TierStatus_DeepCopy_def CarbideDeploymentStatus_DeepCopy_def
  CarbideDeployment_DeepCopy_def CarbideDeploymentList_DeepCopy_def

text \<open>Every struct with its copy function.\<close>

definition api_copiers :: "go_lib \<Rightarrow> (string \<times> ty \<times> copier) list" where
  "api_copiers L =
     [(''NetworkConfig'', NetworkConfig_ty L, NetworkConfig_DeepCopy L),
      (''StorageSpec'', StorageSpec_ty L, StorageSpec_DeepCopy L),
      (''SecretRef'', SecretRef_ty L, SecretRef_DeepCopy L),
      (''ExternalPGConnection'', ExternalPGConnection_ty L, ExternalPGConnection_DeepCopy L),
      (''PostgreSQLConfig'', PostgreSQLConfig_ty L, PostgreSQLConfig_DeepCopy L),
      (''InfrastructureConfig'', InfrastructureConfig_ty L, InfrastructureConfig_DeepCopy L),
      (''APIConfig'', APIConfig_ty L, APIConfig_DeepCopy L),
      (''DHCPConfig'', DHCPConfig_ty L, DHCPConfig_DeepCopy L),
      (''PXEConfig'', PXEConfig_ty L, PXEConfig_DeepCopy L),
      (''DNSConfig'', DNSConfig_ty L, DNSConfig_DeepCopy L),
      (''SecurityConfig'', SecurityConfig_ty L, SecurityConfig_DeepCopy L),
      (''VaultConfig'', VaultConfig_ty L, VaultConfig_DeepCopy L),
      (''RLAConfig'', RLAConfig_ty L, RLAConfig_DeepCopy L),
      (''PSMConfig'', PSMConfig_ty L, PSMConfig_DeepCopy L),
      (''CoreConfig'', CoreConfig_ty L, CoreConfig_DeepCopy L),
      (''TemporalConfig'', TemporalConfig_ty L, TemporalConfig_DeepCopy L),
      (''AuthProviderConfig'', AuthProviderConfig_ty L, AuthProviderConfig_DeepCopy L),
      (''KeycloakConfig'', KeycloakConfig_ty L, KeycloakConfig_DeepCopy L),
      (''RestAPIConfig'', RestAPIConfig_ty L, RestAPIConfig_DeepCopy L),
      (''SiteAgentConfig'', SiteAgentConfig_ty L, SiteAgentConfig_DeepCopy L),
      (''RestConfig'', RestConfig_ty L, RestConfig_DeepCopy L),
      (''ImageConfig'', ImageConfig_ty L, ImageConfig_DeepCopy L),
      (''SPIFFEConfig'', SPIFFEConfig_ty L, SPIFFEConfig_DeepCopy L),
      (''CertManagerIssuerRef'', CertManagerIssuerRef_ty L, CertManagerIssuerRef_DeepCopy L),
      (''CertManagerConfig'', CertManagerConfig_ty L, CertManagerConfig_DeepCopy L),
      (''TLSConfig'', TLSConfig_ty L, TLSConfig_DeepCopy L),
      (''SiteRef'', SiteRef_ty L, SiteRef_DeepCopy L),
      (''CarbideDeploymentSpec'', CarbideDeploymentSpec_ty L, CarbideDeploymentSpec_DeepCopy L),
      (''ComponentStatus'', ComponentStatus_ty L, ComponentStatus_DeepCopy L),
      (''TierStatus'', TierStatus_ty L, TierStatus_DeepCopy L),
      (''CarbideDeploymentStatus'', CarbideDeploymentStatus_ty L, CarbideDeploymentStatus_DeepCopy L),
      (''CarbideDeployment'', CarbideDeployment_ty L, CarbideDeployment_DeepCopy L),
      (''CarbideDeploymentList'', CarbideDeploymentList_ty L, CarbideDeploymentList_DeepCopy L)]"

section \<open>All of them are deep\<close>

context library_copies
begin

lemmas deep = copies_into copies_assign copies_newInto copies_makeEach copies_makeMap lib_copies lib_refless range_all statement_for_def

lemma api_deep: "list_all (\<lambda>(n, T, c). copies (TPtr T) c) (api_copiers L)"
  unfolding api_copiers_def DeepCopy_defs by (simp add: copies_DeepCopy struct_defs copy_defs deep)

end

text \<open>\<^verbatim>\<open>DeepCopyObject\<close> is \<^verbatim>\<open>DeepCopy\<close> behind an interface.\<close>

lemma object_copies: "CarbideDeployment_DeepCopyObject = CarbideDeployment_DeepCopy" "CarbideDeploymentList_DeepCopyObject = CarbideDeploymentList_DeepCopy"
  by (simp_all add: fun_eq_iff CarbideDeployment_DeepCopyObject_def CarbideDeploymentList_DeepCopyObject_def DeepCopyObject_eq)

section \<open>Properties\<close>

text \<open>
  C11: copies are independent, for every struct of the API and every value of it in memory, nil and empty slices
  included: the copy reads as the original does, and from then on nothing that is written to memory that existed
  before the copy changes the copy, and nothing written to any other memory changes the original.
\<close>
theorem deep_copy_independent:
  assumes "library_copies L" and "(name, T, copy) \<in> set (api_copiers L)" and "wf_heap h"
    and "deref (TPtr T) (cells h) v = Some t" and "copy v h = (v', h')"
  shows "deref (TPtr T) (cells h') v' = Some t \<and> deref (TPtr T) (cells h') v = Some t \<and>
    (\<forall>m. (\<forall>a. a \<notin> dom (cells h) \<longrightarrow> m a = cells h' a) \<longrightarrow> deref (TPtr T) m v' = Some t) \<and>
    (\<forall>m. (\<forall>a. a \<in> dom (cells h) \<longrightarrow> m a = cells h' a) \<longrightarrow> deref (TPtr T) m v = Some t)"
proof -
  have "copies (TPtr T) copy" using library_copies.api_deep [OF assms(1)] assms(2) by (auto simp: list_all_iff)
  note c = copies_independent [OF this assms(3-5)]
  show ?thesis using c(1,2) by (intro conjI allI impI c(3,4)) auto
qed

section \<open>Witnesses\<close>

text \<open>Small structs in the place of those of the libraries, with the copy functions the generator would write for them.\<close>

definition sample_go :: go_lib where
  "sample_go =
     \<lparr>requirements_ty = TStruct [(''Limits'', TMap TScalar), (''Requests'', TMap TScalar)],
      requirements_copy = into [(''Limits'', makeMap rev), (''Requests'', makeMap rev)],
      objectMeta_ty = TStruct [(''Name'', TScalar), (''Finalizers'', TSlice TScalar)],
      objectMeta_copy = into [(''Finalizers'', makeEach assign)],
      listMeta_ty = TStruct [(''Continue'', TScalar)], listMeta_copy = into [],
      condition_ty = TStruct [(''Type'', TScalar), (''Status'', TScalar)], condition_copy = into [],
      time_ty = TStruct [(''Time'', TScalar)], time_copy = DeepCopy (into []),
      quantity_ty = TStruct [(''Value'', TScalar)], quantity_copy = into [],
      typeMeta_ty = TStruct [(''Kind'', TScalar)], localRef_ty = TStruct [(''Name'', TScalar)],
      rangeOrder = rev\<rparr>"

interpretation sample_copies: library_copies sample_go
  by unfold_locales
    (simp_all add: sample_go_def copies_DeepCopy copies_into copies_assign copies_newInto copies_makeEach copies_makeMap
      statement_for_def)

text \<open>A tier status with one component; both refer to the same time.\<close>

definition sample_heap :: heap where
  "sample_heap =
     \<lparr>cells = [0 \<mapsto> Obj (Struct [(''Time'', Scalar (IntVal 7))]),
               1 \<mapsto> Elems [Struct [(''Name'', Scalar (StrVal ''API'')), (''Ready'', Scalar (BoolVal True)),
                                  (''Message'', Scalar (StrVal [])), (''LastTransitionTime'', Ref 0)]],
               2 \<mapsto> Obj (Struct [(''Ready'', Scalar (BoolVal True)), (''Message'', Scalar (StrVal [])),
                                (''Components'', Slice 1 0 1), (''LastTransitionTime'', Ref 0)])],
      frontier = 3\<rparr>"

theorem deep_copy_independent_witness:
  "\<exists>t q h'. deref (TPtr (TierStatus_ty sample_go)) (cells sample_heap) (Ref 2) = Some t \<and>
     TierStatus_DeepCopy sample_go (Ref 2) sample_heap = (q, h') \<and>
     deref (TPtr (TierStatus_ty sample_go)) ((cells h')(1 \<mapsto> Elems [])) q = Some t"
proof -
  obtain t where t: "deref (TPtr (TierStatus_ty sample_go)) (cells sample_heap) (Ref 2) = Some t"
    by (simp add: TierStatus_ty_def ComponentStatus_ty_def sample_go_def sample_heap_def)
  obtain q h' where q: "TierStatus_DeepCopy sample_go (Ref 2) sample_heap = (q, h')" by fastforce
  have mem: "(''TierStatus'', TierStatus_ty sample_go, TierStatus_DeepCopy sample_go) \<in> set (api_copiers sample_go)"
    by (simp add: api_copiers_def)
  have wf: "wf_heap sample_heap" by (auto simp: wf_heap_def sample_heap_def dom_def split: if_splits)
  have "\<forall>a. a \<notin> dom (cells sample_heap) \<longrightarrow> ((cells h')(1 \<mapsto> Elems [])) a = cells h' a" by (simp add: sample_heap_def)
  with deep_copy_independent [OF sample_copies.library_copies_axioms mem wf t q] t q show ?thesis by blast
qed

end
