(* ===== verification/Spec2Isabelle.thy ===== *)
theory Spec2Isabelle
  imports Lifecycle Keycloak_Admin Access Store Legacy_Spiffe Deep_Copy
begin

text \<open>
  A verification library for the Carbide operator (a Kubernetes operator in Go).

  \<^bold>\<open>The program.\<close>  A CarbideDeployment resource describes a bare-metal management site.  An admission
  webhook defaults and validates it (\<^verbatim>\<open>api/v1alpha1/carbidedeployment_webhook.go\<close>).  A controller
  (\<^verbatim>\<open>internal/controller/carbidedeployment_controller.go\<close>) is woken for it and makes one pass: it keeps a
  finalizer, initialises the status, checks that the TLS backend is there and then reconciles three tiers in
  order, infrastructure (PostgreSQL), core (API, DHCP, PXE, DNS, Vault, RLA, PSM) and REST (Temporal, Keycloak,
  REST API, workers, site manager, site agent).  A tier reconciler builds its Kubernetes objects with
  \<^verbatim>\<open>internal/resources\<close>, writes them with \<^verbatim>\<open>createOrUpdate\<close>, looks whether they are up with
  \<^verbatim>\<open>internal/utils\<close>, and returns a tier status.  From the tier statuses \<^verbatim>\<open>internal/conditions\<close> computes the
  conditions and the phase, which the controller stores.  \<^verbatim>\<open>cmd/main.go\<close> registers controller and webhook with a
  manager and starts it.

  \<^bold>\<open>The theories\<close>, in the order of their imports.
  \<^item> \<open>Prelude\<close>: strings, decimal printing of 32-bit integers, Go errors (\<open>goerror\<close>: not-found, conflict, other,
    made by \<^verbatim>\<open>fmt.Errorf\<close> with or without wrapping) and the shared lemmas.
  \<^item> \<open>Api_Types\<close>: every struct of \<^verbatim>\<open>carbidedeployment_types.go\<close> as a record; pointers are options, ports and
    replicas \<open>32 word\<close>, enumerations strings as in Go.  \<open>Samples\<close>: concrete resources.
  \<^item> \<open>Webhook\<close> (the defaulter, section by section), \<open>Validation\<close> (the validator as a list of checks that stops at
    the first error, and its order-free specification), \<open>Admission\<close> (a locale for a defaulter that fills sections, the step
    relation of admitted updates, and the properties of the webhook).
  \<^item> \<open>K8s_Objects\<close>: the Kubernetes objects the operator handles, typed ones and unstructured ones (JSON trees).
  \<^item> \<open>Effects\<close>: programs.  A Go function with effects is a tree of calls (API server, event recorder, clock, network
    probes, map iteration order) with a continuation for every possible answer.  \<open>runs p r tr\<close>: \<open>p\<close> can return \<open>r\<close>
    after the exchange \<open>tr\<close>.  Nothing is assumed of the answers, so a theorem over all runs holds against every API
    server and every interleaving with other clients.  Programs are well-founded trees: every loop of the operator is over
    a list, no fuel is needed, and every program has a run.  \<open>exec\<close> runs a program against a concrete environment.
  \<^item> \<open>Client\<close>: \<^verbatim>\<open>createOrUpdate\<close> of the three reconcilers, with the locale \<open>writer\<close> for their contract.
  \<^item> \<open>Conditions\<close> (\<^verbatim>\<open>internal/conditions/helpers.go\<close>), with the locale \<open>condition_laws\<close> for the apimachinery helpers.
  \<^item> \<open>Readiness\<close> (\<^verbatim>\<open>internal/utils/readiness.go\<close>, \<^verbatim>\<open>operators.go\<close> and the two detectors of \<^verbatim>\<open>internal/resources/tls\<close>),
    with the locale \<open>readiness_check\<close>; \<open>External\<close> (\<^verbatim>\<open>internal/utils/external.go\<close>).
  \<^item> \<open>Tls\<close> (\<^verbatim>\<open>internal/resources/tls\<close> and \<^verbatim>\<open>common.go\<close>), \<open>Postgres_Resources\<close>, \<open>Core_Resources\<close>, \<open>Rest_Resources\<close>
    (\<^verbatim>\<open>internal/resources/infrastructure\<close>, \<^verbatim>\<open>core\<close>, \<^verbatim>\<open>rest\<close>), and \<open>Keycloak_Admin\<close> (the generated admin password): one
    definition per builder.  \<open>Legacy_Spiffe\<close> (\<^verbatim>\<open>internal/resources/spiffe\<close>): the delegations to \<open>Tls\<close>, which interpret its
    locale of injectors.
  \<^item> \<open>Go_Memory\<close>: memory with references, and copying in it; \<open>Deep_Copy\<close>: the generated copy functions
    (\<^verbatim>\<open>zz_generated.deepcopy.go\<close>) over the layout of the API structs, with the locale \<open>library_copies\<close> for those of Kubernetes.
    They are what allows the other theories to treat resources as values.
  \<^item> \<open>Store\<close>: an API server that versions its objects and may be written by others in between; the locale \<open>upserter\<close>, of which all
    write functions of \<open>Client\<close> are instances.
  \<^item> \<open>Trace_Logic\<close>: a program logic for runs.  \<open>valid G h p Q\<close>: after the history \<open>h\<close>, every event of \<open>p\<close> is issued at a
    history that \<open>G\<close> allows, and the result and final history satisfy \<open>Q\<close>.
  \<^item> \<open>Tier\<close>: what the three tier reconcilers share (component statuses, stages, failures), and the locale
    \<open>tier_reconciler\<close>: a ready status is returned only with a nil error, all components ready and the evidence of the
    tier in the trace; only its own objects are written; no panic on a complete TLS section.
  \<^item> \<open>Infra_Reconciler\<close>, \<open>Core_Reconciler\<close>, \<open>Rest_Reconciler\<close>: the tiers, each an interpretation of \<open>tier_reconciler\<close>.
  \<^item> \<open>Controller\<close>: the pass, and the locale \<open>controller\<close>, which knows the tiers only through \<open>tier_reconciler\<close>;
    \<open>carbide\<close> interprets it on the three tiers.
  \<^item> \<open>Sample_Server\<close>: an API server on which every workload is up, and \<open>Sample_Passes\<close>, passes over concrete sites on it, for
    the witnesses; \<open>Convergence\<close>: the same server storing the resource, and repeated passes on it.
  \<^item> \<open>Status_Updates\<close>: how the status moves within a pass, by induction over its moves; the locale \<open>condition_store\<close> extends
    \<open>condition_laws\<close> by what the helpers leave in the list.
  \<^item> \<open>Budget\<close>: a bound on the calls of every function and of the pass, and the kinds of objects they concern.
  \<^item> \<open>Lifecycle\<close>: the versions of a resource on the API server under edits of users, the webhook and passes that read current or
    stale versions, as a step relation with its invariant.
  \<^item> \<open>Startup\<close>: \<^verbatim>\<open>cmd/main.go\<close>, \<^verbatim>\<open>groupversion_info.go\<close> and the watches of \<^verbatim>\<open>SetupWithManager\<close>; \<open>Access\<close>: the rbac markers of the
    controller against the requests of a pass, and the scheme of the client.

  \<^bold>\<open>What is shown.\<close>  This theory: when a pass may store the phase Ready, when it may end without asking to be woken
  again, what it may write and in which order, what it does to the resource itself, which errors it returns, that it does
  not panic on admitted resources, and that three passes bring an admitted resource with managed backends to Ready on a
  healthy cluster.  \<open>Lifecycle\<close>: every reachable version is sound, the operator never undoes an edit, Ready with the current
  generation observed speaks of the current spec, and Ready stays within reach.  \<open>Budget\<close>: a pass ends after a bounded number of
  calls.  \<open>Status_Updates\<close>: stored statuses obey the schema, and what each phase means.  The tier theories: readiness only
  on evidence of the same pass, and the order of the stages.  \<open>Admission\<close>: defaulting is idempotent, keeps user values and
  validity; the validator accepts exactly the valid specs; what updates can and cannot change.  \<open>Store\<close>: writing is an upsert,
  and which concurrent writes it survives.  \<open>Access\<close>: the role is enough for every request.  \<open>Startup\<close>: the manager starts only after
  everything before it succeeded.  \<open>Deep_Copy\<close>: no write to a copy changes the original, nor the other way round.  The others: exactness of conditions and readiness checks, soundness of the validation of
  external services, TLS injection, Services that select their pods, owners of databases.

  Some theorems state a defect: a disabled REST section never gets ready, a site needs the optional infrastructure
  section, a managed Keycloak is looked up under another name than it is created, PXE mounts a missing volume, the
  immutable namespace can be changed in two updates, HTTP/2 is switched off for one of two servers, most declared conditions are
  never reported, an API server that refuses escalation keeps sites with a site manager or a managed Vault from becoming ready, and
  the client of \<^verbatim>\<open>cmd/main.go\<close> cannot read the definition by which managed PostgreSQL is detected.  The theorems on convergence
  are for a client that can read it and a server that allows the operator its writes.

  \<^bold>\<open>Parameters.\<close>  The printer of resource quantities (\<open>qstr\<close>); \<^verbatim>\<open>meta.SetStatusCondition\<close> and
  \<^verbatim>\<open>meta.FindStatusCondition\<close> (\<open>status_lib\<close>, laws \<open>condition_laws\<close>); the finalizer helpers (\<open>finalizer_lib\<close>, laws
  \<open>finalizer_laws\<close>); the bytes of \<^verbatim>\<open>crypto/rand\<close>; the structs of Kubernetes and their
  copy functions (\<open>go_lib\<close>, laws \<open>library_copies\<close>); and all answers of the environment.  All sets of laws are interpreted on
  small implementations for the witnesses.

  \<^bold>\<open>Not modelled.\<close>  Logging; the parsing of the command line and the manager, its servers and caches (code of
  controller-runtime); test helpers (shell commands and a stub server of the end-to-end tests); manifests.  Of memory, \<open>Go_Memory\<close>
  has what copying needs: structs, pointers, slices that may share an array, and maps.  Safety is
  stated for a single pass against any environment, hence for every sequence of passes; the theorems on repeated passes are
  for a cluster on which the workloads are already up.  In \<open>Lifecycle\<close> users do not write the status and do not take the finalizer of
  the operator off a resource that is not being deleted.
\<close>

section \<open>Properties\<close>

text \<open>
  C1: a status with phase Ready is written only on evidence of the same pass: the resource was read
  live, the configured TLS backend was seen, and the infrastructure tier (if configured), the core
  tier and the REST tier (if enabled) each gathered the evidence their readiness stands for.
\<close>
theorem ready_is_justified:
  assumes "condition_laws L" and "runs (Reconcile (SetupWithManager qstr) L F ns n) out (pre @ EStatusUpdate l a # post)"
    and "status_phase (cd_status l) = PhaseReady"
  shows "\<exists>d. fetched ns n d pre \<and> live F d \<and> justified (infra_evidence qstr) core_evidence (rest_evidence qstr) d pre"
proof -
  obtain d where "fetched ns n d pre" "live F d" "justified (infra_evidence qstr) core_evidence (rest_evidence qstr) d pre"
    using assms(1,3) by (blast intro: pass_status [OF assms(2)])
  then show ?thesis by blast
qed

text \<open>
  C2: no lost wake-up.  A pass that ends without an error and without a requeue is a pass over a
  resource that is gone or being deleted, or it has just stored the phase Ready; the one exception is a
  resource whose REST section is present but disabled and whose stored REST status is not ready.
\<close>
theorem no_lost_wakeup:
  assumes "condition_laws L" and "runs (Reconcile (SetupWithManager qstr) L F ns n) (Returned res None) tr"
    and "\<not> requeue res" and "requeue_after res = 0"
  shows "(\<exists>e. IsNotFound e \<and> tr = [EGet KCarbideDeployment ns n (Inl e)]) \<or>
    (\<exists>d. fetched ns n d tr \<and> \<not> timeIsZero (cd_deletion_timestamp d)) \<or>
    (\<exists>d l. fetched ns n d tr \<and> live F d \<and> EStatusUpdate l None \<in> set tr \<and>
       (status_phase (cd_status l) = PhaseReady \<or> \<not> rest_settled d))"
proof -
  have res: "res = noRequeue" using assms(3,4) by (simp add: noRequeue_def)
  from assms(2) show ?thesis
  proof (cases rule: pass_cases)
    case (unread a e)
    then show ?thesis by (auto simp: decodeErr_def split: if_splits)
  next
    case (idle d tr')
    then show ?thesis
      unfolding passive_runs [OF idle(2)]
      by (cases "timeIsZero (cd_deletion_timestamp d)")
        (auto simp: res results_differ [symmetric] fetched_def split: option.splits)
  next
    case (live d)
    then show ?thesis using assms(1) res by auto
  qed
qed

text \<open>
  C16: what a pass writes.  Every object other than the resource itself is written only after the
  resource was read live (holding the finalizer, not being deleted), and only in the order of the
  tiers: core objects once the infrastructure tier gathered its evidence in this pass, REST objects
  once the core tier did, or when the stored status already called it ready.
\<close>
theorem pass_write_order:
  assumes "runs (Reconcile (SetupWithManager qstr) L F ns n) out (pre @ e # post)"
    and "writes_key e = Some key" and "fst key \<noteq> KCarbideDeployment"
  shows "\<exists>d. fetched ns n d pre \<and> live F d \<and>
    key \<in> pass_writes (infra_evidence qstr) infra_keys core_evidence core_keys rest_keys d pre"
  using assms(1)
proof (cases rule: pass_cases)
  case (live d)
  from live(3) [OF refl] assms(2) live(2) show ?thesis by (cases e) auto
next
  case (idle d tr')
  then have "e \<in> set tr' \<or> e = EGet KCarbideDeployment ns n (Inr (CarbideDeploymentObj d))" by (cases pre) auto
  with assms(2) have "e \<in> set tr'" by auto
  with passive_events [OF idle(2,3)] assms(2,3) show ?thesis by blast
next
  case (unread a err)
  then show ?thesis using assms(2) by (cases pre) auto
qed

text \<open>
  Every status update sends an object that differs from a version read in this pass in its
  status only, and only for a resource that was read live: the controller never overwrites a spec
  or metadata through the status.
\<close>
theorem status_update_frame:
  assumes "runs (Reconcile (SetupWithManager qstr) L F ns n) out (pre @ EStatusUpdate l a # post)"
  shows "(\<exists>x. fetched ns n x pre \<and> l = with_status (cd_status l) x) \<and> (\<exists>d. fetched ns n d pre \<and> live F d)"
  by (rule pass_status [OF assms]) (auto simp: same_def)

text \<open>
  C17: the finalizer protocol, event for event.  A pass over a resource without the finalizer that is
  not being deleted does nothing but add it, and asks for a requeue; a pass over a resource being
  deleted does nothing but record the event and remove it.
\<close>
theorem finalizer_protocol:
  assumes "finalizer_laws F" and "\<not> live F d"
    and "runs (reconcileFetched r L F ns n d) out tr"
  shows "(\<exists>fs a. timeIsZero (cd_deletion_timestamp d) \<and> carbideFinalizer \<in> set fs \<and> set (cd_finalizers d) \<subseteq> set fs \<and>
       tr = [EUpdate (CarbideDeploymentObj (d\<lparr>cd_finalizers := fs\<rparr>)) a] \<and>
       out = (case a of Some e \<Rightarrow> Returned noRequeue (Some e) | None \<Rightarrow> Returned requeueNow None)) \<or>
    (\<exists>fs a. \<not> timeIsZero (cd_deletion_timestamp d) \<and> set fs = set (cd_finalizers d) - {carbideFinalizer} \<and>
       tr = [ERecord ''Normal'' ''Deleting'' ''Cleaning up managed resources'',
             EUpdate (CarbideDeploymentObj (d\<lparr>cd_finalizers := fs\<rparr>)) a] \<and> out = Returned noRequeue a) \<or>
    (\<not> timeIsZero (cd_deletion_timestamp d) \<and> carbideFinalizer \<notin> set (cd_finalizers d) \<and> tr = [] \<and>
       out = Returned noRequeue None)"
proof -
  obtain fs gs where "AddFinalizer F d carbideFinalizer = d\<lparr>cd_finalizers := fs\<rparr>"
    "set fs = insert carbideFinalizer (set (cd_finalizers d))"
    "RemoveFinalizer F d carbideFinalizer = d\<lparr>cd_finalizers := gs\<rparr>" "set gs = set (cd_finalizers d) - {carbideFinalizer}"
    using finalizer_laws.add_only [OF assms(1)] finalizer_laws.remove_only [OF assms(1)] by meson
  with assms(3) finalizer_laws.contains_iff [OF assms(1)] show ?thesis
    unfolding passive_runs [OF assms(2)]
    by (auto split: if_splits)
qed

text \<open>
  C19: no error is made up: an error returned by a pass is either one the API server
  answered with in this pass, or a tier's error that was reported by a Warning event, and then the
  pass is repeated after the delay.
\<close>
theorem errors_accounted_for:
  assumes "runs (Reconcile (SetupWithManager qstr) L F ns n) (Returned res (Some e)) tr"
  shows "(res = noRequeue \<and> answered e tr) \<or> (res = requeueLater \<and> reported e tr)"
  using assms
proof (cases rule: pass_cases)
  case (unread a e')
  then show ?thesis by (auto simp: answered_def split: if_splits)
next
  case (idle d tr')
  from idle(1,3) show ?thesis
    unfolding passive_runs [OF idle(2)] by (auto simp: answered_def split: if_splits option.splits)
qed simp

text \<open>
  C18: on a resource that the webhook admits the operator does not panic: a pass that ends in a nil
  dereference has read a version of the resource that the validator rejects.
\<close>
theorem admitted_no_panic:
  assumes "runs (Reconcile (SetupWithManager qstr) L F ns n) Panicked tr"
  shows "\<exists>d. fetched ns n d tr \<and> snd (ValidateCreate (CarbideObject d)) \<noteq> None"
  using panic_invalid [OF assms] by (simp add: ValidateCreate_def validateCarbideDeployment_def validate_spec_ok)



section \<open>Witnesses\<close>

theorem ready_is_justified_witness:
  "\<exists>pre l post. trace_on live_site (pass_on live_site) = pre @ EStatusUpdate l None # post \<and>
     justified (infra_evidence (\<lambda>_. [])) core_evidence (rest_evidence (\<lambda>_. [])) live_site pre"
proof -
  obtain l pre post where t: "trace_on live_site (pass_on live_site) = pre @ EStatusUpdate l None # post"
    "status_phase (cd_status l) = PhaseReady" using site_status by (metis split_list)
  from ready_is_justified [OF ref_conditions.condition_laws_axioms site_runs [of live_site, unfolded t(1)] t(2)]
    part_fetched [OF t(1)] show ?thesis using t(1) by blast
qed

theorem no_lost_wakeup_witness:
  "\<exists>l. EStatusUpdate l None \<in> set (trace_on live_site (pass_on live_site)) \<and> status_phase (cd_status l) = PhaseReady"
proof -
  let ?tr = "trace_on live_site (pass_on live_site)"
  have r: "runs (Reconcile (SetupWithManager (\<lambda>_. [])) ref_lib ref_finalizers ''default'' ''boston'') (Returned noRequeue None) ?tr"
    using site_runs [of live_site] unfolding live_site_result .
  have "fetched ns n x ?tr \<Longrightarrow> x = live_site" for ns n x by (rule pass_fetched)
  moreover have "?tr \<noteq> [EGet KCarbideDeployment ''default'' ''boston'' (Inl e)]" for e
    using trace_on_get [of KCarbideDeployment "''default''" "''boston''" "Inl e" live_site "pass_on live_site"]
    by (auto simp: up_get_def)
  moreover have "rest_settled live_site" "timeIsZero (cd_deletion_timestamp live_site)"
    by (simp_all add: rest_settled_def restReady_def live_site_def live_with_def sample_defs timeIsZero_def)
  ultimately show ?thesis
    using no_lost_wakeup [OF ref_conditions.condition_laws_axioms r] by (simp add: noRequeue_def) blast
qed

theorem status_update_frame_witness:
  "\<exists>pre l post. trace_on live_site (pass_on live_site) = pre @ EStatusUpdate l None # post \<and>
     l = with_status (cd_status l) live_site"
proof -
  obtain l pre post where t: "trace_on live_site (pass_on live_site) = pre @ EStatusUpdate l None # post"
    using site_status by (metis split_list)
  from status_update_frame [OF site_runs [of live_site, unfolded t]] part_fetched [OF t] show ?thesis using t by blast
qed

theorem finalizer_protocol_witness:
  "\<exists>fs. carbideFinalizer \<in> set fs \<and>
     trace_on sample_site (reconcileFetched (SetupWithManager (\<lambda>_. [])) ref_lib ref_finalizers ''default'' ''boston'' sample_site) =
       [EUpdate (CarbideDeploymentObj (sample_site\<lparr>cd_finalizers := fs\<rparr>)) None]"
proof -
  let ?p = "reconcileFetched (SetupWithManager (\<lambda>_. [])) ref_lib ref_finalizers ''default'' ''boston'' sample_site"
  have idle: "\<not> live ref_finalizers sample_site" "timeIsZero (cd_deletion_timestamp sample_site)"
    by (simp_all add: live_def ref_finalizers_def timeIsZero_def sample_defs)
  have "result_on sample_site ?p = Returned requeueNow None"
    by (simp add: reconcileFetched_def timeIsZero_def ref_finalizers_def sample_defs)
  with finalizer_protocol [OF ref_fin.finalizer_laws_axioms idle(1) runs_on [of ?p sample_site]] idle(2)
  show ?thesis by (auto split: option.splits)
qed

theorem pass_write_order_witness:
  "\<exists>pre e post. trace_on live_site (pass_on live_site) = pre @ e # post \<and>
     writes_key e = Some (KDeployment, ''nvidia-carbide'', APIName) \<and> infra_ok (infra_evidence (\<lambda>_. [])) live_site pre"
proof -
  let ?tr = "trace_on live_site (pass_on live_site)"
  obtain s where s: "core_evidence (with_status s live_site) ?tr" using site_justified by (auto simp: tier_ok_def)
  let ?d = "with_status s live_site"
  have ns: "core_ns ?d = ''nvidia-carbide''" "spec_profile (cd_spec ?d) \<noteq> ProfileManagement"
    by (simp_all add: core_ns_def live_site_def live_with_def sample_defs restDefaultNamespace_def
        ProfileSite_def ProfileManagement_def Let_def)
  from s ns have "written (DeploymentObj (BuildAPIDeployment ?d ''nvidia-carbide'')) ?tr"
    by (simp add: core_evidence_def api_evidence_def Let_def)
  then obtain pre e post where e: "?tr = pre @ e # post" "writes_key e = Some (KDeployment, ''nvidia-carbide'', APIName)"
    using written_event by fastforce
  from pass_write_order [OF site_runs [of live_site, unfolded e(1)] e(2)] obtain d where
    "fetched ''default'' ''boston'' d pre"
    "(KDeployment, ''nvidia-carbide'', APIName) \<in> pass_writes (infra_evidence (\<lambda>_. [])) infra_keys core_evidence core_keys rest_keys d pre"
    by auto
  moreover from this(1) have "d = live_site" by (rule part_fetched [OF e(1)])
  moreover have "\<not> rest_on live_site" "(KDeployment, ''nvidia-carbide'', APIName) \<notin> infra_keys live_site"
    by (simp_all add: rest_on_def live_site_def live_with_def sample_defs infra_keys_def cluster_key_def PostgresClusterKind_def)
  ultimately have "infra_ok (infra_evidence (\<lambda>_. [])) live_site pre" by (auto simp: pass_writes_def split: if_splits)
  with e show ?thesis by blast
qed

theorem errors_accounted_for_witness:
  "reported (Errorf ''infrastructure config is nil'') (trace_on failing_site (pass_on failing_site))"
  using errors_accounted_for [OF site_runs [of failing_site, unfolded failing_site_result]]
  by (simp add: results_differ)

theorem admitted_no_panic_witness:
  "result_on unadmitted (pass_on unadmitted) = Panicked \<and> snd (ValidateCreate (CarbideObject unadmitted)) \<noteq> None"
  using admitted_no_panic [OF site_runs [of unadmitted, unfolded unadmitted_panics]] unadmitted_panics
    pass_fetched by fastforce



end
